theory Spec2Isabelle
  imports Main "HOL-Library.Multiset"
begin

section \<open>Scoring module\<close>

text \<open>
  The three step functions of \<^verbatim>\<open>withnotifications.py\<close> (lines 43-80). Python integers are
  unbounded, so the argument is an \<^typ>\<open>int\<close>. The branches are in the source's order.
\<close>

definition get_cost_score :: "int \<Rightarrow> int" where
  "get_cost_score cost_impact =
     (if cost_impact < 100 then 1
      else if cost_impact < 200 then 2
      else if cost_impact < 500 then 3
      else if cost_impact < 1000 then 4
      else 5)"

definition get_schedule_score :: "int \<Rightarrow> int" where
  "get_schedule_score schedule_impact =
     (if schedule_impact < 14 then 1
      else if schedule_impact < 45 then 2
      else if schedule_impact < 90 then 3
      else if schedule_impact < 150 then 4
      else 5)"

definition get_probability_score :: "int \<Rightarrow> int" where
  "get_probability_score probability =
     (if probability < 10 then 1
      else if probability < 20 then 2
      else if probability < 50 then 3
      else if probability < 75 then 4
      else 5)"

text \<open>
  The properties of a scale function that the theorems below speak of: a value lies in
  \<open>[1,5]\<close>, the function is monotone, and negative inputs land in bucket 1.
\<close>

definition in_scale :: "int \<Rightarrow> bool" where
  "in_scale s = (1 \<le> s \<and> s \<le> 5)"

definition nondecreasing :: "(int \<Rightarrow> int) \<Rightarrow> bool" where
  "nondecreasing f = (\<forall>x y. x \<le> y \<longrightarrow> f x \<le> f y)"

definition negatives_to_one :: "(int \<Rightarrow> int) \<Rightarrow> bool" where
  "negatives_to_one f = (\<forall>x. x < 0 \<longrightarrow> f x = 1)"

text \<open>
  \<open>steps_at f t1 t2 t3 t4\<close>: \<open>f\<close> is the step function with thresholds
  \<open>t1 < t2 < t3 < t4\<close>, each interval half-open \<open>[prev, next)\<close>.
\<close>

definition steps_at :: "(int \<Rightarrow> int) \<Rightarrow> int \<Rightarrow> int \<Rightarrow> int \<Rightarrow> int \<Rightarrow> bool" where
  "steps_at f t1 t2 t3 t4 =
     (\<forall>x. f x = (if x < t1 then 1 else if x < t2 then 2 else if x < t3 then 3
                  else if x < t4 then 4 else 5))"

section \<open>Values, the per-user dictionary and rendered messages\<close>

text \<open>
  A Python \<^verbatim>\<open>str\<close> is modelled by the \<^typ>\<open>string\<close> of its UTF-8 bytes, so that two
  texts are equal exactly when their models are; the Cyrillic literals and emoji of the
  source are therefore written as byte lists. The values that the handlers keep in
  \<^verbatim>\<open>context.user_data\<close> are integers, strings, booleans and \<^verbatim>\<open>None\<close>.
\<close>

datatype pyval = PyNone | PyBool bool | PyInt int | PyStr string

type_synonym user_data = "string \<rightharpoonup> pyval"

text \<open>\<^verbatim>\<open>user_data.get(k, d)\<close>, \<^verbatim>\<open>user_data.get(k)\<close> and \<^verbatim>\<open>user_data.pop(k, None)\<close>.\<close>

definition ud_get :: "user_data \<Rightarrow> string \<Rightarrow> pyval \<Rightarrow> pyval" where
  "ud_get ud k d = (case ud k of None \<Rightarrow> d | Some v \<Rightarrow> v)"

definition ud_get_none :: "user_data \<Rightarrow> string \<Rightarrow> pyval" where
  "ud_get_none ud k = ud_get ud k PyNone"

definition ud_pop :: "user_data \<Rightarrow> string \<Rightarrow> user_data" where
  "ud_pop ud k = ud(k := None)"

text \<open>Truth value of a Python object, as tested by \<^verbatim>\<open>if\<close> and \<^verbatim>\<open>not\<close>.\<close>

fun truthy :: "pyval \<Rightarrow> bool" where
  "truthy PyNone = False"
| "truthy (PyBool b) = b"
| "truthy (PyInt i) = (i \<noteq> 0)"
| "truthy (PyStr s) = (s \<noteq> [])"

text \<open>
  The operand of an integer comparison: an \<^verbatim>\<open>int\<close> or a \<^verbatim>\<open>bool\<close> (a subclass of
  \<^verbatim>\<open>int\<close>); comparing \<^verbatim>\<open>None\<close> or a \<^verbatim>\<open>str\<close> with an integer raises
  \<^verbatim>\<open>TypeError\<close>.
\<close>

fun as_number :: "pyval \<Rightarrow> int option" where
  "as_number (PyInt i) = Some i"
| "as_number (PyBool b) = Some (if b then 1 else 0)"
| "as_number PyNone = None"
| "as_number (PyStr s) = None"

datatype py_error = TypeError | AttributeError | ValueError | IndexError | DatabaseError

text \<open>\<^verbatim>\<open>str(n)\<close> for an integer, and \<^verbatim>\<open>str(v)\<close> as an f-string formats a value.\<close>

definition digit_char :: "nat \<Rightarrow> char" where
  "digit_char d = ''0123456789'' ! d"

function str_of_nat :: "nat \<Rightarrow> string" where
  "str_of_nat n = (if n < 10 then [digit_char n] else str_of_nat (n div 10) @ [digit_char (n mod 10)])"
  by pat_completeness auto
termination
  by (relation "measure id") auto

declare str_of_nat.simps [simp del]

definition str_of_int :: "int \<Rightarrow> string" where
  "str_of_int i = (if i < 0 then ''-'' @ str_of_nat (nat (- i)) else str_of_nat (nat i))"

fun py_str :: "pyval \<Rightarrow> string" where
  "py_str PyNone = ''None''"
| "py_str (PyBool b) = (if b then ''True'' else ''False'')"
| "py_str (PyInt i) = str_of_int i"
| "py_str (PyStr s) = s"

text \<open>
  A keyboard is the rows of buttons of an \<^verbatim>\<open>InlineKeyboardMarkup\<close>; a button is its label
  and its \<^verbatim>\<open>callback_data\<close>. An action is one call on the chat transport:
  \<^verbatim>\<open>update.message.reply_text\<close>, \<^verbatim>\<open>query.edit_message_text\<close>,
  \<^verbatim>\<open>query.answer(text, show_alert=True)\<close> and \<^verbatim>\<open>context.bot.send_message\<close>. A call
  without \<^verbatim>\<open>reply_markup\<close> has the empty keyboard. The bare acknowledgement
  \<^verbatim>\<open>query.answer()\<close> that opens every callback handler changes neither the dictionary
  nor what is rendered and is left out.
\<close>

type_synonym button = "string \<times> string"

type_synonym keyboard = "button list list"

datatype action =
    ReplyText string keyboard
  | EditMessageText string keyboard
  | AnswerAlert string
  | SendMessage int string keyboard

text \<open>
  The text and the keyboard that an action shows to the user, whichever transport call
  carries it.
\<close>

fun rendered :: "action \<Rightarrow> string \<times> keyboard" where
  "rendered (ReplyText t k) = (t, k)"
| "rendered (EditMessageText t k) = (t, k)"
| "rendered (AnswerAlert t) = (t, [])"
| "rendered (SendMessage c t k) = (t, k)"

record user =
  uid :: int
  uname :: "string option"
  full_name :: string

text \<open>
  An update is a text message (\<^verbatim>\<open>update.message\<close> is set,
  \<^verbatim>\<open>update.callback_query\<close> is \<^verbatim>\<open>None\<close>) or a pressed button (the reverse).
\<close>

datatype update = Message user string | CallbackQuery user string

fun effective_user :: "update \<Rightarrow> user" where
  "effective_user (Message u t) = u"
| "effective_user (CallbackQuery u q) = u"

text \<open>\<^verbatim>\<open>update.effective_user.username or update.effective_user.full_name\<close>.\<close>

definition display_name :: "user \<Rightarrow> string" where
  "display_name u =
     (case uname u of None \<Rightarrow> full_name u | Some n \<Rightarrow> if n = [] then full_name u else n)"

text \<open>
  What a handler reads from outside the program: the clock (\<^verbatim>\<open>datetime.now()\<close> in the
  three formats the source uses), whether the storage engine accepts a write, and
  whether the transport delivers a message to a given chat.
\<close>

record env =
  now_iso :: string
  today_ymd :: string
  today_dmy :: string
  storage_ok :: bool
  can_deliver :: "int \<Rightarrow> bool"

section \<open>Durable storage\<close>

text \<open>
  The three tables of \<^verbatim>\<open>init_db\<close> (lines 91-193). A row of \<^verbatim>\<open>risks\<close> holds the
  identifier, the author, the columns copied from the dictionary (name and value, in the
  order of the \<^verbatim>\<open>INSERT\<close> of lines 1681-1721), the score and the creation time. The
  table carries its \<^verbatim>\<open>AUTOINCREMENT\<close> counter. The column \<^verbatim>\<open>created_at\<close> of
  \<^verbatim>\<open>subscriptions\<close> is never read and is left out.
\<close>

record risk =
  rid :: nat
  r_user_id :: int
  r_username :: string
  r_draft :: "(string \<times> pyval) list"
  risk_score :: int
  r_timestamp :: string

record mitigation =
  mid :: nat
  m_risk_id :: pyval
  m_user_id :: int
  m_username :: string
  m_mitigation :: pyval
  m_expected_result :: string
  m_timestamp :: string

record subscription =
  s_user_id :: int
  s_is_subscribed :: int
  last_notification :: "string option"

record db =
  risks :: "risk list"
  risks_seq :: nat
  additional_mitigations :: "mitigation list"
  mitigations_seq :: nat
  subscriptions :: "subscription list"

text \<open>
  The \<^verbatim>\<open>sqlite3\<close> module binds a Python integer as a 64-bit \<^verbatim>\<open>INTEGER\<close> and raises
  \<^verbatim>\<open>OverflowError\<close> for one that does not fit.
\<close>

fun sqlite_int_ok :: "pyval \<Rightarrow> bool" where
  "sqlite_int_ok (PyInt i) = (- (2 ^ 63) \<le> i \<and> i < 2 ^ 63)"
| "sqlite_int_ok v = True"

text \<open>The result of a handler: the new dictionary and database, the transport calls
  made, and the exception that left the handler, if any.\<close>

type_synonym result = "(user_data \<times> db) \<times> action list \<times> py_error option"

section \<open>Committing a draft: \<open>save_risk\<close>\<close>

text \<open>Line 207, the label of the single button of \<open>create_back_keyboard\<close>: a left-arrow emoji and `Return to the previous step'.\<close>

definition back_button_label :: string where
  "back_button_label =
     [CHR 0xF0, CHR 0x9F, CHR 0x94, CHR 0x99] @ '' '' @ [CHR 0xD0, CHR 0x92, CHR 0xD0, CHR 0xB5,
     CHR 0xD1, CHR 0x80, CHR 0xD0, CHR 0xBD, CHR 0xD1, CHR 0x83, CHR 0xD1, CHR 0x82, CHR 0xD1,
     CHR 0x8C, CHR 0xD1, CHR 0x81, CHR 0xD1, CHR 0x8F] @ '' '' @ [CHR 0xD0, CHR 0xBD, CHR 0xD0,
     CHR 0xB0] @ '' '' @ [CHR 0xD0, CHR 0xBF, CHR 0xD1, CHR 0x80, CHR 0xD0, CHR 0xB5, CHR 0xD0,
     CHR 0xB4, CHR 0xD1, CHR 0x8B, CHR 0xD0, CHR 0xB4, CHR 0xD1, CHR 0x83, CHR 0xD1, CHR 0x89,
     CHR 0xD0, CHR 0xB8, CHR 0xD0, CHR 0xB9] @ '' '' @ [CHR 0xD1, CHR 0x88, CHR 0xD0, CHR 0xB0,
     CHR 0xD0, CHR 0xB3]"

text \<open>Line 1726: `An error occurred while saving the risk. Please try again.'\<close>

definition msg_save_failed :: string where
  "msg_save_failed =
     [CHR 0xD0, CHR 0x9F, CHR 0xD1, CHR 0x80, CHR 0xD0, CHR 0xBE, CHR 0xD0, CHR 0xB8, CHR 0xD0,
     CHR 0xB7, CHR 0xD0, CHR 0xBE, CHR 0xD1, CHR 0x88, CHR 0xD0, CHR 0xBB, CHR 0xD0, CHR 0xB0] @
     '' '' @ [CHR 0xD0, CHR 0xBE, CHR 0xD1, CHR 0x88, CHR 0xD0, CHR 0xB8, CHR 0xD0, CHR 0xB1,
     CHR 0xD0, CHR 0xBA, CHR 0xD0, CHR 0xB0] @ '' '' @ [CHR 0xD0, CHR 0xBF, CHR 0xD1, CHR 0x80,
     CHR 0xD0, CHR 0xB8] @ '' '' @ [CHR 0xD1, CHR 0x81, CHR 0xD0, CHR 0xBE, CHR 0xD1, CHR 0x85,
     CHR 0xD1, CHR 0x80, CHR 0xD0, CHR 0xB0, CHR 0xD0, CHR 0xBD, CHR 0xD0, CHR 0xB5, CHR 0xD0,
     CHR 0xBD, CHR 0xD0, CHR 0xB8, CHR 0xD0, CHR 0xB8] @ '' '' @ [CHR 0xD1, CHR 0x80, CHR 0xD0,
     CHR 0xB8, CHR 0xD1, CHR 0x81, CHR 0xD0, CHR 0xBA, CHR 0xD0, CHR 0xB0] @ ''. '' @ [CHR 0xD0,
     CHR 0x9F, CHR 0xD0, CHR 0xBE, CHR 0xD0, CHR 0xB6, CHR 0xD0, CHR 0xB0, CHR 0xD0, CHR 0xBB,
     CHR 0xD1, CHR 0x83, CHR 0xD0, CHR 0xB9, CHR 0xD1, CHR 0x81, CHR 0xD1, CHR 0x82, CHR 0xD0,
     CHR 0xB0] @ '', '' @ [CHR 0xD0, CHR 0xBF, CHR 0xD0, CHR 0xBE, CHR 0xD0, CHR 0xBF, CHR 0xD1,
     CHR 0x80, CHR 0xD0, CHR 0xBE, CHR 0xD0, CHR 0xB1, CHR 0xD1, CHR 0x83, CHR 0xD0, CHR 0xB9,
     CHR 0xD1, CHR 0x82, CHR 0xD0, CHR 0xB5] @ '' '' @ [CHR 0xD1, CHR 0x81, CHR 0xD0, CHR 0xBD,
     CHR 0xD0, CHR 0xBE, CHR 0xD0, CHR 0xB2, CHR 0xD0, CHR 0xB0] @ ''.''"

text \<open>Lines 1732-1744, the literal pieces of the confirmation summary, in order: `Risk saved successfully', `Risk rating', `Details', `Phase', `Object', `Category', `Description', `Schedule impact', `days', `Cost impact', `mln. rub.', `Probability', `Timeline', `Mitigation', `Expected result'.\<close>

definition msg_saved_head :: string where
  "msg_saved_head =
     [CHR 0xE2, CHR 0x9C, CHR 0x85] @ '' '' @ [CHR 0xD0, CHR 0xA0, CHR 0xD0, CHR 0xB8, CHR 0xD1,
     CHR 0x81, CHR 0xD0, CHR 0xBA] @ '' '' @ [CHR 0xD1, CHR 0x83, CHR 0xD1, CHR 0x81, CHR 0xD0,
     CHR 0xBF, CHR 0xD0, CHR 0xB5, CHR 0xD1, CHR 0x88, CHR 0xD0, CHR 0xBD, CHR 0xD0, CHR 0xBE] @
     '' '' @ [CHR 0xD1, CHR 0x81, CHR 0xD0, CHR 0xBE, CHR 0xD1, CHR 0x85, CHR 0xD1, CHR 0x80,
     CHR 0xD0, CHR 0xB0, CHR 0xD0, CHR 0xBD, CHR 0xD0, CHR 0xB5, CHR 0xD0, CHR 0xBD] @ ''!'' @
     [CHR 0x0A, CHR 0x0A]"

definition msg_saved_rating :: string where
  "msg_saved_rating =
     [CHR 0xF0, CHR 0x9F, CHR 0x93, CHR 0x8A] @ '' '' @ [CHR 0xD0, CHR 0xA0, CHR 0xD0, CHR 0xB5,
     CHR 0xD0, CHR 0xB9, CHR 0xD1, CHR 0x82, CHR 0xD0, CHR 0xB8, CHR 0xD0, CHR 0xBD, CHR 0xD0,
     CHR 0xB3] @ '' '' @ [CHR 0xD1, CHR 0x80, CHR 0xD0, CHR 0xB8, CHR 0xD1, CHR 0x81, CHR 0xD0,
     CHR 0xBA, CHR 0xD0, CHR 0xB0] @ '': ''"

definition msg_saved_details :: string where
  "msg_saved_details =
     [CHR 0xF0, CHR 0x9F, CHR 0x93, CHR 0x8B] @ '' '' @ [CHR 0xD0, CHR 0x94, CHR 0xD0, CHR 0xB5,
     CHR 0xD1, CHR 0x82, CHR 0xD0, CHR 0xB0, CHR 0xD0, CHR 0xBB, CHR 0xD0, CHR 0xB8] @ '':'' @
     [CHR 0x0A]"

definition msg_saved_phase :: string where
  "msg_saved_phase =
     [CHR 0xE2, CHR 0x80, CHR 0xA2] @ '' '' @ [CHR 0xD0, CHR 0xA4, CHR 0xD0, CHR 0xB0, CHR 0xD0,
     CHR 0xB7, CHR 0xD0, CHR 0xB0] @ '': ''"

definition msg_saved_object :: string where
  "msg_saved_object =
     [CHR 0xE2, CHR 0x80, CHR 0xA2] @ '' '' @ [CHR 0xD0, CHR 0x9E, CHR 0xD0, CHR 0xB1, CHR 0xD1,
     CHR 0x8A, CHR 0xD0, CHR 0xB5, CHR 0xD0, CHR 0xBA, CHR 0xD1, CHR 0x82] @ '': ''"

definition msg_saved_category :: string where
  "msg_saved_category =
     [CHR 0xE2, CHR 0x80, CHR 0xA2] @ '' '' @ [CHR 0xD0, CHR 0x9A, CHR 0xD0, CHR 0xB0, CHR 0xD1,
     CHR 0x82, CHR 0xD0, CHR 0xB5, CHR 0xD0, CHR 0xB3, CHR 0xD0, CHR 0xBE, CHR 0xD1, CHR 0x80,
     CHR 0xD0, CHR 0xB8, CHR 0xD1, CHR 0x8F] @ '': ''"

definition msg_saved_description :: string where
  "msg_saved_description =
     [CHR 0xE2, CHR 0x80, CHR 0xA2] @ '' '' @ [CHR 0xD0, CHR 0x9E, CHR 0xD0, CHR 0xBF, CHR 0xD0,
     CHR 0xB8, CHR 0xD1, CHR 0x81, CHR 0xD0, CHR 0xB0, CHR 0xD0, CHR 0xBD, CHR 0xD0, CHR 0xB8,
     CHR 0xD0, CHR 0xB5] @ '': ''"

definition msg_saved_schedule :: string where
  "msg_saved_schedule =
     [CHR 0xE2, CHR 0x80, CHR 0xA2] @ '' '' @ [CHR 0xD0, CHR 0x92, CHR 0xD0, CHR 0xBB, CHR 0xD0,
     CHR 0xB8, CHR 0xD1, CHR 0x8F, CHR 0xD0, CHR 0xBD, CHR 0xD0, CHR 0xB8, CHR 0xD0, CHR 0xB5] @
     '' '' @ [CHR 0xD0, CHR 0xBD, CHR 0xD0, CHR 0xB0] @ '' '' @ [CHR 0xD1, CHR 0x81, CHR 0xD1,
     CHR 0x80, CHR 0xD0, CHR 0xBE, CHR 0xD0, CHR 0xBA, CHR 0xD0, CHR 0xB8] @ '': ''"

definition msg_saved_days :: string where
  "msg_saved_days =
     '' '' @ [CHR 0xD0, CHR 0xB4, CHR 0xD0, CHR 0xBD, CHR 0xD0, CHR 0xB5, CHR 0xD0, CHR 0xB9,
     CHR 0x0A]"

definition msg_saved_cost :: string where
  "msg_saved_cost =
     [CHR 0xE2, CHR 0x80, CHR 0xA2] @ '' '' @ [CHR 0xD0, CHR 0x92, CHR 0xD0, CHR 0xBB, CHR 0xD0,
     CHR 0xB8, CHR 0xD1, CHR 0x8F, CHR 0xD0, CHR 0xBD, CHR 0xD0, CHR 0xB8, CHR 0xD0, CHR 0xB5] @
     '' '' @ [CHR 0xD0, CHR 0xBD, CHR 0xD0, CHR 0xB0] @ '' '' @ [CHR 0xD1, CHR 0x81, CHR 0xD1,
     CHR 0x82, CHR 0xD0, CHR 0xBE, CHR 0xD0, CHR 0xB8, CHR 0xD0, CHR 0xBC, CHR 0xD0, CHR 0xBE,
     CHR 0xD1, CHR 0x81, CHR 0xD1, CHR 0x82, CHR 0xD1, CHR 0x8C] @ '': ''"

definition msg_saved_mln :: string where
  "msg_saved_mln =
     '' '' @ [CHR 0xD0, CHR 0xBC, CHR 0xD0, CHR 0xBB, CHR 0xD0, CHR 0xBD] @ ''. '' @ [CHR 0xD1,
     CHR 0x80, CHR 0xD1, CHR 0x83, CHR 0xD0, CHR 0xB1] @ ''.'' @ [CHR 0x0A]"

definition msg_saved_probability :: string where
  "msg_saved_probability =
     [CHR 0xE2, CHR 0x80, CHR 0xA2] @ '' '' @ [CHR 0xD0, CHR 0x92, CHR 0xD0, CHR 0xB5, CHR 0xD1,
     CHR 0x80, CHR 0xD0, CHR 0xBE, CHR 0xD1, CHR 0x8F, CHR 0xD1, CHR 0x82, CHR 0xD0, CHR 0xBD,
     CHR 0xD0, CHR 0xBE, CHR 0xD1, CHR 0x81, CHR 0xD1, CHR 0x82, CHR 0xD1, CHR 0x8C] @ '': ''"

definition msg_saved_timeline :: string where
  "msg_saved_timeline =
     [CHR 0xE2, CHR 0x80, CHR 0xA2] @ '' '' @ [CHR 0xD0, CHR 0xA1, CHR 0xD1, CHR 0x80, CHR 0xD0,
     CHR 0xBE, CHR 0xD0, CHR 0xBA] @ '' '' @ [CHR 0xD1, CHR 0x80, CHR 0xD0, CHR 0xB5, CHR 0xD0,
     CHR 0xB0, CHR 0xD0, CHR 0xBB, CHR 0xD0, CHR 0xB8, CHR 0xD0, CHR 0xB7, CHR 0xD0, CHR 0xB0,
     CHR 0xD1, CHR 0x86, CHR 0xD0, CHR 0xB8, CHR 0xD0, CHR 0xB8] @ '': ''"

definition msg_saved_mitigation :: string where
  "msg_saved_mitigation =
     [CHR 0xE2, CHR 0x80, CHR 0xA2] @ '' '' @ [CHR 0xD0, CHR 0x9C, CHR 0xD0, CHR 0xB5, CHR 0xD1,
     CHR 0x80, CHR 0xD0, CHR 0xBE, CHR 0xD0, CHR 0xBF, CHR 0xD1, CHR 0x80, CHR 0xD0, CHR 0xB8,
     CHR 0xD1, CHR 0x8F, CHR 0xD1, CHR 0x82, CHR 0xD0, CHR 0xB8, CHR 0xD0, CHR 0xB5] @ '': ''"

definition msg_saved_expected :: string where
  "msg_saved_expected =
     [CHR 0xE2, CHR 0x80, CHR 0xA2] @ '' '' @ [CHR 0xD0, CHR 0x9E, CHR 0xD0, CHR 0xB6, CHR 0xD0,
     CHR 0xB8, CHR 0xD0, CHR 0xB4, CHR 0xD0, CHR 0xB0, CHR 0xD0, CHR 0xB5, CHR 0xD0, CHR 0xBC,
     CHR 0xD1, CHR 0x8B, CHR 0xD0, CHR 0xB9] @ '' '' @ [CHR 0xD1, CHR 0x80, CHR 0xD0, CHR 0xB5,
     CHR 0xD0, CHR 0xB7, CHR 0xD1, CHR 0x83, CHR 0xD0, CHR 0xBB, CHR 0xD1, CHR 0x8C, CHR 0xD1,
     CHR 0x82, CHR 0xD0, CHR 0xB0, CHR 0xD1, CHR 0x82] @ '': ''"

text \<open>Line 1747: `After the mitigation measures'.\<close>

definition msg_saved_after :: string where
  "msg_saved_after =
     [CHR 0x0A, CHR 0xF0, CHR 0x9F, CHR 0x93, CHR 0x88] @ '' '' @ [CHR 0xD0, CHR 0x9F, CHR 0xD0,
     CHR 0xBE, CHR 0xD1, CHR 0x81, CHR 0xD0, CHR 0xBB, CHR 0xD0, CHR 0xB5] @ '' '' @ [CHR 0xD0,
     CHR 0xBC, CHR 0xD0, CHR 0xB5, CHR 0xD1, CHR 0x80, CHR 0xD0, CHR 0xBE, CHR 0xD0, CHR 0xBF,
     CHR 0xD1, CHR 0x80, CHR 0xD0, CHR 0xB8, CHR 0xD1, CHR 0x8F, CHR 0xD1, CHR 0x82, CHR 0xD0,
     CHR 0xB8, CHR 0xD0, CHR 0xB9] @ '':'' @ [CHR 0x0A]"

text \<open>Lines 1752 and 2177: `To the main menu'.\<close>

definition main_menu_label :: string where
  "main_menu_label =
     [CHR 0xF0, CHR 0x9F, CHR 0x8F, CHR 0xA0] @ '' '' @ [CHR 0xD0, CHR 0x92] @ '' '' @ [CHR 0xD0,
     CHR 0xB3, CHR 0xD0, CHR 0xBB, CHR 0xD0, CHR 0xB0, CHR 0xD0, CHR 0xB2, CHR 0xD0, CHR 0xBD,
     CHR 0xD0, CHR 0xBE, CHR 0xD0, CHR 0xB5] @ '' '' @ [CHR 0xD0, CHR 0xBC, CHR 0xD0, CHR 0xB5,
     CHR 0xD0, CHR 0xBD, CHR 0xD1, CHR 0x8E]"


text \<open>\<^verbatim>\<open>create_back_keyboard\<close>, lines 205-208.\<close>

definition create_back_keyboard :: "string \<Rightarrow> keyboard" where
  "create_back_keyboard back_data = [[(back_button_label, back_data)]]"

text \<open>
  The columns that the \<^verbatim>\<open>INSERT\<close> of lines 1681-1721 copies from the dictionary, with
  the default each \<^verbatim>\<open>get\<close> supplies (\<^verbatim>\<open>None\<close> for the texts, 0 for the numbers and
  flags).
\<close>

definition draft_columns :: "user_data \<Rightarrow> (string \<times> pyval) list" where
  "draft_columns ud =
     [(''phase'', ud_get_none ud ''phase''),
      (''object'', ud_get_none ud ''object''),
      (''category'', ud_get_none ud ''category''),
      (''description'', ud_get_none ud ''description''),
      (''impact_schedule_min'', ud_get ud ''impact_schedule_min'' (PyInt 0)),
      (''impact_schedule_most_likely'', ud_get ud ''impact_schedule_most_likely'' (PyInt 0)),
      (''impact_schedule_max'', ud_get ud ''impact_schedule_max'' (PyInt 0)),
      (''impact_cost_min'', ud_get ud ''impact_cost_min'' (PyInt 0)),
      (''impact_cost_most_likely'', ud_get ud ''impact_cost_most_likely'' (PyInt 0)),
      (''impact_cost_max'', ud_get ud ''impact_cost_max'' (PyInt 0)),
      (''impact_schedule_min_re'', ud_get ud ''impact_schedule_min_re'' (PyInt 0)),
      (''impact_schedule_most_likely_re'', ud_get ud ''impact_schedule_most_likely_re'' (PyInt 0)),
      (''impact_schedule_max_re'', ud_get ud ''impact_schedule_max_re'' (PyInt 0)),
      (''impact_cost_min_re'', ud_get ud ''impact_cost_min_re'' (PyInt 0)),
      (''impact_cost_most_likely_re'', ud_get ud ''impact_cost_most_likely_re'' (PyInt 0)),
      (''impact_cost_max_re'', ud_get ud ''impact_cost_max_re'' (PyInt 0)),
      (''probability'', ud_get ud ''probability'' (PyInt 0)),
      (''probability_re'', ud_get ud ''probability_re'' (PyInt 0)),
      (''timeline'', ud_get_none ud ''timeline''),
      (''mitigation'', ud_get_none ud ''mitigation''),
      (''expected_result'', ud_get_none ud ''expected_result''),
      (''reevaluation_needed'', ud_get ud ''reevaluation_needed'' (PyInt 0)),
      (''needs_schedule_evaluation'', ud_get ud ''needs_schedule_evaluation'' (PyInt 0)),
      (''needs_cost_evaluation'', ud_get ud ''needs_cost_evaluation'' (PyInt 0)),
      (''needs_schedule_evaluation_re'', ud_get ud ''needs_schedule_evaluation_re'' (PyInt 0)),
      (''needs_cost_evaluation_re'', ud_get ud ''needs_cost_evaluation_re'' (PyInt 0))]"

text \<open>
  The \<^verbatim>\<open>try\<close> block of lines 1677-1722 completes when the storage engine accepts the
  write and every integer parameter fits the engine's integer type; any exception takes
  the \<^verbatim>\<open>except\<close> branch and nothing is written.
\<close>

definition insert_accepted :: "env \<Rightarrow> user \<Rightarrow> user_data \<Rightarrow> bool" where
  "insert_accepted e u ud =
     (storage_ok e \<and> sqlite_int_ok (PyInt (uid u)) \<and> list_all sqlite_int_ok (map snd (draft_columns ud)))"

text \<open>The three-part figure \<^verbatim>\<open>a / b / c\<close> of the summary lines.\<close>

definition triple_text :: "user_data \<Rightarrow> string \<Rightarrow> string \<Rightarrow> string \<Rightarrow> string" where
  "triple_text ud k1 k2 k3 =
     py_str (ud_get ud k1 (PyInt 0)) @ '' / '' @ py_str (ud_get ud k2 (PyInt 0)) @ '' / ''
     @ py_str (ud_get ud k3 (PyInt 0))"

text \<open>The confirmation summary of lines 1732-1750.\<close>

definition saved_message :: "user_data \<Rightarrow> pyval \<Rightarrow> int \<Rightarrow> string" where
  "saved_message ud probability score =
     msg_saved_head
     @ msg_saved_rating @ str_of_int score @ [CHR 0x0A, CHR 0x0A]
     @ msg_saved_details
     @ msg_saved_phase @ py_str (ud_get_none ud ''phase'') @ [CHR 0x0A]
     @ msg_saved_object @ py_str (ud_get_none ud ''object'') @ [CHR 0x0A]
     @ msg_saved_category @ py_str (ud_get_none ud ''category'') @ [CHR 0x0A]
     @ msg_saved_description @ py_str (ud_get_none ud ''description'') @ [CHR 0x0A]
     @ msg_saved_schedule
     @ triple_text ud ''impact_schedule_min'' ''impact_schedule_most_likely'' ''impact_schedule_max''
     @ msg_saved_days
     @ msg_saved_cost
     @ triple_text ud ''impact_cost_min'' ''impact_cost_most_likely'' ''impact_cost_max''
     @ msg_saved_mln
     @ msg_saved_probability @ py_str probability @ ''%'' @ [CHR 0x0A]
     @ msg_saved_timeline @ py_str (ud_get_none ud ''timeline'') @ [CHR 0x0A]
     @ msg_saved_mitigation @ py_str (ud_get_none ud ''mitigation'') @ [CHR 0x0A]
     @ msg_saved_expected @ py_str (ud_get_none ud ''expected_result'') @ [CHR 0x0A]
     @ (if as_number (ud_get ud ''reevaluation_needed'' (PyInt 0)) = Some 1 then
          msg_saved_after
          @ msg_saved_schedule
          @ triple_text ud ''impact_schedule_min_re'' ''impact_schedule_most_likely_re''
              ''impact_schedule_max_re''
          @ msg_saved_days
          @ msg_saved_cost
          @ triple_text ud ''impact_cost_min_re'' ''impact_cost_most_likely_re'' ''impact_cost_max_re''
          @ msg_saved_mln
          @ msg_saved_probability @ py_str (ud_get ud ''probability_re'' (PyInt 0)) @ ''%''
          @ [CHR 0x0A]
        else [])"

text \<open>
  Lines 1659-1669: the three values are read with default 0 and scored; a value that is
  not a number makes the comparison inside the scale function raise before anything is
  written.
\<close>

definition draft_score :: "user_data \<Rightarrow> int option" where
  "draft_score ud =
     (case as_number (ud_get ud ''impact_cost_most_likely'' (PyInt 0)) of
        None \<Rightarrow> None
      | Some impact_cost_most_likely \<Rightarrow>
     (case as_number (ud_get ud ''impact_schedule_most_likely'' (PyInt 0)) of
        None \<Rightarrow> None
      | Some impact_schedule_most_likely \<Rightarrow>
     (case as_number (ud_get ud ''probability'' (PyInt 0)) of
        None \<Rightarrow> None
      | Some probability \<Rightarrow>
          Some (get_cost_score impact_cost_most_likely
                + get_schedule_score impact_schedule_most_likely
                + get_probability_score probability))))"

text \<open>
  \<^verbatim>\<open>save_risk\<close>, lines 1657-1758. The score is stored in the dictionary before the
  insert is tried. When the insert fails the handler answers through
  \<^verbatim>\<open>update.message\<close>, which is \<^verbatim>\<open>None\<close> for a pressed button, so that on that path
  the attribute access raises. When it succeeds the summary replaces the message of the
  button or is sent as a reply. No key is removed from the dictionary on any path.
\<close>

definition save_risk :: "env \<Rightarrow> update \<Rightarrow> user_data \<times> db \<Rightarrow> result" where
  "save_risk e upd st =
     (let ud = fst st; d = snd st; probability = ud_get ud ''probability'' (PyInt 0) in
      case draft_score ud of
        None \<Rightarrow> ((ud, d), [], Some TypeError)
      | Some score \<Rightarrow>
          let ud1 = ud(''risk_score'' \<mapsto> PyInt score);
              u = effective_user upd
          in if insert_accepted e u ud1 then
               let row = \<lparr>rid = risks_seq d + 1, r_user_id = uid u, r_username = display_name u,
                          r_draft = draft_columns ud1, risk_score = score,
                          r_timestamp = now_iso e\<rparr>;
                   d1 = d\<lparr>risks := risks d @ [row], risks_seq := risks_seq d + 1\<rparr>;
                   message = saved_message ud1 probability score;
                   reply_markup = [[(main_menu_label, ''back_to_menu'')]]
               in (case upd of
                     CallbackQuery _ _ \<Rightarrow> ((ud1, d1), [EditMessageText message reply_markup], None)
                   | Message _ _ \<Rightarrow> ((ud1, d1), [ReplyText message reply_markup], None))
             else
               (case upd of
                  Message _ _ \<Rightarrow>
                    ((ud1, d), [ReplyText msg_save_failed (create_back_keyboard ''back_to_menu'')],
                     None)
                | CallbackQuery _ _ \<Rightarrow> ((ud1, d), [], Some AttributeError)))"

text \<open>The record that a call of \<^verbatim>\<open>save_risk\<close> appends to the table, if it appends one.\<close>

definition committed :: "env \<Rightarrow> update \<Rightarrow> user_data \<times> db \<Rightarrow> risk option" where
  "committed e upd st =
     (let d' = snd (fst (save_risk e upd st)) in
      if length (risks d') = Suc (length (risks (snd st))) then Some (last (risks d')) else None)"

text \<open>
  The keys of the second, post-mitigation pass and the flag that requests it.
\<close>

definition re_keys :: "string set" where
  "re_keys =
     {''impact_schedule_min_re'', ''impact_schedule_most_likely_re'', ''impact_schedule_max_re'',
      ''impact_cost_min_re'', ''impact_cost_most_likely_re'', ''impact_cost_max_re'',
      ''probability_re'', ''needs_schedule_evaluation_re'', ''needs_cost_evaluation_re'',
      ''reevaluation_needed''}"

text \<open>Two dictionaries that differ at most on the keys of the second pass.\<close>

definition same_off_re :: "user_data \<Rightarrow> user_data \<Rightarrow> bool" where
  "same_off_re ud ud2 = (\<forall>k. k \<notin> re_keys \<longrightarrow> ud2 k = ud k)"

text \<open>
  A concrete user, environment and empty database, and the draft of a submission that
  asked for the second pass: schedule deferred to an expert (0 days), cost 100/300/900,
  probability 80, and post-mitigation values that would score differently.
\<close>

definition ex_user :: user where
  "ex_user = \<lparr>uid = 42, uname = Some ''ann'', full_name = ''Ann''\<rparr>"

definition ex_env :: env where
  "ex_env = \<lparr>now_iso = ''2025-01-01T10:00:00'', today_ymd = ''2025-01-01'',
              today_dmy = ''01.01.2025'', storage_ok = True, can_deliver = (\<lambda>u. True)\<rparr>"

definition ex_db :: db where
  "ex_db = \<lparr>risks = [], risks_seq = 0, additional_mitigations = [], mitigations_seq = 0,
             subscriptions = []\<rparr>"

definition ex_draft :: user_data where
  "ex_draft =
     [''phase'' \<mapsto> PyStr ''3'', ''object'' \<mapsto> PyStr ''Wells'', ''category'' \<mapsto> PyStr ''Drilling'',
      ''description'' \<mapsto> PyStr ''test'',
      ''impact_schedule_min'' \<mapsto> PyInt 0, ''impact_schedule_most_likely'' \<mapsto> PyInt 0,
      ''impact_schedule_max'' \<mapsto> PyInt 0, ''needs_schedule_evaluation'' \<mapsto> PyInt 1,
      ''impact_cost_min'' \<mapsto> PyInt 100, ''impact_cost_most_likely'' \<mapsto> PyInt 300,
      ''impact_cost_max'' \<mapsto> PyInt 900, ''needs_cost_evaluation'' \<mapsto> PyInt 0,
      ''probability'' \<mapsto> PyInt 80, ''timeline'' \<mapsto> PyStr ''Q3'',
      ''reevaluation_needed'' \<mapsto> PyInt 1, ''mitigation'' \<mapsto> PyStr ''drill'',
      ''expected_result'' \<mapsto> PyStr ''less'',
      ''impact_schedule_most_likely_re'' \<mapsto> PyInt 200,
      ''impact_cost_most_likely_re'' \<mapsto> PyInt 2000, ''probability_re'' \<mapsto> PyInt 5]"

text \<open>The same draft with the second pass changed: no re-evaluation and no second-pass values of
  its own.\<close>

definition ex_draft_no_re :: user_data where
  "ex_draft_no_re =
     ex_draft(''reevaluation_needed'' \<mapsto> PyInt 0, ''impact_schedule_most_likely_re'' := None,
              ''impact_cost_most_likely_re'' := None, ''probability_re'' := None)"

section \<open>Reading numbers from text\<close>

text \<open>
  A Python \<^verbatim>\<open>str\<close> is held as the bytes of its UTF-8 encoding. A character of it is a
  byte that is not a continuation byte (\<^verbatim>\<open>10xxxxxx\<close>) together with the continuation
  bytes that follow it; its code point is read from the payload bits of these bytes. So
  \<open>characters s\<close> are the characters of the \<^verbatim>\<open>str\<close> that \<open>s\<close> encodes, \<open>code_points s\<close>
  their code points (integers, as \<^verbatim>\<open>ord\<close> gives them), \<open>py_len s\<close> is \<^verbatim>\<open>len(s)\<close> and \<open>py_prefix n s\<close> is \<^verbatim>\<open>s[:n]\<close>.
\<close>

definition is_continuation :: "char \<Rightarrow> bool" where
  "is_continuation c = (128 \<le> (of_char c :: int) \<and> (of_char c :: int) < 192)"

function characters :: "string \<Rightarrow> string list" where
  "characters [] = []"
| "characters (c # cs) =
     (c # takeWhile is_continuation cs) # characters (dropWhile is_continuation cs)"
  by pat_completeness auto
termination
  by (relation "measure length") (auto simp: le_imp_less_Suc length_dropWhile_le)

declare characters.simps [simp del]

definition lead_bits :: "char \<Rightarrow> int" where
  "lead_bits c =
     (let b = of_char c in
      if b < 128 then b else if b < 224 then b mod 32 else if b < 240 then b mod 16
      else b mod 8)"

definition code_point :: "string \<Rightarrow> int" where
  "code_point bs =
     (case bs of
        [] \<Rightarrow> 0
      | c # conts \<Rightarrow> foldl (\<lambda>acc k. 64 * acc + of_char k mod 64) (lead_bits c) conts)"

definition code_points :: "string \<Rightarrow> int list" where
  "code_points s = map code_point (characters s)"

definition py_len :: "string \<Rightarrow> nat" where
  "py_len s = length (characters s)"

definition py_prefix :: "nat \<Rightarrow> string \<Rightarrow> string" where
  "py_prefix n s = concat (take n (characters s))"

text \<open>
  The decimal digits are the characters with the Unicode property \<^verbatim>\<open>Nd\<close>: both
  \<^verbatim>\<open>\d\<close> in a pattern over \<^verbatim>\<open>str\<close> and \<^verbatim>\<open>int\<close> accept them, and \<^verbatim>\<open>int\<close> reads each with
  its decimal value. They come in blocks of ten consecutive code points with the values
  0 to 9; the table lists the zero of each block (Unicode 14.0, the version that CPython
  3.11 carries): the ASCII digits first, then Arabic-Indic, Extended Arabic-Indic, NKo,
  Devanagari and so on, up to the segmented digits at \<^verbatim>\<open>U+1FBF0\<close>.
\<close>

definition digit_zeros :: "int list" where
  "digit_zeros =
     [0x0030, 0x0660, 0x06F0, 0x07C0, 0x0966, 0x09E6, 0x0A66, 0x0AE6, 0x0B66, 0x0BE6,
      0x0C66, 0x0CE6, 0x0D66, 0x0DE6, 0x0E50, 0x0ED0, 0x0F20, 0x1040, 0x1090, 0x17E0,
      0x1810, 0x1946, 0x19D0, 0x1A80, 0x1A90, 0x1B50, 0x1BB0, 0x1C40, 0x1C50, 0xA620,
      0xA8D0, 0xA900, 0xA9D0, 0xA9F0, 0xAA50, 0xABF0, 0xFF10, 0x104A0, 0x10D30, 0x11066,
      0x110F0, 0x11136, 0x111D0, 0x112F0, 0x11450, 0x114D0, 0x11650, 0x116C0, 0x11730,
      0x118E0, 0x11950, 0x11C50, 0x11D50, 0x11DA0, 0x16A60, 0x16AC0, 0x16B50, 0x1D7CE,
      0x1D7D8, 0x1D7E2, 0x1D7EC, 0x1D7F6, 0x1E140, 0x1E2F0, 0x1E950, 0x1FBF0]"

definition decimal_value :: "int \<Rightarrow> nat option" where
  "decimal_value cp =
     (case List.find (\<lambda>z. z \<le> cp \<and> cp < z + 10) digit_zeros of
        None \<Rightarrow> None
      | Some z \<Rightarrow> Some (nat (cp - z)))"

definition is_digit :: "int \<Rightarrow> bool" where
  "is_digit cp = (decimal_value cp \<noteq> None)"

definition digit_val :: "int \<Rightarrow> nat" where
  "digit_val cp = (case decimal_value cp of None \<Rightarrow> 0 | Some v \<Rightarrow> v)"

text \<open>
  The whitespace that \<^verbatim>\<open>int\<close> drops around a number: the six ASCII blanks, and the
  Unicode whitespace beyond ASCII (\<^verbatim>\<open>U+0085\<close>, \<^verbatim>\<open>U+00A0\<close>, \<^verbatim>\<open>U+1680\<close>, \<^verbatim>\<open>U+2000\<close> to
  \<^verbatim>\<open>U+200A\<close>, \<^verbatim>\<open>U+2028\<close>, \<^verbatim>\<open>U+2029\<close>, \<^verbatim>\<open>U+202F\<close>, \<^verbatim>\<open>U+205F\<close>, \<^verbatim>\<open>U+3000\<close>), which
  \<^verbatim>\<open>int\<close> turns into blanks before it parses. (The separators \<^verbatim>\<open>U+001C\<close> to \<^verbatim>\<open>U+001F\<close>
  are whitespace for \<^verbatim>\<open>str.isspace\<close> but not for \<^verbatim>\<open>int\<close>.)
\<close>

definition space_chars :: "int list" where
  "space_chars =
     [0x09, 0x0A, 0x0B, 0x0C, 0x0D, 0x20, 0x85, 0xA0, 0x1680, 0x2000, 0x2001, 0x2002, 0x2003,
      0x2004, 0x2005, 0x2006, 0x2007, 0x2008, 0x2009, 0x200A, 0x2028, 0x2029, 0x202F, 0x205F,
      0x3000]"

definition is_space :: "int \<Rightarrow> bool" where
  "is_space cp = (cp \<in> set space_chars)"

text \<open>The value of a run of digits, most significant first.\<close>

definition nat_of_digits :: "int list \<Rightarrow> nat" where
  "nat_of_digits ds = foldl (\<lambda>acc c. 10 * acc + digit_val c) 0 ds"

text \<open>\<^verbatim>\<open>s.split(sep)\<close> for a one-character separator, and \<^verbatim>\<open>s.startswith(p)\<close>.\<close>

fun split_on :: "'a \<Rightarrow> 'a list \<Rightarrow> 'a list list" where
  "split_on sep [] = [[]]"
| "split_on sep (c # cs) =
     (if c = sep then [] # split_on sep cs
      else (case split_on sep cs of [] \<Rightarrow> [[c]] | w # ws \<Rightarrow> (c # w) # ws))"

definition startswith :: "string \<Rightarrow> string \<Rightarrow> bool" where
  "startswith s p = (take (length p) s = p)"

definition strip :: "int list \<Rightarrow> int list" where
  "strip s = rev (dropWhile is_space (rev (dropWhile is_space s)))"

text \<open>
  \<^verbatim>\<open>int(s)\<close> in base 10, on the characters of \<^verbatim>\<open>s\<close>: surrounding whitespace is dropped,
  one sign (\<^verbatim>\<open>-\<close>, code point 45, or \<^verbatim>\<open>+\<close>, 43) is allowed, and the digits may be
  grouped by single underscores (95); anything else is a \<^verbatim>\<open>ValueError\<close> (\<open>None\<close>).
  Interpreters from 3.11 on also refuse a number of more than 4300 digits; a message of
  the chat transport holds at most 4096 characters, so that limit is never reached by a
  message and is left out.
\<close>

definition int_of_unsigned :: "int list \<Rightarrow> int option" where
  "int_of_unsigned s =
     (let groups = split_on 95 s in
      if list_all (\<lambda>g. g \<noteq> [] \<and> list_all is_digit g) groups
      then Some (int (nat_of_digits (concat groups))) else None)"

definition int_of_characters :: "int list \<Rightarrow> int option" where
  "int_of_characters s =
     (case strip s of
        [] \<Rightarrow> None
      | c # cs \<Rightarrow>
          if c = 45 then map_option uminus (int_of_unsigned cs)
          else if c = 43 then int_of_unsigned cs
          else int_of_unsigned (c # cs))"

definition py_int :: "string \<Rightarrow> int option" where
  "py_int s = int_of_characters (code_points s)"

text \<open>
  \<^verbatim>\<open>re.findall(r'-?\d+', text)\<close>, on the characters of the text: the matches from left
  to right, none overlapping. At a digit the match is the longest run of digits; at a
  minus sign followed by a digit it is the sign and the run; at any other character, and
  at a minus sign not followed by a digit, there is no match and the scan moves on by one
  character.
\<close>

function findall_numbers :: "int list \<Rightarrow> int list list" where
  "findall_numbers [] = []"
| "findall_numbers (c # cs) =
     (if is_digit c then
        (c # takeWhile is_digit cs) # findall_numbers (dropWhile is_digit cs)
      else if c = 45 \<and> cs \<noteq> [] \<and> is_digit (hd cs) then
        (c # takeWhile is_digit cs) # findall_numbers (dropWhile is_digit cs)
      else findall_numbers cs)"
  by pat_completeness auto
termination
  by (relation "measure length") (auto simp: le_imp_less_Suc length_dropWhile_le)

declare findall_numbers.simps [simp del]

text \<open>Line 361, the message of the \<^verbatim>\<open>ValueError\<close>: `Wrong format. Enter three numbers.'\<close>

definition msg_bad_format :: string where
  "msg_bad_format =
     [CHR 0xD0, CHR 0x9D, CHR 0xD0, CHR 0xB5, CHR 0xD0, CHR 0xB2, CHR 0xD0, CHR 0xB5, CHR 0xD1,
     CHR 0x80, CHR 0xD0, CHR 0xBD, CHR 0xD1, CHR 0x8B, CHR 0xD0, CHR 0xB9] @ '' '' @ [CHR 0xD1,
     CHR 0x84, CHR 0xD0, CHR 0xBE, CHR 0xD1, CHR 0x80, CHR 0xD0, CHR 0xBC, CHR 0xD0, CHR 0xB0,
     CHR 0xD1, CHR 0x82] @ ''. '' @ [CHR 0xD0, CHR 0x92, CHR 0xD0, CHR 0xB2, CHR 0xD0, CHR 0xB5,
     CHR 0xD0, CHR 0xB4, CHR 0xD0, CHR 0xB8, CHR 0xD1, CHR 0x82, CHR 0xD0, CHR 0xB5] @ '' '' @
     [CHR 0xD1, CHR 0x82, CHR 0xD1, CHR 0x80, CHR 0xD0, CHR 0xB8] @ '' '' @ [CHR 0xD1, CHR 0x87,
     CHR 0xD0, CHR 0xB8, CHR 0xD1, CHR 0x81, CHR 0xD0, CHR 0xBB, CHR 0xD0, CHR 0xB0] @ ''.''"


text \<open>
  \<^verbatim>\<open>parse_three_values\<close>, lines 354-361. The result is the three integers, or the
  message of the \<^verbatim>\<open>ValueError\<close> that the function raises. Every match of the pattern is
  accepted by \<^verbatim>\<open>int\<close>, so the conversion itself never fails; the model keeps the case for
  completeness.
\<close>

definition parse_three_values :: "string \<Rightarrow> string + (int \<times> int \<times> int)" where
  "parse_three_values text =
     (let numbers = findall_numbers (code_points text) in
      if length numbers \<ge> 3 then
        (case (int_of_characters (numbers ! 0), int_of_characters (numbers ! 1),
               int_of_characters (numbers ! 2)) of
           (Some a, Some b, Some c) \<Rightarrow> Inr (a, b, c)
         | _ \<Rightarrow> Inl ''invalid literal for int()'')
      else Inl msg_bad_format)"

section \<open>Probability: the five bands and the custom entry\<close>

text \<open>\<^verbatim>\<open>PROBABILITY_MAPPING\<close>, lines 34-40; \<^verbatim>\<open>k in PROBABILITY_MAPPING\<close> is
  \<open>PROBABILITY_MAPPING k \<noteq> None\<close>.\<close>

definition PROBABILITY_MAPPING :: "int \<Rightarrow> int option" where
  "PROBABILITY_MAPPING k =
     (if k = 1 then Some 10 else if k = 2 then Some 15 else if k = 3 then Some 27
      else if k = 4 then Some 47 else if k = 5 then Some 60 else None)"

text \<open>Lines 1225, 1249 and 2031: `State the approximate period in which the risk materialises'.\<close>

definition msg_timeline_prompt :: string where
  "msg_timeline_prompt =
     [CHR 0xD0, CHR 0xA3, CHR 0xD0, CHR 0xBA, CHR 0xD0, CHR 0xB0, CHR 0xD0, CHR 0xB6, CHR 0xD0,
     CHR 0xB8, CHR 0xD1, CHR 0x82, CHR 0xD0, CHR 0xB5] @ '' '' @ [CHR 0xD0, CHR 0xBF, CHR 0xD1,
     CHR 0x80, CHR 0xD0, CHR 0xB8, CHR 0xD0, CHR 0xBC, CHR 0xD0, CHR 0xB5, CHR 0xD1, CHR 0x80,
     CHR 0xD0, CHR 0xBD, CHR 0xD1, CHR 0x8B, CHR 0xD0, CHR 0xB9] @ '' '' @ [CHR 0xD0, CHR 0xBF,
     CHR 0xD0, CHR 0xB5, CHR 0xD1, CHR 0x80, CHR 0xD0, CHR 0xB8, CHR 0xD0, CHR 0xBE, CHR 0xD0,
     CHR 0xB4] @ '' '' @ [CHR 0xD1, CHR 0x80, CHR 0xD0, CHR 0xB5, CHR 0xD0, CHR 0xB0, CHR 0xD0,
     CHR 0xBB, CHR 0xD0, CHR 0xB8, CHR 0xD0, CHR 0xB7, CHR 0xD0, CHR 0xB0, CHR 0xD1, CHR 0x86,
     CHR 0xD0, CHR 0xB8, CHR 0xD0, CHR 0xB8] @ '' '' @ [CHR 0xD1, CHR 0x80, CHR 0xD0, CHR 0xB8,
     CHR 0xD1, CHR 0x81, CHR 0xD0, CHR 0xBA, CHR 0xD0, CHR 0xB0] @ '':''"

text \<open>Lines 1245 and 1647: `Invalid probability level'.\<close>

definition msg_bad_level :: string where
  "msg_bad_level =
     [CHR 0xD0, CHR 0x9D, CHR 0xD0, CHR 0xB5, CHR 0xD0, CHR 0xB2, CHR 0xD0, CHR 0xB5, CHR 0xD1,
     CHR 0x80, CHR 0xD0, CHR 0xBD, CHR 0xD1, CHR 0x8B, CHR 0xD0, CHR 0xB9] @ '' '' @ [CHR 0xD1,
     CHR 0x83, CHR 0xD1, CHR 0x80, CHR 0xD0, CHR 0xBE, CHR 0xD0, CHR 0xB2, CHR 0xD0, CHR 0xB5,
     CHR 0xD0, CHR 0xBD, CHR 0xD1, CHR 0x8C] @ '' '' @ [CHR 0xD0, CHR 0xB2, CHR 0xD0, CHR 0xB5,
     CHR 0xD1, CHR 0x80, CHR 0xD0, CHR 0xBE, CHR 0xD1, CHR 0x8F, CHR 0xD1, CHR 0x82, CHR 0xD0,
     CHR 0xBD, CHR 0xD0, CHR 0xBE, CHR 0xD1, CHR 0x81, CHR 0xD1, CHR 0x82, CHR 0xD0, CHR 0xB8]"

text \<open>Lines 1254 and 1652: `Data processing error'.\<close>

definition msg_processing_error :: string where
  "msg_processing_error =
     [CHR 0xD0, CHR 0x9E, CHR 0xD1, CHR 0x88, CHR 0xD0, CHR 0xB8, CHR 0xD0, CHR 0xB1, CHR 0xD0,
     CHR 0xBA, CHR 0xD0, CHR 0xB0] @ '' '' @ [CHR 0xD0, CHR 0xBE, CHR 0xD0, CHR 0xB1, CHR 0xD1,
     CHR 0x80, CHR 0xD0, CHR 0xB0, CHR 0xD0, CHR 0xB1, CHR 0xD0, CHR 0xBE, CHR 0xD1, CHR 0x82,
     CHR 0xD0, CHR 0xBA, CHR 0xD0, CHR 0xB8] @ '' '' @ [CHR 0xD0, CHR 0xB4, CHR 0xD0, CHR 0xB0,
     CHR 0xD0, CHR 0xBD, CHR 0xD0, CHR 0xBD, CHR 0xD1, CHR 0x8B, CHR 0xD1, CHR 0x85]"

text \<open>Lines 1216 and 1231: `Please enter a number from 0 to 100'.\<close>

definition msg_number_0_100 :: string where
  "msg_number_0_100 =
     [CHR 0xD0, CHR 0x9F, CHR 0xD0, CHR 0xBE, CHR 0xD0, CHR 0xB6, CHR 0xD0, CHR 0xB0, CHR 0xD0,
     CHR 0xBB, CHR 0xD1, CHR 0x83, CHR 0xD0, CHR 0xB9, CHR 0xD1, CHR 0x81, CHR 0xD1, CHR 0x82,
     CHR 0xD0, CHR 0xB0] @ '', '' @ [CHR 0xD0, CHR 0xB2, CHR 0xD0, CHR 0xB2, CHR 0xD0, CHR 0xB5,
     CHR 0xD0, CHR 0xB4, CHR 0xD0, CHR 0xB8, CHR 0xD1, CHR 0x82, CHR 0xD0, CHR 0xB5] @ '' '' @
     [CHR 0xD1, CHR 0x87, CHR 0xD0, CHR 0xB8, CHR 0xD1, CHR 0x81, CHR 0xD0, CHR 0xBB, CHR 0xD0,
     CHR 0xBE] @ '' '' @ [CHR 0xD0, CHR 0xBE, CHR 0xD1, CHR 0x82] @ '' 0 '' @ [CHR 0xD0,
     CHR 0xB4, CHR 0xD0, CHR 0xBE] @ '' 100:''"

text \<open>Line 1202: `Enter the probability estimate (in percent, from 0 to 100)'.\<close>

definition msg_custom_probability_prompt :: string where
  "msg_custom_probability_prompt =
     [CHR 0xD0, CHR 0x92, CHR 0xD0, CHR 0xB2, CHR 0xD0, CHR 0xB5, CHR 0xD0, CHR 0xB4, CHR 0xD0,
     CHR 0xB8, CHR 0xD1, CHR 0x82, CHR 0xD0, CHR 0xB5] @ '' '' @ [CHR 0xD0, CHR 0xBE, CHR 0xD1,
     CHR 0x86, CHR 0xD0, CHR 0xB5, CHR 0xD0, CHR 0xBD, CHR 0xD0, CHR 0xBA, CHR 0xD1, CHR 0x83] @
     '' '' @ [CHR 0xD0, CHR 0xB2, CHR 0xD0, CHR 0xB5, CHR 0xD1, CHR 0x80, CHR 0xD0, CHR 0xBE,
     CHR 0xD1, CHR 0x8F, CHR 0xD1, CHR 0x82, CHR 0xD0, CHR 0xBD, CHR 0xD0, CHR 0xBE, CHR 0xD1,
     CHR 0x81, CHR 0xD1, CHR 0x82, CHR 0xD0, CHR 0xB8] @ '' ('' @ [CHR 0xD0, CHR 0xB2] @ '' '' @
     [CHR 0xD0, CHR 0xBF, CHR 0xD1, CHR 0x80, CHR 0xD0, CHR 0xBE, CHR 0xD1, CHR 0x86, CHR 0xD0,
     CHR 0xB5, CHR 0xD0, CHR 0xBD, CHR 0xD1, CHR 0x82, CHR 0xD0, CHR 0xB0, CHR 0xD1, CHR 0x85] @
     '', '' @ [CHR 0xD0, CHR 0xBE, CHR 0xD1, CHR 0x82] @ '' 0 '' @ [CHR 0xD0, CHR 0xB4, CHR 0xD0,
     CHR 0xBE] @ '' 100):''"


text \<open>
  \<^verbatim>\<open>choose_probability\<close>, lines 1236-1255, on the \<^verbatim>\<open>callback_data\<close> of the pressed
  button. \<^verbatim>\<open>query.data.split("_")[1]\<close> raises \<^verbatim>\<open>IndexError\<close> when there is no second
  part and \<^verbatim>\<open>int\<close> raises \<^verbatim>\<open>ValueError\<close> when it is not a number; both are caught and
  answered with an alert.
\<close>

definition choose_probability :: "string \<Rightarrow> user_data \<Rightarrow> user_data \<times> action list" where
  "choose_probability data ud =
     (if startswith data ''prob_re_'' then (ud, [])
      else
        let parts = split_on CHR ''_'' data in
        if length parts < 2 then (ud, [AnswerAlert msg_processing_error])
        else
          (case py_int (parts ! 1) of
             None \<Rightarrow> (ud, [AnswerAlert msg_processing_error])
           | Some prob_level \<Rightarrow>
               (case PROBABILITY_MAPPING prob_level of
                  None \<Rightarrow> (ud, [AnswerAlert msg_bad_level])
                | Some v \<Rightarrow>
                    (ud(''probability'' \<mapsto> PyInt v, ''awaiting_timeline'' \<mapsto> PyBool True),
                     [EditMessageText msg_timeline_prompt
                        (create_back_keyboard ''back_to_probability'')]))))"

text \<open>\<^verbatim>\<open>custom_probability_request\<close>, lines 1197-1205.\<close>

definition custom_probability_request :: "user_data \<Rightarrow> user_data \<times> action list" where
  "custom_probability_request ud =
     (ud(''awaiting_custom_probability'' \<mapsto> PyBool True),
      [EditMessageText msg_custom_probability_prompt (create_back_keyboard ''back_to_probability'')])"

text \<open>\<^verbatim>\<open>handle_custom_probability\<close>, lines 1208-1233, on the text of the message.\<close>

definition handle_custom_probability :: "string \<Rightarrow> user_data \<Rightarrow> user_data \<times> action list" where
  "handle_custom_probability text ud =
     (if \<not> truthy (ud_get_none ud ''awaiting_custom_probability'') then (ud, [])
      else
        (case py_int text of
           None \<Rightarrow>
             (ud, [ReplyText msg_number_0_100 (create_back_keyboard ''back_to_probability'')])
         | Some prob \<Rightarrow>
             if prob < 0 \<or> prob > 100 then
               (ud, [ReplyText msg_number_0_100 (create_back_keyboard ''back_to_probability'')])
             else
               (ud(''probability'' \<mapsto> PyInt prob,
                   ''awaiting_custom_probability'' \<mapsto> PyBool False,
                   ''awaiting_timeline'' \<mapsto> PyBool True),
                [ReplyText msg_timeline_prompt (create_back_keyboard ''back_to_probability'')])))"
text \<open>The last two buttons of the probability keyboard: `Enter your own probability' and `Back to cost'; and the prompt above it (lines 1107, 1134, 1187, 2022): `Estimate the probability of the risk or enter your own'.\<close>

definition custom_probability_label :: string where
  "custom_probability_label =
     [CHR 0xF0, CHR 0x9F, CHR 0x93, CHR 0x9D] @ '' '' @ [CHR 0xD0, CHR 0x92, CHR 0xD0, CHR 0xB2,
     CHR 0xD0, CHR 0xB5, CHR 0xD1, CHR 0x81, CHR 0xD1, CHR 0x82, CHR 0xD0, CHR 0xB8] @ '' '' @
     [CHR 0xD1, CHR 0x81, CHR 0xD0, CHR 0xB2, CHR 0xD0, CHR 0xBE, CHR 0xD1, CHR 0x8E] @ '' '' @
     [CHR 0xD0, CHR 0xB2, CHR 0xD0, CHR 0xB5, CHR 0xD1, CHR 0x80, CHR 0xD0, CHR 0xBE, CHR 0xD1,
     CHR 0x8F, CHR 0xD1, CHR 0x82, CHR 0xD0, CHR 0xBD, CHR 0xD0, CHR 0xBE, CHR 0xD1, CHR 0x81,
     CHR 0xD1, CHR 0x82, CHR 0xD1, CHR 0x8C]"

definition back_to_cost_label :: string where
  "back_to_cost_label =
     [CHR 0xF0, CHR 0x9F, CHR 0x94, CHR 0x99] @ '' '' @ [CHR 0xD0, CHR 0x92, CHR 0xD0, CHR 0xB5,
     CHR 0xD1, CHR 0x80, CHR 0xD0, CHR 0xBD, CHR 0xD1, CHR 0x83, CHR 0xD1, CHR 0x82, CHR 0xD1,
     CHR 0x8C, CHR 0xD1, CHR 0x81, CHR 0xD1, CHR 0x8F] @ '' '' @ [CHR 0xD0, CHR 0xBA] @ '' '' @
     [CHR 0xD1, CHR 0x81, CHR 0xD1, CHR 0x82, CHR 0xD0, CHR 0xBE, CHR 0xD0, CHR 0xB8, CHR 0xD0,
     CHR 0xBC, CHR 0xD0, CHR 0xBE, CHR 0xD1, CHR 0x81, CHR 0xD1, CHR 0x82, CHR 0xD0, CHR 0xB8]"

definition msg_probability_prompt :: string where
  "msg_probability_prompt =
     [CHR 0xD0, CHR 0x9E, CHR 0xD1, CHR 0x86, CHR 0xD0, CHR 0xB5, CHR 0xD0, CHR 0xBD, CHR 0xD0,
     CHR 0xB8, CHR 0xD1, CHR 0x82, CHR 0xD0, CHR 0xB5] @ '' '' @ [CHR 0xD0, CHR 0xB2, CHR 0xD0,
     CHR 0xB5, CHR 0xD1, CHR 0x80, CHR 0xD0, CHR 0xBE, CHR 0xD1, CHR 0x8F, CHR 0xD1, CHR 0x82,
     CHR 0xD0, CHR 0xBD, CHR 0xD0, CHR 0xBE, CHR 0xD1, CHR 0x81, CHR 0xD1, CHR 0x82, CHR 0xD1,
     CHR 0x8C] @ '' '' @ [CHR 0xD0, CHR 0xB2, CHR 0xD0, CHR 0xBE, CHR 0xD0, CHR 0xB7, CHR 0xD0,
     CHR 0xBD, CHR 0xD0, CHR 0xB8, CHR 0xD0, CHR 0xBA, CHR 0xD0, CHR 0xBD, CHR 0xD0, CHR 0xBE,
     CHR 0xD0, CHR 0xB2, CHR 0xD0, CHR 0xB5, CHR 0xD0, CHR 0xBD, CHR 0xD0, CHR 0xB8, CHR 0xD1,
     CHR 0x8F] @ '' '' @ [CHR 0xD1, CHR 0x80, CHR 0xD0, CHR 0xB8, CHR 0xD1, CHR 0x81, CHR 0xD0,
     CHR 0xBA, CHR 0xD0, CHR 0xB0] @ '' '' @ [CHR 0xD0, CHR 0xB8, CHR 0xD0, CHR 0xBB, CHR 0xD0,
     CHR 0xB8] @ '' '' @ [CHR 0xD0, CHR 0xB2, CHR 0xD0, CHR 0xB2, CHR 0xD0, CHR 0xB5, CHR 0xD0,
     CHR 0xB4, CHR 0xD0, CHR 0xB8, CHR 0xD1, CHR 0x82, CHR 0xD0, CHR 0xB5] @ '' '' @ [CHR 0xD1,
     CHR 0x81, CHR 0xD0, CHR 0xB2, CHR 0xD0, CHR 0xBE, CHR 0xD1, CHR 0x8E] @ '':''"


text \<open>
  The keyboard of the probability step as the forward handlers build it
  (\<^verbatim>\<open>no_impact_cost\<close> lines 1096-1104, \<^verbatim>\<open>request_cost_evaluation\<close> lines 1123-1131 and
  \<^verbatim>\<open>handle_cost_values\<close> lines 1176-1184, the same literal three times).
\<close>

definition probability_keyboard :: keyboard where
  "probability_keyboard =
     [[(''<10%'', ''prob_1'')],
      [(''10-20%'', ''prob_2'')],
      [(''20-50%'', ''prob_3'')],
      [(''50-75%'', ''prob_4'')],
      [(''>75%'', ''prob_5'')],
      [(custom_probability_label, ''custom_probability'')],
      [(back_to_cost_label, ''back_to_cost_impact'')]]"

section \<open>Configuration and the texts of the conversation\<close>

text \<open>Line 198: \<^verbatim>\<open>PHASES\<close>, the five numbered phases and two named options.\<close>

definition PHASES :: "string list" where
  "PHASES =
     [''1'',
      ''2'',
      ''3'',
      ''4'',
      ''5'',
      [CHR 0xD0, CHR 0x9F, CHR 0xD0, CHR 0xB5, CHR 0xD1, CHR 0x81, CHR 0xD1, CHR 0x86,
      CHR 0xD0, CHR 0xBE, CHR 0xD0, CHR 0xB2, CHR 0xD0, CHR 0xBE, CHR 0xD0, CHR 0xB5],
      [CHR 0xD0, CHR 0x9A, CHR 0xD0, CHR 0x9F, CHR 0xD0, CHR 0xA0] @ ''A'']"

text \<open>Line 199: \<^verbatim>\<open>OBJECTS\<close> (`Wells', `Well pads', `Site facilities', `Linear part', `Other').\<close>

definition OBJECTS :: "string list" where
  "OBJECTS =
     [[CHR 0xD0, CHR 0xA1, CHR 0xD0, CHR 0xBA, CHR 0xD0, CHR 0xB2, CHR 0xD0, CHR 0xB0,
      CHR 0xD0, CHR 0xB6, CHR 0xD0, CHR 0xB8, CHR 0xD0, CHR 0xBD, CHR 0xD1, CHR 0x8B],
      [CHR 0xD0, CHR 0x9A, CHR 0xD1, CHR 0x83, CHR 0xD1, CHR 0x81, CHR 0xD1, CHR 0x82,
      CHR 0xD0, CHR 0xBE, CHR 0xD0, CHR 0xB2, CHR 0xD1, CHR 0x8B, CHR 0xD0, CHR 0xB5] @ '' ''
      @ [CHR 0xD0, CHR 0xBF, CHR 0xD0, CHR 0xBB, CHR 0xD0, CHR 0xBE, CHR 0xD1, CHR 0x89,
      CHR 0xD0, CHR 0xB0, CHR 0xD0, CHR 0xB4, CHR 0xD0, CHR 0xBA, CHR 0xD0, CHR 0xB8],
      [CHR 0xD0, CHR 0x9F, CHR 0xD0, CHR 0xBB, CHR 0xD0, CHR 0xBE, CHR 0xD1, CHR 0x89,
      CHR 0xD0, CHR 0xB0, CHR 0xD0, CHR 0xB4, CHR 0xD0, CHR 0xBE, CHR 0xD1, CHR 0x87,
      CHR 0xD0, CHR 0xBD, CHR 0xD1, CHR 0x8B, CHR 0xD0, CHR 0xB5] @ '' '' @ [CHR 0xD0,
      CHR 0xBE, CHR 0xD0, CHR 0xB1, CHR 0xD1, CHR 0x8A, CHR 0xD0, CHR 0xB5, CHR 0xD0,
      CHR 0xBA, CHR 0xD1, CHR 0x82, CHR 0xD1, CHR 0x8B],
      [CHR 0xD0, CHR 0x9B, CHR 0xD0, CHR 0xB8, CHR 0xD0, CHR 0xBD, CHR 0xD0, CHR 0xB5,
      CHR 0xD0, CHR 0xB9, CHR 0xD0, CHR 0xBD, CHR 0xD0, CHR 0xB0, CHR 0xD1, CHR 0x8F] @ '' ''
      @ [CHR 0xD1, CHR 0x87, CHR 0xD0, CHR 0xB0, CHR 0xD1, CHR 0x81, CHR 0xD1, CHR 0x82,
      CHR 0xD1, CHR 0x8C],
      [CHR 0xD0, CHR 0x94, CHR 0xD1, CHR 0x80, CHR 0xD1, CHR 0x83, CHR 0xD0, CHR 0xB3,
      CHR 0xD0, CHR 0xBE, CHR 0xD0, CHR 0xB5]]"

text \<open>Lines 200-201: \<^verbatim>\<open>CATEGORIES\<close>, the nine functional areas.\<close>

definition CATEGORIES :: "string list" where
  "CATEGORIES =
     [[CHR 0xD0, CHR 0x9F, CHR 0xD1, CHR 0x80, CHR 0xD0, CHR 0xBE, CHR 0xD0, CHR 0xB5,
      CHR 0xD0, CHR 0xBA, CHR 0xD1, CHR 0x82, CHR 0xD0, CHR 0xBD, CHR 0xD0, CHR 0xBE,
      CHR 0xD0, CHR 0xB5] @ '' '' @ [CHR 0xD1, CHR 0x83, CHR 0xD0, CHR 0xBF, CHR 0xD1,
      CHR 0x80, CHR 0xD0, CHR 0xB0, CHR 0xD0, CHR 0xB2, CHR 0xD0, CHR 0xBB, CHR 0xD0,
      CHR 0xB5, CHR 0xD0, CHR 0xBD, CHR 0xD0, CHR 0xB8, CHR 0xD0, CHR 0xB5],
      [CHR 0xD0, CHR 0xA1, CHR 0xD1, CHR 0x82, CHR 0xD0, CHR 0xBE, CHR 0xD0, CHR 0xB8,
      CHR 0xD0, CHR 0xBC, CHR 0xD0, CHR 0xBE, CHR 0xD1, CHR 0x81, CHR 0xD1, CHR 0x82,
      CHR 0xD0, CHR 0xBD, CHR 0xD0, CHR 0xBE, CHR 0xD0, CHR 0xB9] @ '' '' @ [CHR 0xD0,
      CHR 0xB8, CHR 0xD0, CHR 0xBD, CHR 0xD0, CHR 0xB6, CHR 0xD0, CHR 0xB8, CHR 0xD0,
      CHR 0xBD, CHR 0xD0, CHR 0xB8, CHR 0xD1, CHR 0x80, CHR 0xD0, CHR 0xB8, CHR 0xD0,
      CHR 0xBD, CHR 0xD0, CHR 0xB3],
      [CHR 0xD0, CHR 0x93, CHR 0xD0, CHR 0xB8, CHR 0xD0, CHR 0xA0],
      [CHR 0xD0, CHR 0x9E, CHR 0xD0, CHR 0xBF, CHR 0xD0, CHR 0xB5, CHR 0xD1, CHR 0x80,
      CHR 0xD0, CHR 0xB0, CHR 0xD1, CHR 0x86, CHR 0xD0, CHR 0xB8, CHR 0xD0, CHR 0xBE,
      CHR 0xD0, CHR 0xBD, CHR 0xD0, CHR 0xBD, CHR 0xD0, CHR 0xB0, CHR 0xD1, CHR 0x8F] @ '' ''
      @ [CHR 0xD0, CHR 0xB4, CHR 0xD0, CHR 0xB5, CHR 0xD1, CHR 0x8F, CHR 0xD1, CHR 0x82,
      CHR 0xD0, CHR 0xB5, CHR 0xD0, CHR 0xBB, CHR 0xD1, CHR 0x8C, CHR 0xD0, CHR 0xBD,
      CHR 0xD0, CHR 0xBE, CHR 0xD1, CHR 0x81, CHR 0xD1, CHR 0x82, CHR 0xD1, CHR 0x8C],
      [CHR 0xD0, CHR 0xA1, CHR 0xD1, CHR 0x82, CHR 0xD1, CHR 0x80, CHR 0xD0, CHR 0xBE,
      CHR 0xD0, CHR 0xB8, CHR 0xD1, CHR 0x82, CHR 0xD0, CHR 0xB5, CHR 0xD0, CHR 0xBB,
      CHR 0xD1, CHR 0x8C, CHR 0xD1, CHR 0x81, CHR 0xD1, CHR 0x82, CHR 0xD0, CHR 0xB2,
      CHR 0xD0, CHR 0xBE],
      [CHR 0xD0, CHR 0x97, CHR 0xD0, CHR 0xB0, CHR 0xD0, CHR 0xBA, CHR 0xD1, CHR 0x83,
      CHR 0xD0, CHR 0xBF, CHR 0xD0, CHR 0xBA, CHR 0xD0, CHR 0xB8],
      [CHR 0xD0, CHR 0x98, CHR 0xD0, CHR 0xBD, CHR 0xD0, CHR 0xB6, CHR 0xD0, CHR 0xB8,
      CHR 0xD0, CHR 0xBD, CHR 0xD0, CHR 0xB8, CHR 0xD1, CHR 0x80, CHR 0xD0, CHR 0xB8,
      CHR 0xD0, CHR 0xBD, CHR 0xD0, CHR 0xB3],
      [CHR 0xD0, CHR 0x91, CHR 0xD1, CHR 0x83, CHR 0xD1, CHR 0x80, CHR 0xD0, CHR 0xB5,
      CHR 0xD0, CHR 0xBD, CHR 0xD0, CHR 0xB8, CHR 0xD0, CHR 0xB5],
      [CHR 0xD0, CHR 0x9F, CHR 0xD0, CHR 0x91]]"

text \<open>Lines 798-813, the main menu of \<^verbatim>\<open>start\<close>: the two subscription labels (`Unsubscribe', `Subscribe'), the four fixed labels (`Report a risk', `View risks/mitigations', `Risk report', `Export to Excel') and the greeting, which is spelled differently when it is sent as a reply (line 811) and when it replaces a message (line 813).\<close>

definition unsubscribe_label :: string where
  "unsubscribe_label =
     [CHR 0xF0, CHR 0x9F, CHR 0x94, CHR 0x95] @ '' '' @ [CHR 0xD0, CHR 0x9E, CHR 0xD1, CHR 0x82,
     CHR 0xD0, CHR 0xBF, CHR 0xD0, CHR 0xB8, CHR 0xD1, CHR 0x81, CHR 0xD0, CHR 0xB0, CHR 0xD1,
     CHR 0x82, CHR 0xD1, CHR 0x8C, CHR 0xD1, CHR 0x81, CHR 0xD1, CHR 0x8F]"

definition subscribe_label :: string where
  "subscribe_label =
     [CHR 0xF0, CHR 0x9F, CHR 0x94, CHR 0x94] @ '' '' @ [CHR 0xD0, CHR 0x9F, CHR 0xD0, CHR 0xBE,
     CHR 0xD0, CHR 0xB4, CHR 0xD0, CHR 0xBF, CHR 0xD0, CHR 0xB8, CHR 0xD1, CHR 0x81, CHR 0xD0,
     CHR 0xB0, CHR 0xD1, CHR 0x82, CHR 0xD1, CHR 0x8C, CHR 0xD1, CHR 0x81, CHR 0xD1, CHR 0x8F]"

definition submit_risk_label :: string where
  "submit_risk_label =
     [CHR 0xF0, CHR 0x9F, CHR 0x93, CHR 0xA2] @ '' '' @ [CHR 0xD0, CHR 0xA1, CHR 0xD0, CHR 0xBE,
     CHR 0xD0, CHR 0xBE, CHR 0xD0, CHR 0xB1, CHR 0xD1, CHR 0x89, CHR 0xD0, CHR 0xB8, CHR 0xD1,
     CHR 0x82, CHR 0xD1, CHR 0x8C] @ '' '' @ [CHR 0xD1, CHR 0x80, CHR 0xD0, CHR 0xB8, CHR 0xD1,
     CHR 0x81, CHR 0xD0, CHR 0xBA]"

definition view_risks_label :: string where
  "view_risks_label =
     [CHR 0xF0, CHR 0x9F, CHR 0x94, CHR 0x8D] @ '' '' @ [CHR 0xD0, CHR 0x9F, CHR 0xD1, CHR 0x80,
     CHR 0xD0, CHR 0xBE, CHR 0xD1, CHR 0x81, CHR 0xD0, CHR 0xBC, CHR 0xD0, CHR 0xBE, CHR 0xD1,
     CHR 0x82, CHR 0xD1, CHR 0x80, CHR 0xD0, CHR 0xB5, CHR 0xD1, CHR 0x82, CHR 0xD1, CHR 0x8C] @
     '' '' @ [CHR 0xD1, CHR 0x80, CHR 0xD0, CHR 0xB8, CHR 0xD1, CHR 0x81, CHR 0xD0, CHR 0xBA,
     CHR 0xD0, CHR 0xB8] @ ''/'' @ [CHR 0xD0, CHR 0xBC, CHR 0xD0, CHR 0xB5, CHR 0xD1, CHR 0x80,
     CHR 0xD0, CHR 0xBE, CHR 0xD0, CHR 0xBF, CHR 0xD1, CHR 0x80, CHR 0xD0, CHR 0xB8, CHR 0xD1,
     CHR 0x8F, CHR 0xD1, CHR 0x82, CHR 0xD0, CHR 0xB8, CHR 0xD1, CHR 0x8F]"

definition report_label :: string where
  "report_label =
     [CHR 0xF0, CHR 0x9F, CHR 0x93, CHR 0x8A] @ '' '' @ [CHR 0xD0, CHR 0x9E, CHR 0xD1, CHR 0x82,
     CHR 0xD1, CHR 0x87, CHR 0xD1, CHR 0x91, CHR 0xD1, CHR 0x82] @ '' '' @ [CHR 0xD0, CHR 0xBF,
     CHR 0xD0, CHR 0xBE] @ '' '' @ [CHR 0xD1, CHR 0x80, CHR 0xD0, CHR 0xB8, CHR 0xD1, CHR 0x81,
     CHR 0xD0, CHR 0xBA, CHR 0xD0, CHR 0xB0, CHR 0xD0, CHR 0xBC]"

definition export_label :: string where
  "export_label =
     [CHR 0xF0, CHR 0x9F, CHR 0x92, CHR 0xBE] @ '' '' @ [CHR 0xD0, CHR 0xAD, CHR 0xD0, CHR 0xBA,
     CHR 0xD1, CHR 0x81, CHR 0xD0, CHR 0xBF, CHR 0xD0, CHR 0xBE, CHR 0xD1, CHR 0x80, CHR 0xD1,
     CHR 0x82] @ '' '' @ [CHR 0xD0, CHR 0xB2] @ '' Excel''"

definition msg_welcome :: string where
  "msg_welcome =
     [CHR 0xD0, CHR 0x94, CHR 0xD0, CHR 0xBE, CHR 0xD0, CHR 0xB1, CHR 0xD1, CHR 0x80, CHR 0xD0,
     CHR 0xBE] @ '' '' @ [CHR 0xD0, CHR 0xBF, CHR 0xD0, CHR 0xBE, CHR 0xD0, CHR 0xB6, CHR 0xD0,
     CHR 0xB0, CHR 0xD0, CHR 0xBB, CHR 0xD0, CHR 0xBE, CHR 0xD0, CHR 0xB2, CHR 0xD0, CHR 0xB0,
     CHR 0xD1, CHR 0x82, CHR 0xD1, CHR 0x8C] @ '' '' @ [CHR 0xD0, CHR 0xB2] @ '' '' @ [CHR 0xD0,
     CHR 0x95, CHR 0xD0, CHR 0xB6, CHR 0xD0, CHR 0xB5, CHR 0xD0, CHR 0xB4, CHR 0xD0, CHR 0xBD,
     CHR 0xD0, CHR 0xB5, CHR 0xD0, CHR 0xB2, CHR 0xD0, CHR 0xBD, CHR 0xD0, CHR 0xB8, CHR 0xD0,
     CHR 0xBA] @ '' '' @ [CHR 0xD1, CHR 0x80, CHR 0xD0, CHR 0xB8, CHR 0xD1, CHR 0x81, CHR 0xD0,
     CHR 0xBA, CHR 0xD0, CHR 0xBE, CHR 0xD0, CHR 0xB2] @ '' '' @ [CHR 0xD0, CHR 0xBF, CHR 0xD1,
     CHR 0x80, CHR 0xD0, CHR 0xBE, CHR 0xD0, CHR 0xB5, CHR 0xD0, CHR 0xBA, CHR 0xD1, CHR 0x82,
     CHR 0xD0, CHR 0xB0] @ ''!''"

definition msg_welcome_edited :: string where
  "msg_welcome_edited =
     [CHR 0xD0, CHR 0x94, CHR 0xD0, CHR 0xBE, CHR 0xD0, CHR 0xB1, CHR 0xD1, CHR 0x80, CHR 0xD0,
     CHR 0xBE] @ '' '' @ [CHR 0xD0, CHR 0xBF, CHR 0xD0, CHR 0xBE, CHR 0xD0, CHR 0xB6, CHR 0xD0,
     CHR 0xB0, CHR 0xD0, CHR 0xBB, CHR 0xD0, CHR 0xBE, CHR 0xD0, CHR 0xB2] @ '' '' @ [CHR 0xD0,
     CHR 0xB2] @ '' '' @ [CHR 0xD0, CHR 0x95, CHR 0xD0, CHR 0xB6, CHR 0xD0, CHR 0xB5, CHR 0xD0,
     CHR 0xB4, CHR 0xD0, CHR 0xBD, CHR 0xD0, CHR 0xB5, CHR 0xD0, CHR 0xB2, CHR 0xD0, CHR 0xBD,
     CHR 0xD0, CHR 0xB8, CHR 0xD0, CHR 0xBA] @ '' '' @ [CHR 0xD1, CHR 0x80, CHR 0xD0, CHR 0xB8,
     CHR 0xD1, CHR 0x81, CHR 0xD0, CHR 0xBA, CHR 0xD0, CHR 0xBE, CHR 0xD0, CHR 0xB2] @ '' '' @
     [CHR 0xD0, CHR 0xBF, CHR 0xD1, CHR 0x80, CHR 0xD0, CHR 0xBE, CHR 0xD0, CHR 0xB5, CHR 0xD0,
     CHR 0xBA, CHR 0xD1, CHR 0x82, CHR 0xD0, CHR 0xB0] @ ''!''"

text \<open>Lines 820-824, \<^verbatim>\<open>submit_risk_start\<close>: `Enter your own phase', `Back to the menu', `Choose the project phase or enter your own'.\<close>

definition custom_phase_label :: string where
  "custom_phase_label =
     [CHR 0xF0, CHR 0x9F, CHR 0x93, CHR 0x9D] @ '' '' @ [CHR 0xD0, CHR 0x92, CHR 0xD0, CHR 0xB2,
     CHR 0xD0, CHR 0xB5, CHR 0xD1, CHR 0x81, CHR 0xD1, CHR 0x82, CHR 0xD0, CHR 0xB8] @ '' '' @
     [CHR 0xD1, CHR 0x81, CHR 0xD0, CHR 0xB2, CHR 0xD0, CHR 0xBE, CHR 0xD1, CHR 0x8E] @ '' '' @
     [CHR 0xD1, CHR 0x84, CHR 0xD0, CHR 0xB0, CHR 0xD0, CHR 0xB7, CHR 0xD1, CHR 0x83]"

definition back_to_menu_label :: string where
  "back_to_menu_label =
     [CHR 0xF0, CHR 0x9F, CHR 0x94, CHR 0x99] @ '' '' @ [CHR 0xD0, CHR 0x92, CHR 0xD0, CHR 0xB5,
     CHR 0xD1, CHR 0x80, CHR 0xD0, CHR 0xBD, CHR 0xD1, CHR 0x83, CHR 0xD1, CHR 0x82, CHR 0xD1,
     CHR 0x8C, CHR 0xD1, CHR 0x81, CHR 0xD1, CHR 0x8F] @ '' '' @ [CHR 0xD0, CHR 0xB2] @ '' '' @
     [CHR 0xD0, CHR 0xBC, CHR 0xD0, CHR 0xB5, CHR 0xD0, CHR 0xBD, CHR 0xD1, CHR 0x8E]"

definition msg_choose_phase :: string where
  "msg_choose_phase =
     [CHR 0xD0, CHR 0x92, CHR 0xD1, CHR 0x8B, CHR 0xD0, CHR 0xB1, CHR 0xD0, CHR 0xB5, CHR 0xD1,
     CHR 0x80, CHR 0xD0, CHR 0xB8, CHR 0xD1, CHR 0x82, CHR 0xD0, CHR 0xB5] @ '' '' @ [CHR 0xD1,
     CHR 0x84, CHR 0xD0, CHR 0xB0, CHR 0xD0, CHR 0xB7, CHR 0xD1, CHR 0x83] @ '' '' @ [CHR 0xD0,
     CHR 0xBF, CHR 0xD1, CHR 0x80, CHR 0xD0, CHR 0xBE, CHR 0xD0, CHR 0xB5, CHR 0xD0, CHR 0xBA,
     CHR 0xD1, CHR 0x82, CHR 0xD0, CHR 0xB0] @ '' '' @ [CHR 0xD0, CHR 0xB8, CHR 0xD0, CHR 0xBB,
     CHR 0xD0, CHR 0xB8] @ '' '' @ [CHR 0xD0, CHR 0xB2, CHR 0xD0, CHR 0xB2, CHR 0xD0, CHR 0xB5,
     CHR 0xD0, CHR 0xB4, CHR 0xD0, CHR 0xB8, CHR 0xD1, CHR 0x82, CHR 0xD0, CHR 0xB5] @ '' '' @
     [CHR 0xD1, CHR 0x81, CHR 0xD0, CHR 0xB2, CHR 0xD0, CHR 0xBE, CHR 0xD1, CHR 0x8E] @ '':''"

text \<open>Lines 1603-1608, \<^verbatim>\<open>select_view_phase\<close>: `All phases', `Choose the phase whose risks to view'.\<close>

definition all_phases_label :: string where
  "all_phases_label =
     [CHR 0xD0, CHR 0x92, CHR 0xD1, CHR 0x81, CHR 0xD0, CHR 0xB5] @ '' '' @ [CHR 0xD1, CHR 0x84,
     CHR 0xD0, CHR 0xB0, CHR 0xD0, CHR 0xB7, CHR 0xD1, CHR 0x8B]"

definition msg_choose_view_phase :: string where
  "msg_choose_view_phase =
     [CHR 0xD0, CHR 0x92, CHR 0xD1, CHR 0x8B, CHR 0xD0, CHR 0xB1, CHR 0xD0, CHR 0xB5, CHR 0xD1,
     CHR 0x80, CHR 0xD0, CHR 0xB8, CHR 0xD1, CHR 0x82, CHR 0xD0, CHR 0xB5] @ '' '' @ [CHR 0xD1,
     CHR 0x84, CHR 0xD0, CHR 0xB0, CHR 0xD0, CHR 0xB7, CHR 0xD1, CHR 0x83] @ '' '' @ [CHR 0xD0,
     CHR 0xB4, CHR 0xD0, CHR 0xBB, CHR 0xD1, CHR 0x8F] @ '' '' @ [CHR 0xD0, CHR 0xBF, CHR 0xD1,
     CHR 0x80, CHR 0xD0, CHR 0xBE, CHR 0xD1, CHR 0x81, CHR 0xD0, CHR 0xBC, CHR 0xD0, CHR 0xBE,
     CHR 0xD1, CHR 0x82, CHR 0xD1, CHR 0x80, CHR 0xD0, CHR 0xB0] @ '' '' @ [CHR 0xD1, CHR 0x80,
     CHR 0xD0, CHR 0xB8, CHR 0xD1, CHR 0x81, CHR 0xD0, CHR 0xBA, CHR 0xD0, CHR 0xBE, CHR 0xD0,
     CHR 0xB2] @ '':''"

text \<open>The object step (lines 845-850, 859-864, 1921-1926): `Enter your own object', `Back to the phase', `Phase: ', `Choose an object or enter your own'.\<close>

definition custom_object_label :: string where
  "custom_object_label =
     [CHR 0xF0, CHR 0x9F, CHR 0x93, CHR 0x9D] @ '' '' @ [CHR 0xD0, CHR 0x92, CHR 0xD0, CHR 0xB2,
     CHR 0xD0, CHR 0xB5, CHR 0xD1, CHR 0x81, CHR 0xD1, CHR 0x82, CHR 0xD0, CHR 0xB8] @ '' '' @
     [CHR 0xD1, CHR 0x81, CHR 0xD0, CHR 0xB2, CHR 0xD0, CHR 0xBE, CHR 0xD0, CHR 0xB9] @ '' '' @
     [CHR 0xD0, CHR 0xBE, CHR 0xD0, CHR 0xB1, CHR 0xD1, CHR 0x8A, CHR 0xD0, CHR 0xB5, CHR 0xD0,
     CHR 0xBA, CHR 0xD1, CHR 0x82]"

definition back_to_phase_label :: string where
  "back_to_phase_label =
     [CHR 0xF0, CHR 0x9F, CHR 0x94, CHR 0x99] @ '' '' @ [CHR 0xD0, CHR 0x92, CHR 0xD0, CHR 0xB5,
     CHR 0xD1, CHR 0x80, CHR 0xD0, CHR 0xBD, CHR 0xD1, CHR 0x83, CHR 0xD1, CHR 0x82, CHR 0xD1,
     CHR 0x8C, CHR 0xD1, CHR 0x81, CHR 0xD1, CHR 0x8F] @ '' '' @ [CHR 0xD0, CHR 0xBA] @ '' '' @
     [CHR 0xD1, CHR 0x84, CHR 0xD0, CHR 0xB0, CHR 0xD0, CHR 0xB7, CHR 0xD0, CHR 0xB5]"

definition msg_phase_prefix :: string where
  "msg_phase_prefix =
     [CHR 0xD0, CHR 0xA4, CHR 0xD0, CHR 0xB0, CHR 0xD0, CHR 0xB7, CHR 0xD0, CHR 0xB0] @ '': ''"

definition msg_choose_object :: string where
  "msg_choose_object =
     [CHR 0x0A, CHR 0xD0, CHR 0x92, CHR 0xD1, CHR 0x8B, CHR 0xD0, CHR 0xB1, CHR 0xD0, CHR 0xB5,
     CHR 0xD1, CHR 0x80, CHR 0xD0, CHR 0xB8, CHR 0xD1, CHR 0x82, CHR 0xD0, CHR 0xB5] @ '' '' @
     [CHR 0xD0, CHR 0xBE, CHR 0xD0, CHR 0xB1, CHR 0xD1, CHR 0x8A, CHR 0xD0, CHR 0xB5, CHR 0xD0,
     CHR 0xBA, CHR 0xD1, CHR 0x82] @ '' '' @ [CHR 0xD0, CHR 0xB8, CHR 0xD0, CHR 0xBB, CHR 0xD0,
     CHR 0xB8] @ '' '' @ [CHR 0xD0, CHR 0xB2, CHR 0xD0, CHR 0xB2, CHR 0xD0, CHR 0xB5, CHR 0xD0,
     CHR 0xB4, CHR 0xD0, CHR 0xB8, CHR 0xD1, CHR 0x82, CHR 0xD0, CHR 0xB5] @ '' '' @ [CHR 0xD1,
     CHR 0x81, CHR 0xD0, CHR 0xB2, CHR 0xD0, CHR 0xBE, CHR 0xD0, CHR 0xB9] @ '':''"

text \<open>The category step (lines 885-892, 901-908, 1940-1947): `Enter your own functional area of the risk', `Back to the object', `Object: ', and `Choose the functional area of the risk or enter your own', whose last word is \<open>svoyu\<close> at line 891 and \<open>svoy\<close> at lines 907 and 1946.\<close>

definition custom_category_label :: string where
  "custom_category_label =
     [CHR 0xF0, CHR 0x9F, CHR 0x93, CHR 0x9D] @ '' '' @ [CHR 0xD0, CHR 0x92, CHR 0xD0, CHR 0xB2,
     CHR 0xD0, CHR 0xB5, CHR 0xD1, CHR 0x81, CHR 0xD1, CHR 0x82, CHR 0xD0, CHR 0xB8] @ '' '' @
     [CHR 0xD1, CHR 0x81, CHR 0xD0, CHR 0xB2, CHR 0xD0, CHR 0xBE, CHR 0xD0, CHR 0xB5] @ '' '' @
     [CHR 0xD1, CHR 0x84, CHR 0xD1, CHR 0x83, CHR 0xD0, CHR 0xBD, CHR 0xD0, CHR 0xBA, CHR 0xD1,
     CHR 0x86, CHR 0xD0, CHR 0xB8, CHR 0xD0, CHR 0xBE, CHR 0xD0, CHR 0xBD, CHR 0xD0, CHR 0xB0,
     CHR 0xD0, CHR 0xBB, CHR 0xD1, CHR 0x8C, CHR 0xD0, CHR 0xBD, CHR 0xD0, CHR 0xBE, CHR 0xD0,
     CHR 0xB5] @ '' '' @ [CHR 0xD0, CHR 0xBD, CHR 0xD0, CHR 0xB0, CHR 0xD0, CHR 0xBF, CHR 0xD1,
     CHR 0x80, CHR 0xD0, CHR 0xB0, CHR 0xD0, CHR 0xB2, CHR 0xD0, CHR 0xBB, CHR 0xD0, CHR 0xB5,
     CHR 0xD0, CHR 0xBD, CHR 0xD0, CHR 0xB8, CHR 0xD0, CHR 0xB5] @ '' '' @ [CHR 0xD1, CHR 0x80,
     CHR 0xD0, CHR 0xB8, CHR 0xD1, CHR 0x81, CHR 0xD0, CHR 0xBA, CHR 0xD0, CHR 0xB0]"

definition back_to_object_label :: string where
  "back_to_object_label =
     [CHR 0xF0, CHR 0x9F, CHR 0x94, CHR 0x99] @ '' '' @ [CHR 0xD0, CHR 0x92, CHR 0xD0, CHR 0xB5,
     CHR 0xD1, CHR 0x80, CHR 0xD0, CHR 0xBD, CHR 0xD1, CHR 0x83, CHR 0xD1, CHR 0x82, CHR 0xD1,
     CHR 0x8C, CHR 0xD1, CHR 0x81, CHR 0xD1, CHR 0x8F] @ '' '' @ [CHR 0xD0, CHR 0xBA] @ '' '' @
     [CHR 0xD0, CHR 0xBE, CHR 0xD0, CHR 0xB1, CHR 0xD1, CHR 0x8A, CHR 0xD0, CHR 0xB5, CHR 0xD0,
     CHR 0xBA, CHR 0xD1, CHR 0x82, CHR 0xD1, CHR 0x83]"

definition msg_object_prefix :: string where
  "msg_object_prefix =
     [CHR 0xD0, CHR 0x9E, CHR 0xD0, CHR 0xB1, CHR 0xD1, CHR 0x8A, CHR 0xD0, CHR 0xB5, CHR 0xD0,
     CHR 0xBA, CHR 0xD1, CHR 0x82] @ '': ''"

definition msg_choose_category_typed :: string where
  "msg_choose_category_typed =
     [CHR 0x0A, CHR 0xD0, CHR 0x92, CHR 0xD1, CHR 0x8B, CHR 0xD0, CHR 0xB1, CHR 0xD0, CHR 0xB5,
     CHR 0xD1, CHR 0x80, CHR 0xD0, CHR 0xB8, CHR 0xD1, CHR 0x82, CHR 0xD0, CHR 0xB5] @ '' '' @
     [CHR 0xD1, CHR 0x84, CHR 0xD1, CHR 0x83, CHR 0xD0, CHR 0xBD, CHR 0xD0, CHR 0xBA, CHR 0xD1,
     CHR 0x86, CHR 0xD0, CHR 0xB8, CHR 0xD0, CHR 0xBE, CHR 0xD0, CHR 0xBD, CHR 0xD0, CHR 0xB0,
     CHR 0xD0, CHR 0xBB, CHR 0xD1, CHR 0x8C, CHR 0xD0, CHR 0xBD, CHR 0xD0, CHR 0xBE, CHR 0xD0,
     CHR 0xB5] @ '' '' @ [CHR 0xD0, CHR 0xBD, CHR 0xD0, CHR 0xB0, CHR 0xD0, CHR 0xBF, CHR 0xD1,
     CHR 0x80, CHR 0xD0, CHR 0xB0, CHR 0xD0, CHR 0xB2, CHR 0xD0, CHR 0xBB, CHR 0xD0, CHR 0xB5,
     CHR 0xD0, CHR 0xBD, CHR 0xD0, CHR 0xB8, CHR 0xD0, CHR 0xB5] @ '' '' @ [CHR 0xD1, CHR 0x80,
     CHR 0xD0, CHR 0xB8, CHR 0xD1, CHR 0x81, CHR 0xD0, CHR 0xBA, CHR 0xD0, CHR 0xB0] @ '' '' @
     [CHR 0xD0, CHR 0xB8, CHR 0xD0, CHR 0xBB, CHR 0xD0, CHR 0xB8] @ '' '' @ [CHR 0xD0, CHR 0xB2,
     CHR 0xD0, CHR 0xB2, CHR 0xD0, CHR 0xB5, CHR 0xD0, CHR 0xB4, CHR 0xD0, CHR 0xB8, CHR 0xD1,
     CHR 0x82, CHR 0xD0, CHR 0xB5] @ '' '' @ [CHR 0xD1, CHR 0x81, CHR 0xD0, CHR 0xB2, CHR 0xD0,
     CHR 0xBE, CHR 0xD1, CHR 0x8E] @ '':''"

definition msg_choose_category :: string where
  "msg_choose_category =
     [CHR 0x0A, CHR 0xD0, CHR 0x92, CHR 0xD1, CHR 0x8B, CHR 0xD0, CHR 0xB1, CHR 0xD0, CHR 0xB5,
     CHR 0xD1, CHR 0x80, CHR 0xD0, CHR 0xB8, CHR 0xD1, CHR 0x82, CHR 0xD0, CHR 0xB5] @ '' '' @
     [CHR 0xD1, CHR 0x84, CHR 0xD1, CHR 0x83, CHR 0xD0, CHR 0xBD, CHR 0xD0, CHR 0xBA, CHR 0xD1,
     CHR 0x86, CHR 0xD0, CHR 0xB8, CHR 0xD0, CHR 0xBE, CHR 0xD0, CHR 0xBD, CHR 0xD0, CHR 0xB0,
     CHR 0xD0, CHR 0xBB, CHR 0xD1, CHR 0x8C, CHR 0xD0, CHR 0xBD, CHR 0xD0, CHR 0xBE, CHR 0xD0,
     CHR 0xB5] @ '' '' @ [CHR 0xD0, CHR 0xBD, CHR 0xD0, CHR 0xB0, CHR 0xD0, CHR 0xBF, CHR 0xD1,
     CHR 0x80, CHR 0xD0, CHR 0xB0, CHR 0xD0, CHR 0xB2, CHR 0xD0, CHR 0xBB, CHR 0xD0, CHR 0xB5,
     CHR 0xD0, CHR 0xBD, CHR 0xD0, CHR 0xB8, CHR 0xD0, CHR 0xB5] @ '' '' @ [CHR 0xD1, CHR 0x80,
     CHR 0xD0, CHR 0xB8, CHR 0xD1, CHR 0x81, CHR 0xD0, CHR 0xBA, CHR 0xD0, CHR 0xB0] @ '' '' @
     [CHR 0xD0, CHR 0xB8, CHR 0xD0, CHR 0xBB, CHR 0xD0, CHR 0xB8] @ '' '' @ [CHR 0xD0, CHR 0xB2,
     CHR 0xD0, CHR 0xB2, CHR 0xD0, CHR 0xB5, CHR 0xD0, CHR 0xB4, CHR 0xD0, CHR 0xB8, CHR 0xD1,
     CHR 0x82, CHR 0xD0, CHR 0xB5] @ '' '' @ [CHR 0xD1, CHR 0x81, CHR 0xD0, CHR 0xB2, CHR 0xD0,
     CHR 0xBE, CHR 0xD0, CHR 0xB9] @ '':''"

text \<open>The description step (lines 929-933, 943-947, 1955-1959): `Category: ', `Describe the risk'.\<close>

definition msg_category_prefix :: string where
  "msg_category_prefix =
     [CHR 0xD0, CHR 0x9A, CHR 0xD0, CHR 0xB0, CHR 0xD1, CHR 0x82, CHR 0xD0, CHR 0xB5, CHR 0xD0,
     CHR 0xB3, CHR 0xD0, CHR 0xBE, CHR 0xD1, CHR 0x80, CHR 0xD0, CHR 0xB8, CHR 0xD1, CHR 0x8F] @
     '': ''"

definition msg_describe_risk :: string where
  "msg_describe_risk =
     [CHR 0x0A, CHR 0xD0, CHR 0x9E, CHR 0xD0, CHR 0xBF, CHR 0xD0, CHR 0xB8, CHR 0xD1, CHR 0x88,
     CHR 0xD0, CHR 0xB8, CHR 0xD1, CHR 0x82, CHR 0xD0, CHR 0xB5] @ '' '' @ [CHR 0xD1, CHR 0x80,
     CHR 0xD0, CHR 0xB8, CHR 0xD1, CHR 0x81, CHR 0xD0, CHR 0xBA] @ '':''"

text \<open>The schedule-impact step (lines 960-972 and 1970-1982): `Does not affect the schedule', `Estimate the schedule impact', `Request an estimate (two names)', `Back to the description'. The prompt `Schedule impact (estimate without mitigation, in days): choose an option' of line 970 ends its parenthesis with \<open>, v dnyakh\<close> (`, in days'); the prompt of line 1980 does not have these words.\<close>

definition no_schedule_impact_label :: string where
  "no_schedule_impact_label =
     [CHR 0xD0, CHR 0x9D, CHR 0xD0, CHR 0xB5] @ '' '' @ [CHR 0xD0, CHR 0xB2, CHR 0xD0, CHR 0xBB,
     CHR 0xD0, CHR 0xB8, CHR 0xD1, CHR 0x8F, CHR 0xD0, CHR 0xB5, CHR 0xD1, CHR 0x82] @ '' '' @
     [CHR 0xD0, CHR 0xBD, CHR 0xD0, CHR 0xB0] @ '' '' @ [CHR 0xD1, CHR 0x81, CHR 0xD1, CHR 0x80,
     CHR 0xD0, CHR 0xBE, CHR 0xD0, CHR 0xBA, CHR 0xD0, CHR 0xB8]"

definition evaluate_schedule_label :: string where
  "evaluate_schedule_label =
     [CHR 0xD0, CHR 0x9E, CHR 0xD1, CHR 0x86, CHR 0xD0, CHR 0xB5, CHR 0xD0, CHR 0xBD, CHR 0xD0,
     CHR 0xB8, CHR 0xD1, CHR 0x82, CHR 0xD1, CHR 0x8C] @ '' '' @ [CHR 0xD0, CHR 0xB2, CHR 0xD0,
     CHR 0xBB, CHR 0xD0, CHR 0xB8, CHR 0xD1, CHR 0x8F, CHR 0xD0, CHR 0xBD, CHR 0xD0, CHR 0xB8,
     CHR 0xD0, CHR 0xB5] @ '' '' @ [CHR 0xD0, CHR 0xBD, CHR 0xD0, CHR 0xB0] @ '' '' @ [CHR 0xD1,
     CHR 0x81, CHR 0xD1, CHR 0x80, CHR 0xD0, CHR 0xBE, CHR 0xD0, CHR 0xBA, CHR 0xD0, CHR 0xB8]"

definition request_schedule_label :: string where
  "request_schedule_label =
     [CHR 0xD0, CHR 0x97, CHR 0xD0, CHR 0xB0, CHR 0xD0, CHR 0xBF, CHR 0xD1, CHR 0x80, CHR 0xD0,
     CHR 0xBE, CHR 0xD1, CHR 0x81, CHR 0xD0, CHR 0xB8, CHR 0xD1, CHR 0x82, CHR 0xD1, CHR 0x8C] @
     '' '' @ [CHR 0xD0, CHR 0xBE, CHR 0xD1, CHR 0x86, CHR 0xD0, CHR 0xB5, CHR 0xD0, CHR 0xBD,
     CHR 0xD0, CHR 0xBA, CHR 0xD1, CHR 0x83] @ '' ('' @ [CHR 0xD0, CHR 0x9F, CHR 0xD0, CHR 0xBE,
     CHR 0xD0, CHR 0xB2, CHR 0xD0, CHR 0xB5, CHR 0xD1, CHR 0x89, CHR 0xD0, CHR 0xB5, CHR 0xD0,
     CHR 0xBD, CHR 0xD0, CHR 0xBA, CHR 0xD0, CHR 0xBE] @ '' '' @ [CHR 0xD0, CHR 0xA1] @ ''., '' @
     [CHR 0xD0, CHR 0x93, CHR 0xD0, CHR 0xB8, CHR 0xD1, CHR 0x80, CHR 0xD0, CHR 0xB5, CHR 0xD0,
     CHR 0xBD, CHR 0xD0, CHR 0xBA, CHR 0xD0, CHR 0xBE] @ '' '' @ [CHR 0xD0, CHR 0x92] @ ''.)''"

definition back_to_description_label :: string where
  "back_to_description_label =
     [CHR 0xF0, CHR 0x9F, CHR 0x94, CHR 0x99] @ '' '' @ [CHR 0xD0, CHR 0x92, CHR 0xD0, CHR 0xB5,
     CHR 0xD1, CHR 0x80, CHR 0xD0, CHR 0xBD, CHR 0xD1, CHR 0x83, CHR 0xD1, CHR 0x82, CHR 0xD1,
     CHR 0x8C, CHR 0xD1, CHR 0x81, CHR 0xD1, CHR 0x8F] @ '' '' @ [CHR 0xD0, CHR 0xBA] @ '' '' @
     [CHR 0xD0, CHR 0xBE, CHR 0xD0, CHR 0xBF, CHR 0xD0, CHR 0xB8, CHR 0xD1, CHR 0x81, CHR 0xD0,
     CHR 0xB0, CHR 0xD0, CHR 0xBD, CHR 0xD0, CHR 0xB8, CHR 0xD1, CHR 0x8E]"

definition msg_schedule_choice_days :: string where
  "msg_schedule_choice_days =
     [CHR 0xD0, CHR 0x92, CHR 0xD0, CHR 0xBB, CHR 0xD0, CHR 0xB8, CHR 0xD1, CHR 0x8F, CHR 0xD0,
     CHR 0xBD, CHR 0xD0, CHR 0xB8, CHR 0xD0, CHR 0xB5] @ '' '' @ [CHR 0xD0, CHR 0xBD, CHR 0xD0,
     CHR 0xB0] @ '' '' @ [CHR 0xD1, CHR 0x81, CHR 0xD1, CHR 0x80, CHR 0xD0, CHR 0xBE, CHR 0xD0,
     CHR 0xBA, CHR 0xD0, CHR 0xB8] @ '' ('' @ [CHR 0xD0, CHR 0xBE, CHR 0xD1, CHR 0x86, CHR 0xD0,
     CHR 0xB5, CHR 0xD0, CHR 0xBD, CHR 0xD0, CHR 0xBA, CHR 0xD0, CHR 0xB0] @ '' '' @ [CHR 0xD0,
     CHR 0xB1, CHR 0xD0, CHR 0xB5, CHR 0xD0, CHR 0xB7] @ '' '' @ [CHR 0xD0, CHR 0xBC, CHR 0xD0,
     CHR 0xB5, CHR 0xD1, CHR 0x80, CHR 0xD0, CHR 0xBE, CHR 0xD0, CHR 0xBF, CHR 0xD1, CHR 0x80,
     CHR 0xD0, CHR 0xB8, CHR 0xD1, CHR 0x8F, CHR 0xD1, CHR 0x82, CHR 0xD0, CHR 0xB8, CHR 0xD0,
     CHR 0xB9] @ '', '' @ [CHR 0xD0, CHR 0xB2] @ '' '' @ [CHR 0xD0, CHR 0xB4, CHR 0xD0, CHR 0xBD,
     CHR 0xD1, CHR 0x8F, CHR 0xD1, CHR 0x85] @ ''):'' @ [CHR 0x0A, CHR 0xD0, CHR 0x92, CHR 0xD1,
     CHR 0x8B, CHR 0xD0, CHR 0xB1, CHR 0xD0, CHR 0xB5, CHR 0xD1, CHR 0x80, CHR 0xD0, CHR 0xB8,
     CHR 0xD1, CHR 0x82, CHR 0xD0, CHR 0xB5] @ '' '' @ [CHR 0xD0, CHR 0xB2, CHR 0xD0, CHR 0xB0,
     CHR 0xD1, CHR 0x80, CHR 0xD0, CHR 0xB8, CHR 0xD0, CHR 0xB0, CHR 0xD0, CHR 0xBD, CHR 0xD1,
     CHR 0x82] @ '':''"

definition msg_schedule_choice :: string where
  "msg_schedule_choice =
     [CHR 0xD0, CHR 0x92, CHR 0xD0, CHR 0xBB, CHR 0xD0, CHR 0xB8, CHR 0xD1, CHR 0x8F, CHR 0xD0,
     CHR 0xBD, CHR 0xD0, CHR 0xB8, CHR 0xD0, CHR 0xB5] @ '' '' @ [CHR 0xD0, CHR 0xBD, CHR 0xD0,
     CHR 0xB0] @ '' '' @ [CHR 0xD1, CHR 0x81, CHR 0xD1, CHR 0x80, CHR 0xD0, CHR 0xBE, CHR 0xD0,
     CHR 0xBA, CHR 0xD0, CHR 0xB8] @ '' ('' @ [CHR 0xD0, CHR 0xBE, CHR 0xD1, CHR 0x86, CHR 0xD0,
     CHR 0xB5, CHR 0xD0, CHR 0xBD, CHR 0xD0, CHR 0xBA, CHR 0xD0, CHR 0xB0] @ '' '' @ [CHR 0xD0,
     CHR 0xB1, CHR 0xD0, CHR 0xB5, CHR 0xD0, CHR 0xB7] @ '' '' @ [CHR 0xD0, CHR 0xBC, CHR 0xD0,
     CHR 0xB5, CHR 0xD1, CHR 0x80, CHR 0xD0, CHR 0xBE, CHR 0xD0, CHR 0xBF, CHR 0xD1, CHR 0x80,
     CHR 0xD0, CHR 0xB8, CHR 0xD1, CHR 0x8F, CHR 0xD1, CHR 0x82, CHR 0xD0, CHR 0xB8, CHR 0xD0,
     CHR 0xB9] @ ''):'' @ [CHR 0x0A, CHR 0xD0, CHR 0x92, CHR 0xD1, CHR 0x8B, CHR 0xD0, CHR 0xB1,
     CHR 0xD0, CHR 0xB5, CHR 0xD1, CHR 0x80, CHR 0xD0, CHR 0xB8, CHR 0xD1, CHR 0x82, CHR 0xD0,
     CHR 0xB5] @ '' '' @ [CHR 0xD0, CHR 0xB2, CHR 0xD0, CHR 0xB0, CHR 0xD1, CHR 0x80, CHR 0xD0,
     CHR 0xB8, CHR 0xD0, CHR 0xB0, CHR 0xD0, CHR 0xBD, CHR 0xD1, CHR 0x82] @ '':''"

text \<open>The cost-impact step (lines 986-997, 1012-1023, 1064-1076 and 1992-2004): `Does not affect the cost', `Estimate the cost impact', `Request an estimate (two names)', `Back to the schedule'. The prompt of lines 995 and 1021 ends its parenthesis with `, in mln. rub.'; the prompt of lines 1074 and 2002 does not.\<close>

definition no_cost_impact_label :: string where
  "no_cost_impact_label =
     [CHR 0xD0, CHR 0x9D, CHR 0xD0, CHR 0xB5] @ '' '' @ [CHR 0xD0, CHR 0xB2, CHR 0xD0, CHR 0xBB,
     CHR 0xD0, CHR 0xB8, CHR 0xD1, CHR 0x8F, CHR 0xD0, CHR 0xB5, CHR 0xD1, CHR 0x82] @ '' '' @
     [CHR 0xD0, CHR 0xBD, CHR 0xD0, CHR 0xB0] @ '' '' @ [CHR 0xD1, CHR 0x81, CHR 0xD1, CHR 0x82,
     CHR 0xD0, CHR 0xBE, CHR 0xD0, CHR 0xB8, CHR 0xD0, CHR 0xBC, CHR 0xD0, CHR 0xBE, CHR 0xD1,
     CHR 0x81, CHR 0xD1, CHR 0x82, CHR 0xD1, CHR 0x8C]"

definition evaluate_cost_label :: string where
  "evaluate_cost_label =
     [CHR 0xD0, CHR 0x9E, CHR 0xD1, CHR 0x86, CHR 0xD0, CHR 0xB5, CHR 0xD0, CHR 0xBD, CHR 0xD0,
     CHR 0xB8, CHR 0xD1, CHR 0x82, CHR 0xD1, CHR 0x8C] @ '' '' @ [CHR 0xD0, CHR 0xB2, CHR 0xD0,
     CHR 0xBB, CHR 0xD0, CHR 0xB8, CHR 0xD1, CHR 0x8F, CHR 0xD0, CHR 0xBD, CHR 0xD0, CHR 0xB8,
     CHR 0xD0, CHR 0xB5] @ '' '' @ [CHR 0xD0, CHR 0xBD, CHR 0xD0, CHR 0xB0] @ '' '' @ [CHR 0xD1,
     CHR 0x81, CHR 0xD1, CHR 0x82, CHR 0xD0, CHR 0xBE, CHR 0xD0, CHR 0xB8, CHR 0xD0, CHR 0xBC,
     CHR 0xD0, CHR 0xBE, CHR 0xD1, CHR 0x81, CHR 0xD1, CHR 0x82, CHR 0xD1, CHR 0x8C]"

definition request_cost_label :: string where
  "request_cost_label =
     [CHR 0xD0, CHR 0x97, CHR 0xD0, CHR 0xB0, CHR 0xD0, CHR 0xBF, CHR 0xD1, CHR 0x80, CHR 0xD0,
     CHR 0xBE, CHR 0xD1, CHR 0x81, CHR 0xD0, CHR 0xB8, CHR 0xD1, CHR 0x82, CHR 0xD1, CHR 0x8C] @
     '' '' @ [CHR 0xD0, CHR 0xBE, CHR 0xD1, CHR 0x86, CHR 0xD0, CHR 0xB5, CHR 0xD0, CHR 0xBD,
     CHR 0xD0, CHR 0xBA, CHR 0xD1, CHR 0x83] @ '' ('' @ [CHR 0xD0, CHR 0x94, CHR 0xD0, CHR 0xB0,
     CHR 0xD0, CHR 0xB2, CHR 0xD1, CHR 0x8B, CHR 0xD0, CHR 0xB4, CHR 0xD0, CHR 0xBE, CHR 0xD0,
     CHR 0xB2, CHR 0xD0, CHR 0xB0] @ '' '' @ [CHR 0xD0, CHR 0x95] @ ''., '' @ [CHR 0xD0,
     CHR 0x91, CHR 0xD0, CHR 0xBE, CHR 0xD1, CHR 0x80, CHR 0xD0, CHR 0xB8, CHR 0xD1, CHR 0x81,
     CHR 0xD0, CHR 0xBE, CHR 0xD0, CHR 0xB2] @ '' '' @ [CHR 0xD0, CHR 0x90] @ ''.)''"

definition back_to_schedule_label :: string where
  "back_to_schedule_label =
     [CHR 0xF0, CHR 0x9F, CHR 0x94, CHR 0x99] @ '' '' @ [CHR 0xD0, CHR 0x92, CHR 0xD0, CHR 0xB5,
     CHR 0xD1, CHR 0x80, CHR 0xD0, CHR 0xBD, CHR 0xD1, CHR 0x83, CHR 0xD1, CHR 0x82, CHR 0xD1,
     CHR 0x8C, CHR 0xD1, CHR 0x81, CHR 0xD1, CHR 0x8F] @ '' '' @ [CHR 0xD0, CHR 0xBA] @ '' '' @
     [CHR 0xD1, CHR 0x81, CHR 0xD1, CHR 0x80, CHR 0xD0, CHR 0xBE, CHR 0xD0, CHR 0xBA, CHR 0xD0,
     CHR 0xB0, CHR 0xD0, CHR 0xBC]"

definition msg_cost_choice_mln :: string where
  "msg_cost_choice_mln =
     [CHR 0xD0, CHR 0x92, CHR 0xD0, CHR 0xBB, CHR 0xD0, CHR 0xB8, CHR 0xD1, CHR 0x8F, CHR 0xD0,
     CHR 0xBD, CHR 0xD0, CHR 0xB8, CHR 0xD0, CHR 0xB5] @ '' '' @ [CHR 0xD0, CHR 0xBD, CHR 0xD0,
     CHR 0xB0] @ '' '' @ [CHR 0xD1, CHR 0x81, CHR 0xD1, CHR 0x82, CHR 0xD0, CHR 0xBE, CHR 0xD0,
     CHR 0xB8, CHR 0xD0, CHR 0xBC, CHR 0xD0, CHR 0xBE, CHR 0xD1, CHR 0x81, CHR 0xD1, CHR 0x82,
     CHR 0xD1, CHR 0x8C] @ '' ('' @ [CHR 0xD0, CHR 0xBE, CHR 0xD1, CHR 0x86, CHR 0xD0, CHR 0xB5,
     CHR 0xD0, CHR 0xBD, CHR 0xD0, CHR 0xBA, CHR 0xD0, CHR 0xB0] @ '' '' @ [CHR 0xD0, CHR 0xB1,
     CHR 0xD0, CHR 0xB5, CHR 0xD0, CHR 0xB7] @ '' '' @ [CHR 0xD0, CHR 0xBC, CHR 0xD0, CHR 0xB5,
     CHR 0xD1, CHR 0x80, CHR 0xD0, CHR 0xBE, CHR 0xD0, CHR 0xBF, CHR 0xD1, CHR 0x80, CHR 0xD0,
     CHR 0xB8, CHR 0xD1, CHR 0x8F, CHR 0xD1, CHR 0x82, CHR 0xD0, CHR 0xB8, CHR 0xD0, CHR 0xB9] @
     '', '' @ [CHR 0xD0, CHR 0xB2] @ '' '' @ [CHR 0xD0, CHR 0xBC, CHR 0xD0, CHR 0xBB, CHR 0xD0,
     CHR 0xBD] @ ''.'' @ [CHR 0xD1, CHR 0x80, CHR 0xD1, CHR 0x83, CHR 0xD0, CHR 0xB1] @ ''.):'' @
     [CHR 0x0A, CHR 0xD0, CHR 0x92, CHR 0xD1, CHR 0x8B, CHR 0xD0, CHR 0xB1, CHR 0xD0, CHR 0xB5,
     CHR 0xD1, CHR 0x80, CHR 0xD0, CHR 0xB8, CHR 0xD1, CHR 0x82, CHR 0xD0, CHR 0xB5] @ '' '' @
     [CHR 0xD0, CHR 0xB2, CHR 0xD0, CHR 0xB0, CHR 0xD1, CHR 0x80, CHR 0xD0, CHR 0xB8, CHR 0xD0,
     CHR 0xB0, CHR 0xD0, CHR 0xBD, CHR 0xD1, CHR 0x82] @ '':''"

definition msg_cost_choice :: string where
  "msg_cost_choice =
     [CHR 0xD0, CHR 0x92, CHR 0xD0, CHR 0xBB, CHR 0xD0, CHR 0xB8, CHR 0xD1, CHR 0x8F, CHR 0xD0,
     CHR 0xBD, CHR 0xD0, CHR 0xB8, CHR 0xD0, CHR 0xB5] @ '' '' @ [CHR 0xD0, CHR 0xBD, CHR 0xD0,
     CHR 0xB0] @ '' '' @ [CHR 0xD1, CHR 0x81, CHR 0xD1, CHR 0x82, CHR 0xD0, CHR 0xBE, CHR 0xD0,
     CHR 0xB8, CHR 0xD0, CHR 0xBC, CHR 0xD0, CHR 0xBE, CHR 0xD1, CHR 0x81, CHR 0xD1, CHR 0x82,
     CHR 0xD1, CHR 0x8C] @ '' ('' @ [CHR 0xD0, CHR 0xBE, CHR 0xD1, CHR 0x86, CHR 0xD0, CHR 0xB5,
     CHR 0xD0, CHR 0xBD, CHR 0xD0, CHR 0xBA, CHR 0xD0, CHR 0xB0] @ '' '' @ [CHR 0xD0, CHR 0xB1,
     CHR 0xD0, CHR 0xB5, CHR 0xD0, CHR 0xB7] @ '' '' @ [CHR 0xD0, CHR 0xBC, CHR 0xD0, CHR 0xB5,
     CHR 0xD1, CHR 0x80, CHR 0xD0, CHR 0xBE, CHR 0xD0, CHR 0xBF, CHR 0xD1, CHR 0x80, CHR 0xD0,
     CHR 0xB8, CHR 0xD1, CHR 0x8F, CHR 0xD1, CHR 0x82, CHR 0xD0, CHR 0xB8, CHR 0xD0, CHR 0xB9] @
     ''):'' @ [CHR 0x0A, CHR 0xD0, CHR 0x92, CHR 0xD1, CHR 0x8B, CHR 0xD0, CHR 0xB1, CHR 0xD0,
     CHR 0xB5, CHR 0xD1, CHR 0x80, CHR 0xD0, CHR 0xB8, CHR 0xD1, CHR 0x82, CHR 0xD0, CHR 0xB5] @
     '' '' @ [CHR 0xD0, CHR 0xB2, CHR 0xD0, CHR 0xB0, CHR 0xD1, CHR 0x80, CHR 0xD0, CHR 0xB8,
     CHR 0xD0, CHR 0xB0, CHR 0xD0, CHR 0xBD, CHR 0xD1, CHR 0x82] @ '':''"

text \<open>The free-text entries of a triple: the prompts of lines 1034 and 1146 (`enter the minimum, most likely and maximum impact, separated by a space, a comma or a new line'), the ordering error of lines 1052-1053 (`Error: the values must be in ascending order (min <= likely <= max). Please enter the values again') and the second line of the format error, line 1080 (`Please enter three numbers, separated by ...').\<close>

definition msg_schedule_values_prompt :: string where
  "msg_schedule_values_prompt =
     [CHR 0xD0, CHR 0x92, CHR 0xD0, CHR 0xBB, CHR 0xD0, CHR 0xB8, CHR 0xD1, CHR 0x8F, CHR 0xD0,
     CHR 0xBD, CHR 0xD0, CHR 0xB8, CHR 0xD0, CHR 0xB5] @ '' '' @ [CHR 0xD0, CHR 0xBD, CHR 0xD0,
     CHR 0xB0] @ '' '' @ [CHR 0xD1, CHR 0x81, CHR 0xD1, CHR 0x80, CHR 0xD0, CHR 0xBE, CHR 0xD0,
     CHR 0xBA, CHR 0xD0, CHR 0xB8] @ '' ('' @ [CHR 0xD0, CHR 0xBE, CHR 0xD1, CHR 0x86, CHR 0xD0,
     CHR 0xB5, CHR 0xD0, CHR 0xBD, CHR 0xD0, CHR 0xBA, CHR 0xD0, CHR 0xB0] @ '' '' @ [CHR 0xD0,
     CHR 0xB1, CHR 0xD0, CHR 0xB5, CHR 0xD0, CHR 0xB7] @ '' '' @ [CHR 0xD0, CHR 0xBC, CHR 0xD0,
     CHR 0xB5, CHR 0xD1, CHR 0x80, CHR 0xD0, CHR 0xBE, CHR 0xD0, CHR 0xBF, CHR 0xD1, CHR 0x80,
     CHR 0xD0, CHR 0xB8, CHR 0xD1, CHR 0x8F, CHR 0xD1, CHR 0x82, CHR 0xD0, CHR 0xB8, CHR 0xD0,
     CHR 0xB9] @ ''):'' @ [CHR 0x0A, CHR 0xD0, CHR 0x92, CHR 0xD0, CHR 0xB2, CHR 0xD0, CHR 0xB5,
     CHR 0xD0, CHR 0xB4, CHR 0xD0, CHR 0xB8, CHR 0xD1, CHR 0x82, CHR 0xD0, CHR 0xB5] @ '' '' @
     [CHR 0xD0, CHR 0xBC, CHR 0xD0, CHR 0xB8, CHR 0xD0, CHR 0xBD, CHR 0xD0, CHR 0xB8, CHR 0xD0,
     CHR 0xBC, CHR 0xD0, CHR 0xB0, CHR 0xD0, CHR 0xBB, CHR 0xD1, CHR 0x8C, CHR 0xD0, CHR 0xBD,
     CHR 0xD0, CHR 0xBE, CHR 0xD0, CHR 0xB5] @ '', '' @ [CHR 0xD0, CHR 0xBD, CHR 0xD0, CHR 0xB0,
     CHR 0xD0, CHR 0xB8, CHR 0xD0, CHR 0xB1, CHR 0xD0, CHR 0xBE, CHR 0xD0, CHR 0xBB, CHR 0xD0,
     CHR 0xB5, CHR 0xD0, CHR 0xB5] @ '' '' @ [CHR 0xD0, CHR 0xB2, CHR 0xD0, CHR 0xB5, CHR 0xD1,
     CHR 0x80, CHR 0xD0, CHR 0xBE, CHR 0xD1, CHR 0x8F, CHR 0xD1, CHR 0x82, CHR 0xD0, CHR 0xBD,
     CHR 0xD0, CHR 0xBE, CHR 0xD0, CHR 0xB5] @ '' '' @ [CHR 0xD0, CHR 0xB8] @ '' '' @ [CHR 0xD0,
     CHR 0xBC, CHR 0xD0, CHR 0xB0, CHR 0xD0, CHR 0xBA, CHR 0xD1, CHR 0x81, CHR 0xD0, CHR 0xB8,
     CHR 0xD0, CHR 0xBC, CHR 0xD0, CHR 0xB0, CHR 0xD0, CHR 0xBB, CHR 0xD1, CHR 0x8C, CHR 0xD0,
     CHR 0xBD, CHR 0xD0, CHR 0xBE, CHR 0xD0, CHR 0xB5] @ '' '' @ [CHR 0xD0, CHR 0xB2, CHR 0xD0,
     CHR 0xBB, CHR 0xD0, CHR 0xB8, CHR 0xD1, CHR 0x8F, CHR 0xD0, CHR 0xBD, CHR 0xD0, CHR 0xB8,
     CHR 0xD0, CHR 0xB5] @ '' '' @ [CHR 0xD0, CHR 0xBD, CHR 0xD0, CHR 0xB0] @ '' '' @ [CHR 0xD1,
     CHR 0x81, CHR 0xD1, CHR 0x80, CHR 0xD0, CHR 0xBE, CHR 0xD0, CHR 0xBA, CHR 0xD0, CHR 0xB8] @
     '' ('' @ [CHR 0xD0, CHR 0xB2] @ '' '' @ [CHR 0xD0, CHR 0xB4, CHR 0xD0, CHR 0xBD, CHR 0xD1,
     CHR 0x8F, CHR 0xD1, CHR 0x85] @ ''), '' @ [CHR 0xD1, CHR 0x80, CHR 0xD0, CHR 0xB0, CHR 0xD0,
     CHR 0xB7, CHR 0xD0, CHR 0xB4, CHR 0xD0, CHR 0xB5, CHR 0xD0, CHR 0xBB, CHR 0xD0, CHR 0xB5,
     CHR 0xD0, CHR 0xBD, CHR 0xD0, CHR 0xBD, CHR 0xD1, CHR 0x8B, CHR 0xD0, CHR 0xB5] @ '' '' @
     [CHR 0xD0, CHR 0xBF, CHR 0xD1, CHR 0x80, CHR 0xD0, CHR 0xBE, CHR 0xD0, CHR 0xB1, CHR 0xD0,
     CHR 0xB5, CHR 0xD0, CHR 0xBB, CHR 0xD0, CHR 0xBE, CHR 0xD0, CHR 0xBC] @ '', '' @ [CHR 0xD0,
     CHR 0xB7, CHR 0xD0, CHR 0xB0, CHR 0xD0, CHR 0xBF, CHR 0xD1, CHR 0x8F, CHR 0xD1, CHR 0x82,
     CHR 0xD0, CHR 0xBE, CHR 0xD0, CHR 0xB9] @ '' '' @ [CHR 0xD0, CHR 0xB8, CHR 0xD0, CHR 0xBB,
     CHR 0xD0, CHR 0xB8] @ '' '' @ [CHR 0xD0, CHR 0xBD, CHR 0xD0, CHR 0xBE, CHR 0xD0, CHR 0xB2,
     CHR 0xD0, CHR 0xBE, CHR 0xD0, CHR 0xB9] @ '' '' @ [CHR 0xD1, CHR 0x81, CHR 0xD1, CHR 0x82,
     CHR 0xD1, CHR 0x80, CHR 0xD0, CHR 0xBE, CHR 0xD0, CHR 0xBA, CHR 0xD0, CHR 0xBE, CHR 0xD0,
     CHR 0xB9] @ '':''"

definition msg_cost_values_prompt :: string where
  "msg_cost_values_prompt =
     [CHR 0xD0, CHR 0x92, CHR 0xD0, CHR 0xBB, CHR 0xD0, CHR 0xB8, CHR 0xD1, CHR 0x8F, CHR 0xD0,
     CHR 0xBD, CHR 0xD0, CHR 0xB8, CHR 0xD0, CHR 0xB5] @ '' '' @ [CHR 0xD0, CHR 0xBD, CHR 0xD0,
     CHR 0xB0] @ '' '' @ [CHR 0xD1, CHR 0x81, CHR 0xD1, CHR 0x82, CHR 0xD0, CHR 0xBE, CHR 0xD0,
     CHR 0xB8, CHR 0xD0, CHR 0xBC, CHR 0xD0, CHR 0xBE, CHR 0xD1, CHR 0x81, CHR 0xD1, CHR 0x82,
     CHR 0xD1, CHR 0x8C] @ '' ('' @ [CHR 0xD0, CHR 0xBE, CHR 0xD1, CHR 0x86, CHR 0xD0, CHR 0xB5,
     CHR 0xD0, CHR 0xBD, CHR 0xD0, CHR 0xBA, CHR 0xD0, CHR 0xB0] @ '' '' @ [CHR 0xD0, CHR 0xB1,
     CHR 0xD0, CHR 0xB5, CHR 0xD0, CHR 0xB7] @ '' '' @ [CHR 0xD0, CHR 0xBC, CHR 0xD0, CHR 0xB5,
     CHR 0xD1, CHR 0x80, CHR 0xD0, CHR 0xBE, CHR 0xD0, CHR 0xBF, CHR 0xD1, CHR 0x80, CHR 0xD0,
     CHR 0xB8, CHR 0xD1, CHR 0x8F, CHR 0xD1, CHR 0x82, CHR 0xD0, CHR 0xB8, CHR 0xD0, CHR 0xB9] @
     ''):'' @ [CHR 0x0A, CHR 0xD0, CHR 0x92, CHR 0xD0, CHR 0xB2, CHR 0xD0, CHR 0xB5, CHR 0xD0,
     CHR 0xB4, CHR 0xD0, CHR 0xB8, CHR 0xD1, CHR 0x82, CHR 0xD0, CHR 0xB5] @ '' '' @ [CHR 0xD0,
     CHR 0xBC, CHR 0xD0, CHR 0xB8, CHR 0xD0, CHR 0xBD, CHR 0xD0, CHR 0xB8, CHR 0xD0, CHR 0xBC,
     CHR 0xD0, CHR 0xB0, CHR 0xD0, CHR 0xBB, CHR 0xD1, CHR 0x8C, CHR 0xD0, CHR 0xBD, CHR 0xD0,
     CHR 0xBE, CHR 0xD0, CHR 0xB5] @ '', '' @ [CHR 0xD0, CHR 0xBD, CHR 0xD0, CHR 0xB0, CHR 0xD0,
     CHR 0xB8, CHR 0xD0, CHR 0xB1, CHR 0xD0, CHR 0xBE, CHR 0xD0, CHR 0xBB, CHR 0xD0, CHR 0xB5,
     CHR 0xD0, CHR 0xB5] @ '' '' @ [CHR 0xD0, CHR 0xB2, CHR 0xD0, CHR 0xB5, CHR 0xD1, CHR 0x80,
     CHR 0xD0, CHR 0xBE, CHR 0xD1, CHR 0x8F, CHR 0xD1, CHR 0x82, CHR 0xD0, CHR 0xBD, CHR 0xD0,
     CHR 0xBE, CHR 0xD0, CHR 0xB5] @ '' '' @ [CHR 0xD0, CHR 0xB8] @ '' '' @ [CHR 0xD0, CHR 0xBC,
     CHR 0xD0, CHR 0xB0, CHR 0xD0, CHR 0xBA, CHR 0xD1, CHR 0x81, CHR 0xD0, CHR 0xB8, CHR 0xD0,
     CHR 0xBC, CHR 0xD0, CHR 0xB0, CHR 0xD0, CHR 0xBB, CHR 0xD1, CHR 0x8C, CHR 0xD0, CHR 0xBD,
     CHR 0xD0, CHR 0xBE, CHR 0xD0, CHR 0xB5] @ '' '' @ [CHR 0xD0, CHR 0xB2, CHR 0xD0, CHR 0xBB,
     CHR 0xD0, CHR 0xB8, CHR 0xD1, CHR 0x8F, CHR 0xD0, CHR 0xBD, CHR 0xD0, CHR 0xB8, CHR 0xD0,
     CHR 0xB5] @ '' '' @ [CHR 0xD0, CHR 0xBD, CHR 0xD0, CHR 0xB0] @ '' '' @ [CHR 0xD1, CHR 0x81,
     CHR 0xD1, CHR 0x82, CHR 0xD0, CHR 0xBE, CHR 0xD0, CHR 0xB8, CHR 0xD0, CHR 0xBC, CHR 0xD0,
     CHR 0xBE, CHR 0xD1, CHR 0x81, CHR 0xD1, CHR 0x82, CHR 0xD1, CHR 0x8C] @ '' ('' @ [CHR 0xD0,
     CHR 0xB2] @ '' '' @ [CHR 0xD0, CHR 0xBC, CHR 0xD0, CHR 0xBB, CHR 0xD0, CHR 0xBD] @ ''. '' @
     [CHR 0xD1, CHR 0x80, CHR 0xD1, CHR 0x83, CHR 0xD0, CHR 0xB1] @ ''.), '' @ [CHR 0xD1,
     CHR 0x80, CHR 0xD0, CHR 0xB0, CHR 0xD0, CHR 0xB7, CHR 0xD0, CHR 0xB4, CHR 0xD0, CHR 0xB5,
     CHR 0xD0, CHR 0xBB, CHR 0xD0, CHR 0xB5, CHR 0xD0, CHR 0xBD, CHR 0xD0, CHR 0xBD, CHR 0xD1,
     CHR 0x8B, CHR 0xD0, CHR 0xB5] @ '' '' @ [CHR 0xD0, CHR 0xBF, CHR 0xD1, CHR 0x80, CHR 0xD0,
     CHR 0xBE, CHR 0xD0, CHR 0xB1, CHR 0xD0, CHR 0xB5, CHR 0xD0, CHR 0xBB, CHR 0xD0, CHR 0xBE,
     CHR 0xD0, CHR 0xBC] @ '', '' @ [CHR 0xD0, CHR 0xB7, CHR 0xD0, CHR 0xB0, CHR 0xD0, CHR 0xBF,
     CHR 0xD1, CHR 0x8F, CHR 0xD1, CHR 0x82, CHR 0xD0, CHR 0xBE, CHR 0xD0, CHR 0xB9] @ '' '' @
     [CHR 0xD0, CHR 0xB8, CHR 0xD0, CHR 0xBB, CHR 0xD0, CHR 0xB8] @ '' '' @ [CHR 0xD0, CHR 0xBD,
     CHR 0xD0, CHR 0xBE, CHR 0xD0, CHR 0xB2, CHR 0xD0, CHR 0xBE, CHR 0xD0, CHR 0xB9] @ '' '' @
     [CHR 0xD1, CHR 0x81, CHR 0xD1, CHR 0x82, CHR 0xD1, CHR 0x80, CHR 0xD0, CHR 0xBE, CHR 0xD0,
     CHR 0xBA, CHR 0xD0, CHR 0xBE, CHR 0xD0, CHR 0xB9] @ '':''"

definition msg_order_error :: string where
  "msg_order_error =
     [CHR 0xD0, CHR 0x9E, CHR 0xD1, CHR 0x88, CHR 0xD0, CHR 0xB8, CHR 0xD0, CHR 0xB1, CHR 0xD0,
     CHR 0xBA, CHR 0xD0, CHR 0xB0] @ '': '' @ [CHR 0xD0, CHR 0x97, CHR 0xD0, CHR 0xBD, CHR 0xD0,
     CHR 0xB0, CHR 0xD1, CHR 0x87, CHR 0xD0, CHR 0xB5, CHR 0xD0, CHR 0xBD, CHR 0xD0, CHR 0xB8,
     CHR 0xD1, CHR 0x8F] @ '' '' @ [CHR 0xD0, CHR 0xB4, CHR 0xD0, CHR 0xBE, CHR 0xD0, CHR 0xBB,
     CHR 0xD0, CHR 0xB6, CHR 0xD0, CHR 0xBD, CHR 0xD1, CHR 0x8B] @ '' '' @ [CHR 0xD0, CHR 0xB1,
     CHR 0xD1, CHR 0x8B, CHR 0xD1, CHR 0x82, CHR 0xD1, CHR 0x8C] @ '' '' @ [CHR 0xD0, CHR 0xB2] @
     '' '' @ [CHR 0xD0, CHR 0xBF, CHR 0xD0, CHR 0xBE, CHR 0xD1, CHR 0x80, CHR 0xD1, CHR 0x8F,
     CHR 0xD0, CHR 0xB4, CHR 0xD0, CHR 0xBA, CHR 0xD0, CHR 0xB5] @ '' '' @ [CHR 0xD0, CHR 0xB2,
     CHR 0xD0, CHR 0xBE, CHR 0xD0, CHR 0xB7, CHR 0xD1, CHR 0x80, CHR 0xD0, CHR 0xB0, CHR 0xD1,
     CHR 0x81, CHR 0xD1, CHR 0x82, CHR 0xD0, CHR 0xB0, CHR 0xD0, CHR 0xBD, CHR 0xD0, CHR 0xB8,
     CHR 0xD1, CHR 0x8F] @ '' ('' @ [CHR 0xD0, CHR 0xBC, CHR 0xD0, CHR 0xB8, CHR 0xD0, CHR 0xBD]
     @ '' <= '' @ [CHR 0xD0, CHR 0xB2, CHR 0xD0, CHR 0xB5, CHR 0xD1, CHR 0x80, CHR 0xD0,
     CHR 0xBE, CHR 0xD1, CHR 0x8F, CHR 0xD1, CHR 0x82, CHR 0xD0, CHR 0xBD, CHR 0xD0, CHR 0xBE] @
     '' <= '' @ [CHR 0xD0, CHR 0xBC, CHR 0xD0, CHR 0xB0, CHR 0xD0, CHR 0xBA, CHR 0xD1, CHR 0x81]
     @ '').'' @ [CHR 0x0A, CHR 0xD0, CHR 0x9F, CHR 0xD0, CHR 0xBE, CHR 0xD0, CHR 0xB6, CHR 0xD0,
     CHR 0xB0, CHR 0xD0, CHR 0xBB, CHR 0xD1, CHR 0x83, CHR 0xD0, CHR 0xB9, CHR 0xD1, CHR 0x81,
     CHR 0xD1, CHR 0x82, CHR 0xD0, CHR 0xB0] @ '', '' @ [CHR 0xD0, CHR 0xB2, CHR 0xD0, CHR 0xB2,
     CHR 0xD0, CHR 0xB5, CHR 0xD0, CHR 0xB4, CHR 0xD0, CHR 0xB8, CHR 0xD1, CHR 0x82, CHR 0xD0,
     CHR 0xB5] @ '' '' @ [CHR 0xD0, CHR 0xB7, CHR 0xD0, CHR 0xBD, CHR 0xD0, CHR 0xB0, CHR 0xD1,
     CHR 0x87, CHR 0xD0, CHR 0xB5, CHR 0xD0, CHR 0xBD, CHR 0xD0, CHR 0xB8, CHR 0xD1, CHR 0x8F] @
     '' '' @ [CHR 0xD1, CHR 0x81, CHR 0xD0, CHR 0xBD, CHR 0xD0, CHR 0xBE, CHR 0xD0, CHR 0xB2,
     CHR 0xD0, CHR 0xB0] @ '':''"

definition msg_enter_three :: string where
  "msg_enter_three =
     [CHR 0x0A, CHR 0xD0, CHR 0x9F, CHR 0xD0, CHR 0xBE, CHR 0xD0, CHR 0xB6, CHR 0xD0, CHR 0xB0,
     CHR 0xD0, CHR 0xBB, CHR 0xD1, CHR 0x83, CHR 0xD0, CHR 0xB9, CHR 0xD1, CHR 0x81, CHR 0xD1,
     CHR 0x82, CHR 0xD0, CHR 0xB0] @ '', '' @ [CHR 0xD0, CHR 0xB2, CHR 0xD0, CHR 0xB2, CHR 0xD0,
     CHR 0xB5, CHR 0xD0, CHR 0xB4, CHR 0xD0, CHR 0xB8, CHR 0xD1, CHR 0x82, CHR 0xD0, CHR 0xB5] @
     '' '' @ [CHR 0xD1, CHR 0x82, CHR 0xD1, CHR 0x80, CHR 0xD0, CHR 0xB8] @ '' '' @ [CHR 0xD1,
     CHR 0x87, CHR 0xD0, CHR 0xB8, CHR 0xD1, CHR 0x81, CHR 0xD0, CHR 0xBB, CHR 0xD0, CHR 0xB0] @
     '', '' @ [CHR 0xD1, CHR 0x80, CHR 0xD0, CHR 0xB0, CHR 0xD0, CHR 0xB7, CHR 0xD0, CHR 0xB4,
     CHR 0xD0, CHR 0xB5, CHR 0xD0, CHR 0xBB, CHR 0xD0, CHR 0xB5, CHR 0xD0, CHR 0xBD, CHR 0xD0,
     CHR 0xBD, CHR 0xD1, CHR 0x8B, CHR 0xD0, CHR 0xB5] @ '' '' @ [CHR 0xD0, CHR 0xBF, CHR 0xD1,
     CHR 0x80, CHR 0xD0, CHR 0xBE, CHR 0xD0, CHR 0xB1, CHR 0xD0, CHR 0xB5, CHR 0xD0, CHR 0xBB,
     CHR 0xD0, CHR 0xBE, CHR 0xD0, CHR 0xBC] @ '', '' @ [CHR 0xD0, CHR 0xB7, CHR 0xD0, CHR 0xB0,
     CHR 0xD0, CHR 0xBF, CHR 0xD1, CHR 0x8F, CHR 0xD1, CHR 0x82, CHR 0xD0, CHR 0xBE, CHR 0xD0,
     CHR 0xB9] @ '' '' @ [CHR 0xD0, CHR 0xB8, CHR 0xD0, CHR 0xBB, CHR 0xD0, CHR 0xB8] @ '' '' @
     [CHR 0xD0, CHR 0xBD, CHR 0xD0, CHR 0xBE, CHR 0xD0, CHR 0xB2, CHR 0xD0, CHR 0xBE, CHR 0xD0,
     CHR 0xB9] @ '' '' @ [CHR 0xD1, CHR 0x81, CHR 0xD1, CHR 0x82, CHR 0xD1, CHR 0x80, CHR 0xD0,
     CHR 0xBE, CHR 0xD0, CHR 0xBA, CHR 0xD0, CHR 0xBE, CHR 0xD0, CHR 0xB9] @ '':''"

text \<open>The mitigation steps (lines 1267-1279, 2041-2053, 1292, 1306, 2061, 1321, 2072): `Add a mitigation and enter an estimate', `Fill in a mitigation without re-evaluation', `Back to the timeline', `Choose an action', `Enter the mitigation measure for the risk', `Expected result of the measure (describe in text)'.\<close>

definition with_evaluation_label :: string where
  "with_evaluation_label =
     [CHR 0xD0, CHR 0x94, CHR 0xD0, CHR 0xBE, CHR 0xD0, CHR 0xB1, CHR 0xD0, CHR 0xB0, CHR 0xD0,
     CHR 0xB2, CHR 0xD0, CHR 0xB8, CHR 0xD1, CHR 0x82, CHR 0xD1, CHR 0x8C] @ '' '' @ [CHR 0xD0,
     CHR 0xBC, CHR 0xD0, CHR 0xB5, CHR 0xD1, CHR 0x80, CHR 0xD0, CHR 0xBE, CHR 0xD0, CHR 0xBF,
     CHR 0xD1, CHR 0x80, CHR 0xD0, CHR 0xB8, CHR 0xD1, CHR 0x8F, CHR 0xD1, CHR 0x82, CHR 0xD0,
     CHR 0xB8, CHR 0xD0, CHR 0xB5] @ '' '' @ [CHR 0xD0, CHR 0xBF, CHR 0xD0, CHR 0xBE] @ '' '' @
     [CHR 0xD0, CHR 0xBC, CHR 0xD0, CHR 0xB8, CHR 0xD1, CHR 0x82, CHR 0xD0, CHR 0xB8, CHR 0xD0,
     CHR 0xB3, CHR 0xD0, CHR 0xB0, CHR 0xD1, CHR 0x86, CHR 0xD0, CHR 0xB8, CHR 0xD0, CHR 0xB8] @
     '' '' @ [CHR 0xD0, CHR 0xB8] @ '' '' @ [CHR 0xD0, CHR 0xB2, CHR 0xD0, CHR 0xBD, CHR 0xD0,
     CHR 0xB5, CHR 0xD1, CHR 0x81, CHR 0xD1, CHR 0x82, CHR 0xD0, CHR 0xB8] @ '' '' @ [CHR 0xD0,
     CHR 0xBE, CHR 0xD1, CHR 0x86, CHR 0xD0, CHR 0xB5, CHR 0xD0, CHR 0xBD, CHR 0xD0, CHR 0xBA,
     CHR 0xD1, CHR 0x83]"

definition without_evaluation_label :: string where
  "without_evaluation_label =
     [CHR 0xD0, CHR 0x97, CHR 0xD0, CHR 0xB0, CHR 0xD0, CHR 0xBF, CHR 0xD0, CHR 0xBE, CHR 0xD0,
     CHR 0xBB, CHR 0xD0, CHR 0xBD, CHR 0xD0, CHR 0xB8, CHR 0xD1, CHR 0x82, CHR 0xD1, CHR 0x8C] @
     '' '' @ [CHR 0xD0, CHR 0xBC, CHR 0xD0, CHR 0xB5, CHR 0xD1, CHR 0x80, CHR 0xD0, CHR 0xBE,
     CHR 0xD0, CHR 0xBF, CHR 0xD1, CHR 0x80, CHR 0xD0, CHR 0xB8, CHR 0xD1, CHR 0x8F, CHR 0xD1,
     CHR 0x82, CHR 0xD0, CHR 0xB8, CHR 0xD0, CHR 0xB5] @ '' '' @ [CHR 0xD0, CHR 0xBF, CHR 0xD0,
     CHR 0xBE] @ '' '' @ [CHR 0xD0, CHR 0xBC, CHR 0xD0, CHR 0xB8, CHR 0xD1, CHR 0x82, CHR 0xD0,
     CHR 0xB8, CHR 0xD0, CHR 0xB3, CHR 0xD0, CHR 0xB0, CHR 0xD1, CHR 0x86, CHR 0xD0, CHR 0xB8,
     CHR 0xD0, CHR 0xB8] @ '' '' @ [CHR 0xD0, CHR 0xB1, CHR 0xD0, CHR 0xB5, CHR 0xD0, CHR 0xB7] @
     '' '' @ [CHR 0xD0, CHR 0xBF, CHR 0xD0, CHR 0xB5, CHR 0xD1, CHR 0x80, CHR 0xD0, CHR 0xB5,
     CHR 0xD0, CHR 0xBE, CHR 0xD1, CHR 0x86, CHR 0xD0, CHR 0xB5, CHR 0xD0, CHR 0xBD, CHR 0xD0,
     CHR 0xBA, CHR 0xD0, CHR 0xB8]"

definition back_to_timeline_label :: string where
  "back_to_timeline_label =
     [CHR 0xF0, CHR 0x9F, CHR 0x94, CHR 0x99] @ '' '' @ [CHR 0xD0, CHR 0x92, CHR 0xD0, CHR 0xB5,
     CHR 0xD1, CHR 0x80, CHR 0xD0, CHR 0xBD, CHR 0xD1, CHR 0x83, CHR 0xD1, CHR 0x82, CHR 0xD1,
     CHR 0x8C, CHR 0xD1, CHR 0x81, CHR 0xD1, CHR 0x8F] @ '' '' @ [CHR 0xD0, CHR 0xBA] @ '' '' @
     [CHR 0xD1, CHR 0x81, CHR 0xD1, CHR 0x80, CHR 0xD0, CHR 0xBE, CHR 0xD0, CHR 0xBA, CHR 0xD1,
     CHR 0x83]"

definition msg_choose_action :: string where
  "msg_choose_action =
     [CHR 0xD0, CHR 0x92, CHR 0xD1, CHR 0x8B, CHR 0xD0, CHR 0xB1, CHR 0xD0, CHR 0xB5, CHR 0xD1,
     CHR 0x80, CHR 0xD0, CHR 0xB8, CHR 0xD1, CHR 0x82, CHR 0xD0, CHR 0xB5] @ '' '' @ [CHR 0xD0,
     CHR 0xB4, CHR 0xD0, CHR 0xB5, CHR 0xD0, CHR 0xB9, CHR 0xD1, CHR 0x81, CHR 0xD1, CHR 0x82,
     CHR 0xD0, CHR 0xB2, CHR 0xD0, CHR 0xB8, CHR 0xD0, CHR 0xB5] @ '':''"

definition msg_mitigation_prompt :: string where
  "msg_mitigation_prompt =
     [CHR 0xD0, CHR 0x92, CHR 0xD0, CHR 0xB2, CHR 0xD0, CHR 0xB5, CHR 0xD0, CHR 0xB4, CHR 0xD0,
     CHR 0xB8, CHR 0xD1, CHR 0x82, CHR 0xD0, CHR 0xB5] @ '' '' @ [CHR 0xD0, CHR 0xBC, CHR 0xD0,
     CHR 0xB5, CHR 0xD1, CHR 0x80, CHR 0xD0, CHR 0xBE, CHR 0xD0, CHR 0xBF, CHR 0xD1, CHR 0x80,
     CHR 0xD0, CHR 0xB8, CHR 0xD1, CHR 0x8F, CHR 0xD1, CHR 0x82, CHR 0xD0, CHR 0xB8, CHR 0xD0,
     CHR 0xB5] @ '' '' @ [CHR 0xD0, CHR 0xBF, CHR 0xD0, CHR 0xBE] @ '' '' @ [CHR 0xD0, CHR 0xBC,
     CHR 0xD0, CHR 0xB8, CHR 0xD1, CHR 0x82, CHR 0xD0, CHR 0xB8, CHR 0xD0, CHR 0xB3, CHR 0xD0,
     CHR 0xB0, CHR 0xD1, CHR 0x86, CHR 0xD0, CHR 0xB8, CHR 0xD0, CHR 0xB8] @ '' '' @ [CHR 0xD1,
     CHR 0x80, CHR 0xD0, CHR 0xB8, CHR 0xD1, CHR 0x81, CHR 0xD0, CHR 0xBA, CHR 0xD0, CHR 0xB0] @
     '':''"

definition msg_expected_prompt :: string where
  "msg_expected_prompt =
     [CHR 0xD0, CHR 0x9E, CHR 0xD0, CHR 0xB6, CHR 0xD0, CHR 0xB8, CHR 0xD0, CHR 0xB4, CHR 0xD0,
     CHR 0xB0, CHR 0xD0, CHR 0xB5, CHR 0xD0, CHR 0xBC, CHR 0xD1, CHR 0x8B, CHR 0xD0, CHR 0xB9] @
     '' '' @ [CHR 0xD1, CHR 0x80, CHR 0xD0, CHR 0xB5, CHR 0xD0, CHR 0xB7, CHR 0xD1, CHR 0x83,
     CHR 0xD0, CHR 0xBB, CHR 0xD1, CHR 0x8C, CHR 0xD1, CHR 0x82, CHR 0xD0, CHR 0xB0, CHR 0xD1,
     CHR 0x82] @ '' '' @ [CHR 0xD0, CHR 0xBE, CHR 0xD1, CHR 0x82] @ '' '' @ [CHR 0xD0, CHR 0xBC,
     CHR 0xD0, CHR 0xB5, CHR 0xD1, CHR 0x80, CHR 0xD0, CHR 0xBE, CHR 0xD0, CHR 0xBF, CHR 0xD1,
     CHR 0x80, CHR 0xD0, CHR 0xB8, CHR 0xD1, CHR 0x8F, CHR 0xD1, CHR 0x82, CHR 0xD0, CHR 0xB8,
     CHR 0xD1, CHR 0x8F] @ '' ('' @ [CHR 0xD0, CHR 0xBE, CHR 0xD0, CHR 0xBF, CHR 0xD0, CHR 0xB8,
     CHR 0xD1, CHR 0x88, CHR 0xD0, CHR 0xB8, CHR 0xD1, CHR 0x82, CHR 0xD0, CHR 0xB5] @ '' '' @
     [CHR 0xD1, CHR 0x82, CHR 0xD0, CHR 0xB5, CHR 0xD0, CHR 0xBA, CHR 0xD1, CHR 0x81, CHR 0xD1,
     CHR 0x82, CHR 0xD0, CHR 0xBE, CHR 0xD0, CHR 0xBC] @ ''):''"

text \<open>The second pass (lines 1338-1350, 2085-2097, 1369-1381, 1396-1408, 1448-1460, 2107-2119, 1480-1492, 1507-1519, 1559-1571, 2126-2138): `Back to the choice'; the schedule prompt `(estimate with mitigation, in days)' of line 1348 and the one without `, in days' of line 2095; the cost prompt; the probability prompt `... after the mitigation ...'; and the prompts of the free-text entries (lines 1419, 1530, 1585).\<close>

definition back_to_choice_label :: string where
  "back_to_choice_label =
     [CHR 0xF0, CHR 0x9F, CHR 0x94, CHR 0x99] @ '' '' @ [CHR 0xD0, CHR 0x92, CHR 0xD0, CHR 0xB5,
     CHR 0xD1, CHR 0x80, CHR 0xD0, CHR 0xBD, CHR 0xD1, CHR 0x83, CHR 0xD1, CHR 0x82, CHR 0xD1,
     CHR 0x8C, CHR 0xD1, CHR 0x81, CHR 0xD1, CHR 0x8F] @ '' '' @ [CHR 0xD0, CHR 0xBA] @ '' '' @
     [CHR 0xD0, CHR 0xB2, CHR 0xD1, CHR 0x8B, CHR 0xD0, CHR 0xB1, CHR 0xD0, CHR 0xBE, CHR 0xD1,
     CHR 0x80, CHR 0xD1, CHR 0x83]"

definition msg_schedule_re_choice_days :: string where
  "msg_schedule_re_choice_days =
     [CHR 0xD0, CHR 0x92, CHR 0xD0, CHR 0xBB, CHR 0xD0, CHR 0xB8, CHR 0xD1, CHR 0x8F, CHR 0xD0,
     CHR 0xBD, CHR 0xD0, CHR 0xB8, CHR 0xD0, CHR 0xB5] @ '' '' @ [CHR 0xD0, CHR 0xBD, CHR 0xD0,
     CHR 0xB0] @ '' '' @ [CHR 0xD1, CHR 0x81, CHR 0xD1, CHR 0x80, CHR 0xD0, CHR 0xBE, CHR 0xD0,
     CHR 0xBA, CHR 0xD0, CHR 0xB8] @ '' ('' @ [CHR 0xD0, CHR 0xBE, CHR 0xD1, CHR 0x86, CHR 0xD0,
     CHR 0xB5, CHR 0xD0, CHR 0xBD, CHR 0xD0, CHR 0xBA, CHR 0xD0, CHR 0xB0] @ '' '' @ [CHR 0xD1,
     CHR 0x81] @ '' '' @ [CHR 0xD0, CHR 0xBC, CHR 0xD0, CHR 0xB5, CHR 0xD1, CHR 0x80, CHR 0xD0,
     CHR 0xBE, CHR 0xD0, CHR 0xBF, CHR 0xD1, CHR 0x80, CHR 0xD0, CHR 0xB8, CHR 0xD1, CHR 0x8F,
     CHR 0xD1, CHR 0x82, CHR 0xD0, CHR 0xB8, CHR 0xD1, CHR 0x8F, CHR 0xD0, CHR 0xBC, CHR 0xD0,
     CHR 0xB8] @ '', '' @ [CHR 0xD0, CHR 0xB2] @ '' '' @ [CHR 0xD0, CHR 0xB4, CHR 0xD0, CHR 0xBD,
     CHR 0xD1, CHR 0x8F, CHR 0xD1, CHR 0x85] @ ''):'' @ [CHR 0x0A, CHR 0xD0, CHR 0x92, CHR 0xD1,
     CHR 0x8B, CHR 0xD0, CHR 0xB1, CHR 0xD0, CHR 0xB5, CHR 0xD1, CHR 0x80, CHR 0xD0, CHR 0xB8,
     CHR 0xD1, CHR 0x82, CHR 0xD0, CHR 0xB5] @ '' '' @ [CHR 0xD0, CHR 0xB2, CHR 0xD0, CHR 0xB0,
     CHR 0xD1, CHR 0x80, CHR 0xD0, CHR 0xB8, CHR 0xD0, CHR 0xB0, CHR 0xD0, CHR 0xBD, CHR 0xD1,
     CHR 0x82] @ '':''"

definition msg_schedule_re_choice :: string where
  "msg_schedule_re_choice =
     [CHR 0xD0, CHR 0x92, CHR 0xD0, CHR 0xBB, CHR 0xD0, CHR 0xB8, CHR 0xD1, CHR 0x8F, CHR 0xD0,
     CHR 0xBD, CHR 0xD0, CHR 0xB8, CHR 0xD0, CHR 0xB5] @ '' '' @ [CHR 0xD0, CHR 0xBD, CHR 0xD0,
     CHR 0xB0] @ '' '' @ [CHR 0xD1, CHR 0x81, CHR 0xD1, CHR 0x80, CHR 0xD0, CHR 0xBE, CHR 0xD0,
     CHR 0xBA, CHR 0xD0, CHR 0xB8] @ '' ('' @ [CHR 0xD0, CHR 0xBE, CHR 0xD1, CHR 0x86, CHR 0xD0,
     CHR 0xB5, CHR 0xD0, CHR 0xBD, CHR 0xD0, CHR 0xBA, CHR 0xD0, CHR 0xB0] @ '' '' @ [CHR 0xD1,
     CHR 0x81] @ '' '' @ [CHR 0xD0, CHR 0xBC, CHR 0xD0, CHR 0xB5, CHR 0xD1, CHR 0x80, CHR 0xD0,
     CHR 0xBE, CHR 0xD0, CHR 0xBF, CHR 0xD1, CHR 0x80, CHR 0xD0, CHR 0xB8, CHR 0xD1, CHR 0x8F,
     CHR 0xD1, CHR 0x82, CHR 0xD0, CHR 0xB8, CHR 0xD1, CHR 0x8F, CHR 0xD0, CHR 0xBC, CHR 0xD0,
     CHR 0xB8] @ ''):'' @ [CHR 0x0A, CHR 0xD0, CHR 0x92, CHR 0xD1, CHR 0x8B, CHR 0xD0, CHR 0xB1,
     CHR 0xD0, CHR 0xB5, CHR 0xD1, CHR 0x80, CHR 0xD0, CHR 0xB8, CHR 0xD1, CHR 0x82, CHR 0xD0,
     CHR 0xB5] @ '' '' @ [CHR 0xD0, CHR 0xB2, CHR 0xD0, CHR 0xB0, CHR 0xD1, CHR 0x80, CHR 0xD0,
     CHR 0xB8, CHR 0xD0, CHR 0xB0, CHR 0xD0, CHR 0xBD, CHR 0xD1, CHR 0x82] @ '':''"

definition msg_cost_re_choice :: string where
  "msg_cost_re_choice =
     [CHR 0xD0, CHR 0x92, CHR 0xD0, CHR 0xBB, CHR 0xD0, CHR 0xB8, CHR 0xD1, CHR 0x8F, CHR 0xD0,
     CHR 0xBD, CHR 0xD0, CHR 0xB8, CHR 0xD0, CHR 0xB5] @ '' '' @ [CHR 0xD0, CHR 0xBD, CHR 0xD0,
     CHR 0xB0] @ '' '' @ [CHR 0xD1, CHR 0x81, CHR 0xD1, CHR 0x82, CHR 0xD0, CHR 0xBE, CHR 0xD0,
     CHR 0xB8, CHR 0xD0, CHR 0xBC, CHR 0xD0, CHR 0xBE, CHR 0xD1, CHR 0x81, CHR 0xD1, CHR 0x82,
     CHR 0xD1, CHR 0x8C] @ '' ('' @ [CHR 0xD0, CHR 0xBE, CHR 0xD1, CHR 0x86, CHR 0xD0, CHR 0xB5,
     CHR 0xD0, CHR 0xBD, CHR 0xD0, CHR 0xBA, CHR 0xD0, CHR 0xB0] @ '' '' @ [CHR 0xD1, CHR 0x81] @
     '' '' @ [CHR 0xD0, CHR 0xBC, CHR 0xD0, CHR 0xB5, CHR 0xD1, CHR 0x80, CHR 0xD0, CHR 0xBE,
     CHR 0xD0, CHR 0xBF, CHR 0xD1, CHR 0x80, CHR 0xD0, CHR 0xB8, CHR 0xD1, CHR 0x8F, CHR 0xD1,
     CHR 0x82, CHR 0xD0, CHR 0xB8, CHR 0xD1, CHR 0x8F, CHR 0xD0, CHR 0xBC, CHR 0xD0, CHR 0xB8] @
     ''):'' @ [CHR 0x0A, CHR 0xD0, CHR 0x92, CHR 0xD1, CHR 0x8B, CHR 0xD0, CHR 0xB1, CHR 0xD0,
     CHR 0xB5, CHR 0xD1, CHR 0x80, CHR 0xD0, CHR 0xB8, CHR 0xD1, CHR 0x82, CHR 0xD0, CHR 0xB5] @
     '' '' @ [CHR 0xD0, CHR 0xB2, CHR 0xD0, CHR 0xB0, CHR 0xD1, CHR 0x80, CHR 0xD0, CHR 0xB8,
     CHR 0xD0, CHR 0xB0, CHR 0xD0, CHR 0xBD, CHR 0xD1, CHR 0x82] @ '':''"

definition msg_probability_re_prompt :: string where
  "msg_probability_re_prompt =
     [CHR 0xD0, CHR 0x9E, CHR 0xD1, CHR 0x86, CHR 0xD0, CHR 0xB5, CHR 0xD0, CHR 0xBD, CHR 0xD0,
     CHR 0xB8, CHR 0xD1, CHR 0x82, CHR 0xD0, CHR 0xB5] @ '' '' @ [CHR 0xD0, CHR 0xB2, CHR 0xD0,
     CHR 0xB5, CHR 0xD1, CHR 0x80, CHR 0xD0, CHR 0xBE, CHR 0xD1, CHR 0x8F, CHR 0xD1, CHR 0x82,
     CHR 0xD0, CHR 0xBD, CHR 0xD0, CHR 0xBE, CHR 0xD1, CHR 0x81, CHR 0xD1, CHR 0x82, CHR 0xD1,
     CHR 0x8C] @ '' '' @ [CHR 0xD0, CHR 0xB2, CHR 0xD0, CHR 0xBE, CHR 0xD0, CHR 0xB7, CHR 0xD0,
     CHR 0xBD, CHR 0xD0, CHR 0xB8, CHR 0xD0, CHR 0xBA, CHR 0xD0, CHR 0xBD, CHR 0xD0, CHR 0xBE,
     CHR 0xD0, CHR 0xB2, CHR 0xD0, CHR 0xB5, CHR 0xD0, CHR 0xBD, CHR 0xD0, CHR 0xB8, CHR 0xD1,
     CHR 0x8F] @ '' '' @ [CHR 0xD1, CHR 0x80, CHR 0xD0, CHR 0xB8, CHR 0xD1, CHR 0x81, CHR 0xD0,
     CHR 0xBA, CHR 0xD0, CHR 0xB0] @ '' '' @ [CHR 0xD0, CHR 0xBF, CHR 0xD0, CHR 0xBE, CHR 0xD1,
     CHR 0x81, CHR 0xD0, CHR 0xBB, CHR 0xD0, CHR 0xB5] @ '' '' @ [CHR 0xD0, CHR 0xBC, CHR 0xD0,
     CHR 0xB5, CHR 0xD1, CHR 0x80, CHR 0xD0, CHR 0xBE, CHR 0xD0, CHR 0xBF, CHR 0xD1, CHR 0x80,
     CHR 0xD0, CHR 0xB8, CHR 0xD1, CHR 0x8F, CHR 0xD1, CHR 0x82, CHR 0xD0, CHR 0xB8, CHR 0xD0,
     CHR 0xB9] @ '' '' @ [CHR 0xD0, CHR 0xB8, CHR 0xD0, CHR 0xBB, CHR 0xD0, CHR 0xB8] @ '' '' @
     [CHR 0xD0, CHR 0xB2, CHR 0xD0, CHR 0xB2, CHR 0xD0, CHR 0xB5, CHR 0xD0, CHR 0xB4, CHR 0xD0,
     CHR 0xB8, CHR 0xD1, CHR 0x82, CHR 0xD0, CHR 0xB5] @ '' '' @ [CHR 0xD1, CHR 0x81, CHR 0xD0,
     CHR 0xB2, CHR 0xD0, CHR 0xBE, CHR 0xD1, CHR 0x8E] @ '':''"

definition msg_schedule_values_re_prompt :: string where
  "msg_schedule_values_re_prompt =
     [CHR 0xD0, CHR 0x92, CHR 0xD0, CHR 0xBB, CHR 0xD0, CHR 0xB8, CHR 0xD1, CHR 0x8F, CHR 0xD0,
     CHR 0xBD, CHR 0xD0, CHR 0xB8, CHR 0xD0, CHR 0xB5] @ '' '' @ [CHR 0xD0, CHR 0xBD, CHR 0xD0,
     CHR 0xB0] @ '' '' @ [CHR 0xD1, CHR 0x81, CHR 0xD1, CHR 0x80, CHR 0xD0, CHR 0xBE, CHR 0xD0,
     CHR 0xBA, CHR 0xD0, CHR 0xB8] @ '' ('' @ [CHR 0xD0, CHR 0xBE, CHR 0xD1, CHR 0x86, CHR 0xD0,
     CHR 0xB5, CHR 0xD0, CHR 0xBD, CHR 0xD0, CHR 0xBA, CHR 0xD0, CHR 0xB0] @ '' '' @ [CHR 0xD1,
     CHR 0x81] @ '' '' @ [CHR 0xD0, CHR 0xBC, CHR 0xD0, CHR 0xB5, CHR 0xD1, CHR 0x80, CHR 0xD0,
     CHR 0xBE, CHR 0xD0, CHR 0xBF, CHR 0xD1, CHR 0x80, CHR 0xD0, CHR 0xB8, CHR 0xD1, CHR 0x8F,
     CHR 0xD1, CHR 0x82, CHR 0xD0, CHR 0xB8, CHR 0xD1, CHR 0x8F, CHR 0xD0, CHR 0xBC, CHR 0xD0,
     CHR 0xB8] @ ''):'' @ [CHR 0x0A, CHR 0xD0, CHR 0x92, CHR 0xD0, CHR 0xB2, CHR 0xD0, CHR 0xB5,
     CHR 0xD0, CHR 0xB4, CHR 0xD0, CHR 0xB8, CHR 0xD1, CHR 0x82, CHR 0xD0, CHR 0xB5] @ '' '' @
     [CHR 0xD0, CHR 0xBC, CHR 0xD0, CHR 0xB8, CHR 0xD0, CHR 0xBD, CHR 0xD0, CHR 0xB8, CHR 0xD0,
     CHR 0xBC, CHR 0xD0, CHR 0xB0, CHR 0xD0, CHR 0xBB, CHR 0xD1, CHR 0x8C, CHR 0xD0, CHR 0xBD,
     CHR 0xD0, CHR 0xBE, CHR 0xD0, CHR 0xB5] @ '', '' @ [CHR 0xD0, CHR 0xBD, CHR 0xD0, CHR 0xB0,
     CHR 0xD0, CHR 0xB8, CHR 0xD0, CHR 0xB1, CHR 0xD0, CHR 0xBE, CHR 0xD0, CHR 0xBB, CHR 0xD0,
     CHR 0xB5, CHR 0xD0, CHR 0xB5] @ '' '' @ [CHR 0xD0, CHR 0xB2, CHR 0xD0, CHR 0xB5, CHR 0xD1,
     CHR 0x80, CHR 0xD0, CHR 0xBE, CHR 0xD1, CHR 0x8F, CHR 0xD1, CHR 0x82, CHR 0xD0, CHR 0xBD,
     CHR 0xD0, CHR 0xBE, CHR 0xD0, CHR 0xB5] @ '' '' @ [CHR 0xD0, CHR 0xB8] @ '' '' @ [CHR 0xD0,
     CHR 0xBC, CHR 0xD0, CHR 0xB0, CHR 0xD0, CHR 0xBA, CHR 0xD1, CHR 0x81, CHR 0xD0, CHR 0xB8,
     CHR 0xD0, CHR 0xBC, CHR 0xD0, CHR 0xB0, CHR 0xD0, CHR 0xBB, CHR 0xD1, CHR 0x8C, CHR 0xD0,
     CHR 0xBD, CHR 0xD0, CHR 0xBE, CHR 0xD0, CHR 0xB5] @ '' '' @ [CHR 0xD0, CHR 0xB2, CHR 0xD0,
     CHR 0xBB, CHR 0xD0, CHR 0xB8, CHR 0xD1, CHR 0x8F, CHR 0xD0, CHR 0xBD, CHR 0xD0, CHR 0xB8,
     CHR 0xD0, CHR 0xB5] @ '' '' @ [CHR 0xD0, CHR 0xBD, CHR 0xD0, CHR 0xB0] @ '' '' @ [CHR 0xD1,
     CHR 0x81, CHR 0xD1, CHR 0x80, CHR 0xD0, CHR 0xBE, CHR 0xD0, CHR 0xBA, CHR 0xD0, CHR 0xB8] @
     '' ('' @ [CHR 0xD0, CHR 0xB2] @ '' '' @ [CHR 0xD0, CHR 0xB4, CHR 0xD0, CHR 0xBD, CHR 0xD1,
     CHR 0x8F, CHR 0xD1, CHR 0x85] @ ''), '' @ [CHR 0xD1, CHR 0x80, CHR 0xD0, CHR 0xB0, CHR 0xD0,
     CHR 0xB7, CHR 0xD0, CHR 0xB4, CHR 0xD0, CHR 0xB5, CHR 0xD0, CHR 0xBB, CHR 0xD0, CHR 0xB5,
     CHR 0xD0, CHR 0xBD, CHR 0xD0, CHR 0xBD, CHR 0xD1, CHR 0x8B, CHR 0xD0, CHR 0xB5] @ '' '' @
     [CHR 0xD0, CHR 0xBF, CHR 0xD1, CHR 0x80, CHR 0xD0, CHR 0xBE, CHR 0xD0, CHR 0xB1, CHR 0xD0,
     CHR 0xB5, CHR 0xD0, CHR 0xBB, CHR 0xD0, CHR 0xBE, CHR 0xD0, CHR 0xBC] @ '', '' @ [CHR 0xD0,
     CHR 0xB7, CHR 0xD0, CHR 0xB0, CHR 0xD0, CHR 0xBF, CHR 0xD1, CHR 0x8F, CHR 0xD1, CHR 0x82,
     CHR 0xD0, CHR 0xBE, CHR 0xD0, CHR 0xB9] @ '' '' @ [CHR 0xD0, CHR 0xB8, CHR 0xD0, CHR 0xBB,
     CHR 0xD0, CHR 0xB8] @ '' '' @ [CHR 0xD0, CHR 0xBD, CHR 0xD0, CHR 0xBE, CHR 0xD0, CHR 0xB2,
     CHR 0xD0, CHR 0xBE, CHR 0xD0, CHR 0xB9] @ '' '' @ [CHR 0xD1, CHR 0x81, CHR 0xD1, CHR 0x82,
     CHR 0xD1, CHR 0x80, CHR 0xD0, CHR 0xBE, CHR 0xD0, CHR 0xBA, CHR 0xD0, CHR 0xBE, CHR 0xD0,
     CHR 0xB9] @ '':''"

definition msg_cost_values_re_prompt :: string where
  "msg_cost_values_re_prompt =
     [CHR 0xD0, CHR 0x92, CHR 0xD0, CHR 0xBB, CHR 0xD0, CHR 0xB8, CHR 0xD1, CHR 0x8F, CHR 0xD0,
     CHR 0xBD, CHR 0xD0, CHR 0xB8, CHR 0xD0, CHR 0xB5] @ '' '' @ [CHR 0xD0, CHR 0xBD, CHR 0xD0,
     CHR 0xB0] @ '' '' @ [CHR 0xD1, CHR 0x81, CHR 0xD1, CHR 0x82, CHR 0xD0, CHR 0xBE, CHR 0xD0,
     CHR 0xB8, CHR 0xD0, CHR 0xBC, CHR 0xD0, CHR 0xBE, CHR 0xD1, CHR 0x81, CHR 0xD1, CHR 0x82,
     CHR 0xD1, CHR 0x8C] @ '' ('' @ [CHR 0xD0, CHR 0xBE, CHR 0xD1, CHR 0x86, CHR 0xD0, CHR 0xB5,
     CHR 0xD0, CHR 0xBD, CHR 0xD0, CHR 0xBA, CHR 0xD0, CHR 0xB0] @ '' '' @ [CHR 0xD1, CHR 0x81] @
     '' '' @ [CHR 0xD0, CHR 0xBC, CHR 0xD0, CHR 0xB5, CHR 0xD1, CHR 0x80, CHR 0xD0, CHR 0xBE,
     CHR 0xD0, CHR 0xBF, CHR 0xD1, CHR 0x80, CHR 0xD0, CHR 0xB8, CHR 0xD1, CHR 0x8F, CHR 0xD1,
     CHR 0x82, CHR 0xD0, CHR 0xB8, CHR 0xD1, CHR 0x8F, CHR 0xD0, CHR 0xBC, CHR 0xD0, CHR 0xB8] @
     ''):'' @ [CHR 0x0A, CHR 0xD0, CHR 0x92, CHR 0xD0, CHR 0xB2, CHR 0xD0, CHR 0xB5, CHR 0xD0,
     CHR 0xB4, CHR 0xD0, CHR 0xB8, CHR 0xD1, CHR 0x82, CHR 0xD0, CHR 0xB5] @ '' '' @ [CHR 0xD0,
     CHR 0xBC, CHR 0xD0, CHR 0xB8, CHR 0xD0, CHR 0xBD, CHR 0xD0, CHR 0xB8, CHR 0xD0, CHR 0xBC,
     CHR 0xD0, CHR 0xB0, CHR 0xD0, CHR 0xBB, CHR 0xD1, CHR 0x8C, CHR 0xD0, CHR 0xBD, CHR 0xD0,
     CHR 0xBE, CHR 0xD0, CHR 0xB5] @ '', '' @ [CHR 0xD0, CHR 0xBD, CHR 0xD0, CHR 0xB0, CHR 0xD0,
     CHR 0xB8, CHR 0xD0, CHR 0xB1, CHR 0xD0, CHR 0xBE, CHR 0xD0, CHR 0xBB, CHR 0xD0, CHR 0xB5,
     CHR 0xD0, CHR 0xB5] @ '' '' @ [CHR 0xD0, CHR 0xB2, CHR 0xD0, CHR 0xB5, CHR 0xD1, CHR 0x80,
     CHR 0xD0, CHR 0xBE, CHR 0xD1, CHR 0x8F, CHR 0xD1, CHR 0x82, CHR 0xD0, CHR 0xBD, CHR 0xD0,
     CHR 0xBE, CHR 0xD0, CHR 0xB5] @ '' '' @ [CHR 0xD0, CHR 0xB8] @ '' '' @ [CHR 0xD0, CHR 0xBC,
     CHR 0xD0, CHR 0xB0, CHR 0xD0, CHR 0xBA, CHR 0xD1, CHR 0x81, CHR 0xD0, CHR 0xB8, CHR 0xD0,
     CHR 0xBC, CHR 0xD0, CHR 0xB0, CHR 0xD0, CHR 0xBB, CHR 0xD1, CHR 0x8C, CHR 0xD0, CHR 0xBD,
     CHR 0xD0, CHR 0xBE, CHR 0xD0, CHR 0xB5] @ '' '' @ [CHR 0xD0, CHR 0xB2, CHR 0xD0, CHR 0xBB,
     CHR 0xD0, CHR 0xB8, CHR 0xD1, CHR 0x8F, CHR 0xD0, CHR 0xBD, CHR 0xD0, CHR 0xB8, CHR 0xD0,
     CHR 0xB5] @ '' '' @ [CHR 0xD0, CHR 0xBD, CHR 0xD0, CHR 0xB0] @ '' '' @ [CHR 0xD1, CHR 0x81,
     CHR 0xD1, CHR 0x82, CHR 0xD0, CHR 0xBE, CHR 0xD0, CHR 0xB8, CHR 0xD0, CHR 0xBC, CHR 0xD0,
     CHR 0xBE, CHR 0xD1, CHR 0x81, CHR 0xD1, CHR 0x82, CHR 0xD1, CHR 0x8C] @ '' ('' @ [CHR 0xD0,
     CHR 0xB2] @ '' '' @ [CHR 0xD0, CHR 0xBC, CHR 0xD0, CHR 0xBB, CHR 0xD0, CHR 0xBD] @ ''. '' @
     [CHR 0xD1, CHR 0x80, CHR 0xD1, CHR 0x83, CHR 0xD0, CHR 0xB1] @ ''.), '' @ [CHR 0xD1,
     CHR 0x80, CHR 0xD0, CHR 0xB0, CHR 0xD0, CHR 0xB7, CHR 0xD0, CHR 0xB4, CHR 0xD0, CHR 0xB5,
     CHR 0xD0, CHR 0xBB, CHR 0xD0, CHR 0xB5, CHR 0xD0, CHR 0xBD, CHR 0xD0, CHR 0xBD, CHR 0xD1,
     CHR 0x8B, CHR 0xD0, CHR 0xB5] @ '' '' @ [CHR 0xD0, CHR 0xBF, CHR 0xD1, CHR 0x80, CHR 0xD0,
     CHR 0xBE, CHR 0xD0, CHR 0xB1, CHR 0xD0, CHR 0xB5, CHR 0xD0, CHR 0xBB, CHR 0xD0, CHR 0xBE,
     CHR 0xD0, CHR 0xBC] @ '', '' @ [CHR 0xD0, CHR 0xB7, CHR 0xD0, CHR 0xB0, CHR 0xD0, CHR 0xBF,
     CHR 0xD1, CHR 0x8F, CHR 0xD1, CHR 0x82, CHR 0xD0, CHR 0xBE, CHR 0xD0, CHR 0xB9] @ '' '' @
     [CHR 0xD0, CHR 0xB8, CHR 0xD0, CHR 0xBB, CHR 0xD0, CHR 0xB8] @ '' '' @ [CHR 0xD0, CHR 0xBD,
     CHR 0xD0, CHR 0xBE, CHR 0xD0, CHR 0xB2, CHR 0xD0, CHR 0xBE, CHR 0xD0, CHR 0xB9] @ '' '' @
     [CHR 0xD1, CHR 0x81, CHR 0xD1, CHR 0x82, CHR 0xD1, CHR 0x80, CHR 0xD0, CHR 0xBE, CHR 0xD0,
     CHR 0xBA, CHR 0xD0, CHR 0xBE, CHR 0xD0, CHR 0xB9] @ '':''"

definition msg_custom_probability_re_prompt :: string where
  "msg_custom_probability_re_prompt =
     [CHR 0xD0, CHR 0x92, CHR 0xD0, CHR 0xB2, CHR 0xD0, CHR 0xB5, CHR 0xD0, CHR 0xB4, CHR 0xD0,
     CHR 0xB8, CHR 0xD1, CHR 0x82, CHR 0xD0, CHR 0xB5] @ '' '' @ [CHR 0xD0, CHR 0xBE, CHR 0xD1,
     CHR 0x86, CHR 0xD0, CHR 0xB5, CHR 0xD0, CHR 0xBD, CHR 0xD0, CHR 0xBA, CHR 0xD1, CHR 0x83] @
     '' '' @ [CHR 0xD0, CHR 0xB2, CHR 0xD0, CHR 0xB5, CHR 0xD1, CHR 0x80, CHR 0xD0, CHR 0xBE,
     CHR 0xD1, CHR 0x8F, CHR 0xD1, CHR 0x82, CHR 0xD0, CHR 0xBD, CHR 0xD0, CHR 0xBE, CHR 0xD1,
     CHR 0x81, CHR 0xD1, CHR 0x82, CHR 0xD0, CHR 0xB8] @ '' '' @ [CHR 0xD0, CHR 0xBF, CHR 0xD0,
     CHR 0xBE, CHR 0xD1, CHR 0x81, CHR 0xD0, CHR 0xBB, CHR 0xD0, CHR 0xB5] @ '' '' @ [CHR 0xD0,
     CHR 0xBC, CHR 0xD0, CHR 0xB5, CHR 0xD1, CHR 0x80, CHR 0xD0, CHR 0xBE, CHR 0xD0, CHR 0xBF,
     CHR 0xD1, CHR 0x80, CHR 0xD0, CHR 0xB8, CHR 0xD1, CHR 0x8F, CHR 0xD1, CHR 0x82, CHR 0xD0,
     CHR 0xB8, CHR 0xD0, CHR 0xB9] @ '' ('' @ [CHR 0xD0, CHR 0xB2] @ '' '' @ [CHR 0xD0, CHR 0xBF,
     CHR 0xD1, CHR 0x80, CHR 0xD0, CHR 0xBE, CHR 0xD1, CHR 0x86, CHR 0xD0, CHR 0xB5, CHR 0xD0,
     CHR 0xBD, CHR 0xD1, CHR 0x82, CHR 0xD0, CHR 0xB0, CHR 0xD1, CHR 0x85] @ '', '' @ [CHR 0xD0,
     CHR 0xBE, CHR 0xD1, CHR 0x82] @ '' 0 '' @ [CHR 0xD0, CHR 0xB4, CHR 0xD0, CHR 0xBE] @
     '' 100):''"

text \<open>The prompts of the three custom entries, lines 831, 871 and 915: `Enter the name of the project phase', `Enter the name of the object', `Enter the functional area of the risk'.\<close>

definition msg_custom_phase_prompt :: string where
  "msg_custom_phase_prompt =
     [CHR 0xD0, CHR 0x92, CHR 0xD0, CHR 0xB2, CHR 0xD0, CHR 0xB5, CHR 0xD0, CHR 0xB4, CHR 0xD0,
     CHR 0xB8, CHR 0xD1, CHR 0x82, CHR 0xD0, CHR 0xB5] @ '' '' @ [CHR 0xD0, CHR 0xBD, CHR 0xD0,
     CHR 0xB0, CHR 0xD0, CHR 0xB7, CHR 0xD0, CHR 0xB2, CHR 0xD0, CHR 0xB0, CHR 0xD0, CHR 0xBD,
     CHR 0xD0, CHR 0xB8, CHR 0xD0, CHR 0xB5] @ '' '' @ [CHR 0xD1, CHR 0x84, CHR 0xD0, CHR 0xB0,
     CHR 0xD0, CHR 0xB7, CHR 0xD1, CHR 0x8B] @ '' '' @ [CHR 0xD0, CHR 0xBF, CHR 0xD1, CHR 0x80,
     CHR 0xD0, CHR 0xBE, CHR 0xD0, CHR 0xB5, CHR 0xD0, CHR 0xBA, CHR 0xD1, CHR 0x82, CHR 0xD0,
     CHR 0xB0] @ '':''"

definition msg_custom_object_prompt :: string where
  "msg_custom_object_prompt =
     [CHR 0xD0, CHR 0x92, CHR 0xD0, CHR 0xB2, CHR 0xD0, CHR 0xB5, CHR 0xD0, CHR 0xB4, CHR 0xD0,
     CHR 0xB8, CHR 0xD1, CHR 0x82, CHR 0xD0, CHR 0xB5] @ '' '' @ [CHR 0xD0, CHR 0xBD, CHR 0xD0,
     CHR 0xB0, CHR 0xD0, CHR 0xB7, CHR 0xD0, CHR 0xB2, CHR 0xD0, CHR 0xB0, CHR 0xD0, CHR 0xBD,
     CHR 0xD0, CHR 0xB8, CHR 0xD0, CHR 0xB5] @ '' '' @ [CHR 0xD0, CHR 0xBE, CHR 0xD0, CHR 0xB1,
     CHR 0xD1, CHR 0x8A, CHR 0xD0, CHR 0xB5, CHR 0xD0, CHR 0xBA, CHR 0xD1, CHR 0x82, CHR 0xD0,
     CHR 0xB0] @ '':''"

definition msg_custom_category_prompt :: string where
  "msg_custom_category_prompt =
     [CHR 0xD0, CHR 0x92, CHR 0xD0, CHR 0xB2, CHR 0xD0, CHR 0xB5, CHR 0xD0, CHR 0xB4, CHR 0xD0,
     CHR 0xB8, CHR 0xD1, CHR 0x82, CHR 0xD0, CHR 0xB5] @ '' '' @ [CHR 0xD1, CHR 0x84, CHR 0xD1,
     CHR 0x83, CHR 0xD0, CHR 0xBD, CHR 0xD0, CHR 0xBA, CHR 0xD1, CHR 0x86, CHR 0xD0, CHR 0xB8,
     CHR 0xD0, CHR 0xBE, CHR 0xD0, CHR 0xBD, CHR 0xD0, CHR 0xB0, CHR 0xD0, CHR 0xBB, CHR 0xD1,
     CHR 0x8C, CHR 0xD0, CHR 0xBD, CHR 0xD0, CHR 0xBE, CHR 0xD0, CHR 0xB5] @ '' '' @ [CHR 0xD0,
     CHR 0xBD, CHR 0xD0, CHR 0xB0, CHR 0xD0, CHR 0xBF, CHR 0xD1, CHR 0x80, CHR 0xD0, CHR 0xB0,
     CHR 0xD0, CHR 0xB2, CHR 0xD0, CHR 0xBB, CHR 0xD0, CHR 0xB5, CHR 0xD0, CHR 0xBD, CHR 0xD0,
     CHR 0xB8, CHR 0xD0, CHR 0xB5] @ '' '' @ [CHR 0xD1, CHR 0x80, CHR 0xD0, CHR 0xB8, CHR 0xD1,
     CHR 0x81, CHR 0xD0, CHR 0xBA, CHR 0xD0, CHR 0xB0] @ '':''"


text \<open>Line 1643: `Invalid data format'.\<close>

definition msg_bad_data_format :: string where
  "msg_bad_data_format =
     [CHR 0xD0, CHR 0x9D, CHR 0xD0, CHR 0xB5, CHR 0xD0, CHR 0xB2, CHR 0xD0, CHR 0xB5, CHR 0xD1,
     CHR 0x80, CHR 0xD0, CHR 0xBD, CHR 0xD1, CHR 0x8B, CHR 0xD0, CHR 0xB9] @ '' '' @ [CHR 0xD1,
     CHR 0x84, CHR 0xD0, CHR 0xBE, CHR 0xD1, CHR 0x80, CHR 0xD0, CHR 0xBC, CHR 0xD0, CHR 0xB0,
     CHR 0xD1, CHR 0x82] @ '' '' @ [CHR 0xD0, CHR 0xB4, CHR 0xD0, CHR 0xB0, CHR 0xD0, CHR 0xBD,
     CHR 0xD0, CHR 0xBD, CHR 0xD1, CHR 0x8B, CHR 0xD1, CHR 0x85]"

text \<open>Lines 759, 761 and 767: `Mitigation added successfully', `View the updated risk', `An error occurred while adding the mitigation'.\<close>

definition msg_mitigation_added :: string where
  "msg_mitigation_added =
     [CHR 0xE2, CHR 0x9C, CHR 0x85] @ '' '' @ [CHR 0xD0, CHR 0x9C, CHR 0xD0, CHR 0xB5, CHR 0xD1,
     CHR 0x80, CHR 0xD0, CHR 0xBE, CHR 0xD0, CHR 0xBF, CHR 0xD1, CHR 0x80, CHR 0xD0, CHR 0xB8,
     CHR 0xD1, CHR 0x8F, CHR 0xD1, CHR 0x82, CHR 0xD0, CHR 0xB8, CHR 0xD0, CHR 0xB5] @ '' '' @
     [CHR 0xD1, CHR 0x83, CHR 0xD1, CHR 0x81, CHR 0xD0, CHR 0xBF, CHR 0xD0, CHR 0xB5, CHR 0xD1,
     CHR 0x88, CHR 0xD0, CHR 0xBD, CHR 0xD0, CHR 0xBE] @ '' '' @ [CHR 0xD0, CHR 0xB4, CHR 0xD0,
     CHR 0xBE, CHR 0xD0, CHR 0xB1, CHR 0xD0, CHR 0xB0, CHR 0xD0, CHR 0xB2, CHR 0xD0, CHR 0xBB,
     CHR 0xD0, CHR 0xB5, CHR 0xD0, CHR 0xBD, CHR 0xD0, CHR 0xBE] @ ''!''"

definition view_updated_label :: string where
  "view_updated_label =
     [CHR 0xD0, CHR 0x9F, CHR 0xD0, CHR 0xBE, CHR 0xD1, CHR 0x81, CHR 0xD0, CHR 0xBC, CHR 0xD0,
     CHR 0xBE, CHR 0xD1, CHR 0x82, CHR 0xD1, CHR 0x80, CHR 0xD0, CHR 0xB5, CHR 0xD1, CHR 0x82,
     CHR 0xD1, CHR 0x8C] @ '' '' @ [CHR 0xD0, CHR 0xBE, CHR 0xD0, CHR 0xB1, CHR 0xD0, CHR 0xBD,
     CHR 0xD0, CHR 0xBE, CHR 0xD0, CHR 0xB2, CHR 0xD0, CHR 0xBB, CHR 0xD0, CHR 0xB5, CHR 0xD0,
     CHR 0xBD, CHR 0xD0, CHR 0xBD, CHR 0xD1, CHR 0x8B, CHR 0xD0, CHR 0xB9] @ '' '' @ [CHR 0xD1,
     CHR 0x80, CHR 0xD0, CHR 0xB8, CHR 0xD1, CHR 0x81, CHR 0xD0, CHR 0xBA]"

definition msg_mitigation_failed :: string where
  "msg_mitigation_failed =
     [CHR 0xD0, CHR 0x9F, CHR 0xD1, CHR 0x80, CHR 0xD0, CHR 0xBE, CHR 0xD0, CHR 0xB8, CHR 0xD0,
     CHR 0xB7, CHR 0xD0, CHR 0xBE, CHR 0xD1, CHR 0x88, CHR 0xD0, CHR 0xBB, CHR 0xD0, CHR 0xB0] @
     '' '' @ [CHR 0xD0, CHR 0xBE, CHR 0xD1, CHR 0x88, CHR 0xD0, CHR 0xB8, CHR 0xD0, CHR 0xB1,
     CHR 0xD0, CHR 0xBA, CHR 0xD0, CHR 0xB0] @ '' '' @ [CHR 0xD0, CHR 0xBF, CHR 0xD1, CHR 0x80,
     CHR 0xD0, CHR 0xB8] @ '' '' @ [CHR 0xD0, CHR 0xB4, CHR 0xD0, CHR 0xBE, CHR 0xD0, CHR 0xB1,
     CHR 0xD0, CHR 0xB0, CHR 0xD0, CHR 0xB2, CHR 0xD0, CHR 0xBB, CHR 0xD0, CHR 0xB5, CHR 0xD0,
     CHR 0xBD, CHR 0xD0, CHR 0xB8, CHR 0xD0, CHR 0xB8] @ '' '' @ [CHR 0xD0, CHR 0xBC, CHR 0xD0,
     CHR 0xB5, CHR 0xD1, CHR 0x80, CHR 0xD0, CHR 0xBE, CHR 0xD0, CHR 0xBF, CHR 0xD1, CHR 0x80,
     CHR 0xD0, CHR 0xB8, CHR 0xD1, CHR 0x8F, CHR 0xD1, CHR 0x82, CHR 0xD0, CHR 0xB8, CHR 0xD1,
     CHR 0x8F] @ ''.''"

text \<open>Lines 475 and 478, \<^verbatim>\<open>toggle_subscription\<close>: `You are unsubscribed from the reminders', `You are subscribed to the daily reminders'.\<close>

definition msg_unsubscribed :: string where
  "msg_unsubscribed =
     [CHR 0xF0, CHR 0x9F, CHR 0x94, CHR 0x95] @ '' '' @ [CHR 0xD0, CHR 0x92, CHR 0xD1, CHR 0x8B]
     @ '' '' @ [CHR 0xD0, CHR 0xBE, CHR 0xD1, CHR 0x82, CHR 0xD0, CHR 0xBF, CHR 0xD0, CHR 0xB8,
     CHR 0xD1, CHR 0x81, CHR 0xD0, CHR 0xB0, CHR 0xD0, CHR 0xBD, CHR 0xD1, CHR 0x8B] @ '' '' @
     [CHR 0xD0, CHR 0xBE, CHR 0xD1, CHR 0x82] @ '' '' @ [CHR 0xD0, CHR 0xBD, CHR 0xD0, CHR 0xB0,
     CHR 0xD0, CHR 0xBF, CHR 0xD0, CHR 0xBE, CHR 0xD0, CHR 0xBC, CHR 0xD0, CHR 0xB8, CHR 0xD0,
     CHR 0xBD, CHR 0xD0, CHR 0xB0, CHR 0xD0, CHR 0xBD, CHR 0xD0, CHR 0xB8, CHR 0xD0, CHR 0xB9] @
     ''.''"

definition msg_subscribed :: string where
  "msg_subscribed =
     [CHR 0xF0, CHR 0x9F, CHR 0x94, CHR 0x94] @ '' '' @ [CHR 0xD0, CHR 0x92, CHR 0xD1, CHR 0x8B]
     @ '' '' @ [CHR 0xD0, CHR 0xBF, CHR 0xD0, CHR 0xBE, CHR 0xD0, CHR 0xB4, CHR 0xD0, CHR 0xBF,
     CHR 0xD0, CHR 0xB8, CHR 0xD1, CHR 0x81, CHR 0xD0, CHR 0xB0, CHR 0xD0, CHR 0xBD, CHR 0xD1,
     CHR 0x8B] @ '' '' @ [CHR 0xD0, CHR 0xBD, CHR 0xD0, CHR 0xB0] @ '' '' @ [CHR 0xD0, CHR 0xB5,
     CHR 0xD0, CHR 0xB6, CHR 0xD0, CHR 0xB5, CHR 0xD0, CHR 0xB4, CHR 0xD0, CHR 0xBD, CHR 0xD0,
     CHR 0xB5, CHR 0xD0, CHR 0xB2, CHR 0xD0, CHR 0xBD, CHR 0xD1, CHR 0x8B, CHR 0xD0, CHR 0xB5] @
     '' '' @ [CHR 0xD0, CHR 0xBD, CHR 0xD0, CHR 0xB0, CHR 0xD0, CHR 0xBF, CHR 0xD0, CHR 0xBE,
     CHR 0xD0, CHR 0xBC, CHR 0xD0, CHR 0xB8, CHR 0xD0, CHR 0xBD, CHR 0xD0, CHR 0xB0, CHR 0xD0,
     CHR 0xBD, CHR 0xD0, CHR 0xB8, CHR 0xD1, CHR 0x8F] @ ''!''"

text \<open>Line 2180: `I do not understand your message. Choose an action from the menu'.\<close>

definition msg_not_understood :: string where
  "msg_not_understood =
     [CHR 0xD0, CHR 0x9D, CHR 0xD0, CHR 0xB5] @ '' '' @ [CHR 0xD0, CHR 0xBF, CHR 0xD0, CHR 0xBE,
     CHR 0xD0, CHR 0xBD, CHR 0xD0, CHR 0xB8, CHR 0xD0, CHR 0xBC, CHR 0xD0, CHR 0xB0, CHR 0xD1,
     CHR 0x8E] @ '' '' @ [CHR 0xD0, CHR 0xB2, CHR 0xD0, CHR 0xB0, CHR 0xD1, CHR 0x88, CHR 0xD0,
     CHR 0xB5] @ '' '' @ [CHR 0xD1, CHR 0x81, CHR 0xD0, CHR 0xBE, CHR 0xD0, CHR 0xBE, CHR 0xD0,
     CHR 0xB1, CHR 0xD1, CHR 0x89, CHR 0xD0, CHR 0xB5, CHR 0xD0, CHR 0xBD, CHR 0xD0, CHR 0xB8,
     CHR 0xD0, CHR 0xB5] @ ''. '' @ [CHR 0xD0, CHR 0x92, CHR 0xD1, CHR 0x8B, CHR 0xD0, CHR 0xB1,
     CHR 0xD0, CHR 0xB5, CHR 0xD1, CHR 0x80, CHR 0xD0, CHR 0xB8, CHR 0xD1, CHR 0x82, CHR 0xD0,
     CHR 0xB5] @ '' '' @ [CHR 0xD0, CHR 0xB4, CHR 0xD0, CHR 0xB5, CHR 0xD0, CHR 0xB9, CHR 0xD1,
     CHR 0x81, CHR 0xD1, CHR 0x82, CHR 0xD0, CHR 0xB2, CHR 0xD0, CHR 0xB8, CHR 0xD0, CHR 0xB5] @
     '' '' @ [CHR 0xD0, CHR 0xB8, CHR 0xD0, CHR 0xB7] @ '' '' @ [CHR 0xD0, CHR 0xBC, CHR 0xD0,
     CHR 0xB5, CHR 0xD0, CHR 0xBD, CHR 0xD1, CHR 0x8E] @ '':''"

text \<open>Lines 432-435, the daily reminder: `Daily reminder of ' followed by the date, and the body (`Do not forget to fill in today's risks ...').\<close>

definition msg_reminder_head :: string where
  "msg_reminder_head =
     [CHR 0xF0, CHR 0x9F, CHR 0x93, CHR 0x8C] @ '' '' @ [CHR 0xD0, CHR 0x95, CHR 0xD0, CHR 0xB6,
     CHR 0xD0, CHR 0xB5, CHR 0xD0, CHR 0xB4, CHR 0xD0, CHR 0xBD, CHR 0xD0, CHR 0xB5, CHR 0xD0,
     CHR 0xB2, CHR 0xD0, CHR 0xBD, CHR 0xD0, CHR 0xBE, CHR 0xD0, CHR 0xB5] @ '' '' @ [CHR 0xD0,
     CHR 0xBD, CHR 0xD0, CHR 0xB0, CHR 0xD0, CHR 0xBF, CHR 0xD0, CHR 0xBE, CHR 0xD0, CHR 0xBC,
     CHR 0xD0, CHR 0xB8, CHR 0xD0, CHR 0xBD, CHR 0xD0, CHR 0xB0, CHR 0xD0, CHR 0xBD, CHR 0xD0,
     CHR 0xB8, CHR 0xD0, CHR 0xB5] @ '' '' @ [CHR 0xD0, CHR 0xBE, CHR 0xD1, CHR 0x82] @ '' ''"

definition msg_reminder_body :: string where
  "msg_reminder_body =
     [CHR 0x0A, CHR 0x0A, CHR 0xD0, CHR 0x9D, CHR 0xD0, CHR 0xB5] @ '' '' @ [CHR 0xD0, CHR 0xB7,
     CHR 0xD0, CHR 0xB0, CHR 0xD0, CHR 0xB1, CHR 0xD1, CHR 0x83, CHR 0xD0, CHR 0xB4, CHR 0xD1,
     CHR 0x8C, CHR 0xD1, CHR 0x82, CHR 0xD0, CHR 0xB5] @ '' '' @ [CHR 0xD0, CHR 0xB7, CHR 0xD0,
     CHR 0xB0, CHR 0xD0, CHR 0xBF, CHR 0xD0, CHR 0xBE, CHR 0xD0, CHR 0xBB, CHR 0xD0, CHR 0xBD,
     CHR 0xD0, CHR 0xB8, CHR 0xD1, CHR 0x82, CHR 0xD1, CHR 0x8C] @ '' '' @ [CHR 0xD0, CHR 0xB8,
     CHR 0xD0, CHR 0xBD, CHR 0xD1, CHR 0x84, CHR 0xD0, CHR 0xBE, CHR 0xD1, CHR 0x80, CHR 0xD0,
     CHR 0xBC, CHR 0xD0, CHR 0xB0, CHR 0xD1, CHR 0x86, CHR 0xD0, CHR 0xB8, CHR 0xD1, CHR 0x8E] @
     '' '' @ [CHR 0xD0, CHR 0xBE] @ '' '' @ [CHR 0xD1, CHR 0x80, CHR 0xD0, CHR 0xB8, CHR 0xD1,
     CHR 0x81, CHR 0xD0, CHR 0xBA, CHR 0xD0, CHR 0xB0, CHR 0xD1, CHR 0x85] @ '' '' @ [CHR 0xD0,
     CHR 0xB7, CHR 0xD0, CHR 0xB0] @ '' '' @ [CHR 0xD1, CHR 0x81, CHR 0xD0, CHR 0xB5, CHR 0xD0,
     CHR 0xB3, CHR 0xD0, CHR 0xBE, CHR 0xD0, CHR 0xB4, CHR 0xD0, CHR 0xBD, CHR 0xD1, CHR 0x8F] @
     ''!'' @ [CHR 0x0A, CHR 0x0A, CHR 0xD0, CHR 0xA7, CHR 0xD1, CHR 0x82, CHR 0xD0, CHR 0xBE,
     CHR 0xD0, CHR 0xB1, CHR 0xD1, CHR 0x8B] @ '' '' @ [CHR 0xD1, CHR 0x81, CHR 0xD0, CHR 0xBE,
     CHR 0xD0, CHR 0xBE, CHR 0xD0, CHR 0xB1, CHR 0xD1, CHR 0x89, CHR 0xD0, CHR 0xB8, CHR 0xD1,
     CHR 0x82, CHR 0xD1, CHR 0x8C] @ '' '' @ [CHR 0xD0, CHR 0xBE] @ '' '' @ [CHR 0xD0, CHR 0xBD,
     CHR 0xD0, CHR 0xBE, CHR 0xD0, CHR 0xB2, CHR 0xD0, CHR 0xBE, CHR 0xD0, CHR 0xBC] @ '' '' @
     [CHR 0xD1, CHR 0x80, CHR 0xD0, CHR 0xB8, CHR 0xD1, CHR 0x81, CHR 0xD0, CHR 0xBA, CHR 0xD0,
     CHR 0xB5] @ '', '' @ [CHR 0xD0, CHR 0xBD, CHR 0xD0, CHR 0xB0, CHR 0xD0, CHR 0xB6, CHR 0xD0,
     CHR 0xBC, CHR 0xD0, CHR 0xB8, CHR 0xD1, CHR 0x82, CHR 0xD0, CHR 0xB5] @ '' '' @ [CHR 0xD0,
     CHR 0xBA, CHR 0xD0, CHR 0xBD, CHR 0xD0, CHR 0xBE, CHR 0xD0, CHR 0xBF, CHR 0xD0, CHR 0xBA,
     CHR 0xD1, CHR 0x83] @ '' '' @ [CHR 0x27, CHR 0xD0, CHR 0xA1, CHR 0xD0, CHR 0xBE, CHR 0xD0,
     CHR 0xBE, CHR 0xD0, CHR 0xB1, CHR 0xD1, CHR 0x89, CHR 0xD0, CHR 0xB8, CHR 0xD1, CHR 0x82,
     CHR 0xD1, CHR 0x8C] @ '' '' @ [CHR 0xD1, CHR 0x80, CHR 0xD0, CHR 0xB8, CHR 0xD1, CHR 0x81,
     CHR 0xD0, CHR 0xBA, CHR 0x27] @ '' '' @ [CHR 0xD0, CHR 0xB2] @ '' '' @ [CHR 0xD0, CHR 0xBC,
     CHR 0xD0, CHR 0xB5, CHR 0xD0, CHR 0xBD, CHR 0xD1, CHR 0x8E] @ '' '' @ [CHR 0xD0, CHR 0xB1,
     CHR 0xD0, CHR 0xBE, CHR 0xD1, CHR 0x82, CHR 0xD0, CHR 0xB0] @ ''.'' @ [CHR 0x0A, CHR 0x0A,
     CHR 0xD0, CHR 0x92, CHR 0xD0, CHR 0xB0, CHR 0xD1, CHR 0x88, CHR 0xD0, CHR 0xB8] @ '' '' @
     [CHR 0xD1, CHR 0x80, CHR 0xD0, CHR 0xB8, CHR 0xD1, CHR 0x81, CHR 0xD0, CHR 0xBA, CHR 0xD0,
     CHR 0xB8] @ '' '' @ [CHR 0xD0, CHR 0xBF, CHR 0xD0, CHR 0xBE, CHR 0xD0, CHR 0xBC, CHR 0xD0,
     CHR 0xBE, CHR 0xD0, CHR 0xB3, CHR 0xD0, CHR 0xB0, CHR 0xD1, CHR 0x8E, CHR 0xD1, CHR 0x82] @
     '' '' @ [CHR 0xD0, CHR 0xBF, CHR 0xD1, CHR 0x80, CHR 0xD0, CHR 0xBE, CHR 0xD0, CHR 0xB5,
     CHR 0xD0, CHR 0xBA, CHR 0xD1, CHR 0x82, CHR 0xD1, CHR 0x83] @ '' '' @ [CHR 0xD0, CHR 0xB1,
     CHR 0xD1, CHR 0x8B, CHR 0xD1, CHR 0x82, CHR 0xD1, CHR 0x8C] @ '' '' @ [CHR 0xD0, CHR 0xB1,
     CHR 0xD0, CHR 0xBE, CHR 0xD0, CHR 0xBB, CHR 0xD0, CHR 0xB5, CHR 0xD0, CHR 0xB5] @ '' '' @
     [CHR 0xD1, CHR 0x83, CHR 0xD0, CHR 0xBF, CHR 0xD1, CHR 0x80, CHR 0xD0, CHR 0xB0, CHR 0xD0,
     CHR 0xB2, CHR 0xD0, CHR 0xBB, CHR 0xD1, CHR 0x8F, CHR 0xD0, CHR 0xB5, CHR 0xD0, CHR 0xBC,
     CHR 0xD1, CHR 0x8B, CHR 0xD0, CHR 0xBC] @ '' '' @ [CHR 0xD0, CHR 0xB8] @ '' '' @ [CHR 0xD0,
     CHR 0xBF, CHR 0xD1, CHR 0x80, CHR 0xD0, CHR 0xB5, CHR 0xD0, CHR 0xB4, CHR 0xD1, CHR 0x81,
     CHR 0xD0, CHR 0xBA, CHR 0xD0, CHR 0xB0, CHR 0xD0, CHR 0xB7, CHR 0xD1, CHR 0x83, CHR 0xD0,
     CHR 0xB5, CHR 0xD0, CHR 0xBC, CHR 0xD1, CHR 0x8B, CHR 0xD0, CHR 0xBC] @ ''!''"

section \<open>Subscriptions and the main menu\<close>

text \<open>
  The table \<^verbatim>\<open>subscriptions\<close> has \<^verbatim>\<open>user_id\<close> as its primary key. The functions of
  lines 211-246 and the \<^verbatim>\<open>INSERT OR IGNORE\<close> of \<^verbatim>\<open>start\<close> (lines 792-795), as
  operations on the list of rows: \<^verbatim>\<open>INSERT OR REPLACE\<close> removes the row of the user and
  adds the new one, \<^verbatim>\<open>INSERT OR IGNORE\<close> adds a row only for a user without one (the
  notification date of such a row is \<^verbatim>\<open>NULL\<close>).
\<close>

definition subscribe_user :: "env \<Rightarrow> int \<Rightarrow> db \<Rightarrow> db" where
  "subscribe_user e user_id d =
     d\<lparr>subscriptions :=
         filter (\<lambda>s. s_user_id s \<noteq> user_id) (subscriptions d)
         @ [\<lparr>s_user_id = user_id, s_is_subscribed = 1, last_notification = Some (today_ymd e)\<rparr>]\<rparr>"

definition unsubscribe_user :: "int \<Rightarrow> db \<Rightarrow> db" where
  "unsubscribe_user user_id d =
     d\<lparr>subscriptions :=
         map (\<lambda>s. if s_user_id s = user_id then s\<lparr>s_is_subscribed := 0\<rparr> else s)
           (subscriptions d)\<rparr>"

definition is_subscribed :: "int \<Rightarrow> db \<Rightarrow> bool" where
  "is_subscribed user_id d =
     list_ex (\<lambda>s. s_user_id s = user_id \<and> s_is_subscribed s = 1) (subscriptions d)"

definition get_subscribed_users :: "db \<Rightarrow> int list" where
  "get_subscribed_users d =
     map s_user_id (filter (\<lambda>s. s_is_subscribed s = 1) (subscriptions d))"

definition insert_or_ignore_subscription :: "int \<Rightarrow> db \<Rightarrow> db" where
  "insert_or_ignore_subscription user_id d =
     (if list_ex (\<lambda>s. s_user_id s = user_id) (subscriptions d) then d
      else d\<lparr>subscriptions :=
               subscriptions d
               @ [\<lparr>s_user_id = user_id, s_is_subscribed = 1, last_notification = None\<rparr>]\<rparr>)"

text \<open>
  \<^verbatim>\<open>start\<close>, lines 788-814. The handler does not touch the dictionary. An unavailable
  storage engine makes the first statement raise.
\<close>

definition main_menu_keyboard :: "string \<Rightarrow> keyboard" where
  "main_menu_keyboard subscription_text =
     [[(submit_risk_label, ''submit_risk'')],
      [(view_risks_label, ''view_risks_list'')],
      [(report_label, ''report'')],
      [(export_label, ''export_excel'')],
      [(subscription_text, ''toggle_subscription'')]]"

definition start :: "env \<Rightarrow> update \<Rightarrow> user_data \<times> db \<Rightarrow> result" where
  "start e upd st =
     (let ud = fst st; d = snd st; user_id = uid (effective_user upd) in
      if \<not> storage_ok e then ((ud, d), [], Some DatabaseError)
      else
        let d1 = insert_or_ignore_subscription user_id d;
            subscription_text = (if is_subscribed user_id d1 then unsubscribe_label
                                 else subscribe_label);
            reply_markup = main_menu_keyboard subscription_text
        in (case upd of
              Message _ _ \<Rightarrow> ((ud, d1), [ReplyText msg_welcome reply_markup], None)
            | CallbackQuery _ _ \<Rightarrow>
                ((ud, d1), [EditMessageText msg_welcome_edited reply_markup], None)))"

text \<open>\<^verbatim>\<open>toggle_subscription\<close>, lines 467-481, for a pressed button.\<close>

definition toggle_subscription :: "env \<Rightarrow> user \<Rightarrow> string \<Rightarrow> user_data \<times> db \<Rightarrow> result" where
  "toggle_subscription e u data st =
     (let ud = fst st; d = snd st; user_id = uid u in
      if \<not> storage_ok e then ((ud, d), [], Some DatabaseError)
      else
        let current_status = is_subscribed user_id d;
            d1 = (if current_status then unsubscribe_user user_id d
                  else subscribe_user e user_id d);
            message = (if current_status then msg_unsubscribed else msg_subscribed);
            r = start e (CallbackQuery u data) (ud, d1)
        in (fst r, EditMessageText message [] # fst (snd r), snd (snd r)))"

text \<open>\<^verbatim>\<open>submit_risk_start\<close>, lines 817-824, and \<^verbatim>\<open>select_view_phase\<close>, lines 1591-1608:
  what they render; neither touches the dictionary.\<close>

definition submit_risk_start :: "action list" where
  "submit_risk_start =
     [EditMessageText msg_choose_phase
        (map (\<lambda>phase. [(phase, ''phase_'' @ phase)]) PHASES
         @ [[(custom_phase_label, ''custom_phase'')],
            [(back_to_menu_label, ''back_to_menu'')]])]"

definition select_view_phase :: "action list" where
  "select_view_phase =
     [EditMessageText msg_choose_view_phase
        (map (\<lambda>phase. [(phase, ''view_phase_'' @ phase)]) PHASES
         @ [[(all_phases_label, ''view_phase_all'')],
            [(back_to_menu_label, ''back_to_menu'')]])]"

section \<open>The steps of the conversation\<close>

text \<open>A handler that only reads and writes the dictionary returns the new dictionary and
  the transport calls it made.\<close>

type_synonym step = "user_data \<times> action list"

text \<open>
  The keyboards of the steps. Each is built by the same literal in every handler that
  renders the step, going forward or going back (the line numbers are those of the
  literals): objects (845-847, 859-861, 1921-1923), categories (885-888, 901-904,
  1940-1943), schedule impact (960-966, 1970-1976), cost impact (986-991, 1012-1017,
  1064-1070, 1992-1998), mitigation choice (1267-1273, 2041-2047), and the three
  keyboards of the second pass (1338-1344, 2085-2091; 1369-1375, 1396-1402, 1448-1454,
  2107-2113; 1480-1488, 1507-1515, 1559-1567, 2126-2134). The probability keyboard is
  the exception: going back (lines 2011-2019) the fourth band is labelled \<open>60-75%\<close>.
\<close>

definition object_keyboard :: keyboard where
  "object_keyboard =
     map (\<lambda>obj. [(obj, ''object_'' @ obj)]) OBJECTS
     @ [[(custom_object_label, ''custom_object'')],
        [(back_to_phase_label, ''back_to_phase_selection'')]]"

definition category_keyboard :: keyboard where
  "category_keyboard =
     map (\<lambda>cat. [(cat, ''cat_'' @ cat)]) CATEGORIES
     @ [[(custom_category_label, ''custom_category'')],
        [(back_to_object_label, ''back_to_object_selection'')]]"

definition schedule_keyboard :: keyboard where
  "schedule_keyboard =
     [[(no_schedule_impact_label, ''no_impact_schedule'')],
      [(evaluate_schedule_label, ''evaluate_schedule_impact'')],
      [(request_schedule_label, ''request_schedule_evaluation'')],
      [(back_to_description_label, ''back_to_description'')]]"

definition cost_keyboard :: keyboard where
  "cost_keyboard =
     [[(no_cost_impact_label, ''no_impact_cost'')],
      [(evaluate_cost_label, ''evaluate_cost_impact'')],
      [(request_cost_label, ''request_cost_evaluation'')],
      [(back_to_schedule_label, ''back_to_schedule_impact'')]]"

definition probability_keyboard_back :: keyboard where
  "probability_keyboard_back =
     [[(''<10%'', ''prob_1'')],
      [(''10-20%'', ''prob_2'')],
      [(''20-50%'', ''prob_3'')],
      [(''60-75%'', ''prob_4'')],
      [(''>75%'', ''prob_5'')],
      [(custom_probability_label, ''custom_probability'')],
      [(back_to_cost_label, ''back_to_cost_impact'')]]"

definition mitigation_choice_keyboard :: keyboard where
  "mitigation_choice_keyboard =
     [[(with_evaluation_label, ''add_mitigation_with_evaluation'')],
      [(without_evaluation_label, ''add_mitigation_without_evaluation'')],
      [(back_to_timeline_label, ''back_to_timeline'')]]"

definition schedule_re_keyboard :: keyboard where
  "schedule_re_keyboard =
     [[(no_schedule_impact_label, ''no_impact_schedule_re'')],
      [(evaluate_schedule_label, ''evaluate_schedule_impact_re'')],
      [(request_schedule_label, ''request_schedule_evaluation_re'')],
      [(back_to_choice_label, ''back_to_mitigation_result'')]]"

definition cost_re_keyboard :: keyboard where
  "cost_re_keyboard =
     [[(no_cost_impact_label, ''no_impact_cost_re'')],
      [(evaluate_cost_label, ''evaluate_cost_impact_re'')],
      [(request_cost_label, ''request_cost_evaluation_re'')],
      [(back_to_schedule_label, ''back_to_schedule_impact_re'')]]"

definition probability_re_keyboard :: keyboard where
  "probability_re_keyboard =
     [[(''<10%'', ''prob_re_1'')],
      [(''10-20%'', ''prob_re_2'')],
      [(''20-50%'', ''prob_re_3'')],
      [(''50-75%'', ''prob_re_4'')],
      [(''>75%'', ''prob_re_5'')],
      [(custom_probability_label, ''custom_probability_re'')],
      [(back_to_cost_label, ''back_to_cost_impact_re'')]]"

text \<open>\<^verbatim>\<open>s.split("_", 1)[1]\<close>: what follows the first underscore; without an underscore
  the index is out of range.\<close>

fun after_first :: "char \<Rightarrow> string \<Rightarrow> string option" where
  "after_first sep [] = None"
| "after_first sep (c # cs) = (if c = sep then Some cs else after_first sep cs)"

subsection \<open>Phase, object, category and description\<close>

text \<open>\<^verbatim>\<open>custom_phase_request\<close> (827-834), \<^verbatim>\<open>handle_custom_phase\<close> (837-850) and
  \<^verbatim>\<open>choose_phase\<close> (853-864).\<close>

definition custom_phase_request :: "user_data \<Rightarrow> step" where
  "custom_phase_request ud =
     (ud(''awaiting_custom_phase'' \<mapsto> PyBool True),
      [EditMessageText msg_custom_phase_prompt (create_back_keyboard ''back_to_phase_selection'')])"

definition handle_custom_phase :: "string \<Rightarrow> user_data \<Rightarrow> step" where
  "handle_custom_phase text ud =
     (if \<not> truthy (ud_get_none ud ''awaiting_custom_phase'') then (ud, [])
      else
        (ud(''phase'' \<mapsto> PyStr text, ''awaiting_custom_phase'' \<mapsto> PyBool False),
         [ReplyText (msg_phase_prefix @ text @ msg_choose_object) object_keyboard]))"

definition choose_phase :: "string \<Rightarrow> user_data \<Rightarrow> py_error + step" where
  "choose_phase data ud =
     (case after_first CHR ''_'' data of
        None \<Rightarrow> Inl IndexError
      | Some phase \<Rightarrow>
          Inr (ud(''phase'' \<mapsto> PyStr phase),
               [EditMessageText (msg_phase_prefix @ phase @ msg_choose_object) object_keyboard]))"

text \<open>\<^verbatim>\<open>custom_object_request\<close> (867-874), \<^verbatim>\<open>handle_custom_object\<close> (877-892) and
  \<^verbatim>\<open>choose_object\<close> (895-908).\<close>

definition custom_object_request :: "user_data \<Rightarrow> step" where
  "custom_object_request ud =
     (ud(''awaiting_custom_object'' \<mapsto> PyBool True),
      [EditMessageText msg_custom_object_prompt (create_back_keyboard ''back_to_object_selection'')])"

definition handle_custom_object :: "string \<Rightarrow> user_data \<Rightarrow> step" where
  "handle_custom_object text ud =
     (if \<not> truthy (ud_get_none ud ''awaiting_custom_object'') then (ud, [])
      else
        (ud(''object'' \<mapsto> PyStr text, ''awaiting_custom_object'' \<mapsto> PyBool False),
         [ReplyText (msg_object_prefix @ text @ msg_choose_category_typed) category_keyboard]))"

definition choose_object :: "string \<Rightarrow> user_data \<Rightarrow> py_error + step" where
  "choose_object data ud =
     (case after_first CHR ''_'' data of
        None \<Rightarrow> Inl IndexError
      | Some obj \<Rightarrow>
          Inr (ud(''object'' \<mapsto> PyStr obj),
               [EditMessageText (msg_object_prefix @ obj @ msg_choose_category) category_keyboard]))"

text \<open>\<^verbatim>\<open>custom_category_request\<close> (911-918), \<^verbatim>\<open>handle_custom_category\<close> (921-934) and
  \<^verbatim>\<open>choose_category\<close> (937-948).\<close>

definition custom_category_request :: "user_data \<Rightarrow> step" where
  "custom_category_request ud =
     (ud(''awaiting_custom_category'' \<mapsto> PyBool True),
      [EditMessageText msg_custom_category_prompt
         (create_back_keyboard ''back_to_category_selection'')])"

definition handle_custom_category :: "string \<Rightarrow> user_data \<Rightarrow> step" where
  "handle_custom_category text ud =
     (if \<not> truthy (ud_get_none ud ''awaiting_custom_category'') then (ud, [])
      else
        (ud(''category'' \<mapsto> PyStr text, ''awaiting_custom_category'' \<mapsto> PyBool False,
            ''awaiting_description'' \<mapsto> PyBool True),
         [ReplyText (msg_category_prefix @ text @ msg_describe_risk)
            (create_back_keyboard ''back_to_category_selection'')]))"

definition choose_category :: "string \<Rightarrow> user_data \<Rightarrow> py_error + step" where
  "choose_category data ud =
     (case after_first CHR ''_'' data of
        None \<Rightarrow> Inl IndexError
      | Some cat \<Rightarrow>
          Inr (ud(''category'' \<mapsto> PyStr cat, ''awaiting_description'' \<mapsto> PyBool True),
               [EditMessageText (msg_category_prefix @ cat @ msg_describe_risk)
                  (create_back_keyboard ''back_to_category_selection'')]))"

text \<open>\<^verbatim>\<open>get_description\<close>, lines 951-972: the forward arrival at the schedule-impact
  step.\<close>

definition get_description :: "string \<Rightarrow> user_data \<Rightarrow> step" where
  "get_description text ud =
     (if \<not> truthy (ud_get_none ud ''awaiting_description'') then (ud, [])
      else
        (ud(''description'' \<mapsto> PyStr text, ''awaiting_description'' \<mapsto> PyBool False),
         [ReplyText msg_schedule_choice_days schedule_keyboard]))"

subsection \<open>Schedule and cost impact before mitigation\<close>

text \<open>\<^verbatim>\<open>no_impact_schedule\<close> (975-997), \<^verbatim>\<open>request_schedule_evaluation\<close> (1000-1023) and
  \<^verbatim>\<open>evaluate_schedule_impact\<close> (1026-1037).\<close>

definition no_impact_schedule :: "user_data \<Rightarrow> step" where
  "no_impact_schedule ud =
     (ud(''impact_schedule_min'' \<mapsto> PyInt 0, ''impact_schedule_most_likely'' \<mapsto> PyInt 0,
         ''impact_schedule_max'' \<mapsto> PyInt 0, ''needs_schedule_evaluation'' \<mapsto> PyInt 0),
      [EditMessageText msg_cost_choice_mln cost_keyboard])"

definition request_schedule_evaluation :: "user_data \<Rightarrow> step" where
  "request_schedule_evaluation ud =
     (ud(''needs_schedule_evaluation'' \<mapsto> PyInt 1, ''impact_schedule_min'' \<mapsto> PyInt 0,
         ''impact_schedule_most_likely'' \<mapsto> PyInt 0, ''impact_schedule_max'' \<mapsto> PyInt 0),
      [EditMessageText msg_cost_choice_mln cost_keyboard])"

definition evaluate_schedule_impact :: "user_data \<Rightarrow> step" where
  "evaluate_schedule_impact ud =
     (ud(''needs_schedule_evaluation'' \<mapsto> PyInt 0, ''awaiting_schedule_values'' \<mapsto> PyBool True),
      [EditMessageText msg_schedule_values_prompt (create_back_keyboard ''back_to_schedule_impact'')])"

text \<open>
  \<^verbatim>\<open>handle_schedule_values\<close>, lines 1041-1082. The handler returns at once when the
  triple is not awaited. A \<^verbatim>\<open>ValueError\<close> of the parser is answered with its message and
  the request for three numbers; a triple out of order is answered with the ordering
  error; on both paths nothing is assigned. Only an ordered triple is stored, the marker
  is lowered and the cost-impact step is rendered.
\<close>

definition handle_schedule_values :: "string \<Rightarrow> user_data \<Rightarrow> step" where
  "handle_schedule_values text ud =
     (if \<not> truthy (ud_get_none ud ''awaiting_schedule_values'') then (ud, [])
      else
        (case parse_three_values text of
           Inl e \<Rightarrow>
             (ud, [ReplyText (e @ msg_enter_three) (create_back_keyboard ''back_to_schedule_impact'')])
         | Inr (min_val, most_likely_val, max_val) \<Rightarrow>
             if \<not> (min_val \<le> most_likely_val \<and> most_likely_val \<le> max_val) then
               (ud, [ReplyText msg_order_error (create_back_keyboard ''back_to_schedule_impact'')])
             else
               (ud(''impact_schedule_min'' \<mapsto> PyInt min_val,
                   ''impact_schedule_most_likely'' \<mapsto> PyInt most_likely_val,
                   ''impact_schedule_max'' \<mapsto> PyInt max_val,
                   ''awaiting_schedule_values'' \<mapsto> PyBool False),
                [ReplyText msg_cost_choice cost_keyboard])))"

text \<open>\<^verbatim>\<open>no_impact_cost\<close> (1085-1108), \<^verbatim>\<open>request_cost_evaluation\<close> (1111-1135) and
  \<^verbatim>\<open>evaluate_cost_impact\<close> (1138-1149): the forward arrival at the probability step.\<close>

definition no_impact_cost :: "user_data \<Rightarrow> step" where
  "no_impact_cost ud =
     (ud(''impact_cost_min'' \<mapsto> PyInt 0, ''impact_cost_most_likely'' \<mapsto> PyInt 0,
         ''impact_cost_max'' \<mapsto> PyInt 0, ''needs_cost_evaluation'' \<mapsto> PyInt 0),
      [EditMessageText msg_probability_prompt probability_keyboard])"

definition request_cost_evaluation :: "user_data \<Rightarrow> step" where
  "request_cost_evaluation ud =
     (ud(''needs_cost_evaluation'' \<mapsto> PyInt 1, ''impact_cost_min'' \<mapsto> PyInt 0,
         ''impact_cost_most_likely'' \<mapsto> PyInt 0, ''impact_cost_max'' \<mapsto> PyInt 0),
      [EditMessageText msg_probability_prompt probability_keyboard])"

definition evaluate_cost_impact :: "user_data \<Rightarrow> step" where
  "evaluate_cost_impact ud =
     (ud(''needs_cost_evaluation'' \<mapsto> PyInt 0, ''awaiting_cost_values'' \<mapsto> PyBool True),
      [EditMessageText msg_cost_values_prompt (create_back_keyboard ''back_to_cost_impact'')])"

text \<open>\<^verbatim>\<open>handle_cost_values\<close>, lines 1153-1194.\<close>

definition handle_cost_values :: "string \<Rightarrow> user_data \<Rightarrow> step" where
  "handle_cost_values text ud =
     (if \<not> truthy (ud_get_none ud ''awaiting_cost_values'') then (ud, [])
      else
        (case parse_three_values text of
           Inl e \<Rightarrow>
             (ud, [ReplyText (e @ msg_enter_three) (create_back_keyboard ''back_to_cost_impact'')])
         | Inr (min_val, most_likely_val, max_val) \<Rightarrow>
             if \<not> (min_val \<le> most_likely_val \<and> most_likely_val \<le> max_val) then
               (ud, [ReplyText msg_order_error (create_back_keyboard ''back_to_cost_impact'')])
             else
               (ud(''impact_cost_min'' \<mapsto> PyInt min_val,
                   ''impact_cost_most_likely'' \<mapsto> PyInt most_likely_val,
                   ''impact_cost_max'' \<mapsto> PyInt max_val,
                   ''awaiting_cost_values'' \<mapsto> PyBool False),
                [ReplyText msg_probability_prompt probability_keyboard])))"

subsection \<open>Timeline, mitigation and expected result\<close>

text \<open>\<^verbatim>\<open>handle_timeline\<close> (1258-1279), \<^verbatim>\<open>add_mitigation_with_evaluation\<close> (1284-1295),
  \<^verbatim>\<open>add_mitigation_without_evaluation\<close> (1298-1309) and \<^verbatim>\<open>handle_mitigation\<close>
  (1312-1324).\<close>

definition handle_timeline :: "string \<Rightarrow> user_data \<Rightarrow> step" where
  "handle_timeline text ud =
     (if \<not> truthy (ud_get_none ud ''awaiting_timeline'') then (ud, [])
      else
        (ud(''timeline'' \<mapsto> PyStr text, ''awaiting_timeline'' \<mapsto> PyBool False),
         [ReplyText msg_choose_action mitigation_choice_keyboard]))"

definition add_mitigation_with_evaluation :: "user_data \<Rightarrow> step" where
  "add_mitigation_with_evaluation ud =
     (ud(''reevaluation_needed'' \<mapsto> PyInt 1, ''awaiting_mitigation'' \<mapsto> PyBool True),
      [EditMessageText msg_mitigation_prompt (create_back_keyboard ''back_to_mitigation_choice'')])"

definition add_mitigation_without_evaluation :: "user_data \<Rightarrow> step" where
  "add_mitigation_without_evaluation ud =
     (ud(''reevaluation_needed'' \<mapsto> PyInt 0, ''awaiting_mitigation'' \<mapsto> PyBool True),
      [EditMessageText msg_mitigation_prompt (create_back_keyboard ''back_to_mitigation_choice'')])"

definition handle_mitigation :: "string \<Rightarrow> user_data \<Rightarrow> step" where
  "handle_mitigation text ud =
     (if \<not> truthy (ud_get_none ud ''awaiting_mitigation'') then (ud, [])
      else
        (ud(''mitigation'' \<mapsto> PyStr text, ''awaiting_mitigation'' \<mapsto> PyBool False,
            ''awaiting_expected_result'' \<mapsto> PyBool True),
         [ReplyText msg_expected_prompt (create_back_keyboard ''back_to_mitigation'')]))"

text \<open>
  \<^verbatim>\<open>handle_expected_result\<close>, lines 1327-1353: with re-evaluation the second pass
  starts at its schedule-impact step; without it the draft is committed at once, the
  update being the text message.
\<close>

definition handle_expected_result :: "env \<Rightarrow> user \<Rightarrow> string \<Rightarrow> user_data \<times> db \<Rightarrow> result" where
  "handle_expected_result e u text st =
     (let ud = fst st; d = snd st in
      if \<not> truthy (ud_get_none ud ''awaiting_expected_result'') then ((ud, d), [], None)
      else
        let ud1 = ud(''expected_result'' \<mapsto> PyStr text, ''awaiting_expected_result'' \<mapsto> PyBool False)
        in if as_number (ud_get ud1 ''reevaluation_needed'' (PyInt 0)) = Some 1 then
             ((ud1, d), [ReplyText msg_schedule_re_choice_days schedule_re_keyboard], None)
           else save_risk e (Message u text) (ud1, d))"

subsection \<open>The second pass, after mitigation\<close>

text \<open>\<^verbatim>\<open>no_impact_schedule_re\<close> (1358-1381), \<^verbatim>\<open>request_schedule_evaluation_re\<close>
  (1384-1408), \<^verbatim>\<open>evaluate_schedule_impact_re\<close> (1411-1422) and
  \<^verbatim>\<open>handle_schedule_values_re\<close> (1425-1466).\<close>

definition no_impact_schedule_re :: "user_data \<Rightarrow> step" where
  "no_impact_schedule_re ud =
     (ud(''impact_schedule_min_re'' \<mapsto> PyInt 0, ''impact_schedule_most_likely_re'' \<mapsto> PyInt 0,
         ''impact_schedule_max_re'' \<mapsto> PyInt 0, ''needs_schedule_evaluation_re'' \<mapsto> PyInt 0),
      [EditMessageText msg_cost_re_choice cost_re_keyboard])"

definition request_schedule_evaluation_re :: "user_data \<Rightarrow> step" where
  "request_schedule_evaluation_re ud =
     (ud(''needs_schedule_evaluation_re'' \<mapsto> PyInt 1, ''impact_schedule_min_re'' \<mapsto> PyInt 0,
         ''impact_schedule_most_likely_re'' \<mapsto> PyInt 0, ''impact_schedule_max_re'' \<mapsto> PyInt 0),
      [EditMessageText msg_cost_re_choice cost_re_keyboard])"

definition evaluate_schedule_impact_re :: "user_data \<Rightarrow> step" where
  "evaluate_schedule_impact_re ud =
     (ud(''needs_schedule_evaluation_re'' \<mapsto> PyInt 0,
         ''awaiting_schedule_values_re'' \<mapsto> PyBool True),
      [EditMessageText msg_schedule_values_re_prompt
         (create_back_keyboard ''back_to_schedule_impact_re'')])"

definition handle_schedule_values_re :: "string \<Rightarrow> user_data \<Rightarrow> step" where
  "handle_schedule_values_re text ud =
     (if \<not> truthy (ud_get_none ud ''awaiting_schedule_values_re'') then (ud, [])
      else
        (case parse_three_values text of
           Inl e \<Rightarrow>
             (ud, [ReplyText (e @ msg_enter_three)
                     (create_back_keyboard ''back_to_schedule_impact_re'')])
         | Inr (min_val, most_likely_val, max_val) \<Rightarrow>
             if \<not> (min_val \<le> most_likely_val \<and> most_likely_val \<le> max_val) then
               (ud, [ReplyText msg_order_error (create_back_keyboard ''back_to_schedule_impact_re'')])
             else
               (ud(''impact_schedule_min_re'' \<mapsto> PyInt min_val,
                   ''impact_schedule_most_likely_re'' \<mapsto> PyInt most_likely_val,
                   ''impact_schedule_max_re'' \<mapsto> PyInt max_val,
                   ''awaiting_schedule_values_re'' \<mapsto> PyBool False),
                [ReplyText msg_cost_re_choice cost_re_keyboard])))"

text \<open>\<^verbatim>\<open>no_impact_cost_re\<close> (1469-1492), \<^verbatim>\<open>request_cost_evaluation_re\<close> (1495-1519),
  \<^verbatim>\<open>evaluate_cost_impact_re\<close> (1522-1533) and \<^verbatim>\<open>handle_cost_values_re\<close>
  (1536-1577).\<close>

definition no_impact_cost_re :: "user_data \<Rightarrow> step" where
  "no_impact_cost_re ud =
     (ud(''impact_cost_min_re'' \<mapsto> PyInt 0, ''impact_cost_most_likely_re'' \<mapsto> PyInt 0,
         ''impact_cost_max_re'' \<mapsto> PyInt 0, ''needs_cost_evaluation_re'' \<mapsto> PyInt 0),
      [EditMessageText msg_probability_re_prompt probability_re_keyboard])"

definition request_cost_evaluation_re :: "user_data \<Rightarrow> step" where
  "request_cost_evaluation_re ud =
     (ud(''needs_cost_evaluation_re'' \<mapsto> PyInt 1, ''impact_cost_min_re'' \<mapsto> PyInt 0,
         ''impact_cost_most_likely_re'' \<mapsto> PyInt 0, ''impact_cost_max_re'' \<mapsto> PyInt 0),
      [EditMessageText msg_probability_re_prompt probability_re_keyboard])"

definition evaluate_cost_impact_re :: "user_data \<Rightarrow> step" where
  "evaluate_cost_impact_re ud =
     (ud(''needs_cost_evaluation_re'' \<mapsto> PyInt 0, ''awaiting_cost_values_re'' \<mapsto> PyBool True),
      [EditMessageText msg_cost_values_re_prompt (create_back_keyboard ''back_to_cost_impact_re'')])"

definition handle_cost_values_re :: "string \<Rightarrow> user_data \<Rightarrow> step" where
  "handle_cost_values_re text ud =
     (if \<not> truthy (ud_get_none ud ''awaiting_cost_values_re'') then (ud, [])
      else
        (case parse_three_values text of
           Inl e \<Rightarrow>
             (ud, [ReplyText (e @ msg_enter_three) (create_back_keyboard ''back_to_cost_impact_re'')])
         | Inr (min_val, most_likely_val, max_val) \<Rightarrow>
             if \<not> (min_val \<le> most_likely_val \<and> most_likely_val \<le> max_val) then
               (ud, [ReplyText msg_order_error (create_back_keyboard ''back_to_cost_impact_re'')])
             else
               (ud(''impact_cost_min_re'' \<mapsto> PyInt min_val,
                   ''impact_cost_most_likely_re'' \<mapsto> PyInt most_likely_val,
                   ''impact_cost_max_re'' \<mapsto> PyInt max_val,
                   ''awaiting_cost_values_re'' \<mapsto> PyBool False),
                [ReplyText msg_probability_re_prompt probability_re_keyboard])))"

text \<open>
  \<^verbatim>\<open>custom_probability_re_request\<close> (1580-1588), \<^verbatim>\<open>handle_custom_probability_re\<close>
  (1610-1632) and \<^verbatim>\<open>choose_probability_re\<close> (1635-1653). Both of the latter end the
  second pass by committing the draft; the \<^verbatim>\<open>except\<close> clauses around the call catch
  \<^verbatim>\<open>ValueError\<close> and \<^verbatim>\<open>IndexError\<close> only, which \<^verbatim>\<open>save_risk\<close> does not raise.
\<close>

definition custom_probability_re_request :: "user_data \<Rightarrow> step" where
  "custom_probability_re_request ud =
     (ud(''awaiting_custom_probability_re'' \<mapsto> PyBool True),
      [EditMessageText msg_custom_probability_re_prompt
         (create_back_keyboard ''back_to_probability_re'')])"

definition handle_custom_probability_re ::
  "env \<Rightarrow> user \<Rightarrow> string \<Rightarrow> user_data \<times> db \<Rightarrow> result" where
  "handle_custom_probability_re e u text st =
     (let ud = fst st; d = snd st in
      if \<not> truthy (ud_get_none ud ''awaiting_custom_probability_re'') then ((ud, d), [], None)
      else
        (case py_int text of
           None \<Rightarrow>
             ((ud, d),
              [ReplyText msg_number_0_100 (create_back_keyboard ''back_to_probability_re'')], None)
         | Some prob \<Rightarrow>
             if prob < 0 \<or> prob > 100 then
               ((ud, d),
                [ReplyText msg_number_0_100 (create_back_keyboard ''back_to_probability_re'')], None)
             else
               save_risk e (Message u text)
                 (ud(''probability_re'' \<mapsto> PyInt prob,
                     ''awaiting_custom_probability_re'' \<mapsto> PyBool False), d)))"

definition choose_probability_re ::
  "env \<Rightarrow> user \<Rightarrow> string \<Rightarrow> user_data \<times> db \<Rightarrow> result" where
  "choose_probability_re e u data st =
     (let ud = fst st; d = snd st; parts = split_on CHR ''_'' data in
      if length parts \<noteq> 3 \<or> parts ! 0 \<noteq> ''prob'' \<or> parts ! 1 \<noteq> ''re'' then
        ((ud, d), [AnswerAlert msg_bad_data_format], None)
      else
        (case py_int (parts ! 2) of
           None \<Rightarrow> ((ud, d), [AnswerAlert msg_processing_error], None)
         | Some prob_level \<Rightarrow>
             (case PROBABILITY_MAPPING prob_level of
                None \<Rightarrow> ((ud, d), [AnswerAlert msg_bad_level], None)
              | Some v \<Rightarrow>
                  save_risk e (CallbackQuery u data) (ud(''probability_re'' \<mapsto> PyInt v), d))))"

subsection \<open>Supplementary mitigations of a stored risk\<close>

text \<open>
  \<^verbatim>\<open>add_mitigation_start\<close> (672-683), \<^verbatim>\<open>handle_new_mitigation\<close> (710-725),
  \<^verbatim>\<open>handle_expected_result_for_mitigation\<close> (728-769) and \<^verbatim>\<open>back_to_risk_details\<close>
  (773-785). The \<^verbatim>\<open>INSERT\<close> of lines 745-749 is accepted under the same conditions as
  the one of \<^verbatim>\<open>save_risk\<close>; when it is not, the dictionary keeps its three keys.
\<close>

definition add_mitigation_start :: "string \<Rightarrow> user_data \<Rightarrow> py_error + step" where
  "add_mitigation_start data ud =
     (let parts = split_on CHR ''_'' data in
      if length parts < 3 then Inl IndexError
      else
        (case py_int (parts ! 2) of
           None \<Rightarrow> Inl ValueError
         | Some risk_id \<Rightarrow>
             Inr (ud(''adding_mitigation_to_risk'' \<mapsto> PyInt risk_id,
                     ''awaiting_mitigation_for_existing_risk'' \<mapsto> PyBool True),
                  [EditMessageText msg_mitigation_prompt
                     (create_back_keyboard ''back_to_risk_details'')])))"

definition handle_new_mitigation :: "string \<Rightarrow> user_data \<Rightarrow> step" where
  "handle_new_mitigation text ud =
     (if \<not> truthy (ud_get_none ud ''awaiting_mitigation_for_existing_risk'') then (ud, [])
      else
        (ud(''new_mitigation'' \<mapsto> PyStr text,
            ''awaiting_mitigation_for_existing_risk'' \<mapsto> PyBool False,
            ''awaiting_expected_result_for_mitigation'' \<mapsto> PyBool True),
         [ReplyText msg_expected_prompt (create_back_keyboard ''back_to_risk_details'')]))"

definition handle_expected_result_for_mitigation ::
  "env \<Rightarrow> user \<Rightarrow> string \<Rightarrow> user_data \<times> db \<Rightarrow> result" where
  "handle_expected_result_for_mitigation e u text st =
     (let ud = fst st; d = snd st in
      if \<not> truthy (ud_get_none ud ''awaiting_expected_result_for_mitigation'') then
        ((ud, d), [], None)
      else
        let risk_id = ud_get_none ud ''adding_mitigation_to_risk'';
            mitigation = ud_get_none ud ''new_mitigation''
        in if storage_ok e \<and> sqlite_int_ok risk_id \<and> sqlite_int_ok (PyInt (uid u))
              \<and> sqlite_int_ok mitigation then
             let row = \<lparr>mid = mitigations_seq d + 1, m_risk_id = risk_id, m_user_id = uid u,
                        m_username = display_name u, m_mitigation = mitigation,
                        m_expected_result = text, m_timestamp = now_iso e\<rparr>;
                 d1 = d\<lparr>additional_mitigations := additional_mitigations d @ [row],
                        mitigations_seq := mitigations_seq d + 1\<rparr>;
                 ud1 = ud_pop (ud_pop (ud_pop ud ''adding_mitigation_to_risk'') ''new_mitigation'')
                         ''awaiting_expected_result_for_mitigation''
             in ((ud1, d1),
                 [ReplyText msg_mitigation_added
                    [[(view_updated_label, ''view_risk_'' @ py_str risk_id)]]], None)
           else
             ((ud, d), [ReplyText msg_mitigation_failed (create_back_keyboard ''back_to_menu'')],
              None))"

definition back_to_risk_details :: "env \<Rightarrow> user \<Rightarrow> string \<Rightarrow> user_data \<times> db \<Rightarrow> result" where
  "back_to_risk_details e u data st =
     (let ud = fst st; d = snd st in
      if truthy (ud_get ud ''adding_mitigation_to_risk'' (PyInt 0)) then
        ((ud(''awaiting_mitigation_for_existing_risk'' \<mapsto> PyBool True), d),
         [EditMessageText msg_mitigation_prompt (create_back_keyboard ''back_to_risk_details'')],
         None)
      else start e (CallbackQuery u data) (ud, d))"

section \<open>Back navigation: \<open>handle_back\<close>\<close>

text \<open>
  \<^verbatim>\<open>handle_back\<close>, lines 1897-2138, on the \<^verbatim>\<open>callback_data\<close> of the pressed button: one
  branch per return point, in the order of the source. A branch removes the keys of its
  step with \<^verbatim>\<open>pop\<close> and renders the step again; \<open>back_to_menu\<close> only calls
  \<^verbatim>\<open>start\<close>. A \<^verbatim>\<open>callback_data\<close> that names no return point does nothing.
\<close>

definition handle_back :: "env \<Rightarrow> user \<Rightarrow> string \<Rightarrow> user_data \<times> db \<Rightarrow> result" where
  "handle_back e u back_data st =
     (let ud = fst st; d = snd st in
      if back_data = ''back_to_menu'' then start e (CallbackQuery u back_data) (ud, d)
      else if back_data = ''back_to_phase_selection'' then
        ((ud_pop (ud_pop ud ''phase'') ''awaiting_custom_phase'', d), submit_risk_start, None)
      else if back_data = ''toggle_subscription'' then toggle_subscription e u back_data (ud, d)
      else if back_data = ''back_to_object_selection'' then
        let ud1 = ud_pop (ud_pop ud ''object'') ''awaiting_custom_object'';
            phase = ud_get_none ud1 ''phase''
        in ((ud1, d),
            [EditMessageText (msg_phase_prefix @ py_str phase @ msg_choose_object) object_keyboard],
            None)
      else if back_data = ''back_to_view_phase_selection'' then
        ((ud_pop (ud_pop ud ''selected_view_phase'') ''view_risks_page'', d), select_view_phase,
         None)
      else if back_data = ''back_to_category_selection'' then
        let ud1 = ud_pop (ud_pop ud ''category'') ''awaiting_custom_category'';
            obj = ud_get_none ud1 ''object''
        in ((ud1, d),
            [EditMessageText (msg_object_prefix @ py_str obj @ msg_choose_category)
               category_keyboard],
            None)
      else if back_data = ''back_to_description'' then
        let ud1 = ud_pop (ud_pop ud ''description'') ''awaiting_description'';
            cat = ud_get_none ud1 ''category''
        in ((ud1(''awaiting_description'' \<mapsto> PyBool True), d),
            [EditMessageText (msg_category_prefix @ py_str cat @ msg_describe_risk)
               (create_back_keyboard ''back_to_category_selection'')],
            None)
      else if back_data = ''back_to_schedule_impact'' then
        ((ud_pop (ud_pop (ud_pop (ud_pop (ud_pop ud ''impact_schedule_min'')
             ''impact_schedule_most_likely'') ''impact_schedule_max'')
             ''needs_schedule_evaluation'') ''awaiting_schedule_values'', d),
         [EditMessageText msg_schedule_choice schedule_keyboard], None)
      else if back_data = ''back_to_cost_impact'' then
        ((ud_pop (ud_pop (ud_pop (ud_pop (ud_pop ud ''impact_cost_min'')
             ''impact_cost_most_likely'') ''impact_cost_max'')
             ''needs_cost_evaluation'') ''awaiting_cost_values'', d),
         [EditMessageText msg_cost_choice cost_keyboard], None)
      else if back_data = ''back_to_probability'' then
        ((ud_pop (ud_pop ud ''probability'') ''awaiting_custom_probability'', d),
         [EditMessageText msg_probability_prompt probability_keyboard_back], None)
      else if back_data = ''back_to_timeline'' then
        (((ud_pop (ud_pop ud ''timeline'') ''awaiting_timeline'')
            (''awaiting_timeline'' \<mapsto> PyBool True), d),
         [EditMessageText msg_timeline_prompt (create_back_keyboard ''back_to_probability'')],
         None)
      else if back_data = ''back_to_mitigation_choice'' then
        ((ud_pop (ud_pop ud ''reevaluation_needed'') ''awaiting_mitigation'', d),
         [EditMessageText msg_choose_action mitigation_choice_keyboard], None)
      else if back_data = ''back_to_mitigation'' then
        (((ud_pop (ud_pop ud ''mitigation'') ''awaiting_mitigation'')
            (''awaiting_mitigation'' \<mapsto> PyBool True), d),
         [EditMessageText msg_mitigation_prompt (create_back_keyboard ''back_to_mitigation_choice'')],
         None)
      else if back_data = ''back_to_mitigation_result'' then
        (((ud_pop (ud_pop ud ''expected_result'') ''awaiting_expected_result'')
            (''awaiting_expected_result'' \<mapsto> PyBool True), d),
         [EditMessageText msg_expected_prompt (create_back_keyboard ''back_to_mitigation'')],
         None)
      else if back_data = ''back_to_schedule_impact_re'' then
        ((ud_pop (ud_pop (ud_pop (ud_pop (ud_pop ud ''impact_schedule_min_re'')
             ''impact_schedule_most_likely_re'') ''impact_schedule_max_re'')
             ''needs_schedule_evaluation_re'') ''awaiting_schedule_values_re'', d),
         [EditMessageText msg_schedule_re_choice schedule_re_keyboard], None)
      else if back_data = ''back_to_cost_impact_re'' then
        ((ud_pop (ud_pop (ud_pop (ud_pop (ud_pop ud ''impact_cost_min_re'')
             ''impact_cost_most_likely_re'') ''impact_cost_max_re'')
             ''needs_cost_evaluation_re'') ''awaiting_cost_values_re'', d),
         [EditMessageText msg_cost_re_choice cost_re_keyboard], None)
      else if back_data = ''back_to_probability_re'' then
        ((ud_pop (ud_pop ud ''probability_re'') ''awaiting_custom_probability_re'', d),
         [EditMessageText msg_probability_re_prompt probability_re_keyboard], None)
      else ((ud, d), [], None))"

section \<open>Routing of text messages: \<open>handle_text\<close>\<close>

text \<open>A step that touches only the dictionary, as a result that leaves the database
  alone and raises nothing.\<close>

definition lift_step :: "db \<Rightarrow> step \<Rightarrow> result" where
  "lift_step d s = ((fst s, d), snd s, None)"

text \<open>
  \<^verbatim>\<open>handle_text\<close>, lines 2142-2182: the first marker that is set decides which handler
  receives the text; with no marker set the text is answered with the way back to the
  menu.
\<close>

definition handle_text :: "env \<Rightarrow> user \<Rightarrow> string \<Rightarrow> user_data \<times> db \<Rightarrow> result" where
  "handle_text e u text st =
     (let ud = fst st; d = snd st in
      if truthy (ud_get_none ud ''awaiting_custom_phase'') then
        lift_step d (handle_custom_phase text ud)
      else if truthy (ud_get_none ud ''awaiting_custom_object'') then
        lift_step d (handle_custom_object text ud)
      else if truthy (ud_get_none ud ''awaiting_custom_category'') then
        lift_step d (handle_custom_category text ud)
      else if truthy (ud_get_none ud ''awaiting_description'') then
        lift_step d (get_description text ud)
      else if truthy (ud_get_none ud ''awaiting_schedule_values'') then
        lift_step d (handle_schedule_values text ud)
      else if truthy (ud_get_none ud ''awaiting_cost_values'') then
        lift_step d (handle_cost_values text ud)
      else if truthy (ud_get_none ud ''awaiting_custom_probability'') then
        lift_step d (handle_custom_probability text ud)
      else if truthy (ud_get_none ud ''awaiting_timeline'') then
        lift_step d (handle_timeline text ud)
      else if truthy (ud_get_none ud ''awaiting_mitigation'') then
        lift_step d (handle_mitigation text ud)
      else if truthy (ud_get_none ud ''awaiting_expected_result'') then
        handle_expected_result e u text (ud, d)
      else if truthy (ud_get_none ud ''awaiting_schedule_values_re'') then
        lift_step d (handle_schedule_values_re text ud)
      else if truthy (ud_get_none ud ''awaiting_cost_values_re'') then
        lift_step d (handle_cost_values_re text ud)
      else if truthy (ud_get_none ud ''awaiting_custom_probability_re'') then
        handle_custom_probability_re e u text (ud, d)
      else if truthy (ud_get_none ud ''awaiting_mitigation_for_existing_risk'') then
        lift_step d (handle_new_mitigation text ud)
      else if truthy (ud_get_none ud ''awaiting_expected_result_for_mitigation'') then
        handle_expected_result_for_mitigation e u text (ud, d)
      else
        ((ud, d), [ReplyText msg_not_understood [[(main_menu_label, ''back_to_menu'')]]], None))"

section \<open>Key groups and example runs\<close>

text \<open>The keys that the branch \<open>back_to_schedule_impact\<close> removes, lines 1964-1968.\<close>

definition schedule_step_keys :: "string set" where
  "schedule_step_keys =
     {''impact_schedule_min'', ''impact_schedule_most_likely'', ''impact_schedule_max'',
      ''needs_schedule_evaluation'', ''awaiting_schedule_values''}"

text \<open>The dictionary of a handler's result.\<close>

definition ud_of :: "result \<Rightarrow> user_data" where
  "ud_of r = fst (fst r)"

definition db_of :: "result \<Rightarrow> db" where
  "db_of r = snd (fst r)"

definition actions_of :: "result \<Rightarrow> action list" where
  "actions_of r = fst (snd r)"

definition raised :: "result \<Rightarrow> py_error option" where
  "raised r = snd (snd r)"

text \<open>
  A second submission after the example draft has been committed: the user returns to
  the menu, starts again and answers every step, this time without re-evaluation. The
  button presses go to the handlers that \<^verbatim>\<open>main\<close> registers for them (lines 2207-2246),
  the text messages to \<open>handle_text\<close>.
\<close>

definition ex_first_commit :: result where
  "ex_first_commit = save_risk ex_env (Message ex_user ''less'') (ex_draft, ex_db)"

definition ex_second_submission :: result where
  "ex_second_submission =
     (let r0 = handle_back ex_env ex_user ''back_to_menu'' (fst ex_first_commit);
          d = db_of r0;
          ud1 = (case choose_phase ''phase_1'' (ud_of r0) of Inr s \<Rightarrow> fst s | Inl x \<Rightarrow> ud_of r0);
          ud2 = (case choose_object ''object_Pad'' ud1 of Inr s \<Rightarrow> fst s | Inl x \<Rightarrow> ud1);
          ud3 = (case choose_category ''cat_HSE'' ud2 of Inr s \<Rightarrow> fst s | Inl x \<Rightarrow> ud2);
          r4 = handle_text ex_env ex_user ''second risk'' (ud3, d);
          ud5 = fst (no_impact_schedule (ud_of r4));
          ud6 = fst (no_impact_cost ud5);
          ud7 = fst (choose_probability ''prob_1'' ud6);
          r8 = handle_text ex_env ex_user ''Q4'' (ud7, db_of r4);
          ud9 = fst (add_mitigation_without_evaluation (ud_of r8));
          r10 = handle_text ex_env ex_user ''inspect'' (ud9, db_of r8)
      in handle_text ex_env ex_user ''fewer incidents'' (fst r10))"

text \<open>
  A draft at its last step, the expected result, without re-evaluation; and the same
  environment with the storage engine refusing writes.
\<close>

definition ex_pending :: user_data where
  "ex_pending =
     [''phase'' \<mapsto> PyStr ''3'', ''object'' \<mapsto> PyStr ''Wells'', ''category'' \<mapsto> PyStr ''Drilling'',
      ''description'' \<mapsto> PyStr ''test'', ''awaiting_description'' \<mapsto> PyBool False,
      ''impact_schedule_min'' \<mapsto> PyInt 0, ''impact_schedule_most_likely'' \<mapsto> PyInt 0,
      ''impact_schedule_max'' \<mapsto> PyInt 0, ''needs_schedule_evaluation'' \<mapsto> PyInt 1,
      ''impact_cost_min'' \<mapsto> PyInt 100, ''impact_cost_most_likely'' \<mapsto> PyInt 300,
      ''impact_cost_max'' \<mapsto> PyInt 900, ''needs_cost_evaluation'' \<mapsto> PyInt 0,
      ''awaiting_cost_values'' \<mapsto> PyBool False,
      ''probability'' \<mapsto> PyInt 80, ''awaiting_custom_probability'' \<mapsto> PyBool False,
      ''timeline'' \<mapsto> PyStr ''Q3'', ''awaiting_timeline'' \<mapsto> PyBool False,
      ''reevaluation_needed'' \<mapsto> PyInt 0, ''mitigation'' \<mapsto> PyStr ''drill'',
      ''awaiting_mitigation'' \<mapsto> PyBool False, ''awaiting_expected_result'' \<mapsto> PyBool True]"

definition ex_env_down :: env where
  "ex_env_down = ex_env\<lparr>storage_ok := False\<rparr>"

definition ex_failed_commit :: result where
  "ex_failed_commit = handle_text ex_env_down ex_user ''less'' (ex_pending, ex_db)"

text \<open>
  The draft of a supplementary mitigation for the stored risk 1, at its last step.
\<close>

definition ex_mitigation_draft :: user_data where
  "ex_mitigation_draft =
     [''adding_mitigation_to_risk'' \<mapsto> PyInt 1, ''new_mitigation'' \<mapsto> PyStr ''inspect'',
      ''awaiting_mitigation_for_existing_risk'' \<mapsto> PyBool False,
      ''awaiting_expected_result_for_mitigation'' \<mapsto> PyBool True]"

section \<open>What the entry of a triple is required to do\<close>

text \<open>
  In terms of the characters of a text: a signed number is a run of decimal digits, or a
  minus sign and such a run, and its value is read in base 10. A separator is any run of
  characters without digits that does not end in a minus sign (a minus sign directly
  before digits is read as their sign). The gap between two numbers is a separator that
  is not empty, unless the second number starts with a minus sign. What follows the last
  number of interest is any text that does not continue its digits.
\<close>

definition digit_run :: "int list \<Rightarrow> bool" where
  "digit_run ds = (ds \<noteq> [] \<and> list_all is_digit ds)"

definition signed_number :: "int list \<Rightarrow> bool" where
  "signed_number t = (digit_run t \<or> (t \<noteq> [] \<and> hd t = 45 \<and> digit_run (tl t)))"

definition signed_value :: "int list \<Rightarrow> int" where
  "signed_value t =
     (if t \<noteq> [] \<and> hd t = 45 then - int (nat_of_digits (tl t)) else int (nat_of_digits t))"

definition separator :: "int list \<Rightarrow> bool" where
  "separator s = (list_all (\<lambda>c. \<not> is_digit c) s \<and> (s = [] \<or> last s \<noteq> 45))"

definition gap :: "int list \<Rightarrow> int list \<Rightarrow> bool" where
  "gap s t = (separator s \<and> (s \<noteq> [] \<or> (t \<noteq> [] \<and> hd t = 45)))"

definition follows_number :: "int list \<Rightarrow> bool" where
  "follows_number r = (r = [] \<or> \<not> is_digit (hd r))"

text \<open>
  \<open>validates_triple handler marker k_min k_likely k_max back_data next_step\<close>: whenever
  the marker is set, a text that the parser refuses is answered with the parser's error
  and the request for three numbers, and the dictionary is returned as it was;
  three numbers out of order are answered with the ordering error, and the dictionary
  is returned as it was; three numbers in order are stored under the three keys, the
  marker is lowered and the next step is rendered.
\<close>

definition validates_triple ::
  "(string \<Rightarrow> user_data \<Rightarrow> step) \<Rightarrow> string \<Rightarrow> string \<Rightarrow> string \<Rightarrow> string \<Rightarrow> string \<Rightarrow> action \<Rightarrow> bool"
  where
  "validates_triple handler marker k_min k_likely k_max back_data next_step =
     (\<forall>text ud. truthy (ud_get_none ud marker) \<longrightarrow>
        (\<forall>e. parse_three_values text = Inl e \<longrightarrow>
           handler text ud
             = (ud, [ReplyText (e @ msg_enter_three) (create_back_keyboard back_data)]))
      \<and> (\<forall>a b c. parse_three_values text = Inr (a, b, c) \<and> \<not> (a \<le> b \<and> b \<le> c) \<longrightarrow>
           handler text ud = (ud, [ReplyText msg_order_error (create_back_keyboard back_data)]))
      \<and> (\<forall>a b c. parse_three_values text = Inr (a, b, c) \<and> a \<le> b \<and> b \<le> c \<longrightarrow>
           handler text ud
             = (ud(k_min \<mapsto> PyInt a, k_likely \<mapsto> PyInt b, k_max \<mapsto> PyInt c,
                   marker \<mapsto> PyBool False),
                [next_step])))"

text \<open>A dictionary in which only the schedule triple is awaited.\<close>

definition ex_awaiting :: user_data where
  "ex_awaiting = [''description'' \<mapsto> PyStr ''test'', ''needs_schedule_evaluation'' \<mapsto> PyInt 0,
                  ''awaiting_schedule_values'' \<mapsto> PyBool True]"

text \<open>
  Messages with digits and blanks beyond ASCII: `1 2 3' in Arabic-Indic digits; `1 2 3 4'
  with an Arabic-Indic 2; and `10, 20, 30' in fullwidth digits separated by ideographic
  commas and no-break spaces.
\<close>

definition ex_text_arabic :: string where
  "ex_text_arabic =
     [CHR 0xD9, CHR 0xA1, CHR 0x20, CHR 0xD9, CHR 0xA2, CHR 0x20, CHR 0xD9, CHR 0xA3]"

definition ex_text_mixed :: string where
  "ex_text_mixed =
     [CHR 0x31, CHR 0x20, CHR 0xD9, CHR 0xA2, CHR 0x20, CHR 0x33, CHR 0x20, CHR 0x34]"

definition ex_text_fullwidth :: string where
  "ex_text_fullwidth =
     [CHR 0xEF, CHR 0xBC, CHR 0x91, CHR 0xEF, CHR 0xBC, CHR 0x90, CHR 0xE3, CHR 0x80,
      CHR 0x81, CHR 0xC2, CHR 0xA0, CHR 0xEF, CHR 0xBC, CHR 0x92, CHR 0xEF, CHR 0xBC,
      CHR 0x90, CHR 0xE3, CHR 0x80, CHR 0x81, CHR 0xC2, CHR 0xA0, CHR 0xEF, CHR 0xBC,
      CHR 0x93, CHR 0xEF, CHR 0xBC, CHR 0x90]"

section \<open>The daily reminder\<close>

text \<open>
  \<^verbatim>\<open>send_daily_reminder\<close>, lines 426-464. The list of subscribed users is read once,
  before the loop; that read is outside any \<^verbatim>\<open>try\<close>, so an unavailable storage engine
  makes the callback raise before anything is sent. One round of the loop asks the table
  whether the user's \<^verbatim>\<open>last_notification\<close> is today's date; if it is not, it sends the
  reminder and then writes today's date. A send that raises is caught: the date is not
  written, the failure is logged and the loop goes on. The clock is read once per run in
  the model (the source reads it several times within the same run). The log lines are
  kept by their kind and user only.
\<close>

datatype log_entry = LogInfo int | LogError int

definition reminder_message :: "env \<Rightarrow> string" where
  "reminder_message e = msg_reminder_head @ today_dmy e @ msg_reminder_body"

definition already_notified :: "env \<Rightarrow> int \<Rightarrow> db \<Rightarrow> bool" where
  "already_notified e user_id d =
     list_ex (\<lambda>s. s_user_id s = user_id \<and> last_notification s = Some (today_ymd e))
       (subscriptions d)"

definition set_last_notification :: "env \<Rightarrow> int \<Rightarrow> db \<Rightarrow> db" where
  "set_last_notification e user_id d =
     d\<lparr>subscriptions :=
         map (\<lambda>s. if s_user_id s = user_id then s\<lparr>last_notification := Some (today_ymd e)\<rparr>
                  else s)
           (subscriptions d)\<rparr>"

fun remind_users :: "env \<Rightarrow> int list \<Rightarrow> db \<Rightarrow> db \<times> action list \<times> log_entry list" where
  "remind_users e [] d = (d, [], [])"
| "remind_users e (user_id # rest) d =
     (if already_notified e user_id d then remind_users e rest d
      else if can_deliver e user_id then
        (case remind_users e rest (set_last_notification e user_id d) of
           (d', sent, log) \<Rightarrow>
             (d',
              SendMessage user_id (reminder_message e) [[(submit_risk_label, ''submit_risk'')]]
                # sent,
              LogInfo user_id # log))
      else
        (case remind_users e rest d of
           (d', sent, log) \<Rightarrow> (d', sent, LogError user_id # log)))"

definition send_daily_reminder ::
  "env \<Rightarrow> db \<Rightarrow> (db \<times> action list \<times> log_entry list) \<times> py_error option" where
  "send_daily_reminder e d =
     (if \<not> storage_ok e then ((d, [], []), Some DatabaseError)
      else (remind_users e (get_subscribed_users d) d, None))"

text \<open>The chats that the loop sent a reminder to, and the users whose delivery failure it
  logged, each in order; the same for a run of the callback, and the database it left.\<close>

fun recipient :: "action \<Rightarrow> int list" where
  "recipient (SendMessage chat_id t k) = [chat_id]"
| "recipient a = []"

definition sent_to :: "env \<Rightarrow> int list \<Rightarrow> db \<Rightarrow> int list" where
  "sent_to e us d = concat (map recipient (fst (snd (remind_users e us d))))"

definition failed_for :: "env \<Rightarrow> int list \<Rightarrow> db \<Rightarrow> int list" where
  "failed_for e us d = concat (map (\<lambda>l. case l of LogError u \<Rightarrow> [u] | LogInfo u \<Rightarrow> [])
               (snd (snd (remind_users e us d))))"

definition reminded :: "env \<Rightarrow> db \<Rightarrow> int list" where
  "reminded e d = concat (map recipient (fst (snd (fst (send_daily_reminder e d)))))"

definition after_reminder :: "env \<Rightarrow> db \<Rightarrow> db" where
  "after_reminder e d = fst (fst (send_daily_reminder e d))"

definition reminder_errors :: "env \<Rightarrow> db \<Rightarrow> int list" where
  "reminder_errors e d =
     concat (map (\<lambda>l. case l of LogError u \<Rightarrow> [u] | LogInfo u \<Rightarrow> [])
               (snd (snd (fst (send_daily_reminder e d)))))"

text \<open>
  Three subscribers on 1 January 2025: user 1 was notified today, user 2 yesterday, user
  3 never; user 4 is unsubscribed. At the first firing the transport fails for user 2
  only; at the second it delivers to everyone.
\<close>

definition ex_subs :: db where
  "ex_subs = ex_db\<lparr>subscriptions :=
     [\<lparr>s_user_id = 1, s_is_subscribed = 1, last_notification = Some ''2025-01-01''\<rparr>,
      \<lparr>s_user_id = 2, s_is_subscribed = 1, last_notification = Some ''2024-12-31''\<rparr>,
      \<lparr>s_user_id = 3, s_is_subscribed = 1, last_notification = None\<rparr>,
      \<lparr>s_user_id = 4, s_is_subscribed = 0, last_notification = None\<rparr>]\<rparr>"

definition ex_env_flaky :: env where
  "ex_env_flaky = ex_env\<lparr>can_deliver := (\<lambda>u. u \<noteq> 2)\<rparr>"

section \<open>Listing the stored risks\<close>

text \<open>
  The table \<^verbatim>\<open>risks\<close> declares \<^verbatim>\<open>phase\<close>, \<^verbatim>\<open>object\<close> and \<^verbatim>\<open>description\<close> as \<^verbatim>\<open>TEXT\<close>
  (lines 97-130): the engine keeps a number given for such a column as its decimal text,
  and \<^verbatim>\<open>None\<close> as \<^verbatim>\<open>NULL\<close>; it treats a parameter compared with such a column in the
  same way. \<open>column_text r k\<close> is the value that a query reads from column \<open>k\<close> of the
  row \<open>r\<close>, with \<open>None\<close> for \<^verbatim>\<open>NULL\<close>.
\<close>

fun sql_text :: "pyval \<Rightarrow> string option" where
  "sql_text PyNone = None"
| "sql_text (PyStr s) = Some s"
| "sql_text (PyInt i) = Some (str_of_int i)"
| "sql_text (PyBool b) = Some (if b then ''1'' else ''0'')"

definition column_text :: "risk \<Rightarrow> string \<Rightarrow> string option" where
  "column_text r k = (case map_of (r_draft r) k of None \<Rightarrow> None | Some v \<Rightarrow> sql_text v)"

text \<open>
  The two queries of \<^verbatim>\<open>view_risks_list\<close>, lines 509-538: the count of the matching rows
  and one page of them, \<^verbatim>\<open>ORDER BY risk_score DESC LIMIT 30 OFFSET (page - 1) * 30\<close>,
  for the phase \<open>all\<close> or for the rows \<^verbatim>\<open>WHERE phase = ?\<close> (a comparison with \<^verbatim>\<open>NULL\<close>
  holds for no row). \<^verbatim>\<open>id\<close> is the table's \<^verbatim>\<open>INTEGER PRIMARY KEY\<close>, so the engine visits
  the rows in the order of their identifiers; its sorter then orders the visited rows by
  the key of \<^verbatim>\<open>ORDER BY\<close> and keeps rows of equal key in the order of their arrival.
  \<^verbatim>\<open>LIMIT\<close> and \<^verbatim>\<open>OFFSET\<close> cut the page out of the sorted rows; a negative offset counts
  as 0.
\<close>

definition table_scan :: "risk list \<Rightarrow> risk list" where
  "table_scan rs = sort_key rid rs"

definition phase_matches :: "pyval \<Rightarrow> risk \<Rightarrow> bool" where
  "phase_matches selected_phase r =
     (selected_phase = PyStr ''all''
      \<or> (sql_text selected_phase \<noteq> None \<and> column_text r ''phase'' = sql_text selected_phase))"

definition matching_risks :: "db \<Rightarrow> pyval \<Rightarrow> risk list" where
  "matching_risks d selected_phase = filter (phase_matches selected_phase) (table_scan (risks d))"

definition order_by_risk_score_desc :: "risk list \<Rightarrow> risk list" where
  "order_by_risk_score_desc rs = sort_key (\<lambda>r. - risk_score r) rs"

definition MAX_RISKS_PER_MESSAGE :: nat where
  "MAX_RISKS_PER_MESSAGE = 30"

definition view_risks_query :: "db \<Rightarrow> pyval \<Rightarrow> int \<Rightarrow> risk list \<times> nat" where
  "view_risks_query d selected_phase page =
     (let total_risks = length (matching_risks d selected_phase);
          offset = (page - 1) * int MAX_RISKS_PER_MESSAGE;
          risks = take MAX_RISKS_PER_MESSAGE
                    (drop (nat offset) (order_by_risk_score_desc (matching_risks d selected_phase)))
      in (risks, total_risks))"

subsection \<open>The message and the keyboard of the list\<close>

text \<open>Line 523: `all phases'.\<close>

definition msg_all_phases :: string where
  "msg_all_phases =
     [CHR 0xD0, CHR 0xB2, CHR 0xD1, CHR 0x81, CHR 0xD0, CHR 0xB5, CHR 0xD1, CHR 0x85] @ '' '' @
     [CHR 0xD1, CHR 0x84, CHR 0xD0, CHR 0xB0, CHR 0xD0, CHR 0xB7, CHR 0xD0, CHR 0xB0, CHR 0xD1,
     CHR 0x85]"

text \<open>Line 539: `phase ' and an opening quote.\<close>

definition msg_phase_open :: string where
  "msg_phase_open =
     [CHR 0xD1, CHR 0x84, CHR 0xD0, CHR 0xB0, CHR 0xD0, CHR 0xB7, CHR 0xD0, CHR 0xB5] @ '' '' @
     [CHR 0x27]"

text \<open>Line 542: a mailbox emoji and `No risks available for '.\<close>

definition msg_no_risks_for :: string where
  "msg_no_risks_for =
     [CHR 0xF0, CHR 0x9F, CHR 0x93, CHR 0xAD] @ '' '' @ [CHR 0xD0, CHR 0x9D, CHR 0xD0, CHR 0xB5,
     CHR 0xD1, CHR 0x82] @ '' '' @ [CHR 0xD0, CHR 0xB4, CHR 0xD0, CHR 0xBE, CHR 0xD1, CHR 0x81,
     CHR 0xD1, CHR 0x82, CHR 0xD1, CHR 0x83, CHR 0xD0, CHR 0xBF, CHR 0xD0, CHR 0xBD, CHR 0xD1,
     CHR 0x8B, CHR 0xD1, CHR 0x85] @ '' '' @ [CHR 0xD1, CHR 0x80, CHR 0xD0, CHR 0xB8, CHR 0xD1,
     CHR 0x81, CHR 0xD0, CHR 0xBA, CHR 0xD0, CHR 0xBE, CHR 0xD0, CHR 0xB2] @ '' '' @ [CHR 0xD0,
     CHR 0xB4, CHR 0xD0, CHR 0xBB, CHR 0xD1, CHR 0x8F] @ '' ''"

text \<open>Line 554: a clipboard emoji and, in bold, `List of risks ('.\<close>

definition msg_list_head_paged :: string where
  "msg_list_head_paged =
     [CHR 0xF0, CHR 0x9F, CHR 0x93, CHR 0x8B] @ '' **'' @ [CHR 0xD0, CHR 0xA1, CHR 0xD0,
     CHR 0xBF, CHR 0xD0, CHR 0xB8, CHR 0xD1, CHR 0x81, CHR 0xD0, CHR 0xBE, CHR 0xD0, CHR 0xBA] @
     '' '' @ [CHR 0xD1, CHR 0x80, CHR 0xD0, CHR 0xB8, CHR 0xD1, CHR 0x81, CHR 0xD0, CHR 0xBA,
     CHR 0xD0, CHR 0xBE, CHR 0xD0, CHR 0xB2] @ '' (''"

text \<open>Line 554: `, page '.\<close>

definition msg_page_word :: string where
  "msg_page_word =
     '', '' @ [CHR 0xD1, CHR 0x81, CHR 0xD1, CHR 0x82, CHR 0xD1, CHR 0x80, CHR 0xD0, CHR 0xB0,
     CHR 0xD0, CHR 0xBD, CHR 0xD0, CHR 0xB8, CHR 0xD1, CHR 0x86, CHR 0xD0, CHR 0xB0] @ '' ''"

text \<open>Line 556: a clipboard emoji and, in bold, `List of all risks ('.\<close>

definition msg_list_head_all :: string where
  "msg_list_head_all =
     [CHR 0xF0, CHR 0x9F, CHR 0x93, CHR 0x8B] @ '' **'' @ [CHR 0xD0, CHR 0xA1, CHR 0xD0,
     CHR 0xBF, CHR 0xD0, CHR 0xB8, CHR 0xD1, CHR 0x81, CHR 0xD0, CHR 0xBE, CHR 0xD0, CHR 0xBA] @
     '' '' @ [CHR 0xD0, CHR 0xB2, CHR 0xD1, CHR 0x81, CHR 0xD0, CHR 0xB5, CHR 0xD1, CHR 0x85] @
     '' '' @ [CHR 0xD1, CHR 0x80, CHR 0xD0, CHR 0xB8, CHR 0xD1, CHR 0x81, CHR 0xD0, CHR 0xBA,
     CHR 0xD0, CHR 0xBE, CHR 0xD0, CHR 0xB2] @ '' (''"

text \<open>Lines 554 and 556: the end of the heading.\<close>

definition msg_list_head_end :: string where
  "msg_list_head_end =
     ''):**'' @ [CHR 0x0A]"

text \<open>Line 557: a chart emoji and `Risks in total: '.\<close>

definition msg_total_risks :: string where
  "msg_total_risks =
     [CHR 0xF0, CHR 0x9F, CHR 0x93, CHR 0x88] @ '' '' @ [CHR 0xD0, CHR 0x92, CHR 0xD1, CHR 0x81,
     CHR 0xD0, CHR 0xB5, CHR 0xD0, CHR 0xB3, CHR 0xD0, CHR 0xBE] @ '' '' @ [CHR 0xD1, CHR 0x80,
     CHR 0xD0, CHR 0xB8, CHR 0xD1, CHR 0x81, CHR 0xD0, CHR 0xBA, CHR 0xD0, CHR 0xBE, CHR 0xD0,
     CHR 0xB2] @ '': ''"

text \<open>Lines 563-566, the pieces of one entry: the number in bold.\<close>

definition item_number :: string where
  "item_number =
     ''**#''"

text \<open>`(Rating: '.\<close>

definition item_score :: string where
  "item_score =
     ''** ('' @ [CHR 0xD0, CHR 0xA0, CHR 0xD0, CHR 0xB5, CHR 0xD0, CHR 0xB9, CHR 0xD1, CHR 0x82,
     CHR 0xD0, CHR 0xB8, CHR 0xD0, CHR 0xBD, CHR 0xD0, CHR 0xB3] @ '': ''"

text \<open>`Phase: ' on a new line.\<close>

definition item_phase :: string where
  "item_phase =
     '')'' @ [CHR 0x0A] @ ''   '' @ [CHR 0xD0, CHR 0xA4, CHR 0xD0, CHR 0xB0, CHR 0xD0, CHR 0xB7,
     CHR 0xD0, CHR 0xB0] @ '': ''"

text \<open>`Object: ' on a new line.\<close>

definition item_object :: string where
  "item_object =
     [CHR 0x0A] @ ''   '' @ [CHR 0xD0, CHR 0x9E, CHR 0xD0, CHR 0xB1, CHR 0xD1, CHR 0x8A,
     CHR 0xD0, CHR 0xB5, CHR 0xD0, CHR 0xBA, CHR 0xD1, CHR 0x82] @ '': ''"

text \<open>`Description: ' on a new line.\<close>

definition item_description :: string where
  "item_description =
     [CHR 0x0A] @ ''   '' @ [CHR 0xD0, CHR 0x9E, CHR 0xD0, CHR 0xBF, CHR 0xD0, CHR 0xB8,
     CHR 0xD1, CHR 0x81, CHR 0xD0, CHR 0xB0, CHR 0xD0, CHR 0xBD, CHR 0xD0, CHR 0xB8, CHR 0xD0,
     CHR 0xB5] @ '': ''"

text \<open>Line 579: a left arrow and `Back'.\<close>

definition nav_previous_label :: string where
  "nav_previous_label =
     [CHR 0xE2, CHR 0xAC, CHR 0x85, CHR 0xEF, CHR 0xB8, CHR 0x8F] @ '' '' @ [CHR 0xD0, CHR 0x9D,
     CHR 0xD0, CHR 0xB0, CHR 0xD0, CHR 0xB7, CHR 0xD0, CHR 0xB0, CHR 0xD0, CHR 0xB4]"

text \<open>Line 582: a right arrow and `Next'.\<close>

definition nav_next_label :: string where
  "nav_next_label =
     [CHR 0xE2, CHR 0x9E, CHR 0xA1, CHR 0xEF, CHR 0xB8, CHR 0x8F] @ '' '' @ [CHR 0xD0, CHR 0x94,
     CHR 0xD0, CHR 0xB0, CHR 0xD0, CHR 0xBB, CHR 0xD0, CHR 0xB5, CHR 0xD0, CHR 0xB5]"

text \<open>Line 589: `Another phase'.\<close>

definition other_phase_label :: string where
  "other_phase_label =
     [CHR 0xF0, CHR 0x9F, CHR 0x94, CHR 0x84] @ '' '' @ [CHR 0xD0, CHR 0x94, CHR 0xD1, CHR 0x80,
     CHR 0xD1, CHR 0x83, CHR 0xD0, CHR 0xB3, CHR 0xD0, CHR 0xB0, CHR 0xD1, CHR 0x8F] @ '' '' @
     [CHR 0xD1, CHR 0x84, CHR 0xD0, CHR 0xB0, CHR 0xD0, CHR 0xB7, CHR 0xD0, CHR 0xB0]"

text \<open>Line 601: `An error occurred while fetching the list of risks. Please try again later.'\<close>

definition msg_list_error :: string where
  "msg_list_error =
     [CHR 0xE2, CHR 0x9D, CHR 0x8C] @ '' '' @ [CHR 0xD0, CHR 0x9F, CHR 0xD1, CHR 0x80, CHR 0xD0,
     CHR 0xBE, CHR 0xD0, CHR 0xB8, CHR 0xD0, CHR 0xB7, CHR 0xD0, CHR 0xBE, CHR 0xD1, CHR 0x88,
     CHR 0xD0, CHR 0xBB, CHR 0xD0, CHR 0xB0] @ '' '' @ [CHR 0xD0, CHR 0xBE, CHR 0xD1, CHR 0x88,
     CHR 0xD0, CHR 0xB8, CHR 0xD0, CHR 0xB1, CHR 0xD0, CHR 0xBA, CHR 0xD0, CHR 0xB0] @ '' '' @
     [CHR 0xD0, CHR 0xBF, CHR 0xD1, CHR 0x80, CHR 0xD0, CHR 0xB8] @ '' '' @ [CHR 0xD0, CHR 0xBF,
     CHR 0xD0, CHR 0xBE, CHR 0xD0, CHR 0xBB, CHR 0xD1, CHR 0x83, CHR 0xD1, CHR 0x87, CHR 0xD0,
     CHR 0xB5, CHR 0xD0, CHR 0xBD, CHR 0xD0, CHR 0xB8, CHR 0xD0, CHR 0xB8] @ '' '' @ [CHR 0xD1,
     CHR 0x81, CHR 0xD0, CHR 0xBF, CHR 0xD0, CHR 0xB8, CHR 0xD1, CHR 0x81, CHR 0xD0, CHR 0xBA,
     CHR 0xD0, CHR 0xB0] @ '' '' @ [CHR 0xD1, CHR 0x80, CHR 0xD0, CHR 0xB8, CHR 0xD1, CHR 0x81,
     CHR 0xD0, CHR 0xBA, CHR 0xD0, CHR 0xBE, CHR 0xD0, CHR 0xB2] @ ''. '' @ [CHR 0xD0, CHR 0x9F,
     CHR 0xD0, CHR 0xBE, CHR 0xD0, CHR 0xB6, CHR 0xD0, CHR 0xB0, CHR 0xD0, CHR 0xBB, CHR 0xD1,
     CHR 0x83, CHR 0xD0, CHR 0xB9, CHR 0xD1, CHR 0x81, CHR 0xD1, CHR 0x82, CHR 0xD0, CHR 0xB0] @
     '', '' @ [CHR 0xD0, CHR 0xBF, CHR 0xD0, CHR 0xBE, CHR 0xD0, CHR 0xBF, CHR 0xD1, CHR 0x80,
     CHR 0xD0, CHR 0xBE, CHR 0xD0, CHR 0xB1, CHR 0xD1, CHR 0x83, CHR 0xD0, CHR 0xB9, CHR 0xD1,
     CHR 0x82, CHR 0xD0, CHR 0xB5] @ '' '' @ [CHR 0xD0, CHR 0xBF, CHR 0xD0, CHR 0xBE, CHR 0xD0,
     CHR 0xB7, CHR 0xD0, CHR 0xB6, CHR 0xD0, CHR 0xB5] @ ''.''"


text \<open>
  One entry of the list, lines 562-567. \<^verbatim>\<open>risk['description'][:150]\<close> raises
  \<^verbatim>\<open>TypeError\<close> when the description is \<^verbatim>\<open>NULL\<close>; a phase or an object that is \<^verbatim>\<open>NULL\<close>
  is printed as \<^verbatim>\<open>None\<close>.
\<close>

definition text_or_none :: "string option \<Rightarrow> string" where
  "text_or_none v = (case v of None \<Rightarrow> ''None'' | Some s \<Rightarrow> s)"

definition risk_entry :: "risk \<Rightarrow> py_error + string" where
  "risk_entry r =
     (case column_text r ''description'' of
        None \<Rightarrow> Inl TypeError
      | Some description \<Rightarrow>
          Inr (item_number @ str_of_nat (rid r) @ item_score @ str_of_int (risk_score r)
               @ item_phase @ text_or_none (column_text r ''phase'')
               @ item_object @ text_or_none (column_text r ''object'')
               @ item_description @ py_prefix 150 description
               @ (if py_len description > 150 then ''...'' else [])
               @ [CHR 0x0A]))"

fun risk_entries :: "risk list \<Rightarrow> py_error + string list" where
  "risk_entries [] = Inr []"
| "risk_entries (r # rs) =
     (case risk_entry r of
        Inl x \<Rightarrow> Inl x
      | Inr line \<Rightarrow> (case risk_entries rs of Inl x \<Rightarrow> Inl x | Inr lines \<Rightarrow> Inr (line # lines)))"

text \<open>\<^verbatim>\<open>"\n".join(lines)\<close>.\<close>

fun join_lines :: "string list \<Rightarrow> string" where
  "join_lines [] = []"
| "join_lines [l] = l"
| "join_lines (l # ls) = l @ [CHR 0x0A] @ join_lines ls"

text \<open>
  \<^verbatim>\<open>create_risk_selection_keyboard\<close>, lines 364-387: one button per risk, in the order of
  the rows, four to a row.
\<close>

definition risk_button :: "risk \<Rightarrow> button" where
  "risk_button r = (''#'' @ str_of_nat (rid r), ''view_risk_'' @ str_of_nat (rid r))"

fun selection_rows :: "button list \<Rightarrow> risk list \<Rightarrow> keyboard" where
  "selection_rows row [] = (if row \<noteq> [] then [row] else [])"
| "selection_rows row (r # rs) =
     (let row1 = row @ [risk_button r] in
      if length row1 = 4 then row1 # selection_rows [] rs else selection_rows row1 rs)"

definition create_risk_selection_keyboard :: "risk list \<Rightarrow> keyboard" where
  "create_risk_selection_keyboard rows = selection_rows [] rows"

text \<open>
  The message of the list, lines 549-569, and the keyboard under it, lines 572-593, for
  the rows of one page. \<open>page\<close> is the page number as the dictionary holds it and \<open>p\<close> its
  numeric value.
\<close>

definition list_message :: "string \<Rightarrow> pyval \<Rightarrow> nat \<Rightarrow> string list \<Rightarrow> string" where
  "list_message phase_text page total_risks entries =
     (let total_pages = (total_risks + MAX_RISKS_PER_MESSAGE - 1) div MAX_RISKS_PER_MESSAGE in
      join_lines
        ((if total_pages > 1 then
            msg_list_head_paged @ phase_text @ msg_page_word @ py_str page @ ''/''
            @ str_of_nat total_pages @ msg_list_head_end
          else msg_list_head_all @ phase_text @ msg_list_head_end)
         # (msg_total_risks @ str_of_nat total_risks @ [CHR 0x0A])
         # entries))"

definition list_keyboard :: "pyval \<Rightarrow> int \<Rightarrow> nat \<Rightarrow> risk list \<Rightarrow> keyboard" where
  "list_keyboard selected_phase p total_risks rows =
     (let total_pages = (total_risks + MAX_RISKS_PER_MESSAGE - 1) div MAX_RISKS_PER_MESSAGE;
          navigation_buttons =
            (if total_pages > 1 then
               (if p > 1 then
                  [(nav_previous_label,
                    ''view_risks_page_'' @ str_of_int (p - 1) @ ''_'' @ py_str selected_phase)]
                else [])
               @ (if p < int total_pages then
                    [(nav_next_label,
                      ''view_risks_page_'' @ str_of_int (p + 1) @ ''_'' @ py_str selected_phase)]
                  else [])
             else [])
      in create_risk_selection_keyboard rows
         @ (if navigation_buttons \<noteq> [] then [navigation_buttons] else [])
         @ [[(other_phase_label, ''view_risks_list'')], [(back_to_menu_label, ''back_to_menu'')]])"

text \<open>Lines 523 and 539: how the heading names the phase.\<close>

definition phase_text_of :: "pyval \<Rightarrow> string" where
  "phase_text_of selected_phase =
     (if selected_phase = PyStr ''all'' then msg_all_phases
      else msg_phase_open @ py_str selected_phase @ [CHR 0x27])"

text \<open>
  \<^verbatim>\<open>view_risks_list\<close>, lines 483-603. The phase comes from the \<^verbatim>\<open>callback_data\<close>
  (everything after \<^verbatim>\<open>view_phase_\<close>) and is remembered, or from the dictionary. Whatever
  is raised inside the \<^verbatim>\<open>try\<close> block takes the \<^verbatim>\<open>except\<close> branch, which replaces the
  message by the error text: the storage engine failing, a page number that is not a
  number or an offset or phase outside the engine's integers, an entry whose description
  is \<^verbatim>\<open>NULL\<close>, and the transport refusing the message. The list is sent as Markdown;
  \<open>markdown_ok\<close> says whether the transport accepts a text as such (it refuses a text
  whose markup does not parse, or one that is too long). A handler \<^verbatim>\<open>except\<close> branch
  leaves the dictionary as the lines before \<^verbatim>\<open>try\<close> made it.
\<close>

definition view_risks_list ::
  "env \<Rightarrow> (string \<Rightarrow> bool) \<Rightarrow> string \<Rightarrow> user_data \<Rightarrow> db \<Rightarrow> step" where
  "view_risks_list e markdown_ok data ud d =
     (let selected_phase =
            (if startswith data ''view_phase_'' then PyStr (drop 11 data)
             else ud_get ud ''selected_view_phase'' (PyStr ''all''));
          ud1 = (if startswith data ''view_phase_''
                 then ud(''selected_view_phase'' \<mapsto> selected_phase) else ud);
          page = ud_get ud1 ''view_risks_page'' (PyInt 1);
          failed = (ud1, [EditMessageText msg_list_error (create_back_keyboard ''back_to_menu'')])
      in if \<not> storage_ok e \<or> \<not> sqlite_int_ok selected_phase then failed
         else
           (case as_number page of
              None \<Rightarrow> failed
            | Some p \<Rightarrow>
                if \<not> sqlite_int_ok (PyInt ((p - 1) * int MAX_RISKS_PER_MESSAGE)) then failed
                else
                  let risks = fst (view_risks_query d selected_phase p);
                      total_risks = snd (view_risks_query d selected_phase p);
                      phase_text = phase_text_of selected_phase
                  in if risks = [] then
                       (ud1, [EditMessageText (msg_no_risks_for @ phase_text @ ''.'')
                                (create_back_keyboard ''back_to_view_phase_selection'')])
                     else
                       (case risk_entries risks of
                          Inl x \<Rightarrow> failed
                        | Inr entries \<Rightarrow>
                            let message = list_message phase_text page total_risks entries
                            in if markdown_ok message then
                                 (ud1, [EditMessageText message
                                          (list_keyboard selected_phase p total_risks risks)])
                               else failed)))"

text \<open>
  The order that the listing is required to have: by score, descending, and rows of equal
  score by identifier, ascending. The identifiers are a primary key: no two rows of the
  table share one.
\<close>

definition by_score_desc_then_id :: "risk \<Rightarrow> risk \<Rightarrow> bool" where
  "by_score_desc_then_id a b =
     (risk_score a > risk_score b \<or> (risk_score a = risk_score b \<and> rid a < rid b))"

definition primary_key :: "db \<Rightarrow> bool" where
  "primary_key d = (distinct (map rid (risks d)) \<and> list_all (\<lambda>r. rid r \<le> risks_seq d) (risks d))"

text \<open>The lines of the entries of a page, when every entry can be rendered.\<close>

definition entry_lines :: "risk list \<Rightarrow> string list" where
  "entry_lines rs = (case risk_entries rs of Inl x \<Rightarrow> [] | Inr lines \<Rightarrow> lines)"

text \<open>
  Example tables. Four risks stored out of the order of their identifiers, two with
  score 12 and two with score 9, one of them in another phase; the same table with a fifth
  risk whose description is \<^verbatim>\<open>NULL\<close>; and a table of 31 risks of equal score.
\<close>

definition ex_row :: "nat \<Rightarrow> int \<Rightarrow> string \<Rightarrow> pyval \<Rightarrow> risk" where
  "ex_row n score phase description =
     \<lparr>rid = n, r_user_id = 42, r_username = ''ann'',
      r_draft = [(''phase'', PyStr phase), (''object'', PyStr ''Wells''),
                 (''description'', description)],
      risk_score = score, r_timestamp = ''2025-01-01T10:00:00''\<rparr>"

definition ex_four_risks :: db where
  "ex_four_risks =
     ex_db\<lparr>risks := [ex_row 3 9 ''3'' (PyStr ''c''), ex_row 1 9 ''3'' (PyStr ''a''),
                      ex_row 2 12 ''1'' (PyStr ''b''), ex_row 4 12 ''3'' (PyStr ''d'')],
            risks_seq := 4\<rparr>"

definition ex_null_description :: db where
  "ex_null_description =
     ex_four_risks\<lparr>risks := risks ex_four_risks @ [ex_row 5 9 ''3'' PyNone], risks_seq := 5\<rparr>"

definition ex_many_risks :: db where
  "ex_many_risks =
     ex_db\<lparr>risks := map (\<lambda>n. ex_row n 9 ''3'' (PyStr ''x'')) [1..<32], risks_seq := 31\<rparr>"

lemma cost_in_scale: "in_scale (get_cost_score c)"
  by (simp add: in_scale_def get_cost_score_def)

lemma schedule_in_scale: "in_scale (get_schedule_score d)"
  by (simp add: in_scale_def get_schedule_score_def)

lemma probability_in_scale: "in_scale (get_probability_score p)"
  by (simp add: in_scale_def get_probability_score_def)

lemma cost_mono: "x \<le> y \<Longrightarrow> get_cost_score x \<le> get_cost_score y"
  by (simp add: get_cost_score_def)

lemma schedule_mono: "x \<le> y \<Longrightarrow> get_schedule_score x \<le> get_schedule_score y"
  by (simp add: get_schedule_score_def)

lemma probability_mono: "x \<le> y \<Longrightarrow> get_probability_score x \<le> get_probability_score y"
  by (simp add: get_probability_score_def)

text \<open>
  C2. For every integer input each of the three scale functions returns a value in
  \<open>[1,5]\<close> (the functions are total: they are HOL functions defined by a complete chain of
  comparisons), is monotonically non-decreasing, sends every negative input to bucket 1,
  and has half-open thresholds whose boundary values go to the higher bucket: cost
  99 to 1, 100 to 2, 199 to 2, 200 to 3, 499 to 3, 500 to 4, 999 to 4, 1000 to 5; schedule
  thresholds 14/45/90/150; probability thresholds 10/20/50/75.
\<close>

theorem scale_functions_total_bounded_monotone:
  "(\<forall>x. in_scale (get_cost_score x) \<and> in_scale (get_schedule_score x)
        \<and> in_scale (get_probability_score x))
   \<and> nondecreasing get_cost_score \<and> nondecreasing get_schedule_score
   \<and> nondecreasing get_probability_score
   \<and> negatives_to_one get_cost_score \<and> negatives_to_one get_schedule_score
   \<and> negatives_to_one get_probability_score
   \<and> get_cost_score 99 = 1 \<and> get_cost_score 100 = 2 \<and> get_cost_score 199 = 2
   \<and> get_cost_score 200 = 3 \<and> get_cost_score 499 = 3 \<and> get_cost_score 500 = 4
   \<and> get_cost_score 999 = 4 \<and> get_cost_score 1000 = 5
   \<and> steps_at get_cost_score 100 200 500 1000
   \<and> steps_at get_schedule_score 14 45 90 150
   \<and> steps_at get_probability_score 10 20 50 75"
proof -
  have bounded: "\<forall>x. in_scale (get_cost_score x) \<and> in_scale (get_schedule_score x)
        \<and> in_scale (get_probability_score x)"
    by (simp add: cost_in_scale schedule_in_scale probability_in_scale)
  have mono: "nondecreasing get_cost_score" "nondecreasing get_schedule_score"
    "nondecreasing get_probability_score"
    by (simp_all add: nondecreasing_def cost_mono schedule_mono probability_mono)
  have neg: "negatives_to_one get_cost_score" "negatives_to_one get_schedule_score"
    "negatives_to_one get_probability_score"
    by (simp_all add: negatives_to_one_def get_cost_score_def get_schedule_score_def
        get_probability_score_def)
  have bnd: "get_cost_score 99 = 1" "get_cost_score 100 = 2" "get_cost_score 199 = 2"
    "get_cost_score 200 = 3" "get_cost_score 499 = 3" "get_cost_score 500 = 4"
    "get_cost_score 999 = 4" "get_cost_score 1000 = 5"
    by (simp_all add: get_cost_score_def)
  have steps: "steps_at get_cost_score 100 200 500 1000"
    "steps_at get_schedule_score 14 45 90 150"
    "steps_at get_probability_score 10 20 50 75"
    by (simp_all add: steps_at_def get_cost_score_def get_schedule_score_def
        get_probability_score_def)
  from bounded mono neg bnd steps show ?thesis by blast
qed

text \<open>
  The monotonicity and negative-input parts of the theorem are implications; they are
  used here at the inputs \<open>199 \<le> 200\<close> and \<open>-5 < 0\<close>.
\<close>

theorem scale_functions_witness:
  "(199::int) \<le> 200 \<and> get_cost_score 199 \<le> get_cost_score 200
   \<and> (-5::int) < 0 \<and> get_schedule_score (-5) = 1
   \<and> get_probability_score 75 = 5 \<and> get_schedule_score 150 = 5"
proof -
  note T = scale_functions_total_bounded_monotone
  from T have m: "nondecreasing get_cost_score" by blast
  from T have n: "negatives_to_one get_schedule_score" by blast
  from T have p: "steps_at get_probability_score 10 20 50 75" by blast
  from T have s: "steps_at get_schedule_score 14 45 90 150" by blast
  have 1: "get_cost_score 199 \<le> get_cost_score 200"
    using m by (simp add: nondecreasing_def)
  have 2: "get_schedule_score (-5) = 1"
    using n by (simp add: negatives_to_one_def)
  have 3: "get_probability_score 75 = 5"
    using p by (simp add: steps_at_def)
  have 4: "get_schedule_score 150 = 5"
    using s by (simp add: steps_at_def)
  from 1 2 3 4 show ?thesis by simp
qed

section \<open>Properties of the commit\<close>

lemma draft_score_range: "draft_score ud = Some s \<Longrightarrow> 3 \<le> s \<and> s \<le> 15"
proof -
  assume a: "draft_score ud = Some s"
  then obtain c d p where s: "s = get_cost_score c + get_schedule_score d + get_probability_score p"
    by (auto simp: draft_score_def split: option.splits)
  have "1 \<le> get_cost_score c \<and> get_cost_score c \<le> 5"
    using cost_in_scale [of c] by (simp add: in_scale_def)
  moreover have "1 \<le> get_schedule_score d \<and> get_schedule_score d \<le> 5"
    using schedule_in_scale [of d] by (simp add: in_scale_def)
  moreover have "1 \<le> get_probability_score p \<and> get_probability_score p \<le> 5"
    using probability_in_scale [of p] by (simp add: in_scale_def)
  ultimately show ?thesis using s by linarith
qed

lemma draft_score_same_off_re:
  assumes "same_off_re ud ud2"
  shows "draft_score ud2 = draft_score ud"
proof -
  have "ud_get ud2 ''impact_cost_most_likely'' (PyInt 0) = ud_get ud ''impact_cost_most_likely'' (PyInt 0)"
    "ud_get ud2 ''impact_schedule_most_likely'' (PyInt 0)
       = ud_get ud ''impact_schedule_most_likely'' (PyInt 0)"
    "ud_get ud2 ''probability'' (PyInt 0) = ud_get ud ''probability'' (PyInt 0)"
    using assms by (simp_all add: same_off_re_def re_keys_def ud_get_def)
  then show ?thesis by (simp add: draft_score_def cong: option.case_cong)
qed

text \<open>What \<open>save_risk\<close> appends: a record exactly when the draft scores and the insert is
  accepted.\<close>

lemma committed_eq:
  "committed e upd (ud, d) =
     (case draft_score ud of None \<Rightarrow> None
      | Some score \<Rightarrow>
          if insert_accepted e (effective_user upd) (ud(''risk_score'' \<mapsto> PyInt score))
          then Some \<lparr>rid = risks_seq d + 1, r_user_id = uid (effective_user upd),
                      r_username = display_name (effective_user upd),
                      r_draft = draft_columns (ud(''risk_score'' \<mapsto> PyInt score)),
                      risk_score = score, r_timestamp = now_iso e\<rparr>
          else None)"
  by (cases upd) (simp_all add: committed_def save_risk_def Let_def split: option.splits)

lemma committed_score:
  "committed e upd (ud, d) = Some r \<Longrightarrow> draft_score ud = Some (risk_score r)"
  by (auto simp: committed_eq split: option.splits if_splits)

lemma ex_draft_score: "draft_score ex_draft = Some 9"
  by (simp add: draft_score_def ex_draft_def ud_get_def get_cost_score_def
      get_schedule_score_def get_probability_score_def)

lemma ex_draft_no_re_score: "draft_score ex_draft_no_re = Some 9"
  by (simp add: draft_score_def ex_draft_no_re_def ex_draft_def ud_get_def get_cost_score_def
      get_schedule_score_def get_probability_score_def)

lemma ex_insert_accepted:
  "insert_accepted ex_env ex_user (ex_draft(''risk_score'' \<mapsto> PyInt 9))"
  by (simp add: insert_accepted_def ex_env_def ex_user_def draft_columns_def ud_get_def
      ud_get_none_def ex_draft_def)

lemma ex_insert_accepted_no_re:
  "insert_accepted ex_env ex_user (ex_draft_no_re(''risk_score'' \<mapsto> PyInt 9))"
  by (simp add: insert_accepted_def ex_env_def ex_user_def draft_columns_def ud_get_def
      ud_get_none_def ex_draft_no_re_def ex_draft_def)

lemma ex_same_off_re: "same_off_re ex_draft ex_draft_no_re"
  by (simp add: same_off_re_def re_keys_def ex_draft_no_re_def)

text \<open>
  C1. Whenever \<open>save_risk\<close> commits a record, the record's composite score is
  \<open>get_schedule_score\<close> of the pre-mitigation schedule most-likely value plus
  \<open>get_cost_score\<close> of the pre-mitigation cost most-likely value plus
  \<open>get_probability_score\<close> of the pre-mitigation probability (each read from the draft
  with default 0); it lies between 3 and 15; and it is the same for every draft that
  differs only in the post-mitigation fields and the \<open>reevaluation_needed\<close> flag, so the
  \<open>_re\<close> fields never enter the score.
\<close>

theorem committed_score_from_pre_mitigation_values:
  assumes "committed e upd (ud, d) = Some r"
  shows "(\<exists>s c p.
            as_number (ud_get ud ''impact_schedule_most_likely'' (PyInt 0)) = Some s
          \<and> as_number (ud_get ud ''impact_cost_most_likely'' (PyInt 0)) = Some c
          \<and> as_number (ud_get ud ''probability'' (PyInt 0)) = Some p
          \<and> risk_score r = get_schedule_score s + get_cost_score c + get_probability_score p)
         \<and> 3 \<le> risk_score r \<and> risk_score r \<le> 15
         \<and> (\<forall>ud2 upd2 e2 d2 r2. same_off_re ud ud2 \<and> committed e2 upd2 (ud2, d2) = Some r2
                \<longrightarrow> risk_score r2 = risk_score r)"
proof -
  from assms have ds: "draft_score ud = Some (risk_score r)" by (rule committed_score)
  then have 1: "\<exists>s c p.
            as_number (ud_get ud ''impact_schedule_most_likely'' (PyInt 0)) = Some s
          \<and> as_number (ud_get ud ''impact_cost_most_likely'' (PyInt 0)) = Some c
          \<and> as_number (ud_get ud ''probability'' (PyInt 0)) = Some p
          \<and> risk_score r = get_schedule_score s + get_cost_score c + get_probability_score p"
    by (auto simp: draft_score_def split: option.splits)
  from ds have 2: "3 \<le> risk_score r \<and> risk_score r \<le> 15" by (rule draft_score_range)
  have 3: "risk_score r2 = risk_score r"
    if "same_off_re ud ud2" "committed e2 upd2 (ud2, d2) = Some r2" for ud2 upd2 e2 d2 r2
  proof -
    from that(2) have "draft_score ud2 = Some (risk_score r2)" by (rule committed_score)
    with draft_score_same_off_re [OF that(1)] ds show ?thesis by simp
  qed
  from 1 2 3 show ?thesis by blast
qed

text \<open>
  The theorem at the example draft, committed from a text message into the empty
  database: the record scores \<open>1 + 3 + 5 = 9\<close> although the post-mitigation values would
  score 15, and the draft without the second pass commits with the same score.
\<close>

theorem committed_score_witness:
  "committed ex_env (Message ex_user ''ok'') (ex_draft, ex_db)
     = Some \<lparr>rid = 1, r_user_id = 42, r_username = ''ann'',
              r_draft = draft_columns (ex_draft(''risk_score'' \<mapsto> PyInt 9)),
              risk_score = 9, r_timestamp = ''2025-01-01T10:00:00''\<rparr>
   \<and> same_off_re ex_draft ex_draft_no_re
   \<and> (\<exists>r2. committed ex_env (CallbackQuery ex_user ''prob_re_1'') (ex_draft_no_re, ex_db) = Some r2
          \<and> risk_score r2 = 9)
   \<and> get_schedule_score 0 + get_cost_score 300 + get_probability_score 80 = 9"
proof -
  let ?r = "\<lparr>rid = 1, r_user_id = 42, r_username = ''ann'',
              r_draft = draft_columns (ex_draft(''risk_score'' \<mapsto> PyInt 9)),
              risk_score = 9, r_timestamp = ''2025-01-01T10:00:00''\<rparr>"
  have c1: "committed ex_env (Message ex_user ''ok'') (ex_draft, ex_db) = Some ?r"
    by (simp add: committed_eq ex_draft_score ex_insert_accepted)
      (simp add: ex_env_def ex_user_def ex_db_def display_name_def)
  obtain r2 where c2: "committed ex_env (CallbackQuery ex_user ''prob_re_1'') (ex_draft_no_re, ex_db) = Some r2"
    by (simp add: committed_eq ex_draft_no_re_score ex_insert_accepted_no_re)
  from committed_score_from_pre_mitigation_values [OF c1]
  have "\<forall>ud2 upd2 e2 d2 r2. same_off_re ex_draft ud2 \<and> committed e2 upd2 (ud2, d2) = Some r2
                \<longrightarrow> risk_score r2 = risk_score ?r"
    by blast
  with ex_same_off_re c2 have "risk_score r2 = 9" by fastforce
  with c1 c2 ex_same_off_re show ?thesis
    by (simp add: get_cost_score_def get_schedule_score_def get_probability_score_def)
qed

section \<open>Properties of the number reader\<close>

lemma lt10_cases: "d < 10 \<Longrightarrow> d \<in> {0, 1, 2, 3, 4, 5, 6, 7, 8, 9::nat}"
  by auto

lemma decimal_value_ascii: "d < 10 \<Longrightarrow> decimal_value (48 + int d) = Some d"
  by (simp add: decimal_value_def digit_zeros_def)

lemma digit_char_code: "d < 10 \<Longrightarrow> (of_char (digit_char d) :: int) = 48 + int d"
  using lt10_cases [of d] by (auto simp: digit_char_def)

lemma digit_char_props:
  assumes "d < 10"
  shows "is_digit (of_char (digit_char d))" "digit_val (of_char (digit_char d)) = d"
    "(of_char (digit_char d) :: int) < 128"
  using assms by (simp_all add: digit_char_code is_digit_def digit_val_def decimal_value_ascii)

lemma nat_of_digits_snoc: "nat_of_digits (ds @ [c]) = 10 * nat_of_digits ds + digit_val c"
  by (simp add: nat_of_digits_def)

lemma takeWhile_none: "xs = [] \<or> \<not> P (hd xs) \<Longrightarrow> takeWhile P xs = [] \<and> dropWhile P xs = xs"
  by (cases xs) auto

lemma characters_ascii:
  "list_all (\<lambda>c. (of_char c :: int) < 128) s \<Longrightarrow> characters s = map (\<lambda>c. [c]) s"
proof (induction s)
  case Nil
  then show ?case by (simp add: characters.simps)
next
  case (Cons c s)
  then have "s = [] \<or> \<not> is_continuation (hd s)"
    by (cases s) (auto simp: is_continuation_def)
  then have "takeWhile is_continuation s = [] \<and> dropWhile is_continuation s = s"
    by (rule takeWhile_none)
  with Cons show ?case by (simp add: characters.simps)
qed

lemma code_points_ascii:
  assumes "list_all (\<lambda>c. (of_char c :: int) < 128) s"
  shows "code_points s = map of_char s"
proof -
  have "code_point [c] = of_char c" if "(of_char c :: int) < 128" for c
    using that by (simp add: code_point_def lead_bits_def)
  with assms show ?thesis
    by (simp add: code_points_def characters_ascii list_all_iff)
qed

lemma code_points_append:
  assumes "y = [] \<or> \<not> is_continuation (hd y)"
  shows "characters (x @ y) = characters x @ characters y"
proof (induction x rule: characters.induct)
  case 1
  then show ?case by (simp add: characters.simps)
next
  case (2 c cs)
  note y = takeWhile_none [of y is_continuation, OF assms]
  have tw: "takeWhile is_continuation (cs @ y) = takeWhile is_continuation cs"
    "dropWhile is_continuation (cs @ y) = dropWhile is_continuation cs @ y"
    using y by (induction cs) auto
  from 2 show ?case by (simp add: characters.simps tw)
qed

lemma str_of_nat_props:
  "list_all (\<lambda>c. (of_char c :: int) < 128) (str_of_nat n)
   \<and> digit_run (map of_char (str_of_nat n))
   \<and> nat_of_digits (map of_char (str_of_nat n)) = n"
proof (induction n rule: str_of_nat.induct)
  case (1 n)
  show ?case
  proof (cases "n < 10")
    case True
    then show ?thesis
      by (subst (1 2 3) str_of_nat.simps)
        (simp add: digit_char_props nat_of_digits_def digit_run_def)
  next
    case False
    with 1 have ih: "list_all (\<lambda>c. (of_char c :: int) < 128) (str_of_nat (n div 10))"
      "digit_run (map of_char (str_of_nat (n div 10)))"
      "nat_of_digits (map of_char (str_of_nat (n div 10))) = n div 10" by simp_all
    have m: "n mod 10 < 10" by simp
    from False ih show ?thesis
      by (subst (1 2 3) str_of_nat.simps)
        (simp add: digit_char_props [OF m] nat_of_digits_snoc digit_run_def)
  qed
qed

lemma split_on_absent: "sep \<notin> set s \<Longrightarrow> split_on sep s = [s]"
  by (induction s) auto

lemma signs_are_no_digits: "\<not> is_digit 45" "\<not> is_digit 43" "\<not> is_digit 95"
  by (simp_all add: is_digit_def decimal_value_def digit_zeros_def is_space_def space_chars_def)

lemma spaces_are_no_digits: "list_all (\<lambda>c. \<not> is_digit c) space_chars"
  by (simp add: is_digit_def decimal_value_def digit_zeros_def space_chars_def)

lemma signs_are_no_spaces: "\<not> is_space 45" "\<not> is_space 43"
  by (simp_all add: is_digit_def decimal_value_def digit_zeros_def is_space_def space_chars_def)

lemma digit_not_special:
  "is_digit c \<Longrightarrow> c \<noteq> 95 \<and> c \<noteq> 45 \<and> c \<noteq> 43 \<and> \<not> is_space c"
  using signs_are_no_digits spaces_are_no_digits by (auto simp: is_space_def list_all_iff)

lemma int_of_unsigned_digits:
  assumes "digit_run ds"
  shows "int_of_unsigned ds = Some (int (nat_of_digits ds))"
proof -
  have "95 \<notin> set ds" using assms digit_not_special by (auto simp: list_all_iff digit_run_def)
  then have "split_on 95 ds = [ds]" by (rule split_on_absent)
  with assms show ?thesis by (simp add: int_of_unsigned_def digit_run_def)
qed

lemma strip_id:
  assumes "s \<noteq> []" "\<not> is_space (hd s)" "\<not> is_space (last s)"
  shows "strip s = s"
proof -
  from assms have 1: "dropWhile is_space s = s" by (cases s) auto
  from assms have "rev s \<noteq> []" "\<not> is_space (hd (rev s))" by (simp_all add: hd_rev)
  then have "dropWhile is_space (rev s) = rev s" by (cases "rev s") auto
  with 1 show ?thesis by (simp add: strip_def)
qed

lemma int_of_digits:
  assumes "digit_run ds"
  shows "int_of_characters ds = Some (int (nat_of_digits ds))"
    and "int_of_characters (45 # ds) = Some (- int (nat_of_digits ds))"
proof -
  from assms have ne: "ds \<noteq> []" and h: "is_digit (hd ds)" "is_digit (last ds)"
    by (auto simp: list_all_iff digit_run_def)
  then have ns: "\<not> is_space (hd ds)" "\<not> is_space (last ds)"
    using digit_not_special by blast+
  from strip_id [OF ne ns] have s1: "strip ds = ds" .
  obtain c cs where ds: "ds = c # cs" using ne by (cases ds) auto
  with h have c: "c \<noteq> 45" "c \<noteq> 43" using digit_not_special by auto
  show "int_of_characters ds = Some (int (nat_of_digits ds))"
    using s1 ds c int_of_unsigned_digits [OF assms] by (simp add: int_of_characters_def)
  have "strip (45 # ds) = 45 # ds"
    using ne ns signs_are_no_spaces by (intro strip_id) simp_all
  then show "int_of_characters (45 # ds) = Some (- int (nat_of_digits ds))"
    using int_of_unsigned_digits [OF assms] by (simp add: int_of_characters_def)
qed

lemma signed_number_cases:
  assumes "signed_number t"
  obtains "digit_run t" "hd t \<noteq> 45" | ds where "t = 45 # ds" "digit_run ds"
proof (cases "digit_run t")
  case True
  then have "is_digit (hd t)" by (cases t) (auto simp: digit_run_def)
  then have "hd t \<noteq> 45" using signs_are_no_digits(1) by auto
  with True that(1) show ?thesis by blast
next
  case False
  with assms have "t \<noteq> []" "hd t = 45" "digit_run (tl t)" by (auto simp: signed_number_def)
  then have "t = 45 # tl t" by (cases t) auto
  with \<open>digit_run (tl t)\<close> that(2) show ?thesis by blast
qed

lemma int_of_signed_number:
  assumes "signed_number t"
  shows "int_of_characters t = Some (signed_value t)"
  using assms
proof (cases rule: signed_number_cases)
  case 1
  then show ?thesis by (simp add: int_of_digits(1) signed_value_def)
next
  case (2 ds)
  then show ?thesis by (simp add: int_of_digits(2) signed_value_def)
qed

lemma decimal_numeral:
  "code_points (str_of_int a) = map of_char (str_of_int a)
   \<and> signed_number (code_points (str_of_int a))
   \<and> signed_value (code_points (str_of_int a)) = a"
proof -
  note p = str_of_nat_props
  have asc: "list_all (\<lambda>c. (of_char c :: int) < 128) (str_of_int a)"
    using p by (simp add: str_of_int_def)
  have cp: "code_points (str_of_int a) = map of_char (str_of_int a)"
    using asc by (rule code_points_ascii)
  show ?thesis
  proof (cases "a < 0")
    case True
    have "map of_char (str_of_int a) = (45::int) # map of_char (str_of_nat (nat (- a)))"
      using True by (simp add: str_of_int_def)
    with p [of "nat (- a)"] True cp show ?thesis
      by (simp add: signed_number_def signed_value_def)
  next
    case False
    have m: "(map of_char (str_of_int a) :: int list) = map of_char (str_of_nat (nat a))"
      using False by (simp add: str_of_int_def)
    from p [of "nat a"] have d: "digit_run (map of_char (str_of_nat (nat a)))" by simp
    then have "is_digit (hd (map of_char (str_of_nat (nat a))))"
      by (cases "map of_char (str_of_nat (nat a)) :: nat list") (auto simp: digit_run_def)
    then have "hd (map of_char (str_of_nat (nat a))) \<noteq> (45::int)"
      using signs_are_no_digits(1) by auto
    with p [of "nat a"] False cp m d show ?thesis
      by (simp add: signed_number_def signed_value_def)
  qed
qed

lemma py_int_str_of_int: "py_int (str_of_int a) = Some a"
proof -
  from decimal_numeral [of a] have "signed_number (code_points (str_of_int a))"
    and "signed_value (code_points (str_of_int a)) = a" by blast+
  with int_of_signed_number [of "code_points (str_of_int a)"] show ?thesis
    by (simp add: py_int_def)
qed


lemma findall_tokens: "t \<in> set (findall_numbers s) \<Longrightarrow> signed_number t"
proof (induction s arbitrary: t rule: findall_numbers.induct)
  case 1
  then show ?case by (simp add: findall_numbers.simps)
next
  case (2 c cs)
  show ?case
  proof (cases "is_digit c")
    case True
    with 2 have "t = c # takeWhile is_digit cs \<or> t \<in> set (findall_numbers (dropWhile is_digit cs))"
      by (simp add: findall_numbers.simps)
    then show ?thesis
    proof
      assume t: "t = c # takeWhile is_digit cs"
      have "list_all is_digit (c # takeWhile is_digit cs)"
        using True by (auto simp: list_all_iff dest: set_takeWhileD)
      with t show ?thesis by (simp add: signed_number_def digit_run_def)
    next
      assume "t \<in> set (findall_numbers (dropWhile is_digit cs))"
      with 2 True show ?thesis by simp
    qed
  next
    case False
    show ?thesis
    proof (cases "c = 45 \<and> cs \<noteq> [] \<and> is_digit (hd cs)")
      case True
      with False 2 have "t = c # takeWhile is_digit cs \<or> t \<in> set (findall_numbers (dropWhile is_digit cs))"
        by (simp add: findall_numbers.simps)
      then show ?thesis
      proof
        assume t: "t = c # takeWhile is_digit cs"
        from True have ne: "takeWhile is_digit cs \<noteq> []" by (cases cs) auto
        have "list_all is_digit (takeWhile is_digit cs)"
          by (auto simp: list_all_iff dest: set_takeWhileD)
        with t ne True show ?thesis by (simp add: signed_number_def digit_run_def)
      next
        assume "t \<in> set (findall_numbers (dropWhile is_digit cs))"
        with 2 False True show ?thesis by simp
      qed
    next
      case F2: False
      with False 2 show ?thesis by (simp add: findall_numbers.simps)
    qed
  qed
qed

lemma findall_here:
  assumes "signed_number t" and "follows_number rest"
  shows "findall_numbers (t @ rest) = t # findall_numbers rest"
proof -
  have r0: "takeWhile is_digit rest = []" "dropWhile is_digit rest = rest"
    using assms(2) by (cases rest; auto simp: follows_number_def)+
  have tw: "takeWhile is_digit (xs @ rest) = xs" "dropWhile is_digit (xs @ rest) = rest"
    if "list_all is_digit xs" for xs
    using that r0 by (induction xs) auto
  from assms(1) show ?thesis
  proof (cases rule: signed_number_cases)
    case 1
    then obtain c cs where c: "t = c # cs" by (cases t) (auto simp: digit_run_def)
    with 1 have dc: "is_digit c" "list_all is_digit cs" by (simp_all add: digit_run_def)
    with c tw [OF dc(2)] show ?thesis by (simp add: findall_numbers.simps)
  next
    case (2 ds)
    then obtain c cs where c: "ds = c # cs" by (cases ds) (auto simp: digit_run_def)
    with 2 have dc: "is_digit c" "list_all is_digit ds" by (simp_all add: digit_run_def)
    from 2 c dc signs_are_no_digits(1) tw [OF dc(2)] show ?thesis
      by (simp add: findall_numbers.simps)
  qed
qed

lemma findall_skip:
  assumes "separator s" and "signed_number t"
  shows "findall_numbers (s @ t @ rest) = findall_numbers (t @ rest)"
  using assms(1)
proof (induction s)
  case Nil
  then show ?case by simp
next
  case (Cons c s)
  then have c: "\<not> is_digit c" and s: "separator s \<or> (s = [] \<and> c = 45)"
    by (auto simp: separator_def split: if_splits)
  from Cons.prems have "s \<noteq> [] \<or> c \<noteq> 45" by (auto simp: separator_def)
  then have sep: "separator s" using s by blast
  have nxt: "c = 45 \<Longrightarrow> \<not> is_digit (hd (s @ t @ rest))"
  proof -
    assume "c = 45"
    with Cons.prems have "s \<noteq> []" by (auto simp: separator_def)
    with sep show ?thesis by (cases s) (auto simp: separator_def)
  qed
  have "findall_numbers ((c # s) @ t @ rest) = findall_numbers (s @ t @ rest)"
    using c nxt by (auto simp: findall_numbers.simps)
  with Cons.IH [OF sep] show ?case by simp
qed

lemma findall_sep_token:
  assumes "separator s" "signed_number t" "follows_number rest"
  shows "findall_numbers (s @ t @ rest) = t # findall_numbers rest"
  using findall_skip [OF assms(1,2)] findall_here [OF assms(2,3)] by simp

lemma findall_separator: "separator s \<Longrightarrow> findall_numbers s = []"
proof (induction s)
  case Nil
  then show ?case by (simp add: findall_numbers.simps)
next
  case (Cons c s)
  then have c: "\<not> is_digit c" and nd: "s = [] \<or> \<not> is_digit (hd s)"
    by (cases s; auto simp: separator_def)+
  from Cons.prems have "separator s \<or> s = []" by (auto simp: separator_def split: if_splits)
  then have "findall_numbers s = []"
    using Cons.IH by (auto simp: findall_numbers.simps)
  with c nd show ?case by (auto simp: findall_numbers.simps)
qed

lemma gap_follows:
  assumes "gap s t" "signed_number t"
  shows "follows_number (s @ t @ r)"
proof (cases "s = []")
  case True
  with assms(1) have "t \<noteq> []" "hd t = 45" by (auto simp: gap_def)
  with True signs_are_no_digits(1) show ?thesis by (simp add: follows_number_def)
next
  case False
  with assms(1) show ?thesis by (cases s) (auto simp: gap_def separator_def follows_number_def)
qed

lemma gap_separator: "gap s t \<Longrightarrow> separator s"
  by (simp add: gap_def)

lemma follows_separator: "separator s \<Longrightarrow> follows_number s"
  by (cases s) (auto simp: separator_def follows_number_def)

lemma findall_three:
  assumes "separator s0" "signed_number ta" "gap s1 tb" "signed_number tb" "gap s2 tc"
    "signed_number tc" "follows_number s3"
  shows "findall_numbers (s0 @ ta @ s1 @ tb @ s2 @ tc @ s3) = ta # tb # tc # findall_numbers s3"
proof -
  have 3: "findall_numbers (s2 @ tc @ s3) = tc # findall_numbers s3"
    using findall_sep_token [OF gap_separator [OF assms(5)] assms(6,7)] .
  have 2: "findall_numbers (s1 @ tb @ s2 @ tc @ s3) = tb # tc # findall_numbers s3"
    using findall_sep_token [OF gap_separator [OF assms(3)] assms(4) gap_follows [OF assms(5,6)], of s3]
      3 by simp
  show ?thesis
    using findall_sep_token [OF assms(1,2) gap_follows [OF assms(3,4)], of "s2 @ tc @ s3"] 2
    by simp
qed

lemma findall_two:
  assumes "separator s0" "signed_number ta" "gap s1 tb" "signed_number tb" "separator s2"
  shows "findall_numbers (s0 @ ta @ s1 @ tb @ s2) = [ta, tb]"
proof -
  have 2: "findall_numbers (s1 @ tb @ s2) = [tb]"
    using findall_sep_token [OF gap_separator [OF assms(3)] assms(4) follows_separator [OF assms(5)]]
      findall_separator [OF assms(5)] by simp
  show ?thesis
    using findall_sep_token [OF assms(1,2) gap_follows [OF assms(3,4)], of s2] 2 by simp
qed

lemma findall_one:
  assumes "separator s0" "signed_number ta" "separator s1"
  shows "findall_numbers (s0 @ ta @ s1) = [ta]"
  using findall_sep_token [OF assms(1,2) follows_separator [OF assms(3)]]
    findall_separator [OF assms(3)] by simp

lemma parse_separated:
  assumes "code_points text = s0 @ ta @ s1 @ tb @ s2 @ tc @ s3"
    "separator s0" "signed_number ta" "gap s1 tb" "signed_number tb" "gap s2 tc"
    "signed_number tc" "follows_number s3"
  shows "parse_three_values text = Inr (signed_value ta, signed_value tb, signed_value tc)"
  using findall_three [OF assms(2-8)] assms(1,3,5,7)
  by (simp add: parse_three_values_def int_of_signed_number)

lemma parse_fewer:
  assumes "separator s0" "signed_number ta" "gap s1 tb" "signed_number tb" "separator s2"
    "code_points text = s0 \<or> code_points text = s0 @ ta @ s2
     \<or> code_points text = s0 @ ta @ s1 @ tb @ s2"
  shows "parse_three_values text = Inl msg_bad_format"
  using assms(6) findall_separator [OF assms(1)] findall_one [OF assms(1,2,5)]
    findall_two [OF assms(1-5)]
  by (auto simp: parse_three_values_def)

lemma parse_first_three:
  assumes "3 \<le> length (findall_numbers (code_points text))"
  shows "signed_number (findall_numbers (code_points text) ! 0)
       \<and> signed_number (findall_numbers (code_points text) ! 1)
       \<and> signed_number (findall_numbers (code_points text) ! 2)
       \<and> parse_three_values text
           = Inr (signed_value (findall_numbers (code_points text) ! 0),
                  signed_value (findall_numbers (code_points text) ! 1),
                  signed_value (findall_numbers (code_points text) ! 2))"
proof -
  let ?n = "findall_numbers (code_points text)"
  from assms have "0 < length ?n" "1 < length ?n" "2 < length ?n" by linarith+
  then have "?n ! 0 \<in> set ?n" "?n ! 1 \<in> set ?n" "?n ! 2 \<in> set ?n" by (simp_all only: nth_mem)
  then have s: "signed_number (?n ! 0)" "signed_number (?n ! 1)" "signed_number (?n ! 2)"
    using findall_tokens by blast+
  with assms show ?thesis by (simp add: parse_three_values_def int_of_signed_number Let_def)
qed

lemma parse_total:
  "parse_three_values text =
     (if 3 \<le> length (findall_numbers (code_points text))
      then Inr (signed_value (findall_numbers (code_points text) ! 0),
                signed_value (findall_numbers (code_points text) ! 1),
                signed_value (findall_numbers (code_points text) ! 2))
      else Inl msg_bad_format)"
  using parse_first_three by (simp add: parse_three_values_def)

section \<open>Properties of the entry of a triple\<close>

lemma validates_schedule:
  "validates_triple handle_schedule_values ''awaiting_schedule_values'' ''impact_schedule_min''
     ''impact_schedule_most_likely'' ''impact_schedule_max'' ''back_to_schedule_impact''
     (ReplyText msg_cost_choice cost_keyboard)"
  unfolding validates_triple_def
  by (auto simp: handle_schedule_values_def)

lemma validates_cost:
  "validates_triple handle_cost_values ''awaiting_cost_values'' ''impact_cost_min''
     ''impact_cost_most_likely'' ''impact_cost_max'' ''back_to_cost_impact''
     (ReplyText msg_probability_prompt probability_keyboard)"
  unfolding validates_triple_def
  by (auto simp: handle_cost_values_def)

lemma validates_schedule_re:
  "validates_triple handle_schedule_values_re ''awaiting_schedule_values_re''
     ''impact_schedule_min_re'' ''impact_schedule_most_likely_re'' ''impact_schedule_max_re''
     ''back_to_schedule_impact_re'' (ReplyText msg_cost_re_choice cost_re_keyboard)"
  unfolding validates_triple_def
  by (auto simp: handle_schedule_values_re_def)

lemma validates_cost_re:
  "validates_triple handle_cost_values_re ''awaiting_cost_values_re''
     ''impact_cost_min_re'' ''impact_cost_most_likely_re'' ''impact_cost_max_re''
     ''back_to_cost_impact_re'' (ReplyText msg_probability_re_prompt probability_re_keyboard)"
  unfolding validates_triple_def
  by (auto simp: handle_cost_values_re_def)

lemma parse_refuses:
  "(parse_three_values text = Inl e)
     = (length (findall_numbers (code_points text)) < 3 \<and> e = msg_bad_format)"
  by (auto simp: parse_total)

text \<open>
  C3. The four free-text entries of a triple (schedule and cost, before and after
  mitigation) validate their input in the same way. With the marker of the step set: a
  text that the parser refuses is answered with the parser's error and the request for
  three numbers; a text whose first three integers violate \<open>min \<le> most_likely \<le> max\<close>
  is answered with the ordering error; on both error paths the dictionary is returned
  unchanged, so the fields of the triple stay as they were (unset, if they were unset);
  only three integers in order are stored, lower the marker and render the next step.
  The parser refuses a text exactly when the pattern finds fewer than three signed
  numbers in it, always with the format error, and otherwise returns the values of the
  first three matches, whatever follows them. In terms of the text alone: a text without
  digits, a text with one number between separators and a text with two numbers are
  refused; and extraction does not depend on the separators: for any three signed
  numbers, in the digits of any script, between texts without digits (none ending in a
  minus sign; a gap may be empty before a minus sign), the parser returns the values of
  these three numbers, whatever follows that does not continue the third. The decimal
  rendering of an integer is such a number and has that integer as its value, and the
  characters of two texts put together are those of the first followed by those of the
  second.
\<close>

theorem triple_entry_validated:
  "validates_triple handle_schedule_values ''awaiting_schedule_values'' ''impact_schedule_min''
     ''impact_schedule_most_likely'' ''impact_schedule_max'' ''back_to_schedule_impact''
     (ReplyText msg_cost_choice cost_keyboard)
   \<and> validates_triple handle_cost_values ''awaiting_cost_values'' ''impact_cost_min''
     ''impact_cost_most_likely'' ''impact_cost_max'' ''back_to_cost_impact''
     (ReplyText msg_probability_prompt probability_keyboard)
   \<and> validates_triple handle_schedule_values_re ''awaiting_schedule_values_re''
     ''impact_schedule_min_re'' ''impact_schedule_most_likely_re'' ''impact_schedule_max_re''
     ''back_to_schedule_impact_re'' (ReplyText msg_cost_re_choice cost_re_keyboard)
   \<and> validates_triple handle_cost_values_re ''awaiting_cost_values_re''
     ''impact_cost_min_re'' ''impact_cost_most_likely_re'' ''impact_cost_max_re''
     ''back_to_cost_impact_re'' (ReplyText msg_probability_re_prompt probability_re_keyboard)
   \<and> (\<forall>txt e. (parse_three_values txt = Inl e)
          = (length (findall_numbers (code_points txt)) < 3 \<and> e = msg_bad_format))
   \<and> (\<forall>txt. 3 \<le> length (findall_numbers (code_points txt)) \<longrightarrow>
         signed_number (findall_numbers (code_points txt) ! 0)
         \<and> signed_number (findall_numbers (code_points txt) ! 1)
         \<and> signed_number (findall_numbers (code_points txt) ! 2)
         \<and> parse_three_values txt
             = Inr (signed_value (findall_numbers (code_points txt) ! 0),
                    signed_value (findall_numbers (code_points txt) ! 1),
                    signed_value (findall_numbers (code_points txt) ! 2)))
   \<and> (\<forall>txt. separator (code_points txt) \<longrightarrow> parse_three_values txt = Inl msg_bad_format)
   \<and> (\<forall>txt s0 ta s1.
         code_points txt = s0 @ ta @ s1 \<and> separator s0 \<and> signed_number ta \<and> separator s1 \<longrightarrow>
         parse_three_values txt = Inl msg_bad_format)
   \<and> (\<forall>txt s0 ta s1 tb s2.
         code_points txt = s0 @ ta @ s1 @ tb @ s2 \<and> separator s0 \<and> signed_number ta
         \<and> gap s1 tb \<and> signed_number tb \<and> separator s2 \<longrightarrow>
         parse_three_values txt = Inl msg_bad_format)
   \<and> (\<forall>txt s0 ta s1 tb s2 tc s3.
         code_points txt = s0 @ ta @ s1 @ tb @ s2 @ tc @ s3 \<and> separator s0 \<and> signed_number ta
         \<and> gap s1 tb \<and> signed_number tb \<and> gap s2 tc \<and> signed_number tc \<and> follows_number s3 \<longrightarrow>
         parse_three_values txt = Inr (signed_value ta, signed_value tb, signed_value tc))
   \<and> (\<forall>a. code_points (str_of_int a) = map of_char (str_of_int a)
         \<and> signed_number (code_points (str_of_int a))
         \<and> signed_value (code_points (str_of_int a)) = a)
   \<and> (\<forall>x y. y = [] \<or> \<not> is_continuation (hd y) \<longrightarrow>
         code_points (x @ y) = code_points x @ code_points y)"
proof -
  have refuses: "\<forall>txt e. (parse_three_values txt = Inl e)
          = (length (findall_numbers (code_points txt)) < 3 \<and> e = msg_bad_format)"
    using parse_refuses by blast
  have three: "\<forall>txt. 3 \<le> length (findall_numbers (code_points txt)) \<longrightarrow>
         signed_number (findall_numbers (code_points txt) ! 0)
         \<and> signed_number (findall_numbers (code_points txt) ! 1)
         \<and> signed_number (findall_numbers (code_points txt) ! 2)
         \<and> parse_three_values txt
             = Inr (signed_value (findall_numbers (code_points txt) ! 0),
                    signed_value (findall_numbers (code_points txt) ! 1),
                    signed_value (findall_numbers (code_points txt) ! 2))"
    using parse_first_three by blast
  have none: "\<forall>txt. separator (code_points txt) \<longrightarrow> parse_three_values txt = Inl msg_bad_format"
    by (simp add: parse_three_values_def findall_separator)
  have one: "\<forall>txt s0 ta s1.
         code_points txt = s0 @ ta @ s1 \<and> separator s0 \<and> signed_number ta \<and> separator s1 \<longrightarrow>
         parse_three_values txt = Inl msg_bad_format"
    by (simp add: parse_three_values_def findall_one)
  have two: "\<forall>txt s0 ta s1 tb s2.
         code_points txt = s0 @ ta @ s1 @ tb @ s2 \<and> separator s0 \<and> signed_number ta
         \<and> gap s1 tb \<and> signed_number tb \<and> separator s2 \<longrightarrow>
         parse_three_values txt = Inl msg_bad_format"
    by (simp add: parse_three_values_def findall_two)
  have seps: "\<forall>txt s0 ta s1 tb s2 tc s3.
         code_points txt = s0 @ ta @ s1 @ tb @ s2 @ tc @ s3 \<and> separator s0 \<and> signed_number ta
         \<and> gap s1 tb \<and> signed_number tb \<and> gap s2 tc \<and> signed_number tc \<and> follows_number s3 \<longrightarrow>
         parse_three_values txt = Inr (signed_value ta, signed_value tb, signed_value tc)"
    using parse_separated by blast
  have dec: "\<forall>a. code_points (str_of_int a) = map of_char (str_of_int a)
         \<and> signed_number (code_points (str_of_int a))
         \<and> signed_value (code_points (str_of_int a)) = a"
    using decimal_numeral by blast
  have app: "\<forall>x y. y = [] \<or> \<not> is_continuation (hd y) \<longrightarrow>
         code_points (x @ y) = code_points x @ code_points y"
    by (simp add: code_points_def code_points_append)
  from validates_schedule validates_cost validates_schedule_re validates_cost_re
    refuses three none one two seps dec app
  show ?thesis by blast
qed

text \<open>
  The characters of the example messages, cut into separators and numbers: the three
  inputs of the specification, a text with words, a text with two numbers, a text with
  minus signs between the numbers, and the three texts with digits beyond ASCII.
\<close>

lemma ex_characters:
  "code_points ''10, 20, 30'' = [] @ [49, 48] @ [44, 32] @ [50, 48] @ [44, 32] @ [51, 48] @ []"
  "code_points ''5 3 9'' = [] @ [53] @ [32] @ [51] @ [32] @ [57] @ []"
  "code_points ''only one number 4'' = code_points ''only one number '' @ [52] @ []"
  "code_points ''no numbers'' = map of_char ''no numbers''"
  "code_points ''7 and 8.'' = [] @ [55] @ code_points '' and '' @ [56] @ [46]"
  "code_points ''from -5 to 7, at most 12 days''
     = code_points ''from '' @ [45, 53] @ code_points '' to '' @ [55]
       @ code_points '', at most '' @ [49, 50] @ code_points '' days''"
  "code_points ''10-20-30'' = [] @ [49, 48] @ [] @ [45, 50, 48] @ [] @ [45, 51, 48] @ []"
  "code_points ex_text_arabic = [] @ [0x661] @ [32] @ [0x662] @ [32] @ [0x663] @ []"
  "code_points ex_text_mixed = [] @ [49] @ [32] @ [0x662] @ [32] @ [51] @ [32, 52]"
  "code_points ex_text_fullwidth
     = [] @ [0xFF11, 0xFF10] @ [0x3001, 0xA0] @ [0xFF12, 0xFF10] @ [0x3001, 0xA0]
       @ [0xFF13, 0xFF10] @ []"
  by code_simp+

lemma ex_separators:
  "separator []" "separator [32]" "separator [44, 32]" "separator [46]"
  "separator [0x3001, 0xA0]"
  "separator (code_points ''only one number '')" "separator (code_points ''no numbers'')"
  "separator (code_points ''from '')"
  "follows_number []" "follows_number [32, 52]" "follows_number (code_points '' days'')"
  by code_simp+

lemma ex_gaps:
  "gap [32] [51]" "gap [32] [57]" "gap [44, 32] [50, 48]" "gap [44, 32] [51, 48]"
  "gap (code_points '' and '') [56]"
  "gap (code_points '' to '') [55]" "gap (code_points '', at most '') [49, 50]"
  "gap [] [45, 50, 48]" "gap [] [45, 51, 48]"
  "gap [32] [0x662]" "gap [32] [0x663]"
  "gap [0x3001, 0xA0] [0xFF12, 0xFF10]" "gap [0x3001, 0xA0] [0xFF13, 0xFF10]"
  by code_simp+

lemma ex_signed:
  "signed_number [49, 48]"
  "signed_number [50, 48]"
  "signed_number [51, 48]"
  "signed_number [53]"
  "signed_number [51]"
  "signed_number [57]"
  "signed_number [52]"
  "signed_number [55]"
  "signed_number [56]"
  "signed_number [45, 53]"
  "signed_number [49, 50]"
  "signed_number [45, 50, 48]"
  "signed_number [45, 51, 48]"
  "signed_number [49]"
  "signed_number [0x661]"
  "signed_number [0x662]"
  "signed_number [0x663]"
  "signed_number [0xFF11, 0xFF10]"
  "signed_number [0xFF12, 0xFF10]"
  "signed_number [0xFF13, 0xFF10]"
  by code_simp+

lemma ex_values:
  "signed_value [49, 48] = 10"
  "signed_value [50, 48] = 20"
  "signed_value [51, 48] = 30"
  "signed_value [53] = 5"
  "signed_value [51] = 3"
  "signed_value [57] = 9"
  "signed_value [52] = 4"
  "signed_value [55] = 7"
  "signed_value [56] = 8"
  "signed_value [45, 53] = - 5"
  "signed_value [49, 50] = 12"
  "signed_value [45, 50, 48] = - 20"
  "signed_value [45, 51, 48] = - 30"
  "signed_value [49] = 1"
  "signed_value [0x661] = 1"
  "signed_value [0x662] = 2"
  "signed_value [0x663] = 3"
  "signed_value [0xFF11, 0xFF10] = 10"
  "signed_value [0xFF12, 0xFF10] = 20"
  "signed_value [0xFF13, 0xFF10] = 30"
  by code_simp+

lemma ex_count: "3 \<le> length (findall_numbers (code_points ''5 3 9''))"
  "map signed_value (take 3 (findall_numbers (code_points ''5 3 9''))) = [5, 3, 9]"
  "'', 20'' = [] \<or> \<not> is_continuation (hd '', 20'')"
  "str_of_int (- 5) = ''-5''"
  by code_simp+

text \<open>
  The theorem at the three inputs of the specification, entered while the schedule
  triple is awaited and not yet set; at texts without a number and with two numbers; at
  a text with words as separators and at one with minus signs between the numbers; and
  at the three texts with digits beyond ASCII.
\<close>

theorem triple_entry_witness:
  "truthy (ud_get_none ex_awaiting ''awaiting_schedule_values'')
   \<and> ex_awaiting ''impact_schedule_min'' = None
   \<and> parse_three_values ''10, 20, 30'' = Inr (10, 20, 30)
   \<and> handle_schedule_values ''10, 20, 30'' ex_awaiting
       = (ex_awaiting(''impact_schedule_min'' \<mapsto> PyInt 10, ''impact_schedule_most_likely'' \<mapsto> PyInt 20,
                      ''impact_schedule_max'' \<mapsto> PyInt 30, ''awaiting_schedule_values'' \<mapsto> PyBool False),
          [ReplyText msg_cost_choice cost_keyboard])
   \<and> parse_three_values ''5 3 9'' = Inr (5, 3, 9)
   \<and> handle_schedule_values ''5 3 9'' ex_awaiting
       = (ex_awaiting, [ReplyText msg_order_error (create_back_keyboard ''back_to_schedule_impact'')])
   \<and> 3 \<le> length (findall_numbers (code_points ''5 3 9''))
   \<and> signed_number (findall_numbers (code_points ''5 3 9'') ! 0)
   \<and> parse_three_values ''only one number 4'' = Inl msg_bad_format
   \<and> length (findall_numbers (code_points ''only one number 4'')) < 3
   \<and> handle_schedule_values ''only one number 4'' ex_awaiting
       = (ex_awaiting, [ReplyText (msg_bad_format @ msg_enter_three)
                          (create_back_keyboard ''back_to_schedule_impact'')])
   \<and> separator (code_points ''no numbers'')
   \<and> parse_three_values ''no numbers'' = Inl msg_bad_format
   \<and> parse_three_values ''7 and 8.'' = Inl msg_bad_format
   \<and> parse_three_values ''from -5 to 7, at most 12 days'' = Inr (- 5, 7, 12)
   \<and> parse_three_values ''10-20-30'' = Inr (10, - 20, - 30)
   \<and> parse_three_values ex_text_arabic = Inr (1, 2, 3)
   \<and> parse_three_values ex_text_mixed = Inr (1, 2, 3)
   \<and> parse_three_values ex_text_fullwidth = Inr (10, 20, 30)
   \<and> handle_schedule_values ex_text_fullwidth ex_awaiting
       = (ex_awaiting(''impact_schedule_min'' \<mapsto> PyInt 10, ''impact_schedule_most_likely'' \<mapsto> PyInt 20,
                      ''impact_schedule_max'' \<mapsto> PyInt 30, ''awaiting_schedule_values'' \<mapsto> PyBool False),
          [ReplyText msg_cost_choice cost_keyboard])
   \<and> signed_value (code_points (str_of_int (- 5))) = - 5
   \<and> ('', 20'' = [] \<or> \<not> is_continuation (hd '', 20''))
   \<and> code_points (''10'' @ '', 20'') = code_points ''10'' @ code_points '', 20''"
proof -
  note T = triple_entry_validated
  note V = T [THEN conjunct1]
  note T4 = T [THEN conjunct2, THEN conjunct2, THEN conjunct2, THEN conjunct2]
  note refuses = T4 [THEN conjunct1]
  note three = T4 [THEN conjunct2, THEN conjunct1]
  note none = T4 [THEN conjunct2, THEN conjunct2, THEN conjunct1]
  note one = T4 [THEN conjunct2, THEN conjunct2, THEN conjunct2, THEN conjunct1]
  note T8 = T4 [THEN conjunct2, THEN conjunct2, THEN conjunct2, THEN conjunct2]
  note two = T8 [THEN conjunct1]
  note seps = T8 [THEN conjunct2, THEN conjunct1]
  note dec = T8 [THEN conjunct2, THEN conjunct2, THEN conjunct1]
  note app = T8 [THEN conjunct2, THEN conjunct2, THEN conjunct2]
  note S = seps [rule_format]
  have aw: "truthy (ud_get_none ex_awaiting ''awaiting_schedule_values'')"
    by (simp add: ex_awaiting_def ud_get_none_def ud_get_def)
  have mn: "ex_awaiting ''impact_schedule_min'' = None" by (simp add: ex_awaiting_def)
  have "code_points ''10, 20, 30'' = [] @ [49, 48] @ [44, 32] @ [50, 48] @ [44, 32] @ [51, 48] @ []
      \<and> separator [] \<and> signed_number [49, 48] \<and> gap [44, 32] [50, 48] \<and> signed_number [50, 48]
      \<and> gap [44, 32] [51, 48] \<and> signed_number [51, 48] \<and> follows_number []"
    by (intro conjI) (rule ex_characters ex_separators ex_gaps ex_signed)+
  then have "parse_three_values ''10, 20, 30''
          = Inr (signed_value [49, 48], signed_value [50, 48], signed_value [51, 48])"
    by (rule S)
  then have p1: "parse_three_values ''10, 20, 30'' = Inr (10, 20, 30)"
    by (simp only: ex_values)
  have "code_points ''5 3 9'' = [] @ [53] @ [32] @ [51] @ [32] @ [57] @ []
      \<and> separator [] \<and> signed_number [53] \<and> gap [32] [51] \<and> signed_number [51]
      \<and> gap [32] [57] \<and> signed_number [57] \<and> follows_number []"
    by (intro conjI) (rule ex_characters ex_separators ex_gaps ex_signed)+
  then have "parse_three_values ''5 3 9''
          = Inr (signed_value [53], signed_value [51], signed_value [57])"
    by (rule S)
  then have p2: "parse_three_values ''5 3 9'' = Inr (5, 3, 9)"
    by (simp only: ex_values)
  from three ex_count(1) have n2: "signed_number (findall_numbers (code_points ''5 3 9'') ! 0)"
    by blast
  have "code_points ''only one number 4'' = code_points ''only one number '' @ [52] @ []
      \<and> separator (code_points ''only one number '') \<and> signed_number [52] \<and> separator []"
    by (intro conjI) (rule ex_characters ex_separators ex_signed)+
  then have p3: "parse_three_values ''only one number 4'' = Inl msg_bad_format"
    by (rule one [rule_format])
  with refuses have n3: "length (findall_numbers (code_points ''only one number 4'')) < 3"
    by blast
  from none ex_separators(7) have p4: "parse_three_values ''no numbers'' = Inl msg_bad_format"
    by blast
  have "code_points ''7 and 8.'' = [] @ [55] @ code_points '' and '' @ [56] @ [46]
      \<and> separator [] \<and> signed_number [55] \<and> gap (code_points '' and '') [56]
      \<and> signed_number [56] \<and> separator [46]"
    by (intro conjI) (rule ex_characters ex_separators ex_gaps ex_signed)+
  then have p5: "parse_three_values ''7 and 8.'' = Inl msg_bad_format"
    by (rule two [rule_format])
  have "code_points ''from -5 to 7, at most 12 days'' = (code_points ''from '') @ [45, 53] @ (code_points '' to '') @ [55] @ (code_points '', at most '') @ [49, 50] @ (code_points '' days'')
      \<and> separator (code_points ''from '') \<and> signed_number [45, 53] \<and> gap (code_points '' to '') [55] \<and> signed_number [55]
      \<and> gap (code_points '', at most '') [49, 50] \<and> signed_number [49, 50] \<and> follows_number (code_points '' days'')"
    by (intro conjI) (rule ex_characters ex_separators ex_gaps ex_signed)+
  then have "parse_three_values ''from -5 to 7, at most 12 days''
          = Inr (signed_value [45, 53], signed_value [55], signed_value [49, 50])"
    by (rule S)
  then have p6: "parse_three_values ''from -5 to 7, at most 12 days'' = Inr (- 5, 7, 12)"
    by (simp only: ex_values)
  have "code_points ''10-20-30'' = [] @ [49, 48] @ [] @ [45, 50, 48] @ [] @ [45, 51, 48] @ []
      \<and> separator [] \<and> signed_number [49, 48] \<and> gap [] [45, 50, 48] \<and> signed_number [45, 50, 48]
      \<and> gap [] [45, 51, 48] \<and> signed_number [45, 51, 48] \<and> follows_number []"
    by (intro conjI) (rule ex_characters ex_separators ex_gaps ex_signed)+
  then have "parse_three_values ''10-20-30''
          = Inr (signed_value [49, 48], signed_value [45, 50, 48], signed_value [45, 51, 48])"
    by (rule S)
  then have p7: "parse_three_values ''10-20-30'' = Inr (10, - 20, - 30)"
    by (simp only: ex_values)
  have "code_points ex_text_arabic = [] @ [0x661] @ [32] @ [0x662] @ [32] @ [0x663] @ []
      \<and> separator [] \<and> signed_number [0x661] \<and> gap [32] [0x662] \<and> signed_number [0x662]
      \<and> gap [32] [0x663] \<and> signed_number [0x663] \<and> follows_number []"
    by (intro conjI) (rule ex_characters ex_separators ex_gaps ex_signed)+
  then have "parse_three_values ex_text_arabic
          = Inr (signed_value [0x661], signed_value [0x662], signed_value [0x663])"
    by (rule S)
  then have p8: "parse_three_values ex_text_arabic = Inr (1, 2, 3)"
    by (simp only: ex_values)
  have "code_points ex_text_mixed = [] @ [49] @ [32] @ [0x662] @ [32] @ [51] @ [32, 52]
      \<and> separator [] \<and> signed_number [49] \<and> gap [32] [0x662] \<and> signed_number [0x662]
      \<and> gap [32] [51] \<and> signed_number [51] \<and> follows_number [32, 52]"
    by (intro conjI) (rule ex_characters ex_separators ex_gaps ex_signed)+
  then have "parse_three_values ex_text_mixed
          = Inr (signed_value [49], signed_value [0x662], signed_value [51])"
    by (rule S)
  then have p9: "parse_three_values ex_text_mixed = Inr (1, 2, 3)"
    by (simp only: ex_values)
  have "code_points ex_text_fullwidth = [] @ [0xFF11, 0xFF10] @ [0x3001, 0xA0] @ [0xFF12, 0xFF10] @ [0x3001, 0xA0] @ [0xFF13, 0xFF10] @ []
      \<and> separator [] \<and> signed_number [0xFF11, 0xFF10] \<and> gap [0x3001, 0xA0] [0xFF12, 0xFF10] \<and> signed_number [0xFF12, 0xFF10]
      \<and> gap [0x3001, 0xA0] [0xFF13, 0xFF10] \<and> signed_number [0xFF13, 0xFF10] \<and> follows_number []"
    by (intro conjI) (rule ex_characters ex_separators ex_gaps ex_signed)+
  then have "parse_three_values ex_text_fullwidth
          = Inr (signed_value [0xFF11, 0xFF10], signed_value [0xFF12, 0xFF10], signed_value [0xFF13, 0xFF10])"
    by (rule S)
  then have p10: "parse_three_values ex_text_fullwidth = Inr (10, 20, 30)"
    by (simp only: ex_values)
  from V aw p1 have h1: "handle_schedule_values ''10, 20, 30'' ex_awaiting
       = (ex_awaiting(''impact_schedule_min'' \<mapsto> PyInt 10, ''impact_schedule_most_likely'' \<mapsto> PyInt 20,
                      ''impact_schedule_max'' \<mapsto> PyInt 30, ''awaiting_schedule_values'' \<mapsto> PyBool False),
          [ReplyText msg_cost_choice cost_keyboard])"
    unfolding validates_triple_def by fastforce
  from V aw p2 have h2: "handle_schedule_values ''5 3 9'' ex_awaiting
       = (ex_awaiting, [ReplyText msg_order_error (create_back_keyboard ''back_to_schedule_impact'')])"
    unfolding validates_triple_def by fastforce
  from V aw p3 have h3: "handle_schedule_values ''only one number 4'' ex_awaiting
       = (ex_awaiting, [ReplyText (msg_bad_format @ msg_enter_three)
                          (create_back_keyboard ''back_to_schedule_impact'')])"
    unfolding validates_triple_def by blast
  from V aw p10 have h10: "handle_schedule_values ex_text_fullwidth ex_awaiting
       = (ex_awaiting(''impact_schedule_min'' \<mapsto> PyInt 10, ''impact_schedule_most_likely'' \<mapsto> PyInt 20,
                      ''impact_schedule_max'' \<mapsto> PyInt 30, ''awaiting_schedule_values'' \<mapsto> PyBool False),
          [ReplyText msg_cost_choice cost_keyboard])"
    unfolding validates_triple_def by fastforce
  from dec have d5: "signed_value (code_points (str_of_int (- 5))) = - 5" by blast
  from app ex_count(3) have ap: "code_points (''10'' @ '', 20'') = code_points ''10'' @ code_points '', 20''"
    by blast
  from aw mn p1 h1 p2 h2 ex_count(1) n2 p3 n3 h3 ex_separators(7) p4 p5 p6 p7 p8 p9 p10 h10 d5
    ex_count(3) ap
  show ?thesis by blast
qed

section \<open>Properties of the probability step\<close>

lemma band_numbers:
  "py_int ''1'' = Some 1" "py_int ''2'' = Some 2" "py_int ''3'' = Some 3"
  "py_int ''4'' = Some 4" "py_int ''5'' = Some 5" "py_int ''75'' = Some 75"
  by code_simp+

lemma choose_probability_cases:
  "fst (choose_probability data ud) = ud \<or>
   (\<exists>k v. PROBABILITY_MAPPING k = Some v \<and>
      fst (choose_probability data ud)
        = ud(''probability'' \<mapsto> PyInt v, ''awaiting_timeline'' \<mapsto> PyBool True))"
  by (auto simp: choose_probability_def Let_def split: option.splits)

lemma handle_custom_probability_cases:
  "fst (handle_custom_probability text ud) = ud \<or>
   (\<exists>p. py_int text = Some p \<and> 0 \<le> p \<and> p \<le> 100 \<and>
      fst (handle_custom_probability text ud)
        = ud(''probability'' \<mapsto> PyInt p, ''awaiting_custom_probability'' \<mapsto> PyBool False,
             ''awaiting_timeline'' \<mapsto> PyBool True))"
  by (auto simp: handle_custom_probability_def Let_def split: option.splits)

lemma mapping_values:
  "PROBABILITY_MAPPING k = Some v \<Longrightarrow> v \<in> {10, 15, 27, 47, 60} \<and> get_probability_score v \<le> 4"
  by (auto simp: PROBABILITY_MAPPING_def get_probability_score_def split: if_splits)

lemma mapping_domain: "(PROBABILITY_MAPPING k \<noteq> None) = (k \<in> {1, 2, 3, 4, 5})"
  by (simp add: PROBABILITY_MAPPING_def)

lemma band_buttons_store:
  "fst (choose_probability ''prob_1'' ud) ''probability'' = Some (PyInt 10)"
  "fst (choose_probability ''prob_2'' ud) ''probability'' = Some (PyInt 15)"
  "fst (choose_probability ''prob_3'' ud) ''probability'' = Some (PyInt 27)"
  "fst (choose_probability ''prob_4'' ud) ''probability'' = Some (PyInt 47)"
  "fst (choose_probability ''prob_5'' ud) ''probability'' = Some (PyInt 60)"
  by (simp_all add: choose_probability_def startswith_def band_numbers
      PROBABILITY_MAPPING_def)

lemma custom_entry_75:
  "truthy (ud_get_none ud ''awaiting_custom_probability'') \<Longrightarrow>
   fst (handle_custom_probability ''75'' ud) ''probability'' = Some (PyInt 75)"
  by (simp add: handle_custom_probability_def band_numbers)

lemma score_five_iff: "(get_probability_score p = 5) = (75 \<le> p)"
  by (simp add: get_probability_score_def)

text \<open>
  C10. The table \<open>PROBABILITY_MAPPING\<close> is defined exactly on the bands 1 to 5 with the
  values 10, 15, 27, 47 and 60, and every value of the table scores at most 4. Pressing
  the band buttons \<open>prob_1\<close> to \<open>prob_5\<close> stores those values; the button labelled
  \<open>>75%\<close> carries \<open>prob_5\<close>, stores 60 and so scores 4. Whatever \<open>callback_data\<close>
  reaches \<open>choose_probability\<close>, the handler either leaves the dictionary alone or
  stores a table value, which scores at most 4. The custom entry either leaves the
  dictionary alone or stores the integer \<open>p\<close> read from the text, \<open>0 \<le> p \<le> 100\<close>, and
  that value scores 5 exactly when \<open>p \<ge> 75\<close>; the entry \<open>75\<close> does store 75. (These two
  handlers hold the only assignments to \<open>probability\<close> in the source, lines 1221 and
  1247.)
\<close>

theorem band_buttons_score_at_most_four:
  "(\<forall>k. (PROBABILITY_MAPPING k \<noteq> None) = (k \<in> {1, 2, 3, 4, 5}))
   \<and> PROBABILITY_MAPPING 1 = Some 10 \<and> PROBABILITY_MAPPING 2 = Some 15
   \<and> PROBABILITY_MAPPING 3 = Some 27 \<and> PROBABILITY_MAPPING 4 = Some 47
   \<and> PROBABILITY_MAPPING 5 = Some 60
   \<and> (\<forall>k v. PROBABILITY_MAPPING k = Some v
         \<longrightarrow> v \<in> {10, 15, 27, 47, 60} \<and> get_probability_score v \<le> 4)
   \<and> (\<forall>ud. fst (choose_probability ''prob_1'' ud) ''probability'' = Some (PyInt 10)
          \<and> fst (choose_probability ''prob_2'' ud) ''probability'' = Some (PyInt 15)
          \<and> fst (choose_probability ''prob_3'' ud) ''probability'' = Some (PyInt 27)
          \<and> fst (choose_probability ''prob_4'' ud) ''probability'' = Some (PyInt 47)
          \<and> fst (choose_probability ''prob_5'' ud) ''probability'' = Some (PyInt 60))
   \<and> probability_keyboard ! 4 = [(''>75%'', ''prob_5'')]
   \<and> get_probability_score 60 = 4
   \<and> (\<forall>data ud. fst (choose_probability data ud) = ud
         \<or> (\<exists>k v. PROBABILITY_MAPPING k = Some v \<and> get_probability_score v \<le> 4
               \<and> fst (choose_probability data ud)
                   = ud(''probability'' \<mapsto> PyInt v, ''awaiting_timeline'' \<mapsto> PyBool True)))
   \<and> (\<forall>text ud. fst (handle_custom_probability text ud) = ud
         \<or> (\<exists>p. py_int text = Some p \<and> 0 \<le> p \<and> p \<le> 100
               \<and> (get_probability_score p = 5) = (75 \<le> p)
               \<and> fst (handle_custom_probability text ud)
                   = ud(''probability'' \<mapsto> PyInt p, ''awaiting_custom_probability'' \<mapsto> PyBool False,
                        ''awaiting_timeline'' \<mapsto> PyBool True)))
   \<and> (\<forall>ud. truthy (ud_get_none ud ''awaiting_custom_probability'')
         \<longrightarrow> fst (handle_custom_probability ''75'' ud) ''probability'' = Some (PyInt 75))
   \<and> get_probability_score 75 = 5"
proof -
  have dom: "\<forall>k. (PROBABILITY_MAPPING k \<noteq> None) = (k \<in> {1, 2, 3, 4, 5})"
    using mapping_domain by blast
  have tab: "PROBABILITY_MAPPING 1 = Some 10" "PROBABILITY_MAPPING 2 = Some 15"
    "PROBABILITY_MAPPING 3 = Some 27" "PROBABILITY_MAPPING 4 = Some 47"
    "PROBABILITY_MAPPING 5 = Some 60"
    by (simp_all add: PROBABILITY_MAPPING_def)
  have vals: "\<forall>k v. PROBABILITY_MAPPING k = Some v
         \<longrightarrow> v \<in> {10, 15, 27, 47, 60} \<and> get_probability_score v \<le> 4"
    using mapping_values by blast
  have btn: "\<forall>ud. fst (choose_probability ''prob_1'' ud) ''probability'' = Some (PyInt 10)
          \<and> fst (choose_probability ''prob_2'' ud) ''probability'' = Some (PyInt 15)
          \<and> fst (choose_probability ''prob_3'' ud) ''probability'' = Some (PyInt 27)
          \<and> fst (choose_probability ''prob_4'' ud) ''probability'' = Some (PyInt 47)
          \<and> fst (choose_probability ''prob_5'' ud) ''probability'' = Some (PyInt 60)"
    using band_buttons_store by blast
  have kb: "probability_keyboard ! 4 = [(''>75%'', ''prob_5'')]"
    by (simp add: probability_keyboard_def)
  have s60: "get_probability_score 60 = 4" and s75: "get_probability_score 75 = 5"
    by (simp_all add: get_probability_score_def)
  have any: "\<forall>data ud. fst (choose_probability data ud) = ud
         \<or> (\<exists>k v. PROBABILITY_MAPPING k = Some v \<and> get_probability_score v \<le> 4
               \<and> fst (choose_probability data ud)
                   = ud(''probability'' \<mapsto> PyInt v, ''awaiting_timeline'' \<mapsto> PyBool True))"
    using choose_probability_cases mapping_values by meson
  have custom: "\<forall>text ud. fst (handle_custom_probability text ud) = ud
         \<or> (\<exists>p. py_int text = Some p \<and> 0 \<le> p \<and> p \<le> 100
               \<and> (get_probability_score p = 5) = (75 \<le> p)
               \<and> fst (handle_custom_probability text ud)
                   = ud(''probability'' \<mapsto> PyInt p, ''awaiting_custom_probability'' \<mapsto> PyBool False,
                        ''awaiting_timeline'' \<mapsto> PyBool True))"
    using handle_custom_probability_cases score_five_iff by meson
  have c75: "\<forall>ud. truthy (ud_get_none ud ''awaiting_custom_probability'')
         \<longrightarrow> fst (handle_custom_probability ''75'' ud) ''probability'' = Some (PyInt 75)"
    using custom_entry_75 by blast
  from dom tab vals btn kb s60 any custom c75 s75 show ?thesis by blast
qed

text \<open>
  The theorem used at band 5 of the table and at a dictionary that awaits the custom
  entry.
\<close>

theorem band_buttons_witness:
  "PROBABILITY_MAPPING 5 = Some 60 \<and> (60::int) \<in> {10, 15, 27, 47, 60}
   \<and> get_probability_score 60 \<le> 4
   \<and> truthy (ud_get_none [''awaiting_custom_probability'' \<mapsto> PyBool True]
              ''awaiting_custom_probability'')
   \<and> fst (handle_custom_probability ''75'' [''awaiting_custom_probability'' \<mapsto> PyBool True])
        ''probability'' = Some (PyInt 75)"
proof -
  note T = band_buttons_score_at_most_four
  from T have m5: "PROBABILITY_MAPPING 5 = Some 60" by blast
  from T have "\<forall>k v. PROBABILITY_MAPPING k = Some v
         \<longrightarrow> v \<in> {10, 15, 27, 47, 60} \<and> get_probability_score v \<le> 4" by blast
  with m5 have v: "(60::int) \<in> {10, 15, 27, 47, 60} \<and> get_probability_score 60 \<le> 4" by blast
  have aw: "truthy (ud_get_none [''awaiting_custom_probability'' \<mapsto> PyBool True]
              ''awaiting_custom_probability'')"
    by (simp add: ud_get_none_def ud_get_def)
  from T have "\<forall>ud. truthy (ud_get_none ud ''awaiting_custom_probability'')
         \<longrightarrow> fst (handle_custom_probability ''75'' ud) ''probability'' = Some (PyInt 75)"
    by blast
  with aw have "fst (handle_custom_probability ''75'' [''awaiting_custom_probability'' \<mapsto> PyBool True])
        ''probability'' = Some (PyInt 75)" by blast
  with m5 v aw show ?thesis by blast
qed

section \<open>Properties of back navigation and of the draft's lifetime\<close>

lemma handle_back_schedule_impact:
  "handle_back e u ''back_to_schedule_impact'' (ud, d) =
     ((ud_pop (ud_pop (ud_pop (ud_pop (ud_pop ud ''impact_schedule_min'')
             ''impact_schedule_most_likely'') ''impact_schedule_max'')
             ''needs_schedule_evaluation'') ''awaiting_schedule_values'', d),
      [EditMessageText msg_schedule_choice schedule_keyboard], None)"
  by (simp add: handle_back_def)

text \<open>
  C5. For every dictionary, database, environment and user, the branch
  \<open>back_to_schedule_impact\<close> of \<open>handle_back\<close> removes exactly the schedule triple
  (\<open>impact_schedule_min\<close>, \<open>impact_schedule_most_likely\<close>, \<open>impact_schedule_max\<close>), its
  deferral flag \<open>needs_schedule_evaluation\<close> and the marker \<open>awaiting_schedule_values\<close>:
  these five keys are absent afterwards and every other key keeps its entry, in
  particular \<open>phase\<close>, \<open>object\<close>, \<open>category\<close> and \<open>description\<close>. The database is not
  touched and nothing is raised.
\<close>

theorem back_to_schedule_impact_clears_exactly:
  "ud_of (handle_back e u ''back_to_schedule_impact'' (ud, d))
     = (\<lambda>k. if k \<in> schedule_step_keys then None else ud k)
   \<and> db_of (handle_back e u ''back_to_schedule_impact'' (ud, d)) = d
   \<and> raised (handle_back e u ''back_to_schedule_impact'' (ud, d)) = None
   \<and> ud_of (handle_back e u ''back_to_schedule_impact'' (ud, d)) ''phase'' = ud ''phase''
   \<and> ud_of (handle_back e u ''back_to_schedule_impact'' (ud, d)) ''object'' = ud ''object''
   \<and> ud_of (handle_back e u ''back_to_schedule_impact'' (ud, d)) ''category'' = ud ''category''
   \<and> ud_of (handle_back e u ''back_to_schedule_impact'' (ud, d)) ''description''
       = ud ''description''"
  unfolding handle_back_schedule_impact
  by (auto simp: ud_pop_def schedule_step_keys_def fun_eq_iff ud_of_def db_of_def raised_def)

lemma save_risk_user_data:
  "ud_of (save_risk e upd (ud, d))
     = (case draft_score ud of None \<Rightarrow> ud | Some s \<Rightarrow> ud(''risk_score'' \<mapsto> PyInt s))"
  by (cases upd) (simp_all add: ud_of_def save_risk_def Let_def split: option.splits)

lemma start_user_data: "ud_of (start e upd (ud, d)) = ud"
  by (cases upd) (simp_all add: ud_of_def start_def Let_def)

lemma handle_back_menu: "handle_back e u ''back_to_menu'' st = start e (CallbackQuery u ''back_to_menu'') st"
  by (simp add: handle_back_def Let_def)

text \<open>
  C4, evaluated on the code. The commit of a supplementary mitigation removes its three
  draft keys from the dictionary once the insert is done (lines 752-755); the commit of a
  risk, \<open>save_risk\<close>, removes nothing: it returns the dictionary it received with the key
  \<open>risk_score\<close> added, and the return to the top-level menu returns the dictionary
  unchanged. At the example draft the commit succeeds and adds one record, the dictionary
  still holds the phase afterwards, and the return to the menu keeps the post-mitigation
  cost. The second submission, made without re-evaluation (\<open>reevaluation_needed\<close> is 0),
  then commits a second record whose columns carry the post-mitigation values 200, 2000
  and 5 of the first draft.
\<close>

theorem committed_draft_leaks_into_next_submission:
  "ud_of (save_risk e upd (ud, d))
     = (case draft_score ud of None \<Rightarrow> ud | Some s \<Rightarrow> ud(''risk_score'' \<mapsto> PyInt s))
   \<and> ud_of (handle_back e u ''back_to_menu'' (ud, d)) = ud
   \<and> map (ud_of (handle_expected_result_for_mitigation ex_env ex_user ''less'' (ex_mitigation_draft, ex_db)))
        [''adding_mitigation_to_risk'', ''new_mitigation'', ''awaiting_expected_result_for_mitigation'']
       = [None, None, None]
   \<and> length (additional_mitigations
        (db_of (handle_expected_result_for_mitigation ex_env ex_user ''less'' (ex_mitigation_draft, ex_db)))) = 1
   \<and> raised ex_first_commit = None
   \<and> length (risks (db_of ex_first_commit)) = 1
   \<and> ud_of ex_first_commit ''phase'' = Some (PyStr ''3'')
   \<and> ud_of (handle_back ex_env ex_user ''back_to_menu'' (fst ex_first_commit))
        ''impact_cost_most_likely_re'' = Some (PyInt 2000)
   \<and> map r_draft (drop 1 (risks (db_of ex_second_submission)))
       = [[(''phase'', PyStr ''1''), (''object'', PyStr ''Pad''), (''category'', PyStr ''HSE''),
           (''description'', PyStr ''second risk''),
           (''impact_schedule_min'', PyInt 0), (''impact_schedule_most_likely'', PyInt 0),
           (''impact_schedule_max'', PyInt 0),
           (''impact_cost_min'', PyInt 0), (''impact_cost_most_likely'', PyInt 0),
           (''impact_cost_max'', PyInt 0),
           (''impact_schedule_min_re'', PyInt 0), (''impact_schedule_most_likely_re'', PyInt 200),
           (''impact_schedule_max_re'', PyInt 0),
           (''impact_cost_min_re'', PyInt 0), (''impact_cost_most_likely_re'', PyInt 2000),
           (''impact_cost_max_re'', PyInt 0),
           (''probability'', PyInt 10), (''probability_re'', PyInt 5),
           (''timeline'', PyStr ''Q4''), (''mitigation'', PyStr ''inspect''),
           (''expected_result'', PyStr ''fewer incidents''),
           (''reevaluation_needed'', PyInt 0), (''needs_schedule_evaluation'', PyInt 0),
           (''needs_cost_evaluation'', PyInt 0), (''needs_schedule_evaluation_re'', PyInt 0),
           (''needs_cost_evaluation_re'', PyInt 0)]]"
proof -
  have general: "ud_of (save_risk e upd (ud, d))
     = (case draft_score ud of None \<Rightarrow> ud | Some s \<Rightarrow> ud(''risk_score'' \<mapsto> PyInt s))
   \<and> ud_of (handle_back e u ''back_to_menu'' (ud, d)) = ud"
    by (simp add: save_risk_user_data handle_back_menu start_user_data)
  have sibling: "map (ud_of (handle_expected_result_for_mitigation ex_env ex_user ''less'' (ex_mitigation_draft, ex_db)))
        [''adding_mitigation_to_risk'', ''new_mitigation'', ''awaiting_expected_result_for_mitigation'']
       = [None, None, None]
   \<and> length (additional_mitigations
        (db_of (handle_expected_result_for_mitigation ex_env ex_user ''less'' (ex_mitigation_draft, ex_db)))) = 1"
    by code_simp
  have first: "raised ex_first_commit = None \<and> length (risks (db_of ex_first_commit)) = 1
      \<and> ud_of ex_first_commit ''phase'' = Some (PyStr ''3'')"
    by code_simp
  have menu: "ud_of (handle_back ex_env ex_user ''back_to_menu'' (fst ex_first_commit))
        ''impact_cost_most_likely_re'' = Some (PyInt 2000)"
    by code_simp
  have second: "map r_draft (drop 1 (risks (db_of ex_second_submission)))
       = [[(''phase'', PyStr ''1''), (''object'', PyStr ''Pad''), (''category'', PyStr ''HSE''),
           (''description'', PyStr ''second risk''),
           (''impact_schedule_min'', PyInt 0), (''impact_schedule_most_likely'', PyInt 0),
           (''impact_schedule_max'', PyInt 0),
           (''impact_cost_min'', PyInt 0), (''impact_cost_most_likely'', PyInt 0),
           (''impact_cost_max'', PyInt 0),
           (''impact_schedule_min_re'', PyInt 0), (''impact_schedule_most_likely_re'', PyInt 200),
           (''impact_schedule_max_re'', PyInt 0),
           (''impact_cost_min_re'', PyInt 0), (''impact_cost_most_likely_re'', PyInt 2000),
           (''impact_cost_max_re'', PyInt 0),
           (''probability'', PyInt 10), (''probability_re'', PyInt 5),
           (''timeline'', PyStr ''Q4''), (''mitigation'', PyStr ''inspect''),
           (''expected_result'', PyStr ''fewer incidents''),
           (''reevaluation_needed'', PyInt 0), (''needs_schedule_evaluation'', PyInt 0),
           (''needs_cost_evaluation'', PyInt 0), (''needs_schedule_evaluation_re'', PyInt 0),
           (''needs_cost_evaluation_re'', PyInt 0)]]"
    by code_simp
  from general sibling first menu second show ?thesis by blast
qed

text \<open>
  C6, evaluated on the code. Arriving forward at the schedule-impact step
  (\<open>get_description\<close>) renders the prompt that ends its parenthesis with `in days';
  going back to it renders the prompt without these words, over the same keyboard.
  Arriving forward at the probability step (\<open>no_impact_cost\<close>, and likewise
  \<open>request_cost_evaluation\<close> and \<open>handle_cost_values\<close>) renders the fourth band as
  \<open>50-75%\<close>; going back to it renders \<open>60-75%\<close>. So the two renderings of each of these
  return points differ.
\<close>

theorem back_rendering_differs_from_forward:
  "map rendered (snd (get_description ''test'' [''awaiting_description'' \<mapsto> PyBool True]))
     = [(msg_schedule_choice_days, schedule_keyboard)]
   \<and> map rendered (actions_of (handle_back ex_env ex_user ''back_to_schedule_impact''
                                  (ex_draft, ex_db)))
     = [(msg_schedule_choice, schedule_keyboard)]
   \<and> msg_schedule_choice_days \<noteq> msg_schedule_choice
   \<and> map rendered (snd (no_impact_cost ex_draft)) = [(msg_probability_prompt, probability_keyboard)]
   \<and> map rendered (actions_of (handle_back ex_env ex_user ''back_to_probability''
                                  (ex_draft, ex_db)))
     = [(msg_probability_prompt, probability_keyboard_back)]
   \<and> probability_keyboard ! 3 = [(''50-75%'', ''prob_4'')]
   \<and> probability_keyboard_back ! 3 = [(''60-75%'', ''prob_4'')]
   \<and> probability_keyboard \<noteq> probability_keyboard_back"
proof -
  have 1: "map rendered (snd (get_description ''test'' [''awaiting_description'' \<mapsto> PyBool True]))
     = [(msg_schedule_choice_days, schedule_keyboard)]"
    by (simp add: get_description_def ud_get_none_def ud_get_def)
  have 2: "map rendered (actions_of (handle_back ex_env ex_user ''back_to_schedule_impact''
                                  (ex_draft, ex_db)))
     = [(msg_schedule_choice, schedule_keyboard)]"
    by (simp add: handle_back_schedule_impact actions_of_def)
  have 3: "msg_schedule_choice_days \<noteq> msg_schedule_choice"
    by (simp add: msg_schedule_choice_days_def msg_schedule_choice_def)
  have 4: "map rendered (snd (no_impact_cost ex_draft))
             = [(msg_probability_prompt, probability_keyboard)]"
    by (simp add: no_impact_cost_def)
  have 5: "map rendered (actions_of (handle_back ex_env ex_user ''back_to_probability''
                                  (ex_draft, ex_db)))
     = [(msg_probability_prompt, probability_keyboard_back)]"
    by (simp add: handle_back_def actions_of_def)
  have 6: "probability_keyboard ! 3 = [(''50-75%'', ''prob_4'')]"
    "probability_keyboard_back ! 3 = [(''60-75%'', ''prob_4'')]"
    by (simp_all add: probability_keyboard_def probability_keyboard_back_def)
  have 7: "probability_keyboard \<noteq> probability_keyboard_back"
    by (simp add: probability_keyboard_def probability_keyboard_back_def)
  from 1 2 3 4 5 6 7 show ?thesis by blast
qed

section \<open>Properties of a failed commit\<close>

lemma draft_score_risk_score: "draft_score (ud(''risk_score'' \<mapsto> v)) = draft_score ud"
  by (simp add: draft_score_def ud_get_def cong: option.case_cong)

lemma failed_save:
  assumes "draft_score ud = Some s" and "\<not> insert_accepted e u (ud(''risk_score'' \<mapsto> PyInt s))"
  shows "save_risk e (Message u t) (ud, d)
           = ((ud(''risk_score'' \<mapsto> PyInt s), d),
              [ReplyText msg_save_failed (create_back_keyboard ''back_to_menu'')], None)"
  using assms by (simp add: save_risk_def Let_def)

text \<open>
  When the insert of a commit started by a text message is not accepted, \<open>save_risk\<close> answers with the generic failure message over a keyboard whose
  only button returns to the menu, writes nothing to the database and returns the
  dictionary with the key \<open>risk_score\<close> added: every other key keeps its entry, so the
  draft is preserved and readable. Running the commit again on that dictionary, in any
  environment that accepts the insert, commits the very record that the same commit
  would have produced from the dictionary before the failure.
\<close>

lemma failed_commit_keeps_draft:
  assumes "draft_score ud = Some s" and "\<not> insert_accepted e u (ud(''risk_score'' \<mapsto> PyInt s))"
  shows "save_risk e (Message u t) (ud, d)
           = ((ud(''risk_score'' \<mapsto> PyInt s), d),
              [ReplyText msg_save_failed (create_back_keyboard ''back_to_menu'')], None)
         \<and> (\<forall>k. k \<noteq> ''risk_score'' \<longrightarrow> ud_of (save_risk e (Message u t) (ud, d)) k = ud k)
         \<and> (\<forall>e2 upd2. insert_accepted e2 (effective_user upd2) (ud(''risk_score'' \<mapsto> PyInt s))
               \<longrightarrow> committed e2 upd2 (fst (save_risk e (Message u t) (ud, d))) \<noteq> None
                 \<and> committed e2 upd2 (fst (save_risk e (Message u t) (ud, d)))
                     = committed e2 upd2 (ud, d))"
proof -
  note fs = failed_save [OF assms, of t d]
  have 2: "\<forall>k. k \<noteq> ''risk_score'' \<longrightarrow> ud_of (save_risk e (Message u t) (ud, d)) k = ud k"
    by (simp add: fs ud_of_def)
  have 3: "committed e2 upd2 (fst (save_risk e (Message u t) (ud, d))) \<noteq> None
                 \<and> committed e2 upd2 (fst (save_risk e (Message u t) (ud, d)))
                     = committed e2 upd2 (ud, d)"
    if "insert_accepted e2 (effective_user upd2) (ud(''risk_score'' \<mapsto> PyInt s))" for e2 upd2
    using that assms(1) by (simp add: fs committed_eq draft_score_risk_score)
  from fs 2 3 show ?thesis by blast
qed

lemma ex_insert_refused_when_down: "\<not> insert_accepted ex_env_down ex_user (ex_draft_no_re(''risk_score'' \<mapsto> PyInt 9))"
  by (simp add: insert_accepted_def ex_env_down_def ex_env_def)

text \<open>
  The example draft without re-evaluation, committed while the storage engine refuses
  writes, and committed again once it accepts them.
\<close>

lemma failed_commit_example:
  "draft_score ex_draft_no_re = Some 9
   \<and> \<not> insert_accepted ex_env_down ex_user (ex_draft_no_re(''risk_score'' \<mapsto> PyInt 9))
   \<and> actions_of (save_risk ex_env_down (Message ex_user ''less'') (ex_draft_no_re, ex_db))
        = [ReplyText msg_save_failed (create_back_keyboard ''back_to_menu'')]
   \<and> ud_of (save_risk ex_env_down (Message ex_user ''less'') (ex_draft_no_re, ex_db)) ''phase''
        = Some (PyStr ''3'')
   \<and> insert_accepted ex_env (effective_user (Message ex_user ''less''))
        (ex_draft_no_re(''risk_score'' \<mapsto> PyInt 9))
   \<and> committed ex_env (Message ex_user ''less'')
        (fst (save_risk ex_env_down (Message ex_user ''less'') (ex_draft_no_re, ex_db))) \<noteq> None"
proof -
  note T = failed_commit_keeps_draft [OF ex_draft_no_re_score ex_insert_refused_when_down, of "''less''" ex_db]
  have acc: "insert_accepted ex_env (effective_user (Message ex_user ''less''))
        (ex_draft_no_re(''risk_score'' \<mapsto> PyInt 9))"
    using ex_insert_accepted_no_re by simp
  from T have a: "actions_of (save_risk ex_env_down (Message ex_user ''less'') (ex_draft_no_re, ex_db))
        = [ReplyText msg_save_failed (create_back_keyboard ''back_to_menu'')]"
    by (simp add: actions_of_def)
  from T have "\<forall>k. k \<noteq> ''risk_score'' \<longrightarrow>
      ud_of (save_risk ex_env_down (Message ex_user ''less'') (ex_draft_no_re, ex_db)) k = ex_draft_no_re k"
    by blast
  then have "ud_of (save_risk ex_env_down (Message ex_user ''less'') (ex_draft_no_re, ex_db)) ''phase''
        = ex_draft_no_re ''phase''" by simp
  then have p: "ud_of (save_risk ex_env_down (Message ex_user ''less'') (ex_draft_no_re, ex_db)) ''phase''
        = Some (PyStr ''3'')" by (simp add: ex_draft_no_re_def ex_draft_def)
  from T acc have c: "committed ex_env (Message ex_user ''less'')
        (fst (save_risk ex_env_down (Message ex_user ''less'') (ex_draft_no_re, ex_db))) \<noteq> None"
    by blast
  from ex_draft_no_re_score ex_insert_refused_when_down a p acc c show ?thesis by blast
qed

text \<open>
  C7, evaluated on the code. The draft at its last step receives the expected result
  while the storage engine refuses writes. The answer is the failure message, which asks
  the user to try again, over a keyboard whose single button is \<open>back_to_menu\<close>; nothing
  is written and every key of the draft keeps its value. But no step retries the commit:
  every marker is lowered, so sending the text again, now that the engine accepts writes,
  is answered with `I do not understand your message' and commits nothing, and the one
  button offered commits nothing either. When the commit is started by a button, the
  post-mitigation probability band, and the engine refuses the write, \<open>save_risk\<close> raises
  on \<^verbatim>\<open>update.message\<close>: no message is shown at all. The same press with the engine
  accepting the write replaces the message by the summary and stores the record.
\<close>

theorem failed_commit_offers_no_retry:
  "raised ex_failed_commit = None
   \<and> actions_of ex_failed_commit
        = [ReplyText msg_save_failed (create_back_keyboard ''back_to_menu'')]
   \<and> create_back_keyboard ''back_to_menu'' = [[(back_button_label, ''back_to_menu'')]]
   \<and> risks (db_of ex_failed_commit) = []
   \<and> map (ud_of ex_failed_commit)
        [''phase'', ''object'', ''category'', ''description'', ''impact_cost_most_likely'',
         ''probability'', ''timeline'', ''mitigation'']
       = map ex_pending
        [''phase'', ''object'', ''category'', ''description'', ''impact_cost_most_likely'',
         ''probability'', ''timeline'', ''mitigation'']
   \<and> ud_of ex_failed_commit ''expected_result'' = Some (PyStr ''less'')
   \<and> ud_of ex_failed_commit ''awaiting_expected_result'' = Some (PyBool False)
   \<and> actions_of (handle_text ex_env ex_user ''less'' (fst ex_failed_commit))
        = [ReplyText msg_not_understood [[(main_menu_label, ''back_to_menu'')]]]
   \<and> risks (db_of (handle_text ex_env ex_user ''less'' (fst ex_failed_commit))) = []
   \<and> risks (db_of (handle_back ex_env ex_user ''back_to_menu'' (fst ex_failed_commit))) = []
   \<and> raised (choose_probability_re ex_env_down ex_user ''prob_re_1'' (ex_draft, ex_db))
        = Some AttributeError
   \<and> actions_of (choose_probability_re ex_env_down ex_user ''prob_re_1'' (ex_draft, ex_db)) = []
   \<and> risks (db_of (choose_probability_re ex_env_down ex_user ''prob_re_1'' (ex_draft, ex_db))) = []
   \<and> raised (choose_probability_re ex_env ex_user ''prob_re_1'' (ex_draft, ex_db)) = None
   \<and> length (actions_of (choose_probability_re ex_env ex_user ''prob_re_1'' (ex_draft, ex_db))) = 1
   \<and> length (risks (db_of (choose_probability_re ex_env ex_user ''prob_re_1'' (ex_draft, ex_db)))) = 1"
proof -
  have text_path: "raised ex_failed_commit = None
   \<and> actions_of ex_failed_commit
        = [ReplyText msg_save_failed (create_back_keyboard ''back_to_menu'')]
   \<and> create_back_keyboard ''back_to_menu'' = [[(back_button_label, ''back_to_menu'')]]
   \<and> risks (db_of ex_failed_commit) = []"
    by code_simp
  have kept: "map (ud_of ex_failed_commit)
        [''phase'', ''object'', ''category'', ''description'', ''impact_cost_most_likely'',
         ''probability'', ''timeline'', ''mitigation'']
       = map ex_pending
        [''phase'', ''object'', ''category'', ''description'', ''impact_cost_most_likely'',
         ''probability'', ''timeline'', ''mitigation'']
   \<and> ud_of ex_failed_commit ''expected_result'' = Some (PyStr ''less'')
   \<and> ud_of ex_failed_commit ''awaiting_expected_result'' = Some (PyBool False)"
    by code_simp
  have again: "actions_of (handle_text ex_env ex_user ''less'' (fst ex_failed_commit))
        = [ReplyText msg_not_understood [[(main_menu_label, ''back_to_menu'')]]]
   \<and> risks (db_of (handle_text ex_env ex_user ''less'' (fst ex_failed_commit))) = []
   \<and> risks (db_of (handle_back ex_env ex_user ''back_to_menu'' (fst ex_failed_commit))) = []"
    by code_simp
  have button: "raised (choose_probability_re ex_env_down ex_user ''prob_re_1'' (ex_draft, ex_db))
        = Some AttributeError
   \<and> actions_of (choose_probability_re ex_env_down ex_user ''prob_re_1'' (ex_draft, ex_db)) = []
   \<and> risks (db_of (choose_probability_re ex_env_down ex_user ''prob_re_1'' (ex_draft, ex_db))) = []"
    by code_simp
  have button_ok: "raised (choose_probability_re ex_env ex_user ''prob_re_1'' (ex_draft, ex_db)) = None
   \<and> length (actions_of (choose_probability_re ex_env ex_user ''prob_re_1'' (ex_draft, ex_db))) = 1
   \<and> length (risks (db_of (choose_probability_re ex_env ex_user ''prob_re_1'' (ex_draft, ex_db)))) = 1"
    by code_simp
  from text_path kept again button button_ok show ?thesis by blast
qed

text \<open>
  The theorem at its two inputs: the marker of the last step is set when the text
  arrives, and the \<^verbatim>\<open>callback_data\<close> of the button has the three parts that the handler
  requires.
\<close>

theorem failed_commit_has_no_retry_witness:
  "truthy (ud_get_none ex_pending ''awaiting_expected_result'')
   \<and> split_on CHR ''_'' ''prob_re_1'' = [''prob'', ''re'', ''1'']
   \<and> actions_of ex_failed_commit
        = [ReplyText msg_save_failed (create_back_keyboard ''back_to_menu'')]
   \<and> risks (db_of (handle_text ex_env ex_user ''less'' (fst ex_failed_commit))) = []
   \<and> raised (choose_probability_re ex_env_down ex_user ''prob_re_1'' (ex_draft, ex_db))
        = Some AttributeError
   \<and> actions_of (choose_probability_re ex_env_down ex_user ''prob_re_1'' (ex_draft, ex_db)) = []"
proof -
  note T = failed_commit_offers_no_retry
  have aw: "truthy (ud_get_none ex_pending ''awaiting_expected_result'')" by code_simp
  have sp: "split_on CHR ''_'' ''prob_re_1'' = [''prob'', ''re'', ''1'']" by code_simp
  from T have a: "actions_of ex_failed_commit
        = [ReplyText msg_save_failed (create_back_keyboard ''back_to_menu'')]"
    by (elim conjE)
  from T have b: "risks (db_of (handle_text ex_env ex_user ''less'' (fst ex_failed_commit))) = []"
    by (elim conjE)
  from T have c: "raised (choose_probability_re ex_env_down ex_user ''prob_re_1'' (ex_draft, ex_db))
        = Some AttributeError"
    by (elim conjE)
  from T have d: "actions_of (choose_probability_re ex_env_down ex_user ''prob_re_1'' (ex_draft, ex_db)) = []"
    by (elim conjE)
  from aw sp a b c d show ?thesis by (intro conjI)
qed

section \<open>Properties of the daily reminder\<close>

lemma sent_to_Nil: "sent_to e [] d = []"
  by (simp add: sent_to_def)

lemma sent_to_Cons:
  "sent_to e (v # us) d =
     (if already_notified e v d then sent_to e us d
      else if can_deliver e v then v # sent_to e us (set_last_notification e v d)
      else sent_to e us d)"
  by (simp add: sent_to_def split: prod.splits)

lemma failed_for_Nil: "failed_for e [] d = []"
  by (simp add: failed_for_def)

lemma failed_for_Cons:
  "failed_for e (v # us) d =
     (if already_notified e v d then failed_for e us d
      else if can_deliver e v then failed_for e us (set_last_notification e v d)
      else v # failed_for e us d)"
  by (simp add: failed_for_def split: prod.splits)

lemma db_Cons:
  "fst (remind_users e (v # us) d) =
     (if already_notified e v d then fst (remind_users e us d)
      else if can_deliver e v then fst (remind_users e us (set_last_notification e v d))
      else fst (remind_users e us d))"
  by (simp split: prod.splits)

lemma list_ex_update_mono:
  "list_ex (\<lambda>s. s_user_id s = u \<and> last_notification s = Some t) xs \<Longrightarrow>
   list_ex (\<lambda>s. s_user_id s = u \<and> last_notification s = Some t)
     (map (\<lambda>s. if s_user_id s = v then s\<lparr>last_notification := Some t\<rparr> else s) xs)"
  by (induction xs) auto

lemma list_ex_update_other:
  "u \<noteq> v \<Longrightarrow>
   list_ex (\<lambda>s. s_user_id s = u \<and> last_notification s = Some t)
     (map (\<lambda>s. if s_user_id s = v then s\<lparr>last_notification := Some t\<rparr> else s) xs)
   = list_ex (\<lambda>s. s_user_id s = u \<and> last_notification s = Some t) xs"
  by (induction xs) auto

lemma list_ex_update_set:
  "list_ex (\<lambda>s. s_user_id s = u \<and> last_notification s = Some t)
     (map (\<lambda>s. if s_user_id s \<in> S then s\<lparr>last_notification := Some t\<rparr> else s) xs)
   = (list_ex (\<lambda>s. s_user_id s = u \<and> last_notification s = Some t) xs
      \<or> (u \<in> S \<and> u \<in> s_user_id ` set xs))"
  by (induction xs) auto

lemma notified_mono:
  "already_notified e u d \<Longrightarrow> already_notified e u (set_last_notification e v d)"
  by (simp add: already_notified_def set_last_notification_def list_ex_update_mono)

lemma notified_other:
  "u \<noteq> v \<Longrightarrow> already_notified e u (set_last_notification e v d) = already_notified e u d"
  by (simp add: already_notified_def set_last_notification_def list_ex_update_other)

lemma ids_map_update:
  "map s_user_id
     (map (\<lambda>s. if s_user_id s = v then s\<lparr>last_notification := t\<rparr> else s) xs)
   = map s_user_id xs"
  by (induction xs) auto

lemma subscriptions_set_last:
  "subscriptions (set_last_notification e v d) =
     map (\<lambda>s. if s_user_id s = v then s\<lparr>last_notification := Some (today_ymd e)\<rparr> else s)
       (subscriptions d)"
  by (simp add: set_last_notification_def)

lemma ids_set_last:
  "s_user_id ` set (subscriptions (set_last_notification e v d)) = s_user_id ` set (subscriptions d)"
proof -
  have "map s_user_id (subscriptions (set_last_notification e v d))
          = map s_user_id (subscriptions d)"
    unfolding subscriptions_set_last by (rule ids_map_update)
  then have "set (map s_user_id (subscriptions (set_last_notification e v d)))
          = set (map s_user_id (subscriptions d))"
    by (rule arg_cong)
  then show ?thesis by (simp only: set_map)
qed

lemma list_ex_after_update:
  "v \<in> s_user_id ` set xs \<Longrightarrow>
   list_ex (\<lambda>s. s_user_id s = v \<and> last_notification s = Some t)
     (map (\<lambda>s. if s_user_id s = v then s\<lparr>last_notification := Some t\<rparr> else s) xs)"
  by (induction xs) auto

lemma notified_self:
  "v \<in> s_user_id ` set (subscriptions d) \<Longrightarrow> already_notified e v (set_last_notification e v d)"
  by (simp add: already_notified_def set_last_notification_def list_ex_after_update)

lemma sent_only_if:
  "u \<in> set (sent_to e us d) \<Longrightarrow> u \<in> set us \<and> \<not> already_notified e u d \<and> can_deliver e u"
proof (induction us arbitrary: d)
  case Nil
  then show ?case by (simp add: sent_to_Nil)
next
  case (Cons v us)
  show ?case
  proof (cases "already_notified e v d")
    case True
    with Cons show ?thesis by (simp add: sent_to_Cons)
  next
    case False
    show ?thesis
    proof (cases "can_deliver e v")
      case True
      with False Cons.prems have "u = v \<or> u \<in> set (sent_to e us (set_last_notification e v d))"
        by (simp add: sent_to_Cons)
      then show ?thesis
      proof
        assume "u = v"
        with False True show ?thesis by simp
      next
        assume "u \<in> set (sent_to e us (set_last_notification e v d))"
        from Cons.IH [OF this] notified_mono show ?thesis by auto
      qed
    next
      case F: False
      with False Cons show ?thesis by (simp add: sent_to_Cons)
    qed
  qed
qed

lemma sent_if:
  "u \<in> set us \<Longrightarrow> \<not> already_notified e u d \<Longrightarrow> can_deliver e u \<Longrightarrow> u \<in> set (sent_to e us d)"
proof (induction us arbitrary: d)
  case Nil
  then show ?case by simp
next
  case (Cons v us)
  show ?case
  proof (cases "u = v")
    case True
    with Cons.prems show ?thesis by (simp add: sent_to_Cons)
  next
    case False
    with Cons.prems have u: "u \<in> set us" by simp
    from False Cons.prems have n: "\<not> already_notified e u (set_last_notification e v d)"
      by (simp add: notified_other)
    from Cons.IH [OF u Cons.prems(2) Cons.prems(3)] Cons.IH [OF u n Cons.prems(3)]
    show ?thesis by (simp add: sent_to_Cons)
  qed
qed

lemma failed_if:
  "u \<in> set us \<Longrightarrow> \<not> already_notified e u d \<Longrightarrow> \<not> can_deliver e u \<Longrightarrow> u \<in> set (failed_for e us d)"
proof (induction us arbitrary: d)
  case Nil
  then show ?case by simp
next
  case (Cons v us)
  show ?case
  proof (cases "u = v")
    case True
    with Cons.prems show ?thesis by (simp add: failed_for_Cons)
  next
    case False
    with Cons.prems have u: "u \<in> set us" by simp
    from False Cons.prems have n: "\<not> already_notified e u (set_last_notification e v d)"
      by (simp add: notified_other)
    from Cons.IH [OF u Cons.prems(2) Cons.prems(3)] Cons.IH [OF u n Cons.prems(3)]
    show ?thesis by (simp add: failed_for_Cons)
  qed
qed

lemma final_subscriptions:
  "subscriptions (fst (remind_users e us d)) =
     map (\<lambda>s. if s_user_id s \<in> set (sent_to e us d)
               then s\<lparr>last_notification := Some (today_ymd e)\<rparr> else s)
       (subscriptions d)"
proof (induction us arbitrary: d)
  case Nil
  then show ?case by (simp add: sent_to_Nil)
next
  case (Cons v us)
  show ?case
  proof (cases "\<not> already_notified e v d \<and> can_deliver e v")
    case True
    then have "subscriptions (fst (remind_users e (v # us) d))
        = subscriptions (fst (remind_users e us (set_last_notification e v d)))"
      by (simp only: db_Cons if_True if_False)
    also have "\<dots> = map (\<lambda>s. if s_user_id s \<in> set (sent_to e us (set_last_notification e v d))
               then s\<lparr>last_notification := Some (today_ymd e)\<rparr> else s)
         (map (\<lambda>s. if s_user_id s = v then s\<lparr>last_notification := Some (today_ymd e)\<rparr> else s)
           (subscriptions d))"
      by (simp only: Cons.IH subscriptions_set_last)
    also have "\<dots> = map (\<lambda>s. if s_user_id s \<in> set (sent_to e (v # us) d)
               then s\<lparr>last_notification := Some (today_ymd e)\<rparr> else s) (subscriptions d)"
      using True by (simp add: sent_to_Cons)
    finally show ?thesis .
  next
    case False
    then have "fst (remind_users e (v # us) d) = fst (remind_users e us d)"
      by (auto simp: db_Cons simp del: remind_users.simps)
    moreover from False have "sent_to e (v # us) d = sent_to e us d"
      by (auto simp: sent_to_Cons)
    ultimately show ?thesis by (simp only: Cons.IH)
  qed
qed

lemma sent_distinct:
  "set us \<subseteq> s_user_id ` set (subscriptions d) \<Longrightarrow> distinct (sent_to e us d)"
proof (induction us arbitrary: d)
  case Nil
  then show ?case by (simp add: sent_to_Nil)
next
  case (Cons v us)
  let ?d1 = "set_last_notification e v d"
  from Cons.prems have v: "v \<in> s_user_id ` set (subscriptions d)"
    and us: "set us \<subseteq> s_user_id ` set (subscriptions d)" by simp_all
  from us have us1: "set us \<subseteq> s_user_id ` set (subscriptions ?d1)" by (simp add: ids_set_last)
  have "v \<notin> set (sent_to e us ?d1)"
    using sent_only_if [of v e us ?d1] notified_self [OF v] by blast
  with Cons.IH [OF us] Cons.IH [OF us1] show ?case by (simp add: sent_to_Cons)
qed

lemma reminded_eq: "storage_ok e \<Longrightarrow> reminded e d = sent_to e (get_subscribed_users d) d"
  by (simp add: reminded_def send_daily_reminder_def sent_to_def)

lemma errors_eq: "storage_ok e \<Longrightarrow> reminder_errors e d = failed_for e (get_subscribed_users d) d"
  by (simp add: reminder_errors_def send_daily_reminder_def failed_for_def)

lemma after_eq: "storage_ok e \<Longrightarrow> after_reminder e d = fst (remind_users e (get_subscribed_users d) d)"
  by (simp add: after_reminder_def send_daily_reminder_def)

lemma subscribed_have_rows: "set (get_subscribed_users d) \<subseteq> s_user_id ` set (subscriptions d)"
  by (auto simp: get_subscribed_users_def)

lemma same_day: "today_ymd e2 = today_ymd e \<Longrightarrow> already_notified e2 u d = already_notified e u d"
  by (simp add: already_notified_def)

lemma notified_after:
  assumes "storage_ok e"
  shows "already_notified e u (after_reminder e d)
           = (already_notified e u d \<or> u \<in> set (reminded e d))"
proof -
  have "u \<in> set (sent_to e (get_subscribed_users d) d) \<Longrightarrow> u \<in> s_user_id ` set (subscriptions d)"
    using sent_only_if subscribed_have_rows by blast
  then show ?thesis
    unfolding already_notified_def after_eq [OF assms] final_subscriptions list_ex_update_set
      reminded_eq [OF assms]
    by blast
qed

text \<open>
  C8. For every run of the callback with the storage engine available, and every user:
  a user whose last-notification date already equals the current date gets no reminder;
  every user who got one has the current date as last-notification date afterwards;
  every subscribed user who was not yet notified today gets the reminder if the
  transport delivers to that user, whatever it does for the others, and otherwise the
  failure is logged, nothing is sent to that user and the date is not written; only
  subscribed users get a reminder and none gets two; and in a second run on the same
  date, whatever the transport does then, no user who was already notified or who got
  the reminder in the first run gets one. The table after the run is the table before
  it with the date of the reminded users set to today.
\<close>

theorem daily_reminder_once_per_day:
  assumes "storage_ok e"
  shows "snd (send_daily_reminder e d) = None
   \<and> (\<forall>u. already_notified e u d \<longrightarrow> u \<notin> set (reminded e d))
   \<and> (\<forall>u. u \<in> set (reminded e d) \<longrightarrow> already_notified e u (after_reminder e d))
   \<and> (\<forall>u. u \<in> set (get_subscribed_users d) \<and> \<not> already_notified e u d \<and> can_deliver e u
          \<longrightarrow> u \<in> set (reminded e d))
   \<and> (\<forall>u. u \<in> set (get_subscribed_users d) \<and> \<not> already_notified e u d \<and> \<not> can_deliver e u
          \<longrightarrow> u \<in> set (reminder_errors e d) \<and> u \<notin> set (reminded e d)
              \<and> \<not> already_notified e u (after_reminder e d))
   \<and> set (reminded e d) \<subseteq> set (get_subscribed_users d)
   \<and> distinct (reminded e d)
   \<and> (\<forall>(e2::env) u. storage_ok e2 \<and> today_ymd e2 = today_ymd e
          \<and> (already_notified e u d \<or> u \<in> set (reminded e d))
          \<longrightarrow> u \<notin> set (reminded e2 (after_reminder e d)))
   \<and> subscriptions (after_reminder e d)
       = map (\<lambda>s. if s_user_id s \<in> set (reminded e d)
                  then s\<lparr>last_notification := Some (today_ymd e)\<rparr> else s)
           (subscriptions d)"
proof -
  note r = reminded_eq [OF assms] and er = errors_eq [OF assms] and na = notified_after [OF assms]
  have 1: "snd (send_daily_reminder e d) = None"
    using assms by (simp add: send_daily_reminder_def)
  have 2: "\<forall>u. already_notified e u d \<longrightarrow> u \<notin> set (reminded e d)"
    unfolding r using sent_only_if by blast
  have 3: "\<forall>u. u \<in> set (reminded e d) \<longrightarrow> already_notified e u (after_reminder e d)"
    using na by blast
  have 4: "\<forall>u. u \<in> set (get_subscribed_users d) \<and> \<not> already_notified e u d \<and> can_deliver e u
          \<longrightarrow> u \<in> set (reminded e d)"
    unfolding r using sent_if by blast
  have 5: "\<forall>u. u \<in> set (get_subscribed_users d) \<and> \<not> already_notified e u d \<and> \<not> can_deliver e u
          \<longrightarrow> u \<in> set (reminder_errors e d) \<and> u \<notin> set (reminded e d)
              \<and> \<not> already_notified e u (after_reminder e d)"
  proof (intro allI impI)
    fix u
    assume a: "u \<in> set (get_subscribed_users d) \<and> \<not> already_notified e u d \<and> \<not> can_deliver e u"
    then have "u \<in> set (reminder_errors e d)" unfolding er using failed_if by blast
    moreover from a have n: "u \<notin> set (reminded e d)" unfolding r using sent_only_if by blast
    moreover from a n have "\<not> already_notified e u (after_reminder e d)" using na by blast
    ultimately show "u \<in> set (reminder_errors e d) \<and> u \<notin> set (reminded e d)
              \<and> \<not> already_notified e u (after_reminder e d)" by blast
  qed
  have 6: "set (reminded e d) \<subseteq> set (get_subscribed_users d)"
    unfolding r using sent_only_if by blast
  have 7: "distinct (reminded e d)"
    unfolding r using subscribed_have_rows by (rule sent_distinct)
  have 8: "\<forall>(e2::env) u. storage_ok e2 \<and> today_ymd e2 = today_ymd e
          \<and> (already_notified e u d \<or> u \<in> set (reminded e d))
          \<longrightarrow> u \<notin> set (reminded e2 (after_reminder e d))"
  proof (intro allI impI)
    fix e2 :: env and u
    assume a: "storage_ok e2 \<and> today_ymd e2 = today_ymd e
          \<and> (already_notified e u d \<or> u \<in> set (reminded e d))"
    then have "already_notified e u (after_reminder e d)" using na by blast
    with a have n2: "already_notified e2 u (after_reminder e d)"
      using same_day [of e2 e u "after_reminder e d"] by blast
    from a have "storage_ok e2" by blast
    then have r2: "reminded e2 (after_reminder e d)
        = sent_to e2 (get_subscribed_users (after_reminder e d)) (after_reminder e d)"
      by (rule reminded_eq)
    show "u \<notin> set (reminded e2 (after_reminder e d))"
      unfolding r2 using sent_only_if n2 by blast
  qed
  have 9: "subscriptions (after_reminder e d)
       = map (\<lambda>s. if s_user_id s \<in> set (reminded e d)
                  then s\<lparr>last_notification := Some (today_ymd e)\<rparr> else s)
           (subscriptions d)"
    by (simp only: after_eq [OF assms] r final_subscriptions)
  from 1 2 3 4 5 6 7 8 9 show ?thesis by blast
qed


lemma ex_run1a: "storage_ok ex_env_flaky" "storage_ok ex_env" "today_ymd ex_env = today_ymd ex_env_flaky"
  "can_deliver ex_env_flaky 3" "\<not> can_deliver ex_env_flaky 2"
  by (simp_all add: ex_env_flaky_def ex_env_def)

lemma ex_run1b: "get_subscribed_users ex_subs = [1, 2, 3]"
  by (simp add: get_subscribed_users_def ex_subs_def)

lemma ex_run1c: "already_notified ex_env_flaky 1 ex_subs" "\<not> already_notified ex_env_flaky 2 ex_subs"
  "\<not> already_notified ex_env_flaky 3 ex_subs"
  by (simp_all add: already_notified_def ex_subs_def ex_env_flaky_def ex_env_def)

lemma ex_run1d: "reminded ex_env_flaky ex_subs = [3]"
  "reminder_errors ex_env_flaky ex_subs = [2]"
  "reminded ex_env (after_reminder ex_env_flaky ex_subs) = [2]"
  by code_simp+

text \<open>
  The theorem at the example table: in the first run user 1 is skipped, the delivery to
  user 2 fails and is logged, user 3 gets the reminder; in the second run on the same
  date only user 2 gets it.
\<close>

theorem daily_reminder_witness:
  "storage_ok ex_env_flaky
   \<and> get_subscribed_users ex_subs = [1, 2, 3]
   \<and> already_notified ex_env_flaky 1 ex_subs \<and> 1 \<notin> set (reminded ex_env_flaky ex_subs)
   \<and> \<not> already_notified ex_env_flaky 2 ex_subs \<and> \<not> can_deliver ex_env_flaky 2
   \<and> 2 \<in> set (reminder_errors ex_env_flaky ex_subs)
   \<and> \<not> already_notified ex_env_flaky 3 ex_subs \<and> can_deliver ex_env_flaky 3
   \<and> 3 \<in> set (reminded ex_env_flaky ex_subs)
   \<and> already_notified ex_env_flaky 3 (after_reminder ex_env_flaky ex_subs)
   \<and> storage_ok ex_env \<and> today_ymd ex_env = today_ymd ex_env_flaky
   \<and> 3 \<notin> set (reminded ex_env (after_reminder ex_env_flaky ex_subs))
   \<and> 1 \<notin> set (reminded ex_env (after_reminder ex_env_flaky ex_subs))
   \<and> reminded ex_env_flaky ex_subs = [3]
   \<and> reminded ex_env (after_reminder ex_env_flaky ex_subs) = [2]"
proof -
  note T = daily_reminder_once_per_day [OF ex_run1a(1), of ex_subs]
  from T have P2: "\<forall>u. already_notified ex_env_flaky u ex_subs \<longrightarrow> u \<notin> set (reminded ex_env_flaky ex_subs)"
    by (rule conjunct1 [OF conjunct2])
  from T have P3: "\<forall>u. u \<in> set (reminded ex_env_flaky ex_subs)
      \<longrightarrow> already_notified ex_env_flaky u (after_reminder ex_env_flaky ex_subs)"
    by (rule conjunct1 [OF conjunct2 [OF conjunct2]])
  from T have P4: "\<forall>u. u \<in> set (get_subscribed_users ex_subs) \<and> \<not> already_notified ex_env_flaky u ex_subs
          \<and> can_deliver ex_env_flaky u \<longrightarrow> u \<in> set (reminded ex_env_flaky ex_subs)"
    by (rule conjunct1 [OF conjunct2 [OF conjunct2 [OF conjunct2]]])
  from T have P5: "\<forall>u. u \<in> set (get_subscribed_users ex_subs) \<and> \<not> already_notified ex_env_flaky u ex_subs
          \<and> \<not> can_deliver ex_env_flaky u
          \<longrightarrow> u \<in> set (reminder_errors ex_env_flaky ex_subs) \<and> u \<notin> set (reminded ex_env_flaky ex_subs)
              \<and> \<not> already_notified ex_env_flaky u (after_reminder ex_env_flaky ex_subs)"
    by (rule conjunct1 [OF conjunct2 [OF conjunct2 [OF conjunct2 [OF conjunct2]]]])
  from T have P8: "\<forall>(e2::env) u. storage_ok e2 \<and> today_ymd e2 = today_ymd ex_env_flaky
          \<and> (already_notified ex_env_flaky u ex_subs \<or> u \<in> set (reminded ex_env_flaky ex_subs))
          \<longrightarrow> u \<notin> set (reminded e2 (after_reminder ex_env_flaky ex_subs))"
    by (rule conjunct1 [OF conjunct2 [OF conjunct2 [OF conjunct2 [OF conjunct2 [OF conjunct2
         [OF conjunct2 [OF conjunct2]]]]]]])
  have m: "(2::int) \<in> set (get_subscribed_users ex_subs)" "(3::int) \<in> set (get_subscribed_users ex_subs)"
    by (simp_all add: ex_run1b)
  from P2 ex_run1c(1) have a1: "1 \<notin> set (reminded ex_env_flaky ex_subs)" by blast
  from P5 m(1) ex_run1c(2) ex_run1a(5) have a2: "2 \<in> set (reminder_errors ex_env_flaky ex_subs)"
    by blast
  from P4 m(2) ex_run1c(3) ex_run1a(4) have a3: "3 \<in> set (reminded ex_env_flaky ex_subs)" by blast
  from P3 a3 have a4: "already_notified ex_env_flaky 3 (after_reminder ex_env_flaky ex_subs)" by blast
  from P8 ex_run1a(2,3) a3 have a5: "3 \<notin> set (reminded ex_env (after_reminder ex_env_flaky ex_subs))"
    by blast
  from P8 ex_run1a(2,3) ex_run1c(1)
  have a6: "1 \<notin> set (reminded ex_env (after_reminder ex_env_flaky ex_subs))" by blast
  from ex_run1a ex_run1b ex_run1c ex_run1d a1 a2 a3 a4 a5 a6 show ?thesis by blast
qed

section \<open>Properties of the listing\<close>

lemma insort_then_id:
  assumes "sorted_wrt by_score_desc_then_id ys" "\<forall>y\<in>set ys. rid x < rid y"
  shows "sorted_wrt by_score_desc_then_id (insort_key (\<lambda>r. - risk_score r) x ys)"
  using assms
proof (induction ys)
  case Nil
  then show ?case by simp
next
  case (Cons y ys)
  show ?case
  proof (cases "risk_score y \<le> risk_score x")
    case True
    have "by_score_desc_then_id x z" if "z \<in> set (y # ys)" for z
    proof -
      from that Cons.prems(1) have "risk_score z \<le> risk_score y"
        by (auto simp: by_score_desc_then_id_def)
      with True that Cons.prems(2) show ?thesis by (auto simp: by_score_desc_then_id_def)
    qed
    with True Cons.prems(1) show ?thesis by simp
  next
    case False
    then have yx: "by_score_desc_then_id y x" by (simp add: by_score_desc_then_id_def)
    from Cons have ih: "sorted_wrt by_score_desc_then_id (insort_key (\<lambda>r. - risk_score r) x ys)"
      by simp
    from False yx ih Cons.prems(1) show ?thesis by (auto simp: set_insort_key)
  qed
qed

lemma stable_order_by:
  "sorted_wrt (\<lambda>a b. rid a < rid b) rs \<Longrightarrow>
   sorted_wrt by_score_desc_then_id (order_by_risk_score_desc rs)"
proof (induction rs)
  case Nil
  then show ?case by (simp add: order_by_risk_score_desc_def)
next
  case (Cons x rs)
  then have "sorted_wrt by_score_desc_then_id (sort_key (\<lambda>r. - risk_score r) rs)"
    and "\<forall>y\<in>set (sort_key (\<lambda>r. - risk_score r) rs). rid x < rid y"
    by (simp_all add: order_by_risk_score_desc_def)
  then show ?case by (simp add: order_by_risk_score_desc_def insort_then_id)
qed

lemma table_scan_in_id_order:
  assumes "distinct (map rid rs)"
  shows "sorted_wrt (\<lambda>a b. rid a < rid b) (table_scan rs)"
proof -
  have s: "sorted (map rid (sort_key rid rs))" by (rule sorted_sort_key)
  have "mset (map rid (sort_key rid rs)) = mset (map rid rs)" by simp
  then have "distinct (map rid (sort_key rid rs))"
    using assms mset_eq_imp_distinct_iff by blast
  with s have "sorted_wrt (<) (map rid (sort_key rid rs))"
    by (simp add: strict_sorted_iff)
  then show ?thesis by (simp add: table_scan_def sorted_wrt_map)
qed

lemma listing_in_order:
  assumes "primary_key d"
  shows "sorted_wrt by_score_desc_then_id (order_by_risk_score_desc (matching_risks d ph))"
proof -
  from assms have "sorted_wrt (\<lambda>a b. rid a < rid b) (table_scan (risks d))"
    by (simp add: primary_key_def table_scan_in_id_order)
  then have "sorted_wrt (\<lambda>a b. rid a < rid b) (matching_risks d ph)"
    by (simp add: matching_risks_def sorted_wrt_filter)
  then show ?thesis by (rule stable_order_by)
qed

lemma listing_records:
  "mset (order_by_risk_score_desc (matching_risks d ph)) = mset (filter (phase_matches ph) (risks d))"
  by (simp add: order_by_risk_score_desc_def matching_risks_def table_scan_def)

lemma order_is_asymmetric: "by_score_desc_then_id a b \<Longrightarrow> \<not> by_score_desc_then_id b a"
  by (auto simp: by_score_desc_then_id_def)

lemma sorted_wrt_mset_unique:
  assumes asym: "\<And>a b. R a b \<Longrightarrow> \<not> R b a"
  shows "sorted_wrt R xs \<Longrightarrow> sorted_wrt R ys \<Longrightarrow> mset xs = mset ys \<Longrightarrow> xs = ys"
proof (induction xs arbitrary: ys)
  case Nil
  then show ?case by simp
next
  case (Cons x xs)
  from Cons.prems(3) have "ys \<noteq> []" by auto
  then obtain y ys' where ys: "ys = y # ys'" by (cases ys) auto
  have "x = y"
  proof (rule ccontr)
    assume ne: "x \<noteq> y"
    have "x \<in># mset (y # ys')" using Cons.prems(3) ys by (metis list.set_intros(1) set_mset_mset)
    with ne have "x \<in> set ys'" by simp
    with Cons.prems(2) ys have 1: "R y x" by simp
    have "y \<in># mset (x # xs)" using Cons.prems(3) ys by (metis list.set_intros(1) set_mset_mset)
    with ne have "y \<in> set xs" by simp
    with Cons.prems(1) have "R x y" by simp
    with 1 asym show False by blast
  qed
  with Cons.prems ys have "sorted_wrt R xs" "sorted_wrt R ys'" "mset xs = mset ys'" by simp_all
  with Cons.IH have "xs = ys'" by blast
  with \<open>x = y\<close> ys show ?case by simp
qed

lemma the_listing:
  assumes "primary_key d"
    and "mset L = mset (filter (phase_matches ph) (risks d))"
    and "sorted_wrt by_score_desc_then_id L"
  shows "order_by_risk_score_desc (matching_risks d ph) = L"
  using sorted_wrt_mset_unique [of by_score_desc_then_id, OF order_is_asymmetric
      listing_in_order [OF assms(1)] assms(3)] listing_records assms(2)
  by simp

lemma query_page:
  "fst (view_risks_query d ph page)
     = take 30 (drop (nat ((page - 1) * 30)) (order_by_risk_score_desc (matching_risks d ph)))"
  "snd (view_risks_query d ph page) = length (filter (phase_matches ph) (risks d))"
proof -
  show "fst (view_risks_query d ph page)
     = take 30 (drop (nat ((page - 1) * 30)) (order_by_risk_score_desc (matching_risks d ph)))"
    by (simp add: view_risks_query_def MAX_RISKS_PER_MESSAGE_def Let_def)
  have "mset (matching_risks d ph) = mset (filter (phase_matches ph) (risks d))"
    by (simp add: matching_risks_def table_scan_def)
  then have "length (matching_risks d ph) = length (filter (phase_matches ph) (risks d))"
    by (rule mset_eq_length)
  then show "snd (view_risks_query d ph page) = length (filter (phase_matches ph) (risks d))"
    by (simp add: view_risks_query_def Let_def)
qed

lemma selection_rows_buttons:
  "concat (selection_rows row rs) = row @ map risk_button rs"
  by (induction rs arbitrary: row) (simp_all add: Let_def)

lemma risk_entries_fail:
  "(\<exists>x. risk_entries rs = Inl x) = (\<exists>r\<in>set rs. column_text r ''description'' = None)"
  by (induction rs) (auto simp: risk_entry_def split: option.splits sum.splits)

lemma save_risk_keeps_primary_key:
  "primary_key d \<Longrightarrow> primary_key (db_of (save_risk e upd (ud, d)))"
  by (cases upd)
    (auto simp: save_risk_def Let_def primary_key_def db_of_def list_all_iff
      split: option.splits)

lemma view_risks_list_rendered:
  assumes "storage_ok e" "as_number (ud_get ud ''view_risks_page'' (PyInt 1)) = Some p"
    "sqlite_int_ok (PyInt ((p - 1) * 30))"
    "fst (view_risks_query d (PyStr s) p) \<noteq> []"
    "risk_entries (fst (view_risks_query d (PyStr s) p)) = Inr entries"
    "markdown_ok (list_message (phase_text_of (PyStr s)) (ud_get ud ''view_risks_page'' (PyInt 1))
                    (snd (view_risks_query d (PyStr s) p)) entries)"
  shows "view_risks_list e markdown_ok (''view_phase_'' @ s) ud d
           = (ud(''selected_view_phase'' \<mapsto> PyStr s),
              [EditMessageText
                 (list_message (phase_text_of (PyStr s)) (ud_get ud ''view_risks_page'' (PyInt 1))
                    (snd (view_risks_query d (PyStr s) p)) entries)
                 (list_keyboard (PyStr s) p (snd (view_risks_query d (PyStr s) p))
                    (fst (view_risks_query d (PyStr s) p)))])"
proof -
  have pg: "ud_get (ud(''selected_view_phase'' \<mapsto> PyStr s)) ''view_risks_page'' (PyInt 1)
              = ud_get ud ''view_risks_page'' (PyInt 1)"
    by (simp add: ud_get_def)
  show ?thesis
    using assms
    by (simp add: view_risks_list_def Let_def startswith_def pg MAX_RISKS_PER_MESSAGE_def)
qed

lemma view_risks_list_null_description:
  assumes "storage_ok e" "as_number (ud_get ud ''view_risks_page'' (PyInt 1)) = Some p"
    "sqlite_int_ok (PyInt ((p - 1) * 30))"
    "\<exists>r\<in>set (fst (view_risks_query d (PyStr s) p)). column_text r ''description'' = None"
  shows "view_risks_list e markdown_ok (''view_phase_'' @ s) ud d
           = (ud(''selected_view_phase'' \<mapsto> PyStr s),
              [EditMessageText msg_list_error (create_back_keyboard ''back_to_menu'')])"
proof -
  have pg: "ud_get (ud(''selected_view_phase'' \<mapsto> PyStr s)) ''view_risks_page'' (PyInt 1)
              = ud_get ud ''view_risks_page'' (PyInt 1)"
    by (simp add: ud_get_def)
  from assms(4) obtain x where x: "risk_entries (fst (view_risks_query d (PyStr s) p)) = Inl x"
    using risk_entries_fail by blast
  from assms(4) have ne: "fst (view_risks_query d (PyStr s) p) \<noteq> []" by auto
  show ?thesis
    using assms(1-3) x ne
    by (simp add: view_risks_list_def Let_def startswith_def pg MAX_RISKS_PER_MESSAGE_def)
qed

text \<open>
  C9. For every table whose identifiers are a primary key, every phase filter (a phase or
  \<open>all\<close>) and every page: the listing returns the number of the matching records, and
  the page it returns is cut out of the matching records in the order of composite score
  descending with records of equal score by identifier ascending. That order exists and
  is unique: whatever list holds exactly the matching records in that order, the page is
  its rows from \<open>30 * (page - 1)\<close> on, at most 30 of them; so the page itself is in that
  order, and so are the pages one after the other. The handler shows the rows of the page
  in this order, each with a button, under the count; and when the description of a row
  of the page is \<^verbatim>\<open>NULL\<close>, it shows the error text instead of the list.
\<close>

theorem listing_ordered_by_score_then_id:
  assumes "primary_key d"
  shows "snd (view_risks_query d ph page) = length (filter (phase_matches ph) (risks d))
   \<and> (\<exists>L. mset L = mset (filter (phase_matches ph) (risks d))
          \<and> sorted_wrt by_score_desc_then_id L)
   \<and> (\<forall>L. mset L = mset (filter (phase_matches ph) (risks d))
          \<and> sorted_wrt by_score_desc_then_id L \<longrightarrow>
          fst (view_risks_query d ph page) = take 30 (drop (nat ((page - 1) * 30)) L))
   \<and> sorted_wrt by_score_desc_then_id (fst (view_risks_query d ph page))
   \<and> length (fst (view_risks_query d ph page)) \<le> 30
   \<and> (\<forall>e markdown_ok s ud p entries.
         storage_ok e \<and> as_number (ud_get ud ''view_risks_page'' (PyInt 1)) = Some p
         \<and> sqlite_int_ok (PyInt ((p - 1) * 30))
         \<and> fst (view_risks_query d (PyStr s) p) \<noteq> []
         \<and> risk_entries (fst (view_risks_query d (PyStr s) p)) = Inr entries
         \<and> markdown_ok (list_message (phase_text_of (PyStr s))
                          (ud_get ud ''view_risks_page'' (PyInt 1))
                          (snd (view_risks_query d (PyStr s) p)) entries) \<longrightarrow>
         view_risks_list e markdown_ok (''view_phase_'' @ s) ud d
           = (ud(''selected_view_phase'' \<mapsto> PyStr s),
              [EditMessageText
                 (list_message (phase_text_of (PyStr s)) (ud_get ud ''view_risks_page'' (PyInt 1))
                    (snd (view_risks_query d (PyStr s) p)) entries)
                 (list_keyboard (PyStr s) p (snd (view_risks_query d (PyStr s) p))
                    (fst (view_risks_query d (PyStr s) p)))])
         \<and> concat (create_risk_selection_keyboard (fst (view_risks_query d (PyStr s) p)))
             = map risk_button (fst (view_risks_query d (PyStr s) p)))
   \<and> (\<forall>e markdown_ok s ud p.
         storage_ok e \<and> as_number (ud_get ud ''view_risks_page'' (PyInt 1)) = Some p
         \<and> sqlite_int_ok (PyInt ((p - 1) * 30))
         \<and> (\<exists>r\<in>set (fst (view_risks_query d (PyStr s) p)). column_text r ''description'' = None)
         \<longrightarrow>
         view_risks_list e markdown_ok (''view_phase_'' @ s) ud d
           = (ud(''selected_view_phase'' \<mapsto> PyStr s),
              [EditMessageText msg_list_error (create_back_keyboard ''back_to_menu'')]))"
proof -
  let ?all = "order_by_risk_score_desc (matching_risks d ph)"
  have 1: "snd (view_risks_query d ph page) = length (filter (phase_matches ph) (risks d))"
    by (rule query_page(2))
  have ord: "sorted_wrt by_score_desc_then_id ?all"
    using assms by (rule listing_in_order)
  have 2: "\<exists>L. mset L = mset (filter (phase_matches ph) (risks d))
          \<and> sorted_wrt by_score_desc_then_id L"
    using listing_records ord by blast
  have 3: "fst (view_risks_query d ph page) = take 30 (drop (nat ((page - 1) * 30)) L)"
    if "mset L = mset (filter (phase_matches ph) (risks d)) \<and> sorted_wrt by_score_desc_then_id L"
    for L
    using the_listing [OF assms, of L ph] that by (simp add: query_page(1))
  have 4: "sorted_wrt by_score_desc_then_id (fst (view_risks_query d ph page))"
    unfolding query_page(1) by (intro sorted_wrt_take sorted_wrt_drop ord)
  have 5: "length (fst (view_risks_query d ph page)) \<le> 30"
    unfolding query_page(1) by simp
  have 6: "view_risks_list e markdown_ok (''view_phase_'' @ s) ud d
           = (ud(''selected_view_phase'' \<mapsto> PyStr s),
              [EditMessageText
                 (list_message (phase_text_of (PyStr s)) (ud_get ud ''view_risks_page'' (PyInt 1))
                    (snd (view_risks_query d (PyStr s) p)) entries)
                 (list_keyboard (PyStr s) p (snd (view_risks_query d (PyStr s) p))
                    (fst (view_risks_query d (PyStr s) p)))])
         \<and> concat (create_risk_selection_keyboard (fst (view_risks_query d (PyStr s) p)))
             = map risk_button (fst (view_risks_query d (PyStr s) p))"
    if "storage_ok e \<and> as_number (ud_get ud ''view_risks_page'' (PyInt 1)) = Some p
         \<and> sqlite_int_ok (PyInt ((p - 1) * 30))
         \<and> fst (view_risks_query d (PyStr s) p) \<noteq> []
         \<and> risk_entries (fst (view_risks_query d (PyStr s) p)) = Inr entries
         \<and> markdown_ok (list_message (phase_text_of (PyStr s))
                          (ud_get ud ''view_risks_page'' (PyInt 1))
                          (snd (view_risks_query d (PyStr s) p)) entries)"
    for e markdown_ok s ud p entries
  proof -
    from that have a: "storage_ok e" "as_number (ud_get ud ''view_risks_page'' (PyInt 1)) = Some p"
      "sqlite_int_ok (PyInt ((p - 1) * 30))" "fst (view_risks_query d (PyStr s) p) \<noteq> []"
      "risk_entries (fst (view_risks_query d (PyStr s) p)) = Inr entries"
      "markdown_ok (list_message (phase_text_of (PyStr s))
                          (ud_get ud ''view_risks_page'' (PyInt 1))
                          (snd (view_risks_query d (PyStr s) p)) entries)" by blast+
    have b: "concat (create_risk_selection_keyboard (fst (view_risks_query d (PyStr s) p)))
             = map risk_button (fst (view_risks_query d (PyStr s) p))"
      by (simp add: create_risk_selection_keyboard_def selection_rows_buttons)
    from view_risks_list_rendered [of e ud p d s entries markdown_ok, OF a] b show ?thesis by blast
  qed
  have 7: "view_risks_list e markdown_ok (''view_phase_'' @ s) ud d
           = (ud(''selected_view_phase'' \<mapsto> PyStr s),
              [EditMessageText msg_list_error (create_back_keyboard ''back_to_menu'')])"
    if "storage_ok e \<and> as_number (ud_get ud ''view_risks_page'' (PyInt 1)) = Some p
         \<and> sqlite_int_ok (PyInt ((p - 1) * 30))
         \<and> (\<exists>r\<in>set (fst (view_risks_query d (PyStr s) p)). column_text r ''description'' = None)"
    for e markdown_ok s ud p
    using that view_risks_list_null_description by blast
  from 1 2 3 4 5 6 7 show ?thesis by blast
qed

lemma ex_tables:
  "primary_key ex_four_risks" "primary_key ex_null_description" "primary_key ex_many_risks"
  by code_simp+

lemma ex_matching:
  "filter (phase_matches (PyStr ''3'')) (risks ex_four_risks)
     = [ex_row 3 9 ''3'' (PyStr ''c''), ex_row 1 9 ''3'' (PyStr ''a''), ex_row 4 12 ''3'' (PyStr ''d'')]"
  "sorted_wrt by_score_desc_then_id
     [ex_row 4 12 ''3'' (PyStr ''d''), ex_row 1 9 ''3'' (PyStr ''a''), ex_row 3 9 ''3'' (PyStr ''c'')]"
  "map rid (fst (view_risks_query ex_four_risks (PyStr ''all'') 1)) = [2, 4, 1, 3]"
  "snd (view_risks_query ex_four_risks (PyStr ''all'') 1) = 4"
  "map rid (fst (view_risks_query ex_many_risks (PyStr ''3'') 1)) = [1..<31]"
  "map rid (fst (view_risks_query ex_many_risks (PyStr ''3'') 2)) = [31]"
  "snd (view_risks_query ex_many_risks (PyStr ''3'') 2) = 31"
  by code_simp+

lemma ex_page_request:
  "storage_ok ex_env" "as_number (ud_get Map.empty ''view_risks_page'' (PyInt 1)) = Some 1"
  "sqlite_int_ok (PyInt ((1 - 1) * 30))"
  "risk_entries [ex_row 4 12 ''3'' (PyStr ''d''), ex_row 1 9 ''3'' (PyStr ''a''),
                 ex_row 3 9 ''3'' (PyStr ''c'')]
     = Inr (entry_lines [ex_row 4 12 ''3'' (PyStr ''d''), ex_row 1 9 ''3'' (PyStr ''a''),
                         ex_row 3 9 ''3'' (PyStr ''c'')])"
  "map snd (map risk_button [ex_row 4 12 ''3'' (PyStr ''d''), ex_row 1 9 ''3'' (PyStr ''a''),
                              ex_row 3 9 ''3'' (PyStr ''c'')])
     = [''view_risk_4'', ''view_risk_1'', ''view_risk_3'']"
  "\<exists>r\<in>set (fst (view_risks_query ex_null_description (PyStr ''3'') 1)).
      column_text r ''description'' = None"
  by code_simp+

text \<open>
  The theorem at the table of four risks, filtered by phase 3: the page is the risk of
  score 12 and then the two risks of score 9 by identifier, and the handler shows their
  buttons in this order; at the table with a \<^verbatim>\<open>NULL\<close> description, where the handler
  shows the error text; and, evaluated, the unfiltered list and the two pages of the
  table of 31 risks.
\<close>

theorem listing_witness:
  "primary_key ex_four_risks
   \<and> snd (view_risks_query ex_four_risks (PyStr ''3'') 1) = 3
   \<and> mset [ex_row 4 12 ''3'' (PyStr ''d''), ex_row 1 9 ''3'' (PyStr ''a''),
            ex_row 3 9 ''3'' (PyStr ''c'')]
       = mset (filter (phase_matches (PyStr ''3'')) (risks ex_four_risks))
   \<and> sorted_wrt by_score_desc_then_id
        [ex_row 4 12 ''3'' (PyStr ''d''), ex_row 1 9 ''3'' (PyStr ''a''),
         ex_row 3 9 ''3'' (PyStr ''c'')]
   \<and> fst (view_risks_query ex_four_risks (PyStr ''3'') 1)
       = [ex_row 4 12 ''3'' (PyStr ''d''), ex_row 1 9 ''3'' (PyStr ''a''),
          ex_row 3 9 ''3'' (PyStr ''c'')]
   \<and> map rid (fst (view_risks_query ex_four_risks (PyStr ''all'') 1)) = [2, 4, 1, 3]
   \<and> map rid (fst (view_risks_query ex_many_risks (PyStr ''3'') 2)) = [31]
   \<and> snd (view_risks_query ex_many_risks (PyStr ''3'') 2) = 31
   \<and> storage_ok ex_env \<and> as_number (ud_get Map.empty ''view_risks_page'' (PyInt 1)) = Some 1
   \<and> sqlite_int_ok (PyInt ((1 - 1) * 30))
   \<and> view_risks_list ex_env (\<lambda>m. True) (''view_phase_'' @ ''3'') Map.empty ex_four_risks
       = ([''selected_view_phase'' \<mapsto> PyStr ''3''],
          [EditMessageText
             (list_message (phase_text_of (PyStr ''3'')) (PyInt 1) 3
                (entry_lines [ex_row 4 12 ''3'' (PyStr ''d''), ex_row 1 9 ''3'' (PyStr ''a''),
                              ex_row 3 9 ''3'' (PyStr ''c'')]))
             (list_keyboard (PyStr ''3'') 1 3
                [ex_row 4 12 ''3'' (PyStr ''d''), ex_row 1 9 ''3'' (PyStr ''a''),
                 ex_row 3 9 ''3'' (PyStr ''c'')])])
   \<and> map snd (concat (create_risk_selection_keyboard
                        (fst (view_risks_query ex_four_risks (PyStr ''3'') 1))))
       = [''view_risk_4'', ''view_risk_1'', ''view_risk_3'']
   \<and> primary_key ex_null_description
   \<and> (\<exists>r\<in>set (fst (view_risks_query ex_null_description (PyStr ''3'') 1)).
         column_text r ''description'' = None)
   \<and> view_risks_list ex_env (\<lambda>m. True) (''view_phase_'' @ ''3'') Map.empty ex_null_description
       = ([''selected_view_phase'' \<mapsto> PyStr ''3''],
          [EditMessageText msg_list_error (create_back_keyboard ''back_to_menu'')])"
proof -
  let ?L = "[ex_row 4 12 ''3'' (PyStr ''d''), ex_row 1 9 ''3'' (PyStr ''a''),
             ex_row 3 9 ''3'' (PyStr ''c'')]"
  note T = listing_ordered_by_score_then_id [OF ex_tables(1), of "PyStr ''3''" 1]
  note N = listing_ordered_by_score_then_id [OF ex_tables(2), of "PyStr ''3''" 1]
  note T2 = T [THEN conjunct2, THEN conjunct2]
  note T5 = T2 [THEN conjunct2, THEN conjunct2, THEN conjunct2]
  note N5 = N [THEN conjunct2, THEN conjunct2, THEN conjunct2, THEN conjunct2, THEN conjunct2]
  have m: "mset ?L = mset (filter (phase_matches (PyStr ''3'')) (risks ex_four_risks))"
    by (simp add: ex_matching(1))
  from T [THEN conjunct1] have c: "snd (view_risks_query ex_four_risks (PyStr ''3'') 1) = 3"
    by (simp add: ex_matching(1))
  from T2 [THEN conjunct1] m ex_matching(2)
  have "fst (view_risks_query ex_four_risks (PyStr ''3'') 1) = take 30 (drop (nat ((1 - 1) * 30)) ?L)"
    by blast
  then have p: "fst (view_risks_query ex_four_risks (PyStr ''3'') 1) = ?L" by simp
  have pg: "ud_get Map.empty ''view_risks_page'' (PyInt 1) = PyInt 1" by (simp add: ud_get_def)
  have ne: "fst (view_risks_query ex_four_risks (PyStr ''3'') 1) \<noteq> []" by (simp add: p)
  have en: "risk_entries (fst (view_risks_query ex_four_risks (PyStr ''3'') 1))
              = Inr (entry_lines ?L)"
    by (simp only: p ex_page_request(4))
  have "storage_ok ex_env \<and> as_number (ud_get Map.empty ''view_risks_page'' (PyInt 1)) = Some 1
         \<and> sqlite_int_ok (PyInt ((1 - 1) * 30))
         \<and> fst (view_risks_query ex_four_risks (PyStr ''3'') 1) \<noteq> []
         \<and> risk_entries (fst (view_risks_query ex_four_risks (PyStr ''3'') 1)) = Inr (entry_lines ?L)
         \<and> (\<lambda>m. True) (list_message (phase_text_of (PyStr ''3''))
                          (ud_get Map.empty ''view_risks_page'' (PyInt 1))
                          (snd (view_risks_query ex_four_risks (PyStr ''3'') 1)) (entry_lines ?L))"
    using ex_page_request(1-3) ne en by simp
  from T5 [THEN conjunct1, rule_format, OF this]
  have h: "view_risks_list ex_env (\<lambda>m. True) (''view_phase_'' @ ''3'') Map.empty ex_four_risks
       = ([''selected_view_phase'' \<mapsto> PyStr ''3''],
          [EditMessageText (list_message (phase_text_of (PyStr ''3'')) (PyInt 1) 3 (entry_lines ?L))
             (list_keyboard (PyStr ''3'') 1 3 ?L)])"
    and b: "concat (create_risk_selection_keyboard (fst (view_risks_query ex_four_risks (PyStr ''3'') 1)))
             = map risk_button (fst (view_risks_query ex_four_risks (PyStr ''3'') 1))"
    by (simp_all only: p c pg)
  from b have b2: "map snd (concat (create_risk_selection_keyboard
                        (fst (view_risks_query ex_four_risks (PyStr ''3'') 1))))
       = [''view_risk_4'', ''view_risk_1'', ''view_risk_3'']"
    by (simp only: p ex_page_request(5))
  have "storage_ok ex_env \<and> as_number (ud_get Map.empty ''view_risks_page'' (PyInt 1)) = Some 1
         \<and> sqlite_int_ok (PyInt ((1 - 1) * 30))
         \<and> (\<exists>r\<in>set (fst (view_risks_query ex_null_description (PyStr ''3'') 1)).
               column_text r ''description'' = None)"
    using ex_page_request(1-3,6) by blast
  from N5 [THEN conjunct2, rule_format, OF this]
  have n: "view_risks_list ex_env (\<lambda>m. True) (''view_phase_'' @ ''3'') Map.empty ex_null_description
       = ([''selected_view_phase'' \<mapsto> PyStr ''3''],
          [EditMessageText msg_list_error (create_back_keyboard ''back_to_menu'')])" .
  from ex_tables(1,2) c m ex_matching(2,3,6,7) p ex_page_request(1-3,6) h b2 n
  show ?thesis by blast
qed

end
